(* ===== verification/Prelude.thy ===== *)
theory Prelude
  imports Main "HOL-Library.State_Monad" "HOL-Library.Word" "HOL-Library.Sublist"
    "HOL-Library.Multiset" "HOL-Library.AList"
begin

text \<open>
  Shared vocabulary of the development.

  \<^item> Go strings are byte sequences: \<open>string\<close>, whose characters are 8-bit; a
    \<open>[]byte\<close> is a list of 8-bit words.
  \<^item> A formatted message (\<open>fmt.Sprintf\<close>, \<open>fmt.Errorf\<close>, \<open>errors.New\<close>,
    the arguments of a log call) is kept as its format and its arguments, unrendered. Go's
    \<open>error\<close> values are such messages.
  \<^item> A Go panic is a value: an operation that may panic returns an \<open>outcome\<close>.
  \<^item> Stateful code lives in the library's state monad; \<open>wp m Q s\<close> says that running
    \<open>m\<close> in state \<open>s\<close> gives a result and a state that satisfy \<open>Q\<close>. The
    equations collected in \<open>wp\<close> execute a program symbolically as one formula; the
    introduction rules collected in \<open>vcg\<close> split it into one goal per path.
\<close>

section \<open>Strings, bytes and messages\<close>

type_synonym byte = "8 word"
type_synonym bytes = "byte list"

definition go_string :: "bytes \<Rightarrow> string" where
  "go_string bs = map (\<lambda>b. char_of (unat b)) bs"

definition go_bytes :: "string \<Rightarrow> bytes" where
  "go_bytes s = map (\<lambda>c. word_of_nat (of_char c)) s"

lemma go_string_go_bytes [simp]: "go_string (go_bytes s) = s"
proof -
  have "char_of (unat (word_of_nat (of_char c) :: byte)) = c" for c :: char
    by (simp add: unat_of_nat)
  then show ?thesis by (simp add: go_string_def go_bytes_def map_idI)
qed

lemma go_bytes_go_string [simp]: "go_bytes (go_string bs) = bs"
proof -
  have "word_of_nat (of_char (char_of (unat b) :: char)) = b" for b :: byte
  proof -
    have "unat b < 256" using unsigned_less [of b] by simp
    then show ?thesis by simp
  qed
  then show ?thesis by (simp add: go_string_def go_bytes_def map_idI)
qed

lemma length_go_string [simp]: "length (go_string bs) = length bs"
  by (simp add: go_string_def)

text \<open>A floating point number: the 64 bits of one the program is given, or the product of two.\<close>

datatype f64 = F64 "64 word" | Mul64 f64 f64

datatype msg = Fmt string "arg list"
  and arg = AStr string | AInt int | AFloat f64 | AMsg msg

type_synonym goerror = msg

abbreviation errors_New :: "string \<Rightarrow> goerror" where
  "errors_New s \<equiv> Fmt s []"

text \<open>Concatenating a text without verbs to a formatted message.\<close>

fun msg_append :: "msg \<Rightarrow> string \<Rightarrow> msg" where
  "msg_append (Fmt f as) s = Fmt (f @ s) as"

section \<open>Panics\<close>

datatype panic =
    NilDeref string
  | NilDefaultWAF
  | AlreadyHandled
  | SendFailed goerror
  | NegativeRepeat
  | IndexOutOfRange
  | DepsFailed goerror

datatype 'a outcome = Returns 'a | Panics panic

fun panicked :: "'a outcome \<Rightarrow> bool" where
  "panicked (Panics _) = True"
| "panicked (Returns _) = False"

section \<open>Loops that stop at the first error\<close>

fun fold_error :: "('a \<Rightarrow> 's \<Rightarrow> 'e + 's) \<Rightarrow> 'a list \<Rightarrow> 's \<Rightarrow> 'e + 's" where
  "fold_error f [] s = Inr s"
| "fold_error f (x # xs) s = (case f x s of Inl e \<Rightarrow> Inl e | Inr s' \<Rightarrow> fold_error f xs s')"

lemma fold_error_invariant:
  "fold_error f xs s = Inr t \<Longrightarrow> P s \<Longrightarrow>
   (\<And>x u v. x \<in> set xs \<Longrightarrow> P u \<Longrightarrow> f x u = Inr v \<Longrightarrow> P v) \<Longrightarrow> P t"
proof (induction xs arbitrary: s)
  case Nil
  then show ?case by simp
next
  case (Cons x xs)
  then obtain v where v: "f x s = Inr v" "fold_error f xs v = Inr t"
    by (auto split: sum.splits)
  have "P v" using Cons.prems(2,3) v(1) by (meson list.set_intros(1))
  with Cons.IH [OF v(2)] Cons.prems(3) show ?case by (meson list.set_intros(2))
qed

section \<open>The state monad and its weakest preconditions\<close>

named_theorems wp \<open>symbolic execution of state monad programs\<close>

abbreviation ret :: "'a \<Rightarrow> ('s, 'a) state" where
  "ret \<equiv> State_Monad.return"

definition reads :: "('s \<Rightarrow> 'a) \<Rightarrow> ('s, 'a) state" where
  "reads f = State (\<lambda>s. (f s, s))"

definition modify :: "('s \<Rightarrow> 's) \<Rightarrow> ('s, unit) state" where
  "modify f = State (\<lambda>s. ((), f s))"

definition wp :: "('s, 'a) state \<Rightarrow> ('a \<Rightarrow> 's \<Rightarrow> bool) \<Rightarrow> 's \<Rightarrow> bool" where
  "wp m Q s = (case run_state m s of (a, s') \<Rightarrow> Q a s')"

lemma wp_run: "run_state m s = (a, s') \<Longrightarrow> wp m Q s \<Longrightarrow> Q a s'"
  by (simp add: wp_def)

lemma wpI: "(\<And>a s'. run_state m s = (a, s') \<Longrightarrow> Q a s') \<Longrightarrow> wp m Q s"
  by (simp add: wp_def split: prod.split)

lemma wp_mono: "wp m P s \<Longrightarrow> (\<And>a s'. P a s' \<Longrightarrow> Q a s') \<Longrightarrow> wp m Q s"
  by (auto simp: wp_def split: prod.splits)

lemma wp_conj: "wp m (\<lambda>a s. P a s \<and> Q a s) s = (wp m P s \<and> wp m Q s)"
  by (auto simp: wp_def split: prod.splits)

lemma wp_True: "wp m (\<lambda>r s. True) s"
  by (simp add: wp_def split: prod.split)

lemma wp_return [wp]: "wp (ret x) Q = Q x"
  by (simp add: wp_def fun_eq_iff)

lemma wp_bind [wp]: "wp (State_Monad.bind m f) Q = wp m (\<lambda>a. wp (f a) Q)"
  by (simp add: wp_def fun_eq_iff split: prod.split)

lemma wp_reads [wp]: "wp (reads f) Q s = Q (f s) s"
  by (simp add: wp_def reads_def)

lemma wp_modify [wp]: "wp (modify f) Q s = Q () (f s)"
  by (simp add: wp_def modify_def)

lemma wp_if [wp]:
  "wp (if b then m else n) Q s = ((b \<longrightarrow> wp m Q s) \<and> (\<not> b \<longrightarrow> wp n Q s))"
  by simp

lemma wp_case_option [wp]:
  "wp (case x of None \<Rightarrow> m | Some y \<Rightarrow> f y) Q s =
   ((x = None \<longrightarrow> wp m Q s) \<and> (\<forall>y. x = Some y \<longrightarrow> wp (f y) Q s))"
  by (cases x) auto

lemma wp_case_sum [wp]:
  "wp (case x of Inl y \<Rightarrow> f y | Inr z \<Rightarrow> g z) Q s =
   ((\<forall>y. x = Inl y \<longrightarrow> wp (f y) Q s) \<and> (\<forall>z. x = Inr z \<longrightarrow> wp (g z) Q s))"
  by (cases x) auto

lemma wp_case_prod [wp]:
  "wp (case x of (a, b) \<Rightarrow> f a b) Q s = wp (f (fst x) (snd x)) Q s"
  by (cases x) auto

lemma wp_case_outcome [wp]:
  "wp (case r of Returns a \<Rightarrow> f a | Panics p \<Rightarrow> g p) Q s =
   ((\<forall>a. r = Returns a \<longrightarrow> wp (f a) Q s) \<and> (\<forall>p. r = Panics p \<longrightarrow> wp (g p) Q s))"
  by (cases r) auto

lemma wp_let [wp]: "wp (Let x f) Q = wp (f x) Q"
  by (simp add: Let_def)

text \<open>Sequencing of operations that may panic: a panic ends the operation.\<close>

definition unless_panic ::
  "('s, 'a outcome) state \<Rightarrow> ('a \<Rightarrow> ('s, 'b outcome) state) \<Rightarrow> ('s, 'b outcome) state" where
  "unless_panic m f = do {
     r \<leftarrow> m;
     case r of Panics p \<Rightarrow> ret (Panics p) | Returns a \<Rightarrow> f a }"

lemma wp_unless_panic [wp]:
  "wp (unless_panic m f) Q =
   wp m (\<lambda>r. case r of Panics p \<Rightarrow> Q (Panics p) | Returns a \<Rightarrow> wp (f a) Q)"
  unfolding unless_panic_def wp_bind
  by (rule arg_cong [where f = "wp m"])
    (auto simp: fun_eq_iff wp split: outcome.split)

lemmas run_simps = reads_def modify_def unless_panic_def

section \<open>Path by path\<close>

named_theorems vcg \<open>introduction rules that execute a program path by path\<close>

lemma vcg_return [vcg]: "Q x s \<Longrightarrow> wp (ret x) Q s"
  by (simp add: wp)

lemma vcg_bind [vcg]: "wp m (\<lambda>a. wp (f a) Q) s \<Longrightarrow> wp (State_Monad.bind m f) Q s"
  by (simp add: wp)

lemma vcg_let [vcg]: "wp (f x) Q s \<Longrightarrow> wp (Let x f) Q s"
  by simp

lemma vcg_if [vcg]:
  "(b \<Longrightarrow> wp m Q s) \<Longrightarrow> (\<not> b \<Longrightarrow> wp n Q s) \<Longrightarrow> wp (if b then m else n) Q s"
  by simp

lemma vcg_case_option [vcg]:
  "(x = None \<Longrightarrow> wp m Q s) \<Longrightarrow> (\<And>y. x = Some y \<Longrightarrow> wp (f y) Q s) \<Longrightarrow>
   wp (case x of None \<Rightarrow> m | Some y \<Rightarrow> f y) Q s"
  by (cases x) auto

lemma vcg_case_sum [vcg]:
  "(\<And>y. x = Inl y \<Longrightarrow> wp (f y) Q s) \<Longrightarrow> (\<And>z. x = Inr z \<Longrightarrow> wp (g z) Q s) \<Longrightarrow>
   wp (case x of Inl y \<Rightarrow> f y | Inr z \<Rightarrow> g z) Q s"
  by (cases x) auto

lemma vcg_case_prod [vcg]:
  "(\<And>a b. x = (a, b) \<Longrightarrow> wp (f a b) Q s) \<Longrightarrow> wp (case x of (a, b) \<Rightarrow> f a b) Q s"
  by (cases x) auto

lemma vcg_case_outcome [vcg]:
  "(\<And>a. r = Returns a \<Longrightarrow> wp (f a) Q s) \<Longrightarrow> (\<And>p. r = Panics p \<Longrightarrow> wp (g p) Q s) \<Longrightarrow>
   wp (case r of Returns a \<Rightarrow> f a | Panics p \<Rightarrow> g p) Q s"
  by (cases r) auto

text \<open>The postcondition of the first part of a sequence that a panic may cut short.\<close>

definition unless_post ::
  "('a \<Rightarrow> ('s, 'b outcome) state) \<Rightarrow> ('b outcome \<Rightarrow> 's \<Rightarrow> bool) \<Rightarrow> 'a outcome \<Rightarrow> 's \<Rightarrow> bool" where
  "unless_post f Q r s = (case r of Panics p \<Rightarrow> Q (Panics p) s | Returns a \<Rightarrow> wp (f a) Q s)"

lemma vcg_unless_panic [vcg]: "wp m (unless_post f Q) s \<Longrightarrow> wp (unless_panic m f) Q s"
  by (simp add: wp_unless_panic unless_post_def [abs_def] wp_def split: outcome.splits prod.splits)

lemma vcg_post_Returns [vcg]: "wp (f a) Q s \<Longrightarrow> unless_post f Q (Returns a) s"
  by (simp add: unless_post_def)

lemma vcg_post_Panics [vcg]: "Q (Panics p) s \<Longrightarrow> unless_post f Q (Panics p) s"
  by (simp add: unless_post_def)

end
