(* ===== verification/Slices.thy ===== *)
theory Slices
  imports Prelude
begin

text \<open>
  Go slices over an explicit store. A slice is a view of a backing array; copying a struct
  copies the view, not the array. \<open>append\<close> writes in place while the capacity allows it
  and only then allocates: two views of one array may therefore overwrite each other's
  appended elements. The program keeps its metric labels in such slices and hands them from
  the plugin context to every stream, so the store is part of the model.

  The capacity of a new array is the run-time system's choice, the parameter \<open>grow\<close>
  (old capacity, needed length); the language promises only that the result fits.
\<close>

record slice =
  sl_base :: nat
  sl_len :: nat
  sl_cap :: nat

type_synonym 'a store = "'a list list"

definition nil_slice :: slice where
  "nil_slice = \<lparr>sl_base = 0, sl_len = 0, sl_cap = 0\<rparr>"

definition read_slice :: "'a store \<Rightarrow> slice \<Rightarrow> 'a list" where
  "read_slice hp s = (if sl_len s = 0 then [] else take (sl_len s) (hp ! sl_base s))"

definition append_slice ::
  "(nat \<Rightarrow> nat \<Rightarrow> nat) \<Rightarrow> 'a \<Rightarrow> 'a store \<Rightarrow> slice \<Rightarrow> 'a list \<Rightarrow> slice \<times> 'a store" where
  "append_slice grow zero hp s xs =
     (let n = sl_len s + length xs
      in if n \<le> sl_cap s
         then (s\<lparr>sl_len := n\<rparr>,
               hp[sl_base s := take (sl_len s) (hp ! sl_base s) @ xs @ drop n (hp ! sl_base s)])
         else let arr = read_slice hp s @ xs @ replicate (grow (sl_cap s) n - n) zero
              in (\<lparr>sl_base = length hp, sl_len = n, sl_cap = length arr\<rparr>, hp @ [arr]))"

definition wf_slice :: "'a store \<Rightarrow> slice \<Rightarrow> bool" where
  "wf_slice hp s \<longleftrightarrow>
     sl_len s \<le> sl_cap s \<and>
     (0 < sl_cap s \<longrightarrow> sl_base s < length hp \<and> length (hp ! sl_base s) = sl_cap s)"

lemma wf_nil_slice [simp]: "wf_slice hp nil_slice"
  by (simp add: wf_slice_def nil_slice_def)

lemma read_nil_slice [simp]: "read_slice hp nil_slice = []"
  by (simp add: read_slice_def nil_slice_def)

lemma length_read_slice: "wf_slice hp s \<Longrightarrow> length (read_slice hp s) = sl_len s"
  by (auto simp: wf_slice_def read_slice_def)

section \<open>The contract of append\<close>

lemma append_slice_wf:
  assumes "wf_slice hp s" and "append_slice grow z hp s xs = (s', hp')"
  shows "wf_slice hp' s'"
proof (cases "sl_len s + length xs \<le> sl_cap s")
  case True
  with assms show ?thesis by (auto simp: append_slice_def wf_slice_def Let_def)
next
  case False
  with assms length_read_slice [OF assms(1)] show ?thesis
    by (auto simp: append_slice_def wf_slice_def Let_def)
qed

lemma append_slice_read:
  assumes "wf_slice hp s" and "append_slice grow z hp s xs = (s', hp')"
  shows "read_slice hp' s' = read_slice hp s @ xs"
proof (cases "sl_len s + length xs \<le> sl_cap s")
  case True
  with assms show ?thesis
    by (cases xs) (auto simp: append_slice_def wf_slice_def read_slice_def Let_def min_def)
next
  case False
  with assms length_read_slice [OF assms(1)] show ?thesis
    by (auto simp: append_slice_def wf_slice_def Let_def read_slice_def [of "hp @ _"])
qed

lemma append_slice_len:
  "append_slice grow z hp s xs = (s', hp') \<Longrightarrow> sl_len s' = sl_len s + length xs"
  by (auto simp: append_slice_def Let_def split: if_splits)

text \<open>Every other view stays well formed \<dots>\<close>

lemma append_slice_wf_other:
  assumes "wf_slice hp s" and "append_slice grow z hp s xs = (s', hp')" and "wf_slice hp t"
  shows "wf_slice hp' t"
  using assms
  by (cases "sl_base s = sl_base t")
    (auto simp: append_slice_def wf_slice_def Let_def nth_append nth_list_update split: if_splits)

text \<open>
  \<dots> and keeps its contents, unless it shares the array and reaches past the end of
  \<open>s\<close> while there is room to append in place.
\<close>

lemma append_slice_read_other:
  assumes "wf_slice hp s" and "append_slice grow z hp s xs = (s', hp')" and "wf_slice hp t"
    and "sl_base t \<noteq> sl_base s \<or> sl_len t \<le> sl_len s \<or> sl_cap s < sl_len s + length xs"
  shows "read_slice hp' t = read_slice hp t"
proof (cases "sl_len s + length xs \<le> sl_cap s")
  case True
  then have hp': "hp' = hp[sl_base s := take (sl_len s) (hp ! sl_base s) @ xs @
      drop (sl_len s + length xs) (hp ! sl_base s)]"
    using assms(2) by (auto simp: append_slice_def Let_def)
  from True assms(4) have "sl_base t \<noteq> sl_base s \<or> sl_len t \<le> sl_len s" by auto
  then show ?thesis
  proof
    assume "sl_base t \<noteq> sl_base s"
    then show ?thesis by (simp add: hp' read_slice_def)
  next
    assume "sl_len t \<le> sl_len s"
    then show ?thesis using assms(1,3)
      by (cases "sl_base t = sl_base s"; cases "sl_base s < length hp")
        (auto simp: hp' read_slice_def wf_slice_def min_def)
  qed
next
  case False
  then have "hp' = hp @ [read_slice hp s @ xs @
      replicate (grow (sl_cap s) (sl_len s + length xs) - (sl_len s + length xs)) z]"
    using assms(2) by (auto simp: append_slice_def Let_def)
  with assms(3) show ?thesis by (auto simp: read_slice_def wf_slice_def nth_append)
qed

section \<open>The interface the program uses\<close>

text \<open>
  What the rest of the program relies on: an append is seen by the view that appended, and
  well-formed views stay well formed.
\<close>

locale slice_store =
  fixes rd :: "'h \<Rightarrow> 's \<Rightarrow> 'a list"
    and app :: "'h \<Rightarrow> 's \<Rightarrow> 'a list \<Rightarrow> 's \<times> 'h"
    and ok :: "'h \<Rightarrow> 's \<Rightarrow> bool"
  assumes app_ok: "ok hp s \<Longrightarrow> app hp s xs = (s', hp') \<Longrightarrow> ok hp' s'"
    and app_read: "ok hp s \<Longrightarrow> app hp s xs = (s', hp') \<Longrightarrow> rd hp' s' = rd hp s @ xs"
    and app_ok_other: "ok hp s \<Longrightarrow> app hp s xs = (s', hp') \<Longrightarrow> ok hp t \<Longrightarrow> ok hp' t"
begin

text \<open>A loop that appends the two components of each pair in turn.\<close>

definition app_pair :: "'s \<times> 'h \<Rightarrow> 'a \<times> 'a \<Rightarrow> 's \<times> 'h" where
  "app_pair sh kv = app (snd sh) (fst sh) [fst kv, snd kv]"

lemma app_pair_ok:
  "ok hp s \<Longrightarrow> ok (snd (app_pair (s, hp) kv)) (fst (app_pair (s, hp) kv))"
  unfolding app_pair_def by (rule app_ok [where hp = hp and s = s]) auto

lemma app_pair_read:
  "ok hp s \<Longrightarrow> rd (snd (app_pair (s, hp) kv)) (fst (app_pair (s, hp) kv)) =
     rd hp s @ [fst kv, snd kv]"
  unfolding app_pair_def by (rule app_read) auto

lemma app_pair_ok_other:
  "ok hp s \<Longrightarrow> ok hp t \<Longrightarrow> ok (snd (app_pair (s, hp) kv)) t"
  unfolding app_pair_def
  by (rule app_ok_other [where hp = hp and s = s and xs = "[fst kv, snd kv]"
        and s' = "fst (app hp s [fst kv, snd kv])"]) auto

lemma app_pairs_sound:
  "ok hp s \<Longrightarrow> foldl app_pair (s, hp) kvs = (s', hp') \<Longrightarrow>
   ok hp' s' \<and> rd hp' s' = rd hp s @ concat (map (\<lambda>kv. [fst kv, snd kv]) kvs)"
proof (induction kvs arbitrary: hp s)
  case Nil
  then show ?case by simp
next
  case (Cons kv kvs)
  obtain s1 hp1 where a: "app_pair (s, hp) kv = (s1, hp1)" by (cases "app_pair (s, hp) kv")
  with Cons.prems(2) have f: "foldl app_pair (s1, hp1) kvs = (s', hp')" by simp
  have k: "ok hp1 s1" using app_pair_ok [OF Cons.prems(1), of kv] a by simp
  have r: "rd hp1 s1 = rd hp s @ [fst kv, snd kv]"
    using app_pair_read [OF Cons.prems(1), of kv] a by simp
  show ?case using Cons.IH [OF k f] r by simp
qed

lemma app_pairs_other:
  "ok hp s \<Longrightarrow> ok hp t \<Longrightarrow> foldl app_pair (s, hp) kvs = (s', hp') \<Longrightarrow> ok hp' t"
proof (induction kvs arbitrary: hp s)
  case Nil
  then show ?case by simp
next
  case (Cons kv kvs)
  obtain s1 hp1 where a: "app_pair (s, hp) kv = (s1, hp1)" by (cases "app_pair (s, hp) kv")
  with Cons.prems(3) have f: "foldl app_pair (s1, hp1) kvs = (s', hp')" by simp
  have "ok hp1 s1" using app_pair_ok [OF Cons.prems(1), of kv] a by simp
  moreover have "ok hp1 t" using app_pair_ok_other [OF Cons.prems(1,2), of kv] a by simp
  ultimately show ?case using f by (rule Cons.IH)
qed

end

interpretation store: slice_store read_slice "append_slice grow z" wf_slice for grow z
  by unfold_locales
    (blast intro: append_slice_wf append_slice_read append_slice_wf_other)+

end
