(* ===== verification/Host.thy ===== *)
theory Host
  imports Slices
begin

text \<open>
  The interface between the plugin and the code it calls that is not in this repository:
  the proxy-wasm SDK and the proxy behind it, the Coraza engine, the Go run-time system.

  Every call the plugin makes is an \<open>event\<close> and is recorded, in order, in the
  \<open>trace\<close> of the \<open>world\<close>; a callback the proxy delivers is recorded too. The record
  \<open>env\<close> holds one function per call that returns something: the answer depends on the
  call's arguments and on the whole history before it, so an \<open>env\<close> stands for any
  behaviour of the proxy and of the engine, and a theorem about all \<open>env\<close> holds for all
  of them. Nothing is assumed of an \<open>env\<close> but what a theorem names as a hypothesis.

  The world also holds the memory the plugin's contexts share: the backing arrays of its
  \<open>[]string\<close> slices and its \<open>wafMetrics\<close> objects.
\<close>

section \<open>Handles and arguments\<close>

type_synonym waf = nat
type_synonym tx = nat
type_synonym header = "string \<times> string"

text \<open>A \<open>debuglog.Logger\<close>: the transaction it writes for and the fields added by \<open>With\<close>.\<close>

record logger =
  lg_tx :: tx
  lg_fields :: "(string \<times> arg) list"

record interruption =
  RuleID :: int
  Action :: string
  Status :: int

datatype level = LTrace | LDebug | LInfo | LWarn | LError | LCritical

text \<open>The root file system given to a WAF: the embedded rules, or data files of a rule set.\<close>

datatype (plugins only: code) root_fs = EmbeddedRules | RuleData "string \<rightharpoonup> bytes"

record waf_config =
  wc_root :: root_fs
  wc_directives :: string

record http_call =
  hcall_cluster :: string
  hcall_headers :: "header list"
  hcall_timeout :: int

datatype http_callback = onRuleSetCacheServerResponse_cb | onLatestRuleSetResponse_cb

text \<open>The callbacks of the proxy, with the arguments it passes.\<close>

datatype callback =
    PluginStart int
  | Tick
  | HttpCallResponse http_callback int int int
  | NewStream "32 word"
  | RequestHeaders int bool
  | RequestBody int bool
  | RequestTrailers int
  | ResponseHeaders int bool
  | ResponseBody int bool
  | ResponseTrailers int
  | StreamDone

section \<open>Events\<close>

datatype (plugins only: code) event =
    Callback nat callback
  \<comment> \<open>proxywasm\<close>
  | Log level msg
  | GetPluginConfiguration
  | SetTickPeriodMilliSeconds "32 word"
  | GetHttpRequestHeader string
  | GetProperty "string list"
  | GetHttpRequestHeaders
  | GetHttpRequestBody int int
  | GetHttpResponseHeader string
  | GetHttpResponseHeaders
  | GetHttpResponseBody int int
  | SendHttpResponse "32 word"
  | ReplaceHttpResponseBody bytes
  | DispatchHttpCall http_call http_callback
  | GetHttpCallResponseHeaders
  | GetHttpCallResponseBody int int
  | DefineCounterMetric string
  | IncrementCounter nat int
  \<comment> \<open>coraza\<close>
  | NewWAF waf_config
  | NewTransaction waf
  | DebugLog logger level msg "(string \<times> arg) list"
  | IsRuleEngineOff tx
  | SetServerName tx string
  | AddRequestHeader tx string string
  | ProcessConnection tx string int string int
  | ProcessURI tx string string string
  | ProcessRequestHeaders tx
  | IsRequestBodyAccessible tx
  | WriteRequestBody tx bytes
  | ProcessRequestBody tx
  | AddResponseHeader tx string string
  | ProcessResponseHeaders tx int string
  | IsResponseBodyAccessible tx
  | IsResponseBodyProcessable tx
  | WriteResponseBody tx bytes
  | ProcessResponseBody tx
  | ProcessLogging tx
  | CloseTx tx
  \<comment> \<open>run-time system\<close>
  | TimeNow
  | ReadMemStats
  | RangeMap "string list"

type_synonym history = "event list"

section \<open>The environment\<close>

record env =
  pw_GetPluginConfiguration :: "history \<Rightarrow> bytes \<times> goerror option"
  pw_ErrorStatusNotFound :: goerror
  pw_SetTickPeriodMilliSeconds :: "history \<Rightarrow> 32 word \<Rightarrow> goerror option"
  pw_GetHttpRequestHeader :: "history \<Rightarrow> string \<Rightarrow> goerror + string"
  pw_GetProperty :: "history \<Rightarrow> string list \<Rightarrow> goerror + bytes"
  pw_GetHttpRequestHeaders :: "history \<Rightarrow> goerror + header list"
  pw_GetHttpRequestBody :: "history \<Rightarrow> int \<Rightarrow> int \<Rightarrow> goerror + bytes"
  pw_GetHttpResponseHeader :: "history \<Rightarrow> string \<Rightarrow> goerror + string"
  pw_GetHttpResponseHeaders :: "history \<Rightarrow> goerror + header list"
  pw_GetHttpResponseBody :: "history \<Rightarrow> int \<Rightarrow> int \<Rightarrow> goerror + bytes"
  pw_SendHttpResponse :: "history \<Rightarrow> 32 word \<Rightarrow> goerror option"
  pw_ReplaceHttpResponseBody :: "history \<Rightarrow> bytes \<Rightarrow> goerror option"
  pw_DispatchHttpCall :: "history \<Rightarrow> http_call \<Rightarrow> goerror option"
  pw_GetHttpCallResponseHeaders :: "history \<Rightarrow> goerror + header list"
  pw_GetHttpCallResponseBody :: "history \<Rightarrow> int \<Rightarrow> int \<Rightarrow> goerror + bytes"
  pw_DefineCounterMetric :: "history \<Rightarrow> string \<Rightarrow> nat"
  cz_NewWAF :: "history \<Rightarrow> waf_config \<Rightarrow> goerror + waf option"
  cz_NewTransaction :: "history \<Rightarrow> waf \<Rightarrow> tx"
  tx_IsRuleEngineOff :: "history \<Rightarrow> tx \<Rightarrow> bool"
  tx_ProcessRequestHeaders :: "history \<Rightarrow> tx \<Rightarrow> interruption option"
  tx_IsRequestBodyAccessible :: "history \<Rightarrow> tx \<Rightarrow> bool"
  tx_WriteRequestBody :: "history \<Rightarrow> tx \<Rightarrow> bytes \<Rightarrow> goerror + (interruption option \<times> int)"
  tx_ProcessRequestBody :: "history \<Rightarrow> tx \<Rightarrow> goerror + interruption option"
  tx_ProcessResponseHeaders :: "history \<Rightarrow> tx \<Rightarrow> int \<Rightarrow> string \<Rightarrow> interruption option"
  tx_IsResponseBodyAccessible :: "history \<Rightarrow> tx \<Rightarrow> bool"
  tx_IsResponseBodyProcessable :: "history \<Rightarrow> tx \<Rightarrow> bool"
  tx_WriteResponseBody :: "history \<Rightarrow> tx \<Rightarrow> bytes \<Rightarrow> goerror + (interruption option \<times> int)"
  tx_ProcessResponseBody :: "history \<Rightarrow> tx \<Rightarrow> goerror + interruption option"
  tx_Close :: "history \<Rightarrow> tx \<Rightarrow> goerror option"
  rt_growcap :: "nat \<Rightarrow> nat \<Rightarrow> nat"
  rt_range :: "history \<Rightarrow> string list \<Rightarrow> string list"
  rt_now :: "history \<Rightarrow> int"
  rt_memstats :: "history \<Rightarrow> arg list"
  build_timing :: bool
  build_memstats :: bool

section \<open>The world and the calls\<close>

record world =
  trace :: history
  arrays :: "string store"
  counters :: "(string \<rightharpoonup> nat) list"

text \<open>
  A method of a context runs on the context's own state and the world. \<open>ask\<close> makes a call
  and returns the environment's answer, \<open>tell\<close> makes a call that returns nothing.
\<close>

type_synonym ('c, 'a) program = "('c \<times> world, 'a) state"

definition record_event :: "event \<Rightarrow> world \<Rightarrow> world" where
  "record_event e w = w\<lparr>trace := trace w @ [e]\<rparr>"

definition ask :: "event \<Rightarrow> (history \<Rightarrow> 'r) \<Rightarrow> ('c, 'r) program" where
  "ask e f = State (\<lambda>s. (f (trace (snd s)), (fst s, record_event e (snd s))))"

definition tell :: "event \<Rightarrow> ('c, unit) program" where
  "tell e = ask e (\<lambda>h. ())"

definition get_ctx :: "('c \<Rightarrow> 'a) \<Rightarrow> ('c, 'a) program" where
  "get_ctx f = State (\<lambda>s. (f (fst s), s))"

definition set_ctx :: "('c \<Rightarrow> 'c) \<Rightarrow> ('c, unit) program" where
  "set_ctx f = State (\<lambda>s. ((), (f (fst s), snd s)))"

definition get_world :: "(world \<Rightarrow> 'a) \<Rightarrow> ('c, 'a) program" where
  "get_world f = State (\<lambda>s. (f (snd s), s))"

definition set_world :: "(world \<Rightarrow> world) \<Rightarrow> ('c, unit) program" where
  "set_world f = State (\<lambda>s. ((), (fst s, f (snd s))))"

lemma wp_ask [wp]:
  "wp (ask e f) Q s = Q (f (trace (snd s))) (fst s, record_event e (snd s))"
  by (simp add: wp_def ask_def)

lemma wp_tell [wp]: "wp (tell e) Q s = Q () (fst s, record_event e (snd s))"
  by (simp add: tell_def wp_ask)

lemma wp_get_ctx [wp]: "wp (get_ctx f) Q s = Q (f (fst s)) s"
  by (simp add: wp_def get_ctx_def)

lemma wp_set_ctx [wp]: "wp (set_ctx f) Q s = Q () (f (fst s), snd s)"
  by (simp add: wp_def set_ctx_def)

lemma wp_get_world [wp]: "wp (get_world f) Q s = Q (f (snd s)) s"
  by (simp add: wp_def get_world_def)

lemma wp_set_world [wp]: "wp (set_world f) Q s = Q () (fst s, f (snd s))"
  by (simp add: wp_def set_world_def)

lemmas method_defs = ask_def tell_def get_ctx_def set_ctx_def get_world_def set_world_def

lemma record_event_simps [simp]:
  "trace (record_event e w) = trace w @ [e]"
  "arrays (record_event e w) = arrays w"
  "counters (record_event e w) = counters w"
  by (simp_all add: record_event_def)

text \<open>The same, path by path; states are pairs of a context and a world.\<close>

lemma vcg_ask [vcg]: "Q (f (trace w)) (c, record_event e w) \<Longrightarrow> wp (ask e f) Q (c, w)"
  by (simp add: wp)

lemma vcg_tell [vcg]: "Q () (c, record_event e w) \<Longrightarrow> wp (tell e) Q (c, w)"
  by (simp add: wp)

lemma vcg_get_ctx [vcg]: "Q (f c) (c, w) \<Longrightarrow> wp (get_ctx f) Q (c, w)"
  by (simp add: wp)

lemma vcg_set_ctx [vcg]: "Q () (f c, w) \<Longrightarrow> wp (set_ctx f) Q (c, w)"
  by (simp add: wp)

lemma vcg_get_world [vcg]: "Q (f w) (c, w) \<Longrightarrow> wp (get_world f) Q (c, w)"
  by (simp add: wp)

lemma vcg_set_world [vcg]: "Q () (c, f w) \<Longrightarrow> wp (set_world f) Q (c, w)"
  by (simp add: wp)

section \<open>What a method emits\<close>

text \<open>\<open>emits P w w'\<close>: what was called between \<open>w\<close> and \<open>w'\<close> all satisfies \<open>P\<close>.\<close>

definition emits :: "(event \<Rightarrow> bool) \<Rightarrow> world \<Rightarrow> world \<Rightarrow> bool" where
  "emits P w w' \<longleftrightarrow> (\<exists>es. trace w' = trace w @ es \<and> list_all P es)"

lemma emits_refl [simp, intro]: "emits P w w"
  by (simp add: emits_def)

lemma emits_record [simp]: "emits P w w' \<Longrightarrow> emits P w (record_event e w') = P e"
  by (auto simp: emits_def)

lemma emits_update [simp]:
  "emits P w (w'\<lparr>counters := c\<rparr>) = emits P w w'"
  "emits P w (w'\<lparr>arrays := a\<rparr>) = emits P w w'"
  by (simp_all add: emits_def)

lemma emits_trans [trans]: "emits P u v \<Longrightarrow> emits P v w \<Longrightarrow> emits P u w"
  by (auto simp: emits_def)

lemma emits_mono: "emits P w w' \<Longrightarrow> (\<And>e. P e \<Longrightarrow> Q e) \<Longrightarrow> emits Q w w'"
  by (auto simp: emits_def list_all_iff)

text \<open>Between \<open>w\<close> and \<open>w'\<close> the call \<open>e\<close> was made, after a history that satisfies \<open>P\<close>.\<close>

definition called_with :: "world \<Rightarrow> world \<Rightarrow> event \<Rightarrow> (history \<Rightarrow> bool) \<Rightarrow> bool" where
  "called_with w w' e P \<longleftrightarrow> (\<exists>es fs. trace w' = trace w @ es @ e # fs \<and> P (trace w @ es))"

lemma called_with_refl [simp]: "\<not> called_with w w e P"
  by (simp add: called_with_def)

lemma called_with_record [simp]:
  "called_with w (record_event e' v) e P \<longleftrightarrow>
     called_with w v e P \<or> (e' = e \<and> emits (\<lambda>_. True) w v \<and> P (trace v))"
proof
  assume "called_with w (record_event e' v) e P"
  then obtain es fs where *: "trace v @ [e'] = trace w @ es @ e # fs" "P (trace w @ es)"
    by (auto simp: called_with_def)
  show "called_with w v e P \<or> (e' = e \<and> emits (\<lambda>_. True) w v \<and> P (trace v))"
  proof (cases fs rule: rev_cases)
    case Nil
    with * show ?thesis by (auto simp: emits_def list_all_iff)
  next
    case (snoc gs g)
    with * have "trace v = trace w @ es @ e # gs" by simp
    with *(2) show ?thesis by (auto simp: called_with_def)
  qed
next
  assume "called_with w v e P \<or> (e' = e \<and> emits (\<lambda>_. True) w v \<and> P (trace v))"
  then show "called_with w (record_event e' v) e P"
  proof
    assume "called_with w v e P"
    then obtain es fs where "trace v = trace w @ es @ e # fs" "P (trace w @ es)"
      by (auto simp: called_with_def)
    then have "trace (record_event e' v) = trace w @ es @ e # (fs @ [e'])" "P (trace w @ es)" by simp_all
    then show ?thesis unfolding called_with_def by blast
  next
    assume "e' = e \<and> emits (\<lambda>_. True) w v \<and> P (trace v)"
    then show ?thesis by (force simp: called_with_def emits_def)
  qed
qed

lemma called_with_emits: "emits Q v w' \<Longrightarrow> called_with w v e P \<Longrightarrow> called_with w w' e P"
  by (force simp: called_with_def emits_def)

text \<open>A method all of whose calls satisfy \<open>P\<close>, whatever the state: closed under composition.\<close>

named_theorems emitting \<open>composition rules for what a method emits\<close>

definition emitting :: "(event \<Rightarrow> bool) \<Rightarrow> ('c, 'a) program \<Rightarrow> bool" where
  "emitting P m \<longleftrightarrow> (\<forall>s. wp m (\<lambda>_ s'. emits P (snd s) (snd s')) s)"

lemma emittingD: "emitting P m \<Longrightarrow> run_state m s = (a, s') \<Longrightarrow> emits P (snd s) (snd s')"
  unfolding emitting_def by (drule spec [of _ s]) (drule (1) wp_run)

lemma emitting_return [emitting]: "emitting P (ret x)"
  by (simp add: emitting_def wp)

lemma emitting_bind [emitting]:
  assumes "emitting P m" and "\<And>a. emitting P (f a)"
  shows "emitting P (State_Monad.bind m f)"
  unfolding emitting_def wp_bind
proof
  fix s
  show "wp m (\<lambda>a. wp (f a) (\<lambda>_ s'. emits P (snd s) (snd s'))) s"
  proof (rule wpI)
    fix a s1
    assume "run_state m s = (a, s1)"
    then have "emits P (snd s) (snd s1)" by (rule emittingD [OF assms(1)])
    then show "wp (f a) (\<lambda>_ s'. emits P (snd s) (snd s')) s1"
      using assms(2) [of a] by (intro wpI) (blast intro: emits_trans emittingD)
  qed
qed

lemma emitting_ask [emitting]: "P e \<Longrightarrow> emitting P (ask e f)"
  by (simp add: emitting_def wp)

lemma emitting_tell [emitting]: "P e \<Longrightarrow> emitting P (tell e)"
  by (simp add: emitting_def wp)

lemma emitting_silent [emitting]:
  "emitting P (get_ctx f)" "emitting P (set_ctx g)" "emitting P (get_world k)"
  by (simp_all add: emitting_def wp)

lemma emitting_set_counters [emitting]: "emitting P (set_world (\<lambda>w. w\<lparr>counters := f w\<rparr>))"
  by (simp add: emitting_def wp)

lemma emitting_set_arrays [emitting]: "emitting P (set_world (\<lambda>w. w\<lparr>arrays := f w\<rparr>))"
  by (simp add: emitting_def wp)

lemma emitting_let [emitting]: "emitting P (f x) \<Longrightarrow> emitting P (Let x f)"
  by simp

lemma emitting_if [emitting]:
  "(b \<Longrightarrow> emitting P m) \<Longrightarrow> (\<not> b \<Longrightarrow> emitting P n) \<Longrightarrow> emitting P (if b then m else n)"
  by simp

lemma emitting_case_option [emitting]:
  "(x = None \<Longrightarrow> emitting P m) \<Longrightarrow> (\<And>y. x = Some y \<Longrightarrow> emitting P (f y)) \<Longrightarrow>
   emitting P (case x of None \<Rightarrow> m | Some y \<Rightarrow> f y)"
  by (cases x) auto

lemma emitting_case_sum [emitting]:
  "(\<And>y. x = Inl y \<Longrightarrow> emitting P (f y)) \<Longrightarrow> (\<And>z. x = Inr z \<Longrightarrow> emitting P (g z)) \<Longrightarrow>
   emitting P (case x of Inl y \<Rightarrow> f y | Inr z \<Rightarrow> g z)"
  by (cases x) auto

lemma emitting_case_prod [emitting]:
  "(\<And>a b. x = (a, b) \<Longrightarrow> emitting P (f a b)) \<Longrightarrow> emitting P (case x of (a, b) \<Rightarrow> f a b)"
  by (cases x) auto

lemma emitting_case_outcome [emitting]:
  "(\<And>a. r = Returns a \<Longrightarrow> emitting P (f a)) \<Longrightarrow> (\<And>p. r = Panics p \<Longrightarrow> emitting P (g p)) \<Longrightarrow>
   emitting P (case r of Returns a \<Rightarrow> f a | Panics p \<Rightarrow> g p)"
  by (cases r) auto

lemma emitting_unless_panic [emitting]:
  "emitting P m \<Longrightarrow> (\<And>a. emitting P (f a)) \<Longrightarrow> emitting P (unless_panic m f)"
  unfolding unless_panic_def by (intro emitting_bind emitting_case_outcome emitting_return)

text \<open>
  Three views of a history: the calls that feed or run the engine, the calls that change what
  the client receives, and the callbacks. Queries of the engine's settings, reads, metrics and
  logging are in none of them.
\<close>

fun engine_event :: "event \<Rightarrow> bool" where
  "engine_event (NewTransaction _) = True"
| "engine_event (SetServerName _ _) = True"
| "engine_event (AddRequestHeader _ _ _) = True"
| "engine_event (ProcessConnection _ _ _ _ _) = True"
| "engine_event (ProcessURI _ _ _ _) = True"
| "engine_event (ProcessRequestHeaders _) = True"
| "engine_event (WriteRequestBody _ _) = True"
| "engine_event (ProcessRequestBody _) = True"
| "engine_event (AddResponseHeader _ _ _) = True"
| "engine_event (ProcessResponseHeaders _ _ _) = True"
| "engine_event (WriteResponseBody _ _) = True"
| "engine_event (ProcessResponseBody _) = True"
| "engine_event (ProcessLogging _) = True"
| "engine_event (CloseTx _) = True"
| "engine_event _ = False"

fun response_event :: "event \<Rightarrow> bool" where
  "response_event (SendHttpResponse _) = True"
| "response_event (ReplaceHttpResponseBody _) = True"
| "response_event _ = False"

fun callback_event :: "event \<Rightarrow> bool" where
  "callback_event (Callback _ _) = True"
| "callback_event _ = False"

definition engine_calls :: "world \<Rightarrow> event list" where
  "engine_calls w = filter engine_event (trace w)"

definition responses :: "world \<Rightarrow> event list" where
  "responses w = filter response_event (trace w)"

lemma view_simps [simp]:
  "engine_calls (record_event e w) = engine_calls w @ (if engine_event e then [e] else [])"
  "engine_calls (w\<lparr>counters := k\<rparr>) = engine_calls w"
  "engine_calls (w\<lparr>arrays := a\<rparr>) = engine_calls w"
  "responses (record_event e w) = responses w @ (if response_event e then [e] else [])"
  "responses (w\<lparr>counters := k\<rparr>) = responses w"
  "responses (w\<lparr>arrays := a\<rparr>) = responses w"
  by (simp_all add: engine_calls_def responses_def)

lemma emits_views:
  assumes "emits P w w'" and "\<And>e. P e \<Longrightarrow> \<not> engine_event e \<and> \<not> response_event e"
  shows "engine_calls w' = engine_calls w" and "responses w' = responses w"
  using assms by (auto simp: emits_def engine_calls_def responses_def list_all_iff filter_empty_conv)

section \<open>Ranging over Go maps\<close>

text \<open>
  The order in which \<open>range\<close> visits a map is not specified. A map with string keys is an
  association list with distinct keys; the environment picks the order of the keys.
\<close>

type_synonym 'v gomap = "(string \<times> 'v) list"

definition range_map :: "env \<Rightarrow> history \<Rightarrow> 'v gomap \<Rightarrow> (string \<times> 'v) list" where
  "range_map E h m = map (\<lambda>k. (k, the (map_of m k))) (rt_range E h (map fst m))"

text \<open>Each \<open>range\<close> is recorded, so that two loops over one map may differ in order.\<close>

definition range_over :: "env \<Rightarrow> 'v gomap \<Rightarrow> ('c, (string \<times> 'v) list) program" where
  "range_over E m = ask (RangeMap (map fst m)) (\<lambda>h. range_map E h m)"

text \<open>The language's promise: every key is visited exactly once.\<close>

definition range_law :: "env \<Rightarrow> bool" where
  "range_law E \<longleftrightarrow> (\<forall>h ks. mset (rt_range E h ks) = mset ks)"

lemma mset_range_map:
  assumes "range_law E" and "distinct (map fst m)"
  shows "mset (range_map E h m) = mset m"
proof -
  have "mset (range_map E h m) = image_mset (\<lambda>k. (k, the (map_of m k))) (mset (map fst m))"
    using assms(1) by (simp add: range_map_def range_law_def)
  also have "\<dots> = mset (map (\<lambda>kv. (fst kv, the (map_of m (fst kv)))) m)"
    by (simp add: image_mset.compositionality comp_def)
  also have "map (\<lambda>kv. (fst kv, the (map_of m (fst kv)))) m = m"
    using assms(2) by (intro map_idI) (auto simp: map_of_is_SomeI)
  finally show ?thesis .
qed

lemma set_range_map:
  "range_law E \<Longrightarrow> distinct (map fst m) \<Longrightarrow> set (range_map E h m) = set m"
  using mset_range_map by (metis set_mset_mset)

lemma map_fst_range_map: "map fst (range_map E h m) = rt_range E h (map fst m)"
  by (simp add: range_map_def comp_def)

lemma distinct_range_map:
  "range_law E \<Longrightarrow> distinct (map fst m) \<Longrightarrow> distinct (map fst (range_map E h m))"
  unfolding map_fst_range_map range_law_def by (metis mset_eq_imp_distinct_iff)

lemma map_of_range_map:
  assumes "range_law E" and "distinct (map fst m)"
  shows "map_of (range_map E h m) = map_of m"
proof
  fix k
  have "map_of (range_map E h m) k = Some v \<longleftrightarrow> map_of m k = Some v" for v
    using set_range_map [OF assms] distinct_range_map [OF assms] assms(2) by (simp add: map_of_eq_Some_iff)
  then show "map_of (range_map E h m) k = map_of m k"
    by (metis not_Some_eq)
qed

lemma keys_range_map:
  "range_law E \<Longrightarrow> distinct (map fst m) \<Longrightarrow> fst ` set (range_map E h m) = fst ` set m"
  by (simp add: set_range_map)

lemma vcg_range_over [vcg]:
  "(\<And>kvs. \<exists>h. kvs = range_map E h m \<Longrightarrow> Q kvs (c, record_event (RangeMap (map fst m)) w)) \<Longrightarrow>
   wp (range_over E m) Q (c, w)"
  by (auto simp: range_over_def wp)

lemma emitting_range_over [emitting]: "P (RangeMap (map fst m)) \<Longrightarrow> emitting P (range_over E m)"
  unfolding range_over_def by (intro emitting)

end
