(* ===== verification/Waf_Map.thy ===== *)
theory Waf_Map
  imports Host
begin

text \<open>
  \<open>wafMap\<close> of \<open>wasmplugin/plugin.go\<close>: the WAF of each authority and the default WAF.
  A \<open>coraza.WAF\<close> is an interface value, so it may be nil (\<open>None\<close>), both as an entry and
  as the default. The pointer receiver is updated by returning the new map.
\<close>

record wafMap =
  kv :: "string \<rightharpoonup> waf option"
  defaultWAF :: "waf option"

definition newWAFMap :: "nat \<Rightarrow> wafMap" where
  "newWAFMap capacity = \<lparr>kv = Map.empty, defaultWAF = None\<rparr>"

definition put :: "wafMap \<Rightarrow> string \<Rightarrow> waf option \<Rightarrow> goerror + wafMap" where
  "put m key w =
     (if length key = 0 then Inl (errors_New ''empty WAF key'')
      else Inr (m\<lparr>kv := (kv m)(key \<mapsto> w)\<rparr>))"

definition setDefaultWAF :: "wafMap \<Rightarrow> waf option \<Rightarrow> wafMap outcome" where
  "setDefaultWAF m w =
     (case w of
        None \<Rightarrow> Panics NilDefaultWAF
      | Some _ \<Rightarrow> Returns (m\<lparr>defaultWAF := w\<rparr>))"

text \<open>The result is the WAF and whether it is the default one.\<close>

definition getWAFOrDefault :: "wafMap \<Rightarrow> string \<Rightarrow> goerror + (waf option \<times> bool)" where
  "getWAFOrDefault m key =
     (case kv m key of
        Some w \<Rightarrow> Inr (w, False)
      | None \<Rightarrow>
          (case defaultWAF m of
             None \<Rightarrow> Inl (errors_New ''no default WAF'')
           | Some d \<Rightarrow> Inr (Some d, True)))"

text \<open>The loop of \<open>OnPluginStart\<close> that registers one WAF for several authorities.\<close>

definition put_all :: "wafMap \<Rightarrow> string list \<Rightarrow> waf option \<Rightarrow> goerror + wafMap" where
  "put_all m authorities w = fold_error (\<lambda>a m. put m a w) authorities m"

section \<open>The registry contract\<close>

locale waf_registry =
  fixes reg :: "'m \<Rightarrow> string \<Rightarrow> 'w \<Rightarrow> goerror + 'm"
    and set_default :: "'m \<Rightarrow> 'w \<Rightarrow> 'm outcome"
    and resolve :: "'m \<Rightarrow> string \<Rightarrow> goerror + ('w \<times> bool)"
  assumes reg_empty: "(\<exists>e. reg m k w = Inl e) \<longleftrightarrow> k = []"
    and resolve_reg: "reg m k w = Inr m' \<Longrightarrow>
      resolve m' k' = (if k' = k then Inr (w, False) else resolve m k')"
    and resolve_default: "set_default m d = Returns m' \<Longrightarrow>
      resolve m' k = (case resolve m k of Inr (w, False) \<Rightarrow> Inr (w, False) | _ \<Rightarrow> Inr (d, True))"
begin

text \<open>Registering several authorities succeeds exactly when none of them is empty.\<close>

lemma reg_all_succeeds:
  "(\<exists>m'. fold_error (\<lambda>a m. reg m a w) ks m = Inr m') \<longleftrightarrow> [] \<notin> set ks"
proof (induction ks arbitrary: m)
  case Nil
  then show ?case by simp
next
  case (Cons k ks)
  then show ?case using reg_empty [of m k w] by (cases "reg m k w") auto
qed

lemma resolve_reg_all:
  "fold_error (\<lambda>a m. reg m a w) ks m = Inr m' \<Longrightarrow>
   resolve m' k = (if k \<in> set ks then Inr (w, False) else resolve m k)"
proof (induction ks arbitrary: m)
  case Nil
  then show ?case by simp
next
  case (Cons a ks)
  then show ?case using resolve_reg [of m a w _ k]
    by (cases "reg m a w") auto
qed

text \<open>Registered authorities do not see a change of the default.\<close>

lemma default_keeps_registered:
  "set_default m d = Returns m' \<Longrightarrow> resolve m k = Inr (w, False) \<Longrightarrow> resolve m' k = Inr (w, False)"
  by (simp add: resolve_default)

end

interpretation wafs: waf_registry put setDefaultWAF getWAFOrDefault
proof
  fix m :: wafMap and k and w :: "waf option"
  show "(\<exists>e. put m k w = Inl e) \<longleftrightarrow> k = []" by (simp add: put_def)
next
  fix m m' :: wafMap and k k' and w :: "waf option"
  assume "put m k w = Inr m'"
  then show "getWAFOrDefault m' k' = (if k' = k then Inr (w, False) else getWAFOrDefault m k')"
    by (auto simp: put_def getWAFOrDefault_def split: if_splits option.splits)
next
  fix m m' :: wafMap and k and d :: "waf option"
  assume "setDefaultWAF m d = Returns m'"
  then show "getWAFOrDefault m' k =
      (case getWAFOrDefault m k of Inr (w, False) \<Rightarrow> Inr (w, False) | _ \<Rightarrow> Inr (d, True))"
    by (auto simp: setDefaultWAF_def getWAFOrDefault_def split: option.splits)
qed

lemma getWAFOrDefault_new [simp]:
  "getWAFOrDefault (newWAFMap n) k = Inl (errors_New ''no default WAF'')"
  by (simp add: getWAFOrDefault_def newWAFMap_def)

lemma setDefaultWAF_Some [simp]: "setDefaultWAF m (Some d) = Returns (m\<lparr>defaultWAF := Some d\<rparr>)"
  by (simp add: setDefaultWAF_def)

lemma getWAFOrDefault_total_with_default:
  "defaultWAF m \<noteq> None \<Longrightarrow> \<exists>r. getWAFOrDefault m k = Inr r"
  by (auto simp: getWAFOrDefault_def split: option.splits)

text \<open>No entry of the map is a nil WAF.\<close>

definition no_nil_waf :: "wafMap \<Rightarrow> bool" where
  "no_nil_waf m \<longleftrightarrow> (\<forall>k. kv m k \<noteq> Some None)"

lemma no_nil_waf_new [simp]: "no_nil_waf (newWAFMap n)"
  by (simp add: no_nil_waf_def newWAFMap_def)

lemma no_nil_waf_put: "no_nil_waf m \<Longrightarrow> put m k (Some w) = Inr m' \<Longrightarrow> no_nil_waf m'"
  by (auto simp: no_nil_waf_def put_def split: if_splits)

lemma no_nil_waf_put_all: "no_nil_waf m \<Longrightarrow> put_all m ks (Some w) = Inr m' \<Longrightarrow> no_nil_waf m'"
  unfolding put_all_def
  by (erule fold_error_invariant [where P = no_nil_waf]) (auto intro: no_nil_waf_put)

lemma no_nil_waf_default [simp]: "no_nil_waf (m\<lparr>defaultWAF := d\<rparr>) = no_nil_waf m"
  by (simp add: no_nil_waf_def)

lemma no_nil_waf_resolve: "no_nil_waf m \<Longrightarrow> getWAFOrDefault m k = Inr (w, b) \<Longrightarrow> w \<noteq> None"
  by (cases w) (auto simp: no_nil_waf_def getWAFOrDefault_def split: option.splits)

end
