(* ===== verification/Go_Std.thy ===== *)
theory Go_Std
  imports Prelude
begin

text \<open>
  The parts of the Go standard library the program relies on, as executable functions on
  byte strings: searching (\<open>strings\<close>), decimal numbers (\<open>strconv.Atoi\<close>, the verb
  \<open>%d\<close>), \<open>net.SplitHostPort\<close>, \<open>bytes.TrimSpace\<close>, \<open>utf8.ValidString\<close>,
  \<open>fs.ValidPath\<close> and little-endian decoding. Round-trip and shape lemmas follow each.
  The target of the program is \<open>wasm32\<close>: an \<open>int\<close> has 32 bits.
\<close>

section \<open>Searching\<close>

text \<open>\<open>strings.IndexByte\<close>: the position of the first occurrence.\<close>

fun IndexByte :: "string \<Rightarrow> char \<Rightarrow> nat option" where
  "IndexByte [] c = None"
| "IndexByte (x # xs) c = (if x = c then Some 0 else map_option Suc (IndexByte xs c))"

text \<open>\<open>strings.LastIndex\<close>: the last position at which \<open>sub\<close> occurs.\<close>

fun LastIndex :: "string \<Rightarrow> string \<Rightarrow> nat option" where
  "LastIndex [] sub = (if sub = [] then Some 0 else None)"
| "LastIndex (x # xs) sub =
     (case LastIndex xs sub of
        Some i \<Rightarrow> Some (Suc i)
      | None \<Rightarrow> (if prefix sub (x # xs) then Some 0 else None))"

text \<open>\<open>strings.Join\<close>.\<close>

fun strings_Join :: "string list \<Rightarrow> string \<Rightarrow> string" where
  "strings_Join [] sep = []"
| "strings_Join [x] sep = x"
| "strings_Join (x # y # ys) sep = x @ sep @ strings_Join (y # ys) sep"

lemma IndexByte_None_iff: "IndexByte s c = None \<longleftrightarrow> c \<notin> set s"
  by (induction s) auto

lemma IndexByte_append: "c \<notin> set xs \<Longrightarrow> IndexByte (xs @ c # ys) c = Some (length xs)"
  by (induction xs) auto

lemma LastIndex_Some:
  "LastIndex s sub = Some i \<Longrightarrow> i \<le> length s \<and> prefix sub (drop i s)"
  by (induction s arbitrary: i) (auto split: option.splits if_splits)

lemma LastIndex_None_iff: "LastIndex s sub = None \<longleftrightarrow> \<not> sublist sub s"
  by (induction s) (auto split: option.splits simp: sublist_Cons_right)

lemma LastIndex_last:
  "LastIndex s sub = Some i \<Longrightarrow> i < j \<Longrightarrow> j \<le> length s \<Longrightarrow> \<not> prefix sub (drop j s)"
proof (induction s arbitrary: i j)
  case Nil
  then show ?case by simp
next
  case (Cons x xs)
  then obtain k where j: "j = Suc k" by (cases j) auto
  show ?case
  proof (cases "LastIndex xs sub")
    case None
    then have "\<not> sublist sub xs" by (simp add: LastIndex_None_iff)
    then show ?thesis using j
      by (metis drop_Suc_Cons prefix_imp_sublist sublist_drop sublist_order.order_trans)
  next
    case (Some m)
    with Cons.prems have "i = Suc m" by simp
    with Some Cons.IH [OF Some, of k] Cons.prems j show ?thesis by simp
  qed
qed

text \<open>Dropping everything up to and with the last occurrence of \<open>sub\<close>.\<close>

lemma LastIndex_append:
  assumes "\<not> sublist sub (tl (sub @ ys))" and "sub \<noteq> []"
  shows "LastIndex (xs @ sub @ ys) sub = Some (length xs)"
proof (induction xs)
  case Nil
  from assms obtain z zs where sub: "sub = z # zs" by (cases sub) auto
  with assms(1) have "LastIndex (zs @ ys) sub = None" by (simp add: LastIndex_None_iff)
  then show ?case using sub by simp
next
  case (Cons x xs)
  then show ?case by simp
qed

section \<open>Decimal numbers\<close>

definition digit_char :: "nat \<Rightarrow> char" where
  "digit_char d = char_of (48 + d)"

definition digit_val :: "char \<Rightarrow> nat option" where
  "digit_val c = (let n = of_char c in if 48 \<le> n \<and> n \<le> (57 :: nat) then Some (n - 48) else None)"

lemma digit_val_digit_char [simp]: "d < 10 \<Longrightarrow> digit_val (digit_char d) = Some d"
  by (simp add: digit_val_def digit_char_def)

text \<open>The verb \<open>%d\<close>.\<close>

fun utoa :: "nat \<Rightarrow> string" where
  "utoa n = (if n < 10 then [digit_char n] else utoa (n div 10) @ [digit_char (n mod 10)])"

declare utoa.simps [simp del]

definition itoa :: "int \<Rightarrow> string" where
  "itoa i = (if i < 0 then CHR ''-'' # utoa (nat (- i)) else utoa (nat i))"

datatype scan = ScanSyntax | ScanRange | ScanVal nat

text \<open>
  The digit loop of \<open>strconv.ParseUint(s, 10, b)\<close>: a byte that is no digit is a syntax
  error, a value past \<open>2^b - 1\<close> a range error, whichever comes first.
\<close>

fun scan_digits :: "nat \<Rightarrow> nat \<Rightarrow> string \<Rightarrow> scan" where
  "scan_digits b n [] = ScanVal n"
| "scan_digits b n (c # cs) =
     (case digit_val c of
        None \<Rightarrow> ScanSyntax
      | Some d \<Rightarrow> (if 2 ^ b \<le> n * 10 + d then ScanRange else scan_digits b (n * 10 + d) cs))"

definition ParseUint :: "nat \<Rightarrow> string \<Rightarrow> scan" where
  "ParseUint b s = (if s = [] then ScanSyntax else scan_digits b 0 s)"

definition num_error :: "string \<Rightarrow> string \<Rightarrow> goerror" where
  "num_error s why = Fmt ''strconv.Atoi: parsing %q: %s'' [AStr s, AStr why]"

text \<open>
  \<open>strconv.Atoi\<close> on integers of \<open>b\<close> bits. A range error still returns a value, the nearest
  one that fits. The filter runs with 32 bits, the build tool with the 64 of its host.
\<close>

definition AtoiN :: "nat \<Rightarrow> string \<Rightarrow> int \<times> goerror option" where
  "AtoiN b s =
     (let neg = (s \<noteq> [] \<and> hd s = CHR ''-'');
          body = (if s \<noteq> [] \<and> (hd s = CHR ''-'' \<or> hd s = CHR ''+'') then tl s else s);
          cutoff = (2 :: int) ^ (b - 1)
      in case ParseUint b body of
           ScanSyntax \<Rightarrow> (0, Some (num_error s ''invalid syntax''))
         | ScanRange \<Rightarrow>
             (if neg then (- cutoff, Some (num_error s ''value out of range''))
              else (cutoff - 1, Some (num_error s ''value out of range'')))
         | ScanVal n \<Rightarrow>
             (if \<not> neg \<and> cutoff \<le> int n
              then (cutoff - 1, Some (num_error s ''value out of range''))
              else if neg \<and> cutoff < int n
              then (- cutoff, Some (num_error s ''value out of range''))
              else (if neg then - int n else int n, None)))"

abbreviation Atoi :: "string \<Rightarrow> int \<times> goerror option" where
  "Atoi \<equiv> AtoiN 32"

lemma Atoi_range: "fst (Atoi s) \<in> {- (2 ^ 31) .. 2 ^ 31 - 1}"
  by (auto simp: AtoiN_def Let_def split: scan.splits)

lemma utoa_not_Nil [simp]: "utoa n \<noteq> []"
  by (subst utoa.simps) simp

lemma scan_digits_append:
  "scan_digits b n (xs @ ys) =
   (case scan_digits b n xs of ScanVal m \<Rightarrow> scan_digits b m ys | e \<Rightarrow> e)"
  by (induction xs arbitrary: n) (auto split: option.splits)

lemma scan_digits_utoa: "n < 2 ^ b \<Longrightarrow> scan_digits b 0 (utoa n) = ScanVal n"
proof (induction n rule: utoa.induct)
  case (1 n)
  show ?case
  proof (cases "n < 10")
    case True
    with 1(2) show ?thesis by (subst utoa.simps) simp
  next
    case False
    with 1 have "scan_digits b 0 (utoa (n div 10)) = ScanVal (n div 10)" by simp
    moreover have "n div 10 * 10 + n mod 10 = n" by simp
    ultimately show ?thesis using False 1(2)
      by (subst utoa.simps) (simp add: scan_digits_append)
  qed
qed

lemma digits_utoa: "c \<in> set (utoa n) \<Longrightarrow> digit_val c \<noteq> None"
proof (induction n rule: utoa.induct)
  case (1 n)
  then show ?case by (subst (asm) utoa.simps) (auto split: if_splits)
qed

lemma hd_utoa: "digit_val (hd (utoa n)) \<noteq> None"
  by (rule digits_utoa [of _ n]) simp

lemma AtoiN_itoa:
  assumes "0 < b" and "- (2 ^ (b - 1)) \<le> i" and "i < 2 ^ (b - 1)"
  shows "AtoiN b (itoa i) = (i, None)"
proof -
  have "(2 :: int) ^ b = 2 * 2 ^ (b - 1)" using assms(1) by (cases b) simp_all
  then have "nat \<bar>i\<bar> < 2 ^ b" using assms(2,3) by (simp add: nat_less_iff)
  then have scan: "scan_digits b 0 (utoa (nat \<bar>i\<bar>)) = ScanVal (nat \<bar>i\<bar>)" by (rule scan_digits_utoa)
  show ?thesis
  proof (cases "i < 0")
    case True
    with assms scan show ?thesis by (simp add: AtoiN_def itoa_def ParseUint_def Let_def)
  next
    case False
    have "hd (utoa (nat i)) \<noteq> CHR ''-''" "hd (utoa (nat i)) \<noteq> CHR ''+''"
      using hd_utoa [of "nat i"] by (auto simp: digit_val_def)
    with False assms scan show ?thesis by (simp add: AtoiN_def itoa_def ParseUint_def Let_def)
  qed
qed

lemma Atoi_itoa: "- (2 ^ 31) \<le> i \<Longrightarrow> i < 2 ^ 31 \<Longrightarrow> Atoi (itoa i) = (i, None)"
  by (rule AtoiN_itoa) simp_all

section \<open>Host and port\<close>

definition addr_error :: "string \<Rightarrow> string \<Rightarrow> goerror" where
  "addr_error addr why =
     (if addr = [] then errors_New why else Fmt ''address %s: %s'' [AStr addr, AStr why])"

text \<open>
  \<open>net.SplitHostPort\<close>: \<open>host:port\<close> or \<open>[host]:port\<close>. The local function
  \<open>finish\<close> is the common tail of the two shapes, with \<open>j\<close> and \<open>k\<close> the positions
  from which no further bracket may occur.
\<close>

definition SplitHostPort :: "string \<Rightarrow> goerror + (string \<times> string)" where
  "SplitHostPort hp =
     (case LastIndex hp '':'' of
        None \<Rightarrow> Inl (addr_error hp ''missing port in address'')
      | Some i \<Rightarrow>
          let finish = (\<lambda>host j k.
                if IndexByte (drop j hp) (CHR ''['') \<noteq> None
                then Inl (addr_error hp ''unexpected '[' in address'')
                else if IndexByte (drop k hp) (CHR '']'') \<noteq> None
                then Inl (addr_error hp ''unexpected ']' in address'')
                else Inr (host, drop (i + 1) hp))
          in if hd hp = CHR ''[''
             then (case IndexByte hp (CHR '']'') of
                     None \<Rightarrow> Inl (addr_error hp ''missing ']' in address'')
                   | Some e \<Rightarrow>
                       if e + 1 = length hp then Inl (addr_error hp ''missing port in address'')
                       else if e + 1 = i then finish (take (e - 1) (drop 1 hp)) 1 (e + 1)
                       else if hp ! (e + 1) = CHR '':'' then Inl (addr_error hp ''too many colons in address'')
                       else Inl (addr_error hp ''missing port in address''))
             else if IndexByte (take i hp) (CHR '':'') \<noteq> None
             then Inl (addr_error hp ''too many colons in address'')
             else finish (take i hp) 0 0)"

lemma sublist_single: "sublist [c] s \<longleftrightarrow> c \<in> set s"
  by (metis append_Cons append_Nil in_set_conv_decomp set_mono_sublist sublist_appendI
      list.set_intros(1) subset_iff)

lemma LastIndex_char: "c \<notin> set ys \<Longrightarrow> LastIndex (xs @ c # ys) [c] = Some (length xs)"
  using LastIndex_append [of "[c]" ys xs] by (simp add: sublist_single)

text \<open>A host and a port without separators are recovered from \<open>host:port\<close>.\<close>

lemma SplitHostPort_plain:
  assumes "set host \<inter> set '':[]'' = {}" and "set port \<inter> set '':[]'' = {}"
  shows "SplitHostPort (host @ '':'' @ port) = Inr (host, port)"
proof -
  let ?hp = "host @ CHR '':'' # port"
  have i: "LastIndex ?hp '':'' = Some (length host)"
    using assms(2) by (intro LastIndex_char) auto
  have "hd ?hp \<noteq> CHR ''[''" using assms(1) by (cases host) auto
  moreover have "IndexByte host (CHR '':'') = None" using assms(1) by (auto simp: IndexByte_None_iff)
  moreover have "IndexByte ?hp (CHR ''['') = None" "IndexByte ?hp (CHR '']'') = None"
    using assms by (auto simp: IndexByte_None_iff)
  ultimately show ?thesis using i by (simp add: SplitHostPort_def)
qed

text \<open>The bracketed form admits colons in the host (IPv6).\<close>

lemma SplitHostPort_brackets:
  assumes "set host \<inter> set ''[]'' = {}" and "set port \<inter> set '':[]'' = {}"
  shows "SplitHostPort (''['' @ host @ '']:'' @ port) = Inr (host, port)"
proof -
  let ?hp = "CHR ''['' # host @ CHR '']'' # CHR '':'' # port"
  have i: "LastIndex ?hp '':'' = Some (length host + 2)"
    using LastIndex_char [of "CHR '':''" port "CHR ''['' # host @ '']''"] assms(2) by simp
  have e: "IndexByte ?hp (CHR '']'') = Some (length host + 1)"
    using IndexByte_append [of "CHR '']''" "CHR ''['' # host" "CHR '':'' # port"] assms(1) by auto
  have "IndexByte (drop 1 ?hp) (CHR ''['') = None"
    using assms by (auto simp: IndexByte_None_iff)
  moreover have "IndexByte (drop (length host + 2) ?hp) (CHR '']'') = None"
    using assms by (auto simp: IndexByte_None_iff)
  ultimately show ?thesis using i e by (simp add: SplitHostPort_def)
qed

text \<open>A string without a colon has no port.\<close>

lemma SplitHostPort_no_colon:
  "CHR '':'' \<notin> set s \<Longrightarrow> SplitHostPort s = Inl (addr_error s ''missing port in address'')"
proof -
  assume "CHR '':'' \<notin> set s"
  then have "LastIndex s '':'' = None" by (simp add: LastIndex_None_iff sublist_single)
  then show ?thesis by (simp add: SplitHostPort_def)
qed

section \<open>White space\<close>

text \<open>The UTF-8 encodings of the characters \<open>unicode.IsSpace\<close> accepts.\<close>

definition space_encodings :: "bytes list" where
  "space_encodings =
     [[9], [10], [11], [12], [13], [32], [0xC2, 0x85], [0xC2, 0xA0], [0xE1, 0x9A, 0x80]] @
     map (\<lambda>b. [0xE2, 0x80, word_of_nat b]) [0x80 ..< 0x8B] @
     [[0xE2, 0x80, 0xA8], [0xE2, 0x80, 0xA9], [0xE2, 0x80, 0xAF], [0xE2, 0x81, 0x9F], [0xE3, 0x80, 0x80]]"

function trim_prefixes :: "'a list list \<Rightarrow> 'a list \<Rightarrow> 'a list" where
  "trim_prefixes ws b =
     (case find (\<lambda>w. w \<noteq> [] \<and> prefix w b) ws of
        None \<Rightarrow> b
      | Some w \<Rightarrow> trim_prefixes ws (drop (length w) b))"
  by pat_completeness auto
termination
  by (relation "measure (\<lambda>(ws, b). length b)") (auto simp: find_Some_iff prefix_def)

declare trim_prefixes.simps [simp del]

definition TrimSpace :: "bytes \<Rightarrow> bytes" where
  "TrimSpace b =
     rev (trim_prefixes (map rev space_encodings) (rev (trim_prefixes space_encodings b)))"

lemma trim_prefixes_suffix: "suffix (trim_prefixes ws b) b"
proof (induction ws b rule: trim_prefixes.induct)
  case (1 ws b)
  show ?case
  proof (cases "find (\<lambda>w. w \<noteq> [] \<and> prefix w b) ws")
    case None
    then show ?thesis by (subst trim_prefixes.simps) simp
  next
    case (Some w)
    with 1 have "suffix (trim_prefixes ws (drop (length w) b)) (drop (length w) b)" by simp
    then have "suffix (trim_prefixes ws (drop (length w) b)) b"
      by (meson suffix_drop suffix_order.order_trans)
    with Some show ?thesis by (subst trim_prefixes.simps) simp
  qed
qed

lemma trim_prefixes_none:
  "w \<in> set ws \<Longrightarrow> w \<noteq> [] \<Longrightarrow> \<not> prefix w (trim_prefixes ws b)"
proof (induction ws b rule: trim_prefixes.induct)
  case (1 ws b)
  then show ?case
    by (subst trim_prefixes.simps) (auto split: option.splits simp: find_None_iff)
qed

section \<open>UTF-8 and paths\<close>

text \<open>\<open>utf8.ValidString\<close>: no overlong forms, no surrogates, nothing past U+10FFFF.\<close>

fun utf8_valid :: "nat list \<Rightarrow> bool" where
  "utf8_valid [] = True"
| "utf8_valid (a # bs) =
     (if a < 0x80 then utf8_valid bs
      else case bs of
        [] \<Rightarrow> False
      | b # cs \<Rightarrow>
          if 0xC2 \<le> a \<and> a \<le> 0xDF then 0x80 \<le> b \<and> b \<le> 0xBF \<and> utf8_valid cs
          else case cs of
            [] \<Rightarrow> False
          | c # ds \<Rightarrow>
              if 0xE0 \<le> a \<and> a \<le> 0xEF
              then (if a = 0xE0 then 0xA0 else 0x80) \<le> b \<and> b \<le> (if a = 0xED then 0x9F else 0xBF) \<and>
                   0x80 \<le> c \<and> c \<le> 0xBF \<and> utf8_valid ds
              else case ds of
                [] \<Rightarrow> False
              | d # es \<Rightarrow>
                  0xF0 \<le> a \<and> a \<le> 0xF4 \<and>
                  (if a = 0xF0 then 0x90 else 0x80) \<le> b \<and> b \<le> (if a = 0xF4 then 0x8F else 0xBF) \<and>
                  0x80 \<le> c \<and> c \<le> 0xBF \<and> 0x80 \<le> d \<and> d \<le> 0xBF \<and> utf8_valid es)"

definition ValidString :: "string \<Rightarrow> bool" where
  "ValidString s = utf8_valid (map of_char s)"

text \<open>\<open>utf8.DecodeRune\<close>: the bytes of the first character, 1 where the text is not UTF-8.\<close>

definition rune_width :: "string \<Rightarrow> nat" where
  "rune_width s = (case find (\<lambda>k. k \<le> length s \<and> utf8_valid (map of_char (take k s))) [1, 2, 3, 4] of
     Some k \<Rightarrow> k | None \<Rightarrow> 1)"

lemma rune_width_ascii [simp]: "of_char c < (0x80 :: nat) \<Longrightarrow> rune_width (c # s) = 1"
  by (simp add: rune_width_def)

text \<open>The element loop of \<open>fs.ValidPath\<close>.\<close>

function valid_elems :: "string \<Rightarrow> bool" where
  "valid_elems name =
     (let elem = (case IndexByte name (CHR ''/'') of None \<Rightarrow> name | Some i \<Rightarrow> take i name)
      in if elem = [] \<or> elem = ''.'' \<or> elem = ''..'' then False
         else case IndexByte name (CHR ''/'') of
                None \<Rightarrow> True
              | Some i \<Rightarrow> valid_elems (drop (i + 1) name))"
  by pat_completeness auto
termination
  by (relation "measure length") (auto split: option.splits simp: Let_def)

declare valid_elems.simps [simp del]

definition ValidPath :: "string \<Rightarrow> bool" where
  "ValidPath name = (ValidString name \<and> (name = ''.'' \<or> valid_elems name))"

section \<open>Little-endian integers\<close>

definition le_uint64 :: "bytes \<Rightarrow> 64 word" where
  "le_uint64 b = word_of_nat (horner_sum unat 256 (take 8 b))"

definition le_bytes :: "nat \<Rightarrow> bytes" where
  "le_bytes n = map (\<lambda>i. word_of_nat (n div 256 ^ i)) [0 ..< 8]"

lemma horner_sum_bytes_bound: "horner_sum unat 256 (bs :: bytes) < 256 ^ length bs"
proof (induction bs)
  case (Cons b bs)
  have "unat b < 256" using unsigned_less [of b] by simp
  with Cons show ?case by simp
qed simp

lemma unat_le_uint64: "unat (le_uint64 b) = horner_sum unat 256 (take 8 b)"
proof -
  have "horner_sum unat 256 (take 8 b) < 256 ^ length (take 8 b)"
    by (rule horner_sum_bytes_bound)
  also have "(256 :: nat) ^ length (take 8 b) \<le> 256 ^ 8"
    by (intro power_increasing) auto
  finally show ?thesis by (simp add: le_uint64_def unat_of_nat take_bit_eq_mod)
qed

lemma unat_le_uint64_le_bytes:
  assumes "n < 2 ^ 64"
  shows "unat (le_uint64 (le_bytes n)) = n"
proof -
  have step: "m mod 256 + 256 * (m div 256) = m" for m :: nat by simp
  have "horner_sum unat 256 (map (\<lambda>i. word_of_nat (n div 256 ^ i) :: byte) [0 ..< k]) = n mod 256 ^ k"
    for k
  proof (induction k arbitrary: n)
    case (Suc k)
    have "map (\<lambda>i. word_of_nat (n div 256 ^ i) :: byte) [0 ..< Suc k] =
          word_of_nat n # map (\<lambda>i. word_of_nat ((n div 256) div 256 ^ i)) [0 ..< k]"
      by (simp add: upt_conv_Cons map_Suc_upt [symmetric] div_mult2_eq del: upt_Suc map_Suc_upt)
    then show ?case using Suc [of "n div 256"]
      by (simp add: unat_of_nat take_bit_eq_mod mod_mult2_eq mult.commute)
  qed simp
  from this [of 8] show ?thesis using assms by (simp add: unat_le_uint64 le_bytes_def)
qed

end
