(* ===== verification/Metrics.thy ===== *)
theory Metrics
  imports Host Go_Std
begin

text \<open>
  \<open>wasmplugin/metrics.go\<close>. A \<open>*wafMetrics\<close> is a reference into \<open>counters\<close> of the
  world (\<open>None\<close> is nil); the object maps the name of a counter to the handle the proxy
  gave out for it. The plugin context and all its streams share one object.
\<close>

type_synonym metrics_ref = "nat option"

definition NewWAFMetrics :: "('c, metrics_ref) program" where
  "NewWAFMetrics = do {
     n \<leftarrow> get_world (\<lambda>w. length (counters w));
     set_world (\<lambda>w. w\<lparr>counters := counters w @ [Map.empty]\<rparr>);
     ret (Some n) }"

definition incrementCounter :: "env \<Rightarrow> metrics_ref \<Rightarrow> string \<Rightarrow> ('c, unit outcome) program" where
  "incrementCounter E m fqn =
     (case m of
        None \<Rightarrow> ret (Panics (NilDeref ''metrics''))
      | Some r \<Rightarrow> do {
          known \<leftarrow> get_world (\<lambda>w. (counters w ! r) fqn);
          counter \<leftarrow> (case known of
             Some c \<Rightarrow> ret c
           | None \<Rightarrow> do {
               c \<leftarrow> ask (DefineCounterMetric fqn) (\<lambda>h. pw_DefineCounterMetric E h fqn);
               set_world (\<lambda>w. w\<lparr>counters := (counters w)[r := (counters w ! r)(fqn \<mapsto> c)]\<rparr>);
               ret c });
          tell (IncrementCounter counter 1);
          ret (Returns ()) })"

definition CountTX :: "env \<Rightarrow> metrics_ref \<Rightarrow> ('c, unit outcome) program" where
  "CountTX E m = incrementCounter E m ''waf_filter.tx.total''"

text \<open>
  The label loop steps by two and reads both elements of a pair: an odd number of elements
  is an index out of range.
\<close>

fun label_suffix :: "string list \<Rightarrow> string outcome" where
  "label_suffix [] = Returns []"
| "label_suffix [k] = Panics IndexOutOfRange"
| "label_suffix (k # v # kvs) =
     (case label_suffix kvs of
        Panics p \<Rightarrow> Panics p
      | Returns s \<Rightarrow> Returns (''_'' @ k @ ''='' @ v @ s))"

definition interruption_fqn :: "string \<Rightarrow> int \<Rightarrow> string list \<Rightarrow> string outcome" where
  "interruption_fqn phase ruleID metricLabelsKV =
     (case label_suffix metricLabelsKV of
        Panics p \<Rightarrow> Panics p
      | Returns s \<Rightarrow>
          Returns (''waf_filter.tx.interruptions_ruleid='' @ itoa ruleID @ ''_phase='' @ phase @ s))"

definition CountTXInterruption ::
  "env \<Rightarrow> metrics_ref \<Rightarrow> string \<Rightarrow> int \<Rightarrow> string list \<Rightarrow> ('c, unit outcome) program" where
  "CountTXInterruption E m phase ruleID metricLabelsKV =
     (case interruption_fqn phase ruleID metricLabelsKV of
        Panics p \<Rightarrow> ret (Panics p)
      | Returns fqn \<Rightarrow> incrementCounter E m fqn)"

section \<open>Properties\<close>

lemma label_suffix_panics_iff: "panicked (label_suffix kvs) \<longleftrightarrow> odd (length kvs)"
  by (induction kvs rule: label_suffix.induct) (auto split: outcome.splits)

lemma label_suffix_even: "even (length kvs) \<Longrightarrow> \<exists>s. label_suffix kvs = Returns s"
  using label_suffix_panics_iff [of kvs] by (cases "label_suffix kvs") auto

lemma label_suffix_pairs:
  "label_suffix (concat (map (\<lambda>kv. [fst kv, snd kv]) kvs)) =
   Returns (concat (map (\<lambda>kv. ''_'' @ fst kv @ ''='' @ snd kv) kvs))"
  by (induction kvs) auto

lemma interruption_fqn_even:
  "even (length kvs) \<Longrightarrow> \<exists>s. interruption_fqn phase n kvs = Returns s"
  using label_suffix_even [of kvs] by (auto simp: interruption_fqn_def)

text \<open>
  One increment: the counter is created on the first use of its name only, and what is
  incremented is the counter the object holds under that name afterwards.
\<close>

lemma incrementCounter_run:
  assumes "r < length (counters w)"
  shows "\<exists>c w'. run_state (incrementCounter E (Some r) fqn) (x, w) = (Returns (), (x, w')) \<and>
     (counters w' ! r) fqn = Some c \<and> arrays w' = arrays w \<and>
     (case (counters w ! r) fqn of
        Some d \<Rightarrow> c = d \<and> counters w' = counters w \<and> trace w' = trace w @ [IncrementCounter c 1]
      | None \<Rightarrow> c = pw_DefineCounterMetric E (trace w) fqn \<and>
          counters w' = (counters w)[r := (counters w ! r)(fqn \<mapsto> c)] \<and>
          trace w' = trace w @ [DefineCounterMetric fqn, IncrementCounter c 1])"
  using assms
  by (auto simp: incrementCounter_def run_simps method_defs split: option.splits)

lemma incrementCounter_no_panic:
  "wp (incrementCounter E (Some r) fqn) (\<lambda>res s'. res = Returns ()) s"
  by (auto simp: incrementCounter_def wp)

end
