(* ===== verification/Address.thy ===== *)
theory Address
  imports Host Go_Std
begin

text \<open>
  Logging through a \<open>debuglog.Logger\<close> and the parsing of addresses in
  \<open>wasmplugin/plugin.go\<close>: \<open>parsePort\<close>, \<open>retrieveAddressInfo\<close>, \<open>parseServerName\<close>.
\<close>

section \<open>Logging\<close>

text \<open>A call on a logger; a nil logger panics.\<close>

definition log_with ::
  "logger option \<Rightarrow> level \<Rightarrow> msg \<Rightarrow> (string \<times> arg) list \<Rightarrow> ('c, unit outcome) program" where
  "log_with lg lvl m flds =
     (case lg of
        None \<Rightarrow> ret (Panics (NilDeref ''logger''))
      | Some l \<Rightarrow> do { tell (DebugLog l lvl m flds); ret (Returns ()) })"

definition log_then ::
  "logger option \<Rightarrow> level \<Rightarrow> msg \<Rightarrow> (string \<times> arg) list \<Rightarrow> 'a \<Rightarrow> ('c, 'a outcome) program" where
  "log_then lg lvl m flds x = unless_panic (log_with lg lvl m flds) (\<lambda>_. ret (Returns x))"

lemma wp_log_with_Some [wp]:
  "wp (log_with (Some l) lvl m flds) Q s =
   Q (Returns ()) (fst s, record_event (DebugLog l lvl m flds) (snd s))"
  by (simp add: log_with_def wp)

lemma wp_log_then_Some [wp]:
  "wp (log_then (Some l) lvl m flds x) Q s =
   Q (Returns x) (fst s, record_event (DebugLog l lvl m flds) (snd s))"
  by (simp add: log_then_def wp)

lemma wp_log_with_None [wp]:
  "wp (log_with None lvl m flds) Q s = Q (Panics (NilDeref ''logger'')) s"
  by (simp add: log_with_def wp)

lemma vcg_log_with [vcg]:
  "(\<And>l. lg = Some l \<Longrightarrow> Q (Returns ()) (c, record_event (DebugLog l lvl m flds) w)) \<Longrightarrow>
   (lg = None \<Longrightarrow> Q (Panics (NilDeref ''logger'')) (c, w)) \<Longrightarrow> wp (log_with lg lvl m flds) Q (c, w)"
  by (cases lg) (simp_all add: wp)

lemma vcg_log_then [vcg]:
  "(\<And>l. lg = Some l \<Longrightarrow> Q (Returns x) (c, record_event (DebugLog l lvl m flds) w)) \<Longrightarrow>
   (lg = None \<Longrightarrow> Q (Panics (NilDeref ''logger'')) (c, w)) \<Longrightarrow> wp (log_then lg lvl m flds x) Q (c, w)"
  by (cases lg) (simp_all add: log_then_def wp)

lemma emitting_log_with [emitting]:
  "(\<And>l. P (DebugLog l lvl m flds)) \<Longrightarrow> emitting P (log_with lg lvl m flds)"
  unfolding log_with_def by (intro emitting)

lemma emitting_log_then [emitting]:
  "(\<And>l. P (DebugLog l lvl m flds)) \<Longrightarrow> emitting P (log_then lg lvl m flds x)"
  unfolding log_then_def by (intro emitting)

section \<open>Ports\<close>

text \<open>
  \<open>parsePort\<close>: the first eight bytes, little endian. The conversion to \<open>int\<close> is to a
  32-bit two's complement number.
\<close>

definition parsePort :: "bytes \<Rightarrow> goerror + int" where
  "parsePort b =
     (if length b < 8 then Inl (errors_New ''port bytes not found'')
      else let unsignedInt = le_uint64 b
           in if unsignedInt > 0x7FFFFFFF then Inl (errors_New ''port conversion error'')
              else Inr (sint (ucast unsignedInt :: 32 word)))"

definition retrieveAddressInfo ::
  "env \<Rightarrow> logger option \<Rightarrow> string \<Rightarrow> ('c, (string \<times> int) outcome) program" where
  "retrieveAddressInfo E lg target = do {
     targetAddress \<leftarrow> ask (GetProperty [target, ''address'']) (\<lambda>h. pw_GetProperty E h [target, ''address'']);
     unless_panic
       (case targetAddress of
          Inl err \<Rightarrow>
            log_then lg LDebug (Fmt ''Failed to get %s address'' [AStr target]) [(''error'', AMsg err)] ([], [])
        | Inr raw \<Rightarrow>
            (case SplitHostPort (go_string raw) of
               Inl err \<Rightarrow>
                 log_then lg LDebug (Fmt ''Failed to parse %s address'' [AStr target]) [(''error'', AMsg err)] ([], [])
             | Inr ipPort \<Rightarrow> ret (Returns ipPort)))
       (\<lambda>ipPort. do {
          targetPort \<leftarrow> ask (GetProperty [target, ''port'']) (\<lambda>h. pw_GetProperty E h [target, ''port'']);
          unless_panic
            (case targetPort of
               Inr raw \<Rightarrow>
                 (case parsePort raw of
                    Inl err \<Rightarrow>
                      log_then lg LDebug (Fmt ''Failed to parse %s port'' [AStr target]) [(''error'', AMsg err)] 0
                  | Inr n \<Rightarrow> ret (Returns n))
             | Inl _ \<Rightarrow>
                 (if snd ipPort \<noteq> []
                  then case Atoi (snd ipPort) of
                         (n, None) \<Rightarrow> ret (Returns n)
                       | (n, Some err) \<Rightarrow>
                           log_then lg LDebug (Fmt ''Failed to get %s port'' [AStr target]) [(''error'', AMsg err)] n
                  else ret (Returns 0)))
            (\<lambda>port. ret (Returns (fst ipPort, port))) }) }"

definition parseServerName :: "logger option \<Rightarrow> string \<Rightarrow> ('c, string outcome) program" where
  "parseServerName lg authority =
     (case SplitHostPort authority of
        Inl err \<Rightarrow>
          log_then lg LDebug (Fmt ''Failed to parse server name from authority'' []) [(''error'', AMsg err)] authority
      | Inr hostPort \<Rightarrow> ret (Returns (fst hostPort)))"

section \<open>Properties\<close>

lemma parsePort_cases:
  "parsePort b =
     (if length b < 8 then Inl (errors_New ''port bytes not found'')
      else if horner_sum unat 256 (take 8 b) > 0x7FFFFFFF then Inl (errors_New ''port conversion error'')
      else Inr (int (horner_sum unat 256 (take 8 b))))"
proof -
  let ?n = "horner_sum unat 256 (take 8 b) :: nat"
  have gt: "le_uint64 b > 0x7FFFFFFF \<longleftrightarrow> ?n > 0x7FFFFFFF"
    by (simp add: word_less_nat_alt unat_le_uint64)
  have "sint (ucast (le_uint64 b) :: 32 word) = int ?n" if "\<not> ?n > 0x7FFFFFFF"
  proof -
    from that have n: "?n < 2 ^ 31" by simp
    have "(ucast (le_uint64 b) :: 32 word) = word_of_nat ?n"
      by (metis of_nat_unat unat_le_uint64)
    then have "sint (ucast (le_uint64 b) :: 32 word) = signed_take_bit 31 (int ?n)"
      by (simp add: signed_of_nat)
    also have "\<dots> = int ?n" using n by (intro signed_take_bit_int_eq_self) auto
    finally show ?thesis .
  qed
  with gt show ?thesis by (simp add: parsePort_def Let_def)
qed

lemma parsePort_le_bytes:
  assumes "n < 2 ^ 64"
  shows "parsePort (le_bytes n) =
    (if n \<le> 0x7FFFFFFF then Inr (int n) else Inl (errors_New ''port conversion error''))"
proof -
  have "length (le_bytes n) = 8" by (simp add: le_bytes_def)
  moreover have "horner_sum unat 256 (take 8 (le_bytes n)) = n"
    using unat_le_uint64_le_bytes [OF assms] by (simp only: unat_le_uint64)
  ultimately show ?thesis by (simp add: parsePort_cases)
qed

lemma parsePort_range: "parsePort b = Inr n \<Longrightarrow> 0 \<le> n \<and> n < 2 ^ 31"
  by (auto simp: parsePort_cases split: if_splits)

text \<open>What the two answers of the proxy determine, without the log calls.\<close>

definition address_info :: "goerror + bytes \<Rightarrow> goerror + bytes \<Rightarrow> string \<times> int" where
  "address_info addr port =
     (let hp = (case addr of
                  Inl _ \<Rightarrow> ([], [])
                | Inr raw \<Rightarrow> (case SplitHostPort (go_string raw) of Inl _ \<Rightarrow> ([], []) | Inr x \<Rightarrow> x))
      in (fst hp,
          case port of
            Inr raw \<Rightarrow> (case parsePort raw of Inl _ \<Rightarrow> 0 | Inr n \<Rightarrow> n)
          | Inl _ \<Rightarrow> if snd hp = [] then 0 else fst (Atoi (snd hp))))"

text \<open>
  With a logger nothing panics, nothing but property reads and debug messages is emitted,
  and the context and the shared memory are untouched.
\<close>

fun address_event :: "event \<Rightarrow> bool" where
  "address_event (DebugLog l lvl m flds) = (lvl = LDebug)"
| "address_event (GetProperty p) = True"
| "address_event _ = False"

lemma address_event_views: "address_event e \<Longrightarrow> \<not> engine_event e \<and> \<not> response_event e"
  by (cases e) auto

lemma retrieveAddressInfo_vcg:
  assumes "lg \<noteq> None"
    and "\<And>x w'. emits address_event w w' \<Longrightarrow> arrays w' = arrays w \<Longrightarrow> counters w' = counters w \<Longrightarrow>
      engine_calls w' = engine_calls w \<Longrightarrow> responses w' = responses w \<Longrightarrow> Q (Returns x) (c, w')"
  shows "wp (retrieveAddressInfo E lg target) Q (c, w)"
  unfolding retrieveAddressInfo_def
  using assms(1) by (intro vcg assms(2)) simp_all

text \<open>
  The result is determined by the two properties (here: constant while it runs). The port
  property wins over the port in the address.
\<close>

lemma retrieveAddressInfo_result:
  assumes "\<And>h p. pw_GetProperty E h p = P p"
  shows "wp (retrieveAddressInfo E (Some l) target)
     (\<lambda>res s'. res = Returns (address_info (P [target, ''address'']) (P [target, ''port'']))) s"
  unfolding retrieveAddressInfo_def
  by (auto simp: wp assms address_info_def Let_def
      split: sum.splits outcome.splits option.splits prod.splits)

lemma retrieveAddressInfo_vcg_const:
  assumes "\<And>h p. pw_GetProperty E h p = P p" and "lg \<noteq> None"
    and "\<And>w'. arrays w' = arrays w \<Longrightarrow> counters w' = counters w \<Longrightarrow>
      engine_calls w' = engine_calls w \<Longrightarrow> responses w' = responses w \<Longrightarrow>
      Q (Returns (address_info (P [target, ''address'']) (P [target, ''port'']))) (c, w')"
  shows "wp (retrieveAddressInfo E lg target) Q (c, w)"
proof -
  obtain l where l: "lg = Some l" using assms(2) by auto
  have "wp (retrieveAddressInfo E lg target)
      (\<lambda>r s'. fst s' = c \<and> arrays (snd s') = arrays w \<and> counters (snd s') = counters w \<and>
        engine_calls (snd s') = engine_calls w \<and> responses (snd s') = responses w) (c, w)"
    using assms(2) by (intro retrieveAddressInfo_vcg) simp_all
  with retrieveAddressInfo_result [OF assms(1), of l target "(c, w)"]
  have "wp (retrieveAddressInfo E lg target)
      (\<lambda>r s'. r = Returns (address_info (P [target, ''address'']) (P [target, ''port''])) \<and>
        fst s' = c \<and> arrays (snd s') = arrays w \<and> counters (snd s') = counters w \<and>
        engine_calls (snd s') = engine_calls w \<and> responses (snd s') = responses w) (c, w)"
    unfolding l wp_conj by simp
  then show ?thesis by (rule wp_mono) (use assms(3) in auto)
qed

lemma address_info_port_range:
  "snd (address_info a p) \<in> {- (2 ^ 31) .. 2 ^ 31 - 1}"
  using Atoi_range parsePort_range
  by (auto simp: address_info_def Let_def split: sum.splits) (fastforce dest: parsePort_range)+

definition server_name :: "string \<Rightarrow> string" where
  "server_name authority =
     (case SplitHostPort authority of Inl _ \<Rightarrow> authority | Inr hp \<Rightarrow> fst hp)"

lemma parseServerName_vcg:
  assumes "lg \<noteq> None"
    and "\<And>w'. emits address_event w w' \<Longrightarrow> arrays w' = arrays w \<Longrightarrow> counters w' = counters w \<Longrightarrow>
      engine_calls w' = engine_calls w \<Longrightarrow> responses w' = responses w \<Longrightarrow>
      Q (Returns (server_name authority)) (c, w')"
  shows "wp (parseServerName lg authority) Q (c, w)"
  using assms unfolding parseServerName_def server_name_def
  by (auto simp: wp log_then_def split: sum.splits)

end
