(* ===== verification/Diagnostics.thy ===== *)
theory Diagnostics
  imports Host
begin

text \<open>
  The build-tagged helpers of \<open>wasmplugin/timing.go\<close>, \<open>timing_on.go\<close>,
  \<open>memstats.go\<close> and \<open>memstats_on.go\<close>. The tags are fields of the environment:
  without its tag a helper does nothing.
\<close>

definition zeroTime :: int where
  "zeroTime = 0"

definition currentTime :: "env \<Rightarrow> ('c, int) program" where
  "currentTime E = (if build_timing E then ask TimeNow (rt_now E) else ret zeroTime)"

definition logTime :: "env \<Rightarrow> string \<Rightarrow> int \<Rightarrow> ('c, unit) program" where
  "logTime E m start =
     (if build_timing E then do {
        now \<leftarrow> ask TimeNow (rt_now E);
        tell (Log LDebug (Fmt ''%s took %s'' [AStr m, AInt (now - start)])) }
      else ret ())"

text \<open>
  \<open>defer logTime(name, currentTime())\<close>: the clock is read on entry, the message is logged
  on return, also when the body panics.
\<close>

definition timed :: "env \<Rightarrow> string \<Rightarrow> ('c, 'a) program \<Rightarrow> ('c, 'a) program" where
  "timed E name body = do {
     start \<leftarrow> currentTime E;
     r \<leftarrow> body;
     logTime E name start;
     ret r }"

definition logMemStats :: "env \<Rightarrow> ('c, unit) program" where
  "logMemStats E =
     (if build_memstats E then do {
        ms \<leftarrow> ask ReadMemStats (rt_memstats E);
        tell (Log LDebug (Fmt
          ''Sys: %d, HeapSys: %d, HeapIdle: %d, HeapReleased: %d, TotalAlloc: %d'' ms)) }
      else ret ())"

text \<open>What the helpers emit: nothing, or clock and memory reads and debug messages.\<close>

fun diagnostic_event :: "event \<Rightarrow> bool" where
  "diagnostic_event TimeNow = True"
| "diagnostic_event ReadMemStats = True"
| "diagnostic_event (Log lvl m) = (lvl = LDebug)"
| "diagnostic_event _ = False"

lemma wp_currentTime_off: "\<not> build_timing E \<Longrightarrow> wp (currentTime E) Q = Q zeroTime"
  by (simp add: currentTime_def wp)

lemma wp_logTime_off: "\<not> build_timing E \<Longrightarrow> wp (logTime E m t) Q = Q ()"
  by (simp add: logTime_def wp)

lemma wp_timed_off: "\<not> build_timing E \<Longrightarrow> wp (timed E name body) Q = wp body Q"
  by (simp add: timed_def wp wp_currentTime_off wp_logTime_off)

lemma diagnostic_event_views: "diagnostic_event e \<Longrightarrow> \<not> engine_event e \<and> \<not> response_event e"
  by (cases e) auto

lemma emitting_timed [emitting]:
  assumes "emitting P body" and "\<And>e. diagnostic_event e \<Longrightarrow> P e"
  shows "emitting P (timed E name body)"
  unfolding timed_def currentTime_def logTime_def
  using assms by (intro emitting) auto

lemma emitting_logMemStats [emitting]:
  "(\<And>e. diagnostic_event e \<Longrightarrow> P e) \<Longrightarrow> emitting P (logMemStats E)"
  unfolding logMemStats_def by (intro emitting) auto

text \<open>Two worlds that differ in diagnostics only, and timing as a step between such worlds.\<close>

definition same_views :: "world \<Rightarrow> world \<Rightarrow> bool" where
  "same_views w w' \<longleftrightarrow> emits diagnostic_event w w' \<and> engine_calls w' = engine_calls w \<and>
     responses w' = responses w \<and> arrays w' = arrays w \<and> counters w' = counters w"

lemma same_views_refl [simp]: "same_views w w"
  by (simp add: same_views_def)

lemma vcg_timed [vcg]:
  assumes "\<And>w1. same_views w w1 \<Longrightarrow>
    wp body (\<lambda>r s'. \<forall>w2. same_views (snd s') w2 \<longrightarrow> Q r (fst s', w2)) (c, w1)"
  shows "wp (timed E name body) Q (c, w)"
proof -
  have log: "wp (logTime E name t) (\<lambda>_. Q r) s'"
    if "\<forall>w2. same_views (snd s') w2 \<longrightarrow> Q r (fst s', w2)" for t r s'
    using that by (cases s') (auto simp: logTime_def wp same_views_def)
  have "wp body (\<lambda>r. wp (logTime E name t) (\<lambda>_. Q r)) (c, w1)" if "same_views w w1" for t w1
    by (rule wp_mono [OF assms [OF that]]) (erule log)
  from this [of w] this [of "record_event TimeNow w"] show ?thesis
    by (simp add: timed_def currentTime_def wp same_views_def)
qed

lemma same_viewsD:
  assumes "same_views w w'"
  shows "engine_calls w' = engine_calls w" and "responses w' = responses w" and "arrays w' = arrays w"
    and "counters w' = counters w" and "emits (\<lambda>_. True) w w'"
    and "called_with u w e P \<Longrightarrow> called_with u w' e P"
  using assms by (auto simp: same_views_def intro: emits_mono called_with_emits)

text \<open>For a postcondition that diagnostics do not change, timing can be dropped.\<close>

lemma vcg_timed_stable:
  assumes stable: "\<And>r c' v v'. same_views v v' \<Longrightarrow> Q r (c', v) \<Longrightarrow> Q r (c', v')"
    and body: "\<And>w1. same_views w w1 \<Longrightarrow> wp body Q (c, w1)"
  shows "wp (timed E name body) Q (c, w)"
proof (rule vcg_timed)
  fix w1
  assume "same_views w w1"
  then have "wp body Q (c, w1)" by (rule body)
  then show "wp body (\<lambda>r s'. \<forall>w2. same_views (snd s') w2 \<longrightarrow> Q r (fst s', w2)) (c, w1)"
    by (rule wp_mono) (use stable in \<open>metis prod.collapse\<close>)
qed

end
