(* ===== verification/Http_Context.thy ===== *)
theory Http_Context
  imports Waf_Map Metrics Address Diagnostics
begin

text \<open>
  \<open>httpContext\<close> of \<open>wasmplugin/plugin.go\<close>: the state of one HTTP stream and the
  handlers the proxy calls for it. Each handler is one definition with the guards, the
  order of calls and the early returns of the source; a Go panic is the outcome
  \<open>Panics\<close>. Long handlers are cut into named stages, each the block of lines it names.
\<close>

section \<open>State\<close>

datatype action = ActionContinue | ActionPause

datatype interruptionPhase =
    interruptionPhaseNone
  | interruptionPhaseHttpRequestHeaders
  | interruptionPhaseHttpRequestBody
  | interruptionPhaseHttpResponseHeaders
  | interruptionPhaseHttpResponseBody

definition isInterrupted :: "interruptionPhase \<Rightarrow> bool" where
  "isInterrupted p = (p \<noteq> interruptionPhaseNone)"

fun phase_String :: "interruptionPhase \<Rightarrow> string" where
  "phase_String interruptionPhaseHttpRequestHeaders = ''http_request_headers''"
| "phase_String interruptionPhaseHttpRequestBody = ''http_request_body''"
| "phase_String interruptionPhaseHttpResponseHeaders = ''http_response_headers''"
| "phase_String interruptionPhaseHttpResponseBody = ''http_response_body''"
| "phase_String interruptionPhaseNone = ''no interruption yet''"

text \<open>
  \<open>FailurePolicy\<close> is a string type; the configuration stores whatever text it was given.
\<close>

type_synonym FailurePolicy = string

definition FailurePolicyFail :: FailurePolicy where
  "FailurePolicyFail = ''fail''"

definition FailurePolicyAllow :: FailurePolicy where
  "FailurePolicyAllow = ''allow''"

record httpContext =
  ctx_contextID :: "32 word"
  ctx_perAuthorityWAFs :: wafMap
  ctx_tx :: "tx option"
  ctx_httpProtocol :: string
  ctx_processedRequestBody :: bool
  ctx_processedResponseBody :: bool
  ctx_bodyReadIndex :: int
  ctx_metrics :: metrics_ref
  ctx_interruptedAt :: interruptionPhase
  ctx_logger :: "logger option"
  ctx_metricLabelsKV :: slice
  ctx_failurePolicy :: FailurePolicy

type_synonym 'a handler = "(httpContext, 'a outcome) program"

section \<open>Interruptions and engine failures\<close>

definition replaceResponseBodyWhenInterrupted ::
  "env \<Rightarrow> logger option \<Rightarrow> int \<Rightarrow> action handler" where
  "replaceResponseBodyWhenInterrupted E lg bodySize =
     (if bodySize < 0 then ret (Panics NegativeRepeat)
      else do {
        let body = replicate (nat bodySize) 0;
        err \<leftarrow> ask (ReplaceHttpResponseBody body) (\<lambda>h. pw_ReplaceHttpResponseBody E h body);
        case err of
          Some e \<Rightarrow> log_then lg LError (Fmt ''Failed to replace response body'' []) [(''error'', AMsg e)] ActionContinue
        | None \<Rightarrow> log_then lg LWarn (Fmt ''Response body intervention occurred: body replaced'' []) [] ActionContinue })"

definition defaultInterruptionStatusCode :: int where
  "defaultInterruptionStatusCode = 403"

definition metric_labels :: "(httpContext, string list) program" where
  "metric_labels = do {
     s \<leftarrow> get_ctx ctx_metricLabelsKV;
     get_world (\<lambda>w. read_slice (arrays w) s) }"

definition handleInterruption :: "env \<Rightarrow> interruptionPhase \<Rightarrow> interruption \<Rightarrow> action handler" where
  "handleInterruption E phase intr = do {
     interruptedAt \<leftarrow> get_ctx ctx_interruptedAt;
     if isInterrupted interruptedAt then ret (Panics AlreadyHandled)
     else do {
       m \<leftarrow> get_ctx ctx_metrics;
       labels \<leftarrow> metric_labels;
       unless_panic (CountTXInterruption E m (phase_String phase) (RuleID intr) labels) (\<lambda>_. do {
         lg \<leftarrow> get_ctx ctx_logger;
         unless_panic
           (log_with lg LInfo (Fmt ''Transaction interrupted'' [])
              [(''action'', AStr (Action intr)), (''phase'', AStr (phase_String phase))])
           (\<lambda>_. do {
              set_ctx (\<lambda>c. c\<lparr>ctx_interruptedAt := phase\<rparr>);
              if phase = interruptionPhaseHttpResponseBody
              then do {
                n \<leftarrow> get_ctx ctx_bodyReadIndex;
                replaceResponseBodyWhenInterrupted E lg n }
              else do {
                let statusCode = (if Status intr = 0 then defaultInterruptionStatusCode else Status intr);
                err \<leftarrow> ask (SendHttpResponse (word_of_int statusCode))
                  (\<lambda>h. pw_SendHttpResponse E h (word_of_int statusCode));
                case err of
                  Some e \<Rightarrow> ret (Panics (SendFailed e))
                | None \<Rightarrow> ret (Returns ActionPause) } }) }) } }"

definition http_StatusForbidden :: "32 word" where
  "http_StatusForbidden = 403"

definition handleInternalEngineFailurePolicy :: "env \<Rightarrow> msg \<Rightarrow> action handler" where
  "handleInternalEngineFailurePolicy E errorMsg = do {
     policy \<leftarrow> get_ctx ctx_failurePolicy;
     lg \<leftarrow> get_ctx ctx_logger;
     cid \<leftarrow> get_ctx (\<lambda>c. AInt (uint (ctx_contextID c)));
     if policy \<noteq> FailurePolicyAllow then do {
       (case lg of
          Some l \<Rightarrow> tell (DebugLog l LError errorMsg [])
        | None \<Rightarrow> tell (Log LError (Fmt ''WAF Error (context_id=%d): %s'' [cid, AMsg errorMsg])));
       err \<leftarrow> ask (SendHttpResponse http_StatusForbidden) (\<lambda>h. pw_SendHttpResponse E h http_StatusForbidden);
       (case err of
          None \<Rightarrow> ret ()
        | Some e \<Rightarrow>
            (case lg of
               Some l \<Rightarrow> tell (DebugLog l LError (Fmt ''Failed to send error response'' []) [(''error'', AMsg e)])
             | None \<Rightarrow> tell (Log LError (Fmt ''Failed to send error response: %v'' [AMsg e]))));
       ret (Returns ActionPause) }
     else do {
       (case lg of
          Some l \<Rightarrow> tell (DebugLog l LWarn (msg_append errorMsg '' (allowing traffic due to failure policy)'') [])
        | None \<Rightarrow> tell (Log LWarn
            (Fmt ''WAF Error (context_id=%d, allowing due to failure policy): %s'' [cid, AMsg errorMsg])));
       ret (Returns ActionContinue) } }"

section \<open>Request headers\<close>

text \<open>The \<open>:authority\<close> header, or else the host property.\<close>

definition request_authority :: "env \<Rightarrow> (httpContext, goerror + string) program" where
  "request_authority E = do {
     authority \<leftarrow> ask (GetHttpRequestHeader '':authority'') (\<lambda>h. pw_GetHttpRequestHeader E h '':authority'');
     case authority of
       Inr a \<Rightarrow> ret (Inr a)
     | Inl err \<Rightarrow> do {
         tell (Log LDebug (Fmt ''Failed to get the :authority pseudo-header: %v'' [AMsg err]));
         propHost \<leftarrow> ask (GetProperty [''request'', ''host'']) (\<lambda>h. pw_GetProperty E h [''request'', ''host'']);
         case propHost of
           Inl propHostErr \<Rightarrow> ret (Inl propHostErr)
         | Inr raw \<Rightarrow> ret (Inr (go_string raw)) } }"

text \<open>\<open>append(ctx.metricLabelsKV, \<dots>)\<close>, assigned back to the field.\<close>

definition append_metric_labels :: "env \<Rightarrow> string list \<Rightarrow> (httpContext, unit) program" where
  "append_metric_labels E xs = do {
     s \<leftarrow> get_ctx ctx_metricLabelsKV;
     r \<leftarrow> get_world (\<lambda>w. append_slice (rt_growcap E) [] (arrays w) s xs);
     set_world (\<lambda>w. w\<lparr>arrays := snd r\<rparr>);
     set_ctx (\<lambda>c. c\<lparr>ctx_metricLabelsKV := fst r\<rparr>) }"

text \<open>The block that runs once a WAF is resolved: transaction, logger, host, label.\<close>

definition start_transaction :: "env \<Rightarrow> string \<Rightarrow> waf option \<Rightarrow> bool \<Rightarrow> unit handler" where
  "start_transaction E authority w isDefault =
     (case w of
        None \<Rightarrow> ret (Panics (NilDeref ''waf''))
      | Some waf \<Rightarrow> do {
          t \<leftarrow> ask (NewTransaction waf) (\<lambda>h. cz_NewTransaction E h waf);
          set_ctx (\<lambda>c. c\<lparr>ctx_tx := Some t\<rparr>);
          cid \<leftarrow> get_ctx (\<lambda>c. AInt (uint (ctx_contextID c)));
          let logFields = [(''context_id'', cid)] @ (if isDefault then [] else [(''authority'', AStr authority)]);
          set_ctx (\<lambda>c. c\<lparr>ctx_logger := Some \<lparr>lg_tx = t, lg_fields = logFields\<rparr>\<rparr>);
          tell (AddRequestHeader t ''Host'' authority);
          lg \<leftarrow> get_ctx ctx_logger;
          unless_panic (parseServerName lg authority) (\<lambda>name. do {
            tell (SetServerName t name);
            if isDefault then ret (Returns ())
            else do {
              append_metric_labels E [''authority'', authority];
              ret (Returns ()) } }) })"

text \<open>A header of the request, or else a property; a missing header is logged.\<close>

definition request_method :: "env \<Rightarrow> (goerror + string) handler" where
  "request_method E = do {
     m \<leftarrow> ask (GetHttpRequestHeader '':method'') (\<lambda>h. pw_GetHttpRequestHeader E h '':method'');
     case m of
       Inr x \<Rightarrow> ret (Returns (Inr x))
     | Inl err \<Rightarrow> do {
         lg \<leftarrow> get_ctx ctx_logger;
         unless_panic (log_with lg LError (Fmt ''Failed to get :method'' []) [(''error'', AMsg err)]) (\<lambda>_. do {
           prop \<leftarrow> ask (GetProperty [''request'', ''method'']) (\<lambda>h. pw_GetProperty E h [''request'', ''method'']);
           case prop of
             Inl e \<Rightarrow> ret (Returns (Inl e))
           | Inr raw \<Rightarrow> ret (Returns (Inr (go_string raw))) }) } }"

text \<open>The URI: the authority for CONNECT, else the path.\<close>

definition request_uri :: "env \<Rightarrow> string \<Rightarrow> string \<Rightarrow> (goerror + string) handler" where
  "request_uri E meth authority =
     (if meth = ''CONNECT'' then ret (Returns (Inr authority))
      else do {
        p \<leftarrow> ask (GetHttpRequestHeader '':path'') (\<lambda>h. pw_GetHttpRequestHeader E h '':path'');
        case p of
          Inr x \<Rightarrow> ret (Returns (Inr x))
        | Inl err \<Rightarrow> do {
            lg \<leftarrow> get_ctx ctx_logger;
            unless_panic (log_with lg LError (Fmt ''Failed to get :path'' []) [(''error'', AMsg err)]) (\<lambda>_. do {
              prop \<leftarrow> ask (GetProperty [''request'', ''path'']) (\<lambda>h. pw_GetProperty E h [''request'', ''path'']);
              case prop of
                Inl e \<Rightarrow> ret (Returns (Inl e))
              | Inr raw \<Rightarrow> ret (Returns (Inr (go_string raw))) }) } })"

definition request_protocol :: "env \<Rightarrow> (httpContext, string) program" where
  "request_protocol E = do {
     p \<leftarrow> ask (GetProperty [''request'', ''protocol'']) (\<lambda>h. pw_GetProperty E h [''request'', ''protocol'']);
     case p of
       Inl _ \<Rightarrow> ret ''HTTP/2.0''
     | Inr raw \<Rightarrow> ret (go_string raw) }"

fun add_request_headers :: "tx \<Rightarrow> header list \<Rightarrow> (httpContext, unit) program" where
  "add_request_headers t [] = ret ()"
| "add_request_headers t (h # hs) = do {
     tell (AddRequestHeader t (fst h) (snd h));
     add_request_headers t hs }"

text \<open>The part of the handler that runs with a transaction whose engine is not off.\<close>

definition inspect_request_headers :: "env \<Rightarrow> tx \<Rightarrow> string \<Rightarrow> action handler" where
  "inspect_request_headers E t authority = do {
     lg \<leftarrow> get_ctx ctx_logger;
     unless_panic (retrieveAddressInfo E lg ''source'') (\<lambda>src.
     unless_panic (retrieveAddressInfo E lg ''destination'') (\<lambda>dst. do {
       tell (ProcessConnection t (fst src) (snd src) (fst dst) (snd dst));
       unless_panic (request_method E) (\<lambda>meth.
         case meth of
           Inl e \<Rightarrow> handleInternalEngineFailurePolicy E
             (Fmt ''Failed to get :method header or method property: %v'' [AMsg e])
         | Inr meth \<Rightarrow>
             unless_panic (request_uri E meth authority) (\<lambda>uri.
               case uri of
                 Inl e \<Rightarrow> handleInternalEngineFailurePolicy E
                   (Fmt ''Failed to get :path header or path property: %v'' [AMsg e])
               | Inr uri \<Rightarrow> do {
                   protocol \<leftarrow> request_protocol E;
                   set_ctx (\<lambda>c. c\<lparr>ctx_httpProtocol := protocol\<rparr>);
                   tell (ProcessURI t uri meth protocol);
                   hs \<leftarrow> ask GetHttpRequestHeaders (\<lambda>h. pw_GetHttpRequestHeaders E h);
                   case hs of
                     Inl e \<Rightarrow> handleInternalEngineFailurePolicy E
                       (Fmt ''Failed to get request headers: %v'' [AMsg e])
                   | Inr hs \<Rightarrow> do {
                       add_request_headers t hs;
                       intr \<leftarrow> ask (ProcessRequestHeaders t) (\<lambda>h. tx_ProcessRequestHeaders E h t);
                       case intr of
                         Some i \<Rightarrow> handleInterruption E interruptionPhaseHttpRequestHeaders i
                       | None \<Rightarrow> ret (Returns ActionContinue) } })) })) }"

definition OnHttpRequestHeaders :: "env \<Rightarrow> int \<Rightarrow> bool \<Rightarrow> action handler" where
  "OnHttpRequestHeaders E numHeaders endOfStream = timed E ''OnHttpRequestHeaders'' (do {
     m \<leftarrow> get_ctx ctx_metrics;
     unless_panic (CountTX E m) (\<lambda>_. do {
       authority \<leftarrow> request_authority E;
       case authority of
         Inl e \<Rightarrow> handleInternalEngineFailurePolicy E
           (Fmt ''Failed to get :authority pseudo-header or host property: %v'' [AMsg e])
       | Inr authority \<Rightarrow> do {
           wafs \<leftarrow> get_ctx ctx_perAuthorityWAFs;
           case getWAFOrDefault wafs authority of
             Inl e \<Rightarrow> handleInternalEngineFailurePolicy E
               (Fmt ''Failed to resolve WAF for authority %q: %v'' [AStr authority, AMsg e])
           | Inr (waf, isDefault) \<Rightarrow>
               unless_panic (start_transaction E authority waf isDefault) (\<lambda>_. do {
                 tx \<leftarrow> get_ctx ctx_tx;
                 case tx of
                   None \<Rightarrow> ret (Panics (NilDeref ''tx''))
                 | Some t \<Rightarrow> do {
                     off \<leftarrow> ask (IsRuleEngineOff t) (\<lambda>h. tx_IsRuleEngineOff E h t);
                     if off then ret (Returns ActionContinue)
                     else inspect_request_headers E t authority } }) } }) })"

section \<open>Request body\<close>

text \<open>
  Running the request body rules: the call, an engine error, an interruption (attributed to
  \<open>phase\<close>), or else what follows.
\<close>

definition process_request_body ::
  "env \<Rightarrow> tx \<Rightarrow> string \<Rightarrow> interruptionPhase \<Rightarrow> action handler \<Rightarrow> action handler" where
  "process_request_body E t failure phase continue = do {
     r \<leftarrow> ask (ProcessRequestBody t) (\<lambda>h. tx_ProcessRequestBody E h t);
     case r of
       Inl err \<Rightarrow> handleInternalEngineFailurePolicy E (Fmt failure [AMsg err])
     | Inr (Some i) \<Rightarrow> handleInterruption E phase i
     | Inr None \<Rightarrow> continue }"

text \<open>The end of the handler, after the available data has been written.\<close>

definition finish_request_body :: "env \<Rightarrow> tx \<Rightarrow> bool \<Rightarrow> action handler" where
  "finish_request_body E t endOfStream =
     (if endOfStream then do {
        set_ctx (\<lambda>c. c\<lparr>ctx_processedRequestBody := True, ctx_bodyReadIndex := 0\<rparr>);
        process_request_body E t ''Failed to process request body (end of stream): %v''
          interruptionPhaseHttpRequestBody (ret (Returns ActionContinue)) }
      else ret (Returns ActionPause))"

text \<open>Reading the new data and writing it to the transaction.\<close>

definition write_request_chunk :: "env \<Rightarrow> tx \<Rightarrow> int \<Rightarrow> int \<Rightarrow> bool \<Rightarrow> action handler" where
  "write_request_chunk E t bodySize chunkSize endOfStream = do {
     start \<leftarrow> get_ctx ctx_bodyReadIndex;
     r \<leftarrow> ask (GetHttpRequestBody start chunkSize) (\<lambda>h. pw_GetHttpRequestBody E h start chunkSize);
     case r of
       Inl err \<Rightarrow> handleInternalEngineFailurePolicy E
         (Fmt ''Failed to read request body at index %d (size=%d, chunk=%d): %v''
            [AInt start, AInt bodySize, AInt chunkSize, AMsg err])
     | Inr bodyChunk \<Rightarrow> do {
         let readchunkSize = int (length bodyChunk);
         lg \<leftarrow> get_ctx ctx_logger;
         unless_panic
           (if readchunkSize \<noteq> chunkSize
            then log_with lg LWarn (Fmt ''Request chunk size read is different from the computed one'' [])
                   [(''read_chunk_size'', AInt readchunkSize), (''chunk_size'', AInt chunkSize)]
            else ret (Returns ()))
           (\<lambda>_. do {
              w \<leftarrow> ask (WriteRequestBody t bodyChunk) (\<lambda>h. tx_WriteRequestBody E h t bodyChunk);
              case w of
                Inl err \<Rightarrow> handleInternalEngineFailurePolicy E (Fmt ''Failed to write request body: %v'' [AMsg err])
              | Inr (Some i, _) \<Rightarrow> handleInterruption E interruptionPhaseHttpRequestBody i
              | Inr (None, writtenBytes) \<Rightarrow>
                  if writtenBytes < readchunkSize then do {
                    set_ctx (\<lambda>c. c\<lparr>ctx_processedRequestBody := True\<rparr>);
                    ret (Returns ActionContinue) }
                  else do {
                    set_ctx (\<lambda>c. c\<lparr>ctx_bodyReadIndex := ctx_bodyReadIndex c + readchunkSize\<rparr>);
                    finish_request_body E t endOfStream } }) } }"

definition OnHttpRequestBody :: "env \<Rightarrow> int \<Rightarrow> bool \<Rightarrow> action handler" where
  "OnHttpRequestBody E bodySize endOfStream = timed E ''OnHttpRequestBody'' (do {
     c \<leftarrow> get_ctx (\<lambda>c. c);
     if isInterrupted (ctx_interruptedAt c)
     then log_then (ctx_logger c) LError (Fmt ''Interruption already handled'' [])
            [(''interruption_handled_phase'', AStr (phase_String (ctx_interruptedAt c)))] ActionPause
     else if ctx_processedRequestBody c then ret (Returns ActionContinue)
     else case ctx_tx c of
       None \<Rightarrow> ret (Returns ActionContinue)
     | Some t \<Rightarrow> do {
         off \<leftarrow> ask (IsRuleEngineOff t) (\<lambda>h. tx_IsRuleEngineOff E h t);
         if off then ret (Returns ActionContinue)
         else do {
           accessible \<leftarrow> ask (IsRequestBodyAccessible t) (\<lambda>h. tx_IsRequestBodyAccessible E h t);
           if \<not> accessible
           then unless_panic
                  (log_with (ctx_logger c) LDebug
                     (Fmt ''Skipping request body inspection, SecRequestBodyAccess is off.'' []) [])
                  (\<lambda>_. do {
                     set_ctx (\<lambda>c. c\<lparr>ctx_processedRequestBody := True\<rparr>);
                     process_request_body E t ''Failed to process request body: %v''
                       interruptionPhaseHttpRequestBody (ret (Returns ActionContinue)) })
           else do {
             let chunkSize = bodySize - ctx_bodyReadIndex c;
             if chunkSize > 0 then write_request_chunk E t bodySize chunkSize endOfStream
             else finish_request_body E t endOfStream } } } })"

definition OnHttpRequestTrailers :: "env \<Rightarrow> int \<Rightarrow> action handler" where
  "OnHttpRequestTrailers E numTrailers = timed E ''OnHttpRequestTrailers'' (do {
     lg \<leftarrow> get_ctx ctx_logger;
     unless_panic
       (log_with lg LDebug (Fmt ''Enforced request body processing at OnHttpRequestTrailers'' []) [])
       (\<lambda>_. do {
          n \<leftarrow> get_ctx ctx_bodyReadIndex;
          OnHttpRequestBody E n True }) })"

section \<open>Response headers\<close>

fun add_response_headers :: "tx \<Rightarrow> header list \<Rightarrow> (httpContext, unit) program" where
  "add_response_headers t [] = ret ()"
| "add_response_headers t (h # hs) = do {
     tell (AddResponseHeader t (fst h) (snd h));
     add_response_headers t hs }"

text \<open>The status header, or else the code property.\<close>

definition response_status :: "env \<Rightarrow> (goerror + string) handler" where
  "response_status E = do {
     st \<leftarrow> ask (GetHttpResponseHeader '':status'') (\<lambda>h. pw_GetHttpResponseHeader E h '':status'');
     case st of
       Inr x \<Rightarrow> ret (Returns (Inr x))
     | Inl err \<Rightarrow> do {
         lg \<leftarrow> get_ctx ctx_logger;
         unless_panic (log_with lg LError (Fmt ''Failed to get :status'' []) [(''error'', AMsg err)]) (\<lambda>_. do {
           prop \<leftarrow> ask (GetProperty [''response'', ''code'']) (\<lambda>h. pw_GetProperty E h [''response'', ''code'']);
           case prop of
             Inl e \<Rightarrow> ret (Returns (Inl e))
           | Inr raw \<Rightarrow> ret (Returns (Inr (go_string raw))) }) } }"

text \<open>\<open>code, err := strconv.Atoi(status)\<close>, 0 on an error.\<close>

definition status_code :: "string \<Rightarrow> int" where
  "status_code st = (case Atoi st of (n, None) \<Rightarrow> n | (_, Some _) \<Rightarrow> 0)"

definition inspect_response_headers :: "env \<Rightarrow> tx \<Rightarrow> action handler" where
  "inspect_response_headers E t =
     unless_panic (response_status E) (\<lambda>st.
       case st of
         Inl e \<Rightarrow> handleInternalEngineFailurePolicy E
           (Fmt ''Failed to get :status header or code property: %v'' [AMsg e])
       | Inr st \<Rightarrow> do {
           let code = status_code st;
           hs \<leftarrow> ask GetHttpResponseHeaders (\<lambda>h. pw_GetHttpResponseHeaders E h);
           case hs of
             Inl e \<Rightarrow> handleInternalEngineFailurePolicy E (Fmt ''Failed to get response headers: %v'' [AMsg e])
           | Inr hs \<Rightarrow> do {
               add_response_headers t hs;
               protocol \<leftarrow> get_ctx ctx_httpProtocol;
               intr \<leftarrow> ask (ProcessResponseHeaders t code protocol)
                 (\<lambda>h. tx_ProcessResponseHeaders E h t code protocol);
               case intr of
                 Some i \<Rightarrow> handleInterruption E interruptionPhaseHttpResponseHeaders i
               | None \<Rightarrow> ret (Returns ActionContinue) } })"

definition OnHttpResponseHeaders :: "env \<Rightarrow> int \<Rightarrow> bool \<Rightarrow> action handler" where
  "OnHttpResponseHeaders E numHeaders endOfStream = timed E ''OnHttpResponseHeaders'' (do {
     c \<leftarrow> get_ctx (\<lambda>c. c);
     if isInterrupted (ctx_interruptedAt c)
     then log_then (ctx_logger c) LDebug
            (Fmt ''Interruption already handled, sending downstream the local response'' [])
            [(''interruption_handled_phase'', AStr (phase_String (ctx_interruptedAt c)))] ActionContinue
     else case ctx_tx c of
       None \<Rightarrow> ret (Returns ActionContinue)
     | Some t \<Rightarrow> do {
         off \<leftarrow> ask (IsRuleEngineOff t) (\<lambda>h. tx_IsRuleEngineOff E h t);
         if off then ret (Returns ActionContinue)
         else if \<not> ctx_processedRequestBody c
         then do {
           set_ctx (\<lambda>c. c\<lparr>ctx_processedRequestBody := True\<rparr>);
           process_request_body E t ''Failed to process request body in response headers phase: %v''
             interruptionPhaseHttpResponseHeaders (inspect_response_headers E t) }
         else inspect_response_headers E t } })"

section \<open>Response body\<close>

text \<open>The end of the handler, after the available data has been written.\<close>

definition finish_response_body :: "env \<Rightarrow> tx \<Rightarrow> bool \<Rightarrow> action handler" where
  "finish_response_body E t endOfStream =
     (if endOfStream then do {
        set_ctx (\<lambda>c. c\<lparr>ctx_processedResponseBody := True\<rparr>);
        r \<leftarrow> ask (ProcessResponseBody t) (\<lambda>h. tx_ProcessResponseBody E h t);
        case r of
          Inl err \<Rightarrow> handleInternalEngineFailurePolicy E
            (Fmt ''Failed to process response body (end of stream): %v'' [AMsg err])
        | Inr (Some i) \<Rightarrow> handleInterruption E interruptionPhaseHttpResponseBody i
        | Inr None \<Rightarrow> ret (Returns ActionContinue) }
      else ret (Returns ActionPause))"

definition write_response_chunk :: "env \<Rightarrow> tx \<Rightarrow> int \<Rightarrow> int \<Rightarrow> bool \<Rightarrow> action handler" where
  "write_response_chunk E t bodySize chunkSize endOfStream = do {
     start \<leftarrow> get_ctx ctx_bodyReadIndex;
     r \<leftarrow> ask (GetHttpResponseBody start chunkSize) (\<lambda>h. pw_GetHttpResponseBody E h start chunkSize);
     case r of
       Inl err \<Rightarrow> handleInternalEngineFailurePolicy E
         (Fmt ''Failed to read response body at index %d (size=%d, chunk=%d): %v''
            [AInt start, AInt bodySize, AInt chunkSize, AMsg err])
     | Inr bodyChunk \<Rightarrow> do {
         let readchunkSize = int (length bodyChunk);
         lg \<leftarrow> get_ctx ctx_logger;
         unless_panic
           (if readchunkSize \<noteq> chunkSize
            then log_with lg LWarn (Fmt ''Response chunk size read is different from the computed one'' [])
                   [(''read_chunk_size'', AInt readchunkSize), (''chunk_size'', AInt chunkSize)]
            else ret (Returns ()))
           (\<lambda>_. do {
              w \<leftarrow> ask (WriteResponseBody t bodyChunk) (\<lambda>h. tx_WriteResponseBody E h t bodyChunk);
              case w of
                Inl err \<Rightarrow> handleInternalEngineFailurePolicy E (Fmt ''Failed to write response body: %v'' [AMsg err])
              | Inr (intr, writtenBytes) \<Rightarrow> do {
                  set_ctx (\<lambda>c. c\<lparr>ctx_bodyReadIndex := ctx_bodyReadIndex c + readchunkSize\<rparr>);
                  case intr of
                    Some i \<Rightarrow> handleInterruption E interruptionPhaseHttpResponseBody i
                  | None \<Rightarrow>
                      if writtenBytes < readchunkSize then do {
                        set_ctx (\<lambda>c. c\<lparr>ctx_processedResponseBody := True\<rparr>);
                        ret (Returns ActionContinue) }
                      else finish_response_body E t endOfStream } }) } }"

text \<open>
  Access off or a type of body that is not processed: the rules run on what is known already.
  The two flags are queried once more for the log fields.
\<close>

definition skip_response_body :: "env \<Rightarrow> tx \<Rightarrow> int \<Rightarrow> action handler" where
  "skip_response_body E t bodySize = do {
     lg \<leftarrow> get_ctx ctx_logger;
     unless_panic
       (case lg of
          None \<Rightarrow> ret (Panics (NilDeref ''logger''))
        | Some l \<Rightarrow> do {
            acc \<leftarrow> ask (IsResponseBodyAccessible t) (\<lambda>h. tx_IsResponseBodyAccessible E h t);
            prc \<leftarrow> ask (IsResponseBodyProcessable t) (\<lambda>h. tx_IsResponseBodyProcessable E h t);
            log_with lg LDebug (Fmt ''Skipping response body inspection'' [])
              [(''SecResponseBodyAccess'', AInt (of_bool acc)),
               (''IsResponseBodyProcessable'', AInt (of_bool prc))] })
       (\<lambda>_. do {
          done \<leftarrow> get_ctx ctx_processedResponseBody;
          if \<not> done then do {
            r \<leftarrow> ask (ProcessResponseBody t) (\<lambda>h. tx_ProcessResponseBody E h t);
            case r of
              Inl err \<Rightarrow> handleInternalEngineFailurePolicy E (Fmt ''Failed to process response body: %v'' [AMsg err])
            | Inr intr \<Rightarrow> do {
                set_ctx (\<lambda>c. c\<lparr>ctx_processedResponseBody := True\<rparr>);
                case intr of
                  Some i \<Rightarrow> do {
                    set_ctx (\<lambda>c. c\<lparr>ctx_bodyReadIndex := bodySize\<rparr>);
                    handleInterruption E interruptionPhaseHttpResponseBody i }
                | None \<Rightarrow> ret (Returns ActionContinue) } }
          else ret (Returns ActionContinue) }) }"

text \<open>\<open>!accessible || !processable\<close>: the second flag is only queried if the first holds.\<close>

definition response_body_inspectable :: "env \<Rightarrow> tx \<Rightarrow> (httpContext, bool) program" where
  "response_body_inspectable E t = do {
     accessible \<leftarrow> ask (IsResponseBodyAccessible t) (\<lambda>h. tx_IsResponseBodyAccessible E h t);
     if \<not> accessible then ret False
     else ask (IsResponseBodyProcessable t) (\<lambda>h. tx_IsResponseBodyProcessable E h t) }"

definition OnHttpResponseBody :: "env \<Rightarrow> int \<Rightarrow> bool \<Rightarrow> action handler" where
  "OnHttpResponseBody E bodySize endOfStream = timed E ''OnHttpResponseBody'' (do {
     c \<leftarrow> get_ctx (\<lambda>c. c);
     if isInterrupted (ctx_interruptedAt c)
     then unless_panic
            (log_with (ctx_logger c) LDebug
               (Fmt ''Response body interruption already handled, keeping replacing the body'' [])
               [(''interruption_handled_phase'', AStr (phase_String (ctx_interruptedAt c)))])
            (\<lambda>_. replaceResponseBodyWhenInterrupted E (ctx_logger c) bodySize)
     else if ctx_processedResponseBody c then ret (Returns ActionContinue)
     else case ctx_tx c of
       None \<Rightarrow> ret (Returns ActionContinue)
     | Some t \<Rightarrow> do {
         off \<leftarrow> ask (IsRuleEngineOff t) (\<lambda>h. tx_IsRuleEngineOff E h t);
         if off then ret (Returns ActionContinue)
         else do {
           inspectable \<leftarrow> response_body_inspectable E t;
           if \<not> inspectable then skip_response_body E t bodySize
           else do {
             let chunkSize = bodySize - ctx_bodyReadIndex c;
             if chunkSize > 0 then write_response_chunk E t bodySize chunkSize endOfStream
             else finish_response_body E t endOfStream } } } })"

definition OnHttpResponseTrailers :: "env \<Rightarrow> int \<Rightarrow> action handler" where
  "OnHttpResponseTrailers E numTrailers = timed E ''OnHttpResponseTrailers'' (do {
     lg \<leftarrow> get_ctx ctx_logger;
     unless_panic
       (log_with lg LDebug (Fmt ''Enforced response body processing at OnHttpResponseTrailers'' []) [])
       (\<lambda>_. do {
          n \<leftarrow> get_ctx ctx_bodyReadIndex;
          OnHttpResponseBody E n True }) })"

section \<open>End of the stream\<close>

definition OnHttpStreamDone :: "env \<Rightarrow> unit handler" where
  "OnHttpStreamDone E = timed E ''OnHttpStreamDone'' (do {
     c \<leftarrow> get_ctx (\<lambda>c. c);
     case ctx_tx c of
       None \<Rightarrow> ret (Returns ())
     | Some t \<Rightarrow> do {
         off \<leftarrow> ask (IsRuleEngineOff t) (\<lambda>h. tx_IsRuleEngineOff E h t);
         unless_panic
           (if \<not> off \<and> \<not> isInterrupted (ctx_interruptedAt c) \<and> \<not> ctx_processedResponseBody c
            then unless_panic
              (log_with (ctx_logger c) LInfo
                 (Fmt ''Running ProcessResponseBody in OnHttpStreamDone, triggered actions will not be enforced. Further logs are for detection only purposes'' []) [])
              (\<lambda>_. do {
                 set_ctx (\<lambda>c. c\<lparr>ctx_processedResponseBody := True\<rparr>);
                 r \<leftarrow> ask (ProcessResponseBody t) (\<lambda>h. tx_ProcessResponseBody E h t);
                 case r of
                   Inl err \<Rightarrow> log_with (ctx_logger c) LError (Fmt ''Failed to process response body'' []) [(''error'', AMsg err)]
                 | Inr _ \<Rightarrow> ret (Returns ()) })
            else ret (Returns ()))
           (\<lambda>_. do {
              tell (ProcessLogging t);
              err \<leftarrow> ask (CloseTx t) (\<lambda>h. tx_Close E h t);
              unless_panic
                (case err of
                   Some e \<Rightarrow> log_with (ctx_logger c) LError (Fmt ''Failed to close transaction'' []) [(''error'', AMsg e)]
                 | None \<Rightarrow> ret (Returns ()))
                (\<lambda>_. unless_panic (log_with (ctx_logger c) LInfo (Fmt ''Finished'' []) []) (\<lambda>_. do {
                   logMemStats E;
                   ret (Returns ()) })) }) } })"

end
