(* ===== verification/Http_Contract.thy ===== *)
theory Http_Contract
  imports Http_Context
begin

text \<open>
  What every handler of a stream keeps and promises. \<open>ctx_ok\<close> is the well-formedness of a
  stream's state in a world; \<open>stream_step\<close> relates the states before and after one
  handler: flags only rise, an interruption is final, the request body rules run at most once,
  shared memory only grows, and the only panic is a failed \<open>SendHttpResponse\<close>. The
  locale \<open>stream_handler\<close> is the contract; it is interpreted on every handler.
\<close>

section \<open>Well-formed streams\<close>

definition ctx_ok :: "httpContext \<Rightarrow> world \<Rightarrow> bool" where
  "ctx_ok c w \<longleftrightarrow>
     (ctx_tx c \<noteq> None \<longrightarrow> ctx_logger c \<noteq> None) \<and>
     (isInterrupted (ctx_interruptedAt c) \<longrightarrow> ctx_tx c \<noteq> None) \<and>
     0 \<le> ctx_bodyReadIndex c \<and>
     (\<exists>r. ctx_metrics c = Some r \<and> r < length (counters w)) \<and>
     wf_slice (arrays w) (ctx_metricLabelsKV c) \<and> even (sl_len (ctx_metricLabelsKV c)) \<and>
     no_nil_waf (ctx_perAuthorityWAFs c)"

text \<open>Shared memory grows and keeps every view well formed.\<close>

definition heap_le :: "world \<Rightarrow> world \<Rightarrow> bool" where
  "heap_le w w' \<longleftrightarrow>
     length (counters w) \<le> length (counters w') \<and>
     (\<forall>t. wf_slice (arrays w) t \<longrightarrow> wf_slice (arrays w') t)"

lemma heap_le_refl [simp]: "heap_le w w"
  by (simp add: heap_le_def)

lemma heap_le_trans [trans]: "heap_le u v \<Longrightarrow> heap_le v w \<Longrightarrow> heap_le u w"
  by (auto simp: heap_le_def)

lemma heap_le_same:
  "arrays w' = arrays w \<Longrightarrow> length (counters w') = length (counters w) \<Longrightarrow> heap_le w w'"
  by (simp add: heap_le_def)

lemma ctx_ok_record [simp]: "ctx_ok c (record_event e w) = ctx_ok c w"
  by (simp add: ctx_ok_def)

lemma heap_le_record [simp]: "heap_le w (record_event e v) = heap_le w v"
  by (simp add: heap_le_def)

lemma ctx_ok_heap_le: "ctx_ok c w \<Longrightarrow> heap_le w w' \<Longrightarrow> ctx_ok c w'"
  by (auto simp: ctx_ok_def heap_le_def)

section \<open>Rules for the shared operations\<close>

text \<open>The status of the response an interruption is answered with.\<close>

definition interruption_status :: "interruption \<Rightarrow> 32 word" where
  "interruption_status i = word_of_int (if Status i = 0 then 403 else Status i)"

text \<open>The proxy has refused a local response with error \<open>e\<close> at some point.\<close>

definition send_fails :: "env \<Rightarrow> goerror \<Rightarrow> bool" where
  "send_fails E e \<longleftrightarrow> (\<exists>h code. pw_SendHttpResponse E h code = Some e)"

lemma send_failsI: "pw_SendHttpResponse E h code = Some e \<Longrightarrow> send_fails E e"
  by (auto simp: send_fails_def)

lemma incrementCounter_vcg:
  assumes "m \<noteq> None"
    and "\<And>w'. engine_calls w' = engine_calls w \<Longrightarrow> responses w' = responses w \<Longrightarrow>
      arrays w' = arrays w \<Longrightarrow> length (counters w') = length (counters w) \<Longrightarrow> Q (Returns ()) (c, w')"
  shows "wp (incrementCounter E m fqn) Q (c, w)"
proof -
  obtain r where m: "m = Some r" using assms(1) by auto
  show ?thesis
    unfolding incrementCounter_def m option.case by (intro vcg assms(2)) auto
qed

lemma interruption_fqn_no_panic:
  "wf_slice hp s \<Longrightarrow> even (sl_len s) \<Longrightarrow> interruption_fqn ph n (read_slice hp s) \<noteq> Panics p"
  using interruption_fqn_even [of "read_slice hp s" ph n] by (auto simp: length_read_slice)

text \<open>
  \<open>handleInterruption\<close> on a well-formed stream that is not interrupted: the phase is
  recorded, the engine is not called, and exactly one response is sent: the status of the
  interruption (403 if it has none), or in the last phase as many null bytes as were read.
\<close>

lemma handleInterruption_vcg:
  assumes "ctx_ok c w" and "ctx_tx c \<noteq> None" and "ctx_interruptedAt c = interruptionPhaseNone"
    and Q: "\<And>res w'. engine_calls w' = engine_calls w \<Longrightarrow>
      (if ph = interruptionPhaseHttpResponseBody
       then res = Returns ActionContinue \<and>
         responses w' = responses w @ [ReplaceHttpResponseBody (replicate (nat (ctx_bodyReadIndex c)) 0)]
       else (res = Returns ActionPause \<or> (\<exists>e. res = Panics (SendFailed e) \<and> send_fails E e)) \<and>
         responses w' = responses w @ [SendHttpResponse (interruption_status i)]) \<Longrightarrow>
      arrays w' = arrays w \<Longrightarrow> length (counters w') = length (counters w) \<Longrightarrow>
      Q res (c\<lparr>ctx_interruptedAt := ph\<rparr>, w')"
  shows "wp (handleInterruption E ph i) Q (c, w)"
proof -
  obtain r where r: "ctx_metrics c = Some r" using assms(1) by (auto simp: ctx_ok_def)
  obtain l where l: "ctx_logger c = Some l" using assms(1,2) by (auto simp: ctx_ok_def)
  have wf: "wf_slice (arrays w) (ctx_metricLabelsKV c)" "even (sl_len (ctx_metricLabelsKV c))"
    and idx: "0 \<le> ctx_bodyReadIndex c"
    using assms(1) by (auto simp: ctx_ok_def)
  show ?thesis
    unfolding handleInterruption_def metric_labels_def replaceResponseBodyWhenInterrupted_def
      CountTXInterruption_def
    using idx
    by (intro vcg incrementCounter_vcg Q)
      (simp_all add: r l assms(3) interruption_fqn_no_panic [OF wf] isInterrupted_def
        interruption_status_def defaultInterruptionStatusCode_def send_failsI)
qed

text \<open>
  \<open>handleInternalEngineFailurePolicy\<close>: under the policy \<open>allow\<close> the traffic goes on,
  under any other text the stream is paused and a 403 is sent; nothing else changes.
\<close>

lemma failure_policy_vcg:
  assumes "\<And>w'. engine_calls w' = engine_calls w \<Longrightarrow>
     responses w' = responses w @
       (if ctx_failurePolicy c = FailurePolicyAllow then [] else [SendHttpResponse 403]) \<Longrightarrow>
     arrays w' = arrays w \<Longrightarrow> counters w' = counters w \<Longrightarrow>
     Q (Returns (if ctx_failurePolicy c = FailurePolicyAllow then ActionContinue else ActionPause)) (c, w')"
  shows "wp (handleInternalEngineFailurePolicy E m) Q (c, w)"
  unfolding handleInternalEngineFailurePolicy_def
  using assms by (intro vcg) (simp_all add: http_StatusForbidden_def)

lemma append_metric_labels_vcg:
  assumes "wf_slice (arrays w) (ctx_metricLabelsKV c)"
    and "\<And>s' hp'. append_slice (rt_growcap E) [] (arrays w) (ctx_metricLabelsKV c) xs = (s', hp') \<Longrightarrow>
      sl_len s' = sl_len (ctx_metricLabelsKV c) + length xs \<Longrightarrow> wf_slice hp' s' \<Longrightarrow>
      heap_le w (w\<lparr>arrays := hp'\<rparr>) \<Longrightarrow>
      Q () (c\<lparr>ctx_metricLabelsKV := s'\<rparr>, w\<lparr>arrays := hp'\<rparr>)"
  shows "wp (append_metric_labels E xs) Q (c, w)"
proof -
  obtain s' hp' where a:
    "append_slice (rt_growcap E) [] (arrays w) (ctx_metricLabelsKV c) xs = (s', hp')"
    by (cases "append_slice (rt_growcap E) [] (arrays w) (ctx_metricLabelsKV c) xs")
  have "heap_le w (w\<lparr>arrays := hp'\<rparr>)"
    using store.app_ok_other [OF assms(1) a] by (auto simp: heap_le_def)
  with assms(2) [OF a append_slice_len [OF a] store.app_ok [OF assms(1) a]] show ?thesis
    by (simp add: append_metric_labels_def wp a)
qed

text \<open>Reads of a header or of a property it falls back to.\<close>

lemma request_method_vcg:
  assumes "ctx_logger c \<noteq> None"
    and "\<And>x w'. engine_calls w' = engine_calls w \<Longrightarrow> responses w' = responses w \<Longrightarrow>
      arrays w' = arrays w \<Longrightarrow> counters w' = counters w \<Longrightarrow> Q (Returns x) (c, w')"
  shows "wp (request_method E) Q (c, w)"
  unfolding request_method_def using assms(1) by (intro vcg assms(2)) simp_all

lemma request_uri_vcg:
  assumes "ctx_logger c \<noteq> None"
    and "\<And>x w'. engine_calls w' = engine_calls w \<Longrightarrow> responses w' = responses w \<Longrightarrow>
      arrays w' = arrays w \<Longrightarrow> counters w' = counters w \<Longrightarrow> Q (Returns x) (c, w')"
  shows "wp (request_uri E m a) Q (c, w)"
  unfolding request_uri_def using assms(1) by (intro vcg assms(2)) simp_all

lemma response_status_vcg:
  assumes "ctx_logger c \<noteq> None"
    and "\<And>x w'. engine_calls w' = engine_calls w \<Longrightarrow> responses w' = responses w \<Longrightarrow>
      arrays w' = arrays w \<Longrightarrow> counters w' = counters w \<Longrightarrow> Q (Returns x) (c, w')"
  shows "wp (response_status E) Q (c, w)"
  unfolding response_status_def using assms(1) by (intro vcg assms(2)) simp_all

lemma request_protocol_vcg:
  assumes "\<And>x w'. engine_calls w' = engine_calls w \<Longrightarrow> responses w' = responses w \<Longrightarrow>
      arrays w' = arrays w \<Longrightarrow> counters w' = counters w \<Longrightarrow> Q x (c, w')"
  shows "wp (request_protocol E) Q (c, w)"
  unfolding request_protocol_def by (intro vcg assms) simp_all

lemma request_authority_vcg:
  assumes "\<And>x w'. engine_calls w' = engine_calls w \<Longrightarrow> responses w' = responses w \<Longrightarrow>
      arrays w' = arrays w \<Longrightarrow> counters w' = counters w \<Longrightarrow> Q x (c, w')"
  shows "wp (request_authority E) Q (c, w)"
  unfolding request_authority_def by (intro vcg assms) simp_all

lemma add_request_headers_vcg:
  assumes "\<And>w'. engine_calls w' = engine_calls w @ map (\<lambda>h. AddRequestHeader t (fst h) (snd h)) hs \<Longrightarrow>
      responses w' = responses w \<Longrightarrow> arrays w' = arrays w \<Longrightarrow> counters w' = counters w \<Longrightarrow> Q () (c, w')"
  shows "wp (add_request_headers t hs) Q (c, w)"
  using assms by (induction hs arbitrary: w) (auto intro!: vcg)

lemma add_response_headers_vcg:
  assumes "\<And>w'. engine_calls w' = engine_calls w @ map (\<lambda>h. AddResponseHeader t (fst h) (snd h)) hs \<Longrightarrow>
      responses w' = responses w \<Longrightarrow> arrays w' = arrays w \<Longrightarrow> counters w' = counters w \<Longrightarrow> Q () (c, w')"
  shows "wp (add_response_headers t hs) Q (c, w)"
  using assms by (induction hs arbitrary: w) (auto intro!: vcg)

section \<open>The contract of a handler\<close>

text \<open>How often the plugin has run the request body rules.\<close>

fun is_request_body_run :: "event \<Rightarrow> bool" where
  "is_request_body_run (ProcessRequestBody _) = True"
| "is_request_body_run _ = False"

definition body_runs :: "event list \<Rightarrow> nat" where
  "body_runs es = length (filter is_request_body_run es)"

lemma body_runs_simps [simp]:
  "body_runs [] = 0"
  "body_runs (e # es) = of_bool (is_request_body_run e) + body_runs es"
  "body_runs (es @ fs) = body_runs es + body_runs fs"
  by (simp_all add: body_runs_def)

lemma body_runs_headers [simp]:
  "body_runs (map (\<lambda>h. AddRequestHeader t (fst h) (snd h)) hs) = 0"
  "body_runs (map (\<lambda>h. AddResponseHeader t (fst h) (snd h)) hs) = 0"
  by (induction hs) auto

definition only_send_failures :: "env \<Rightarrow> 'a outcome \<Rightarrow> bool" where
  "only_send_failures E r =
     (case r of Returns _ \<Rightarrow> True | Panics p \<Rightarrow> (\<exists>e. p = SendFailed e \<and> send_fails E e))"

definition stream_step :: "httpContext \<Rightarrow> world \<Rightarrow> httpContext \<Rightarrow> world \<Rightarrow> bool" where
  "stream_step c w c' w' \<longleftrightarrow>
     ctx_ok c' w' \<and> heap_le w w' \<and>
     (isInterrupted (ctx_interruptedAt c) \<longrightarrow> ctx_interruptedAt c' = ctx_interruptedAt c) \<and>
     (ctx_processedRequestBody c \<longrightarrow> ctx_processedRequestBody c') \<and>
     (ctx_processedResponseBody c \<longrightarrow> ctx_processedResponseBody c') \<and>
     body_runs (engine_calls w') + of_bool (ctx_processedRequestBody c) \<le>
       body_runs (engine_calls w) + of_bool (ctx_processedRequestBody c') \<and>
     ctx_contextID c' = ctx_contextID c \<and> ctx_failurePolicy c' = ctx_failurePolicy c \<and>
     ctx_perAuthorityWAFs c' = ctx_perAuthorityWAFs c \<and> ctx_metrics c' = ctx_metrics c"

definition handler_ok :: "env \<Rightarrow> 'a handler \<Rightarrow> httpContext \<Rightarrow> world \<Rightarrow> bool" where
  "handler_ok E h c w \<longleftrightarrow>
     wp h (\<lambda>r s'. stream_step c w (fst s') (snd s') \<and> only_send_failures E r) (c, w)"

lemmas contract_simps =
  stream_step_def ctx_ok_def heap_le_def isInterrupted_def

lemma only_send_failures_simps [simp]:
  "only_send_failures E (Returns x)"
  "only_send_failures E (Panics (SendFailed e)) = send_fails E e"
  by (simp_all add: only_send_failures_def)

lemma stream_step_ok: "stream_step c w c' w' \<Longrightarrow> ctx_ok c' w'"
  by (simp add: stream_step_def)

lemma stream_step_refl: "ctx_ok c w \<Longrightarrow> stream_step c w c w"
  by (simp add: stream_step_def)

lemma stream_step_trans [trans]:
  "stream_step c w c1 w1 \<Longrightarrow> stream_step c1 w1 c2 w2 \<Longrightarrow> stream_step c w c2 w2"
  by (auto simp: stream_step_def intro: heap_le_trans)

lemma stream_step_same_views:
  assumes "same_views w w'" and "ctx_ok c w"
  shows "stream_step c w c w'"
proof -
  have "heap_le w w'" using assms(1) by (intro heap_le_same) (simp_all add: same_views_def)
  with ctx_ok_heap_le [OF assms(2) this] show ?thesis
    using assms(1) by (simp add: stream_step_def same_views_def)
qed

lemma stream_step_quiet:
  assumes "ctx_ok c w" and "engine_calls w' = engine_calls w" and "arrays w' = arrays w"
    and "length (counters w') = length (counters w)"
  shows "stream_step c w c w'"
  using ctx_ok_heap_le [OF assms(1) heap_le_same [OF assms(3,4)]] heap_le_same [OF assms(3,4)] assms(2)
  by (simp add: stream_step_def)

lemma stream_step_record [simp]:
  assumes "\<not> engine_event e"
  shows "stream_step c w c' (record_event e v) = stream_step c w c' v"
    and "stream_step c (record_event e w) c' v = stream_step c w c' v"
  using assms by (simp_all add: stream_step_def) (simp_all add: heap_le_def)

text \<open>Starting a transaction with a WAF that is not nil.\<close>

definition ctx_started :: "httpContext \<Rightarrow> tx \<Rightarrow> httpContext \<Rightarrow> bool" where
  "ctx_started c t c' \<longleftrightarrow>
     (\<exists>l s'. c' = c\<lparr>ctx_tx := Some t, ctx_logger := Some l, ctx_metricLabelsKV := s'\<rparr>)"

lemma ctx_started_intros [simp]:
  "ctx_started c t (c\<lparr>ctx_tx := Some t, ctx_logger := Some l\<rparr>)"
  "ctx_started c t (c\<lparr>ctx_tx := Some t, ctx_logger := Some l, ctx_metricLabelsKV := s'\<rparr>)"
proof -
  have "c\<lparr>ctx_tx := Some t, ctx_logger := Some l\<rparr> =
      c\<lparr>ctx_tx := Some t, ctx_logger := Some l, ctx_metricLabelsKV := ctx_metricLabelsKV c\<rparr>" by simp
  then show "ctx_started c t (c\<lparr>ctx_tx := Some t, ctx_logger := Some l\<rparr>)"
    unfolding ctx_started_def by blast
  show "ctx_started c t (c\<lparr>ctx_tx := Some t, ctx_logger := Some l, ctx_metricLabelsKV := s'\<rparr>)"
    unfolding ctx_started_def by blast
qed

lemma start_transaction_vcg:
  assumes "ctx_ok c w" and "waf \<noteq> None" and "ctx_interruptedAt c = interruptionPhaseNone"
    and Q: "\<And>t c' v. ctx_started c t c' \<Longrightarrow> stream_step c w c' v \<Longrightarrow> ctx_tx c' = Some t \<Longrightarrow>
      ctx_interruptedAt c' = interruptionPhaseNone \<Longrightarrow> (\<exists>h. t = cz_NewTransaction E h (the waf)) \<Longrightarrow>
      engine_calls v = engine_calls w @
        [NewTransaction (the waf), AddRequestHeader t ''Host'' authority,
         SetServerName t (server_name authority)] \<Longrightarrow>
      responses v = responses w \<Longrightarrow> Q (Returns ()) (c', v)"
  shows "wp (start_transaction E authority waf isDefault) Q (c, w)"
proof -
  obtain a where waf: "waf = Some a" using assms(2) by auto
  have ok: "wf_slice (arrays w) (ctx_metricLabelsKV c)" "even (sl_len (ctx_metricLabelsKV c))"
    "0 \<le> ctx_bodyReadIndex c" "no_nil_waf (ctx_perAuthorityWAFs c)"
    "\<exists>r. ctx_metrics c = Some r \<and> r < length (counters w)"
    using assms(1) by (auto simp: ctx_ok_def)
  show ?thesis
    unfolding start_transaction_def waf option.case
    by (intro vcg parseServerName_vcg append_metric_labels_vcg Q)
      (use ok assms(3) in \<open>auto simp: waf contract_simps\<close>)
qed

text \<open>Timing does not matter for the contract.\<close>

lemma handler_ok_timed:
  assumes "ctx_ok c w" and "\<And>w1. ctx_ok c w1 \<Longrightarrow> handler_ok E body c w1"
  shows "handler_ok E (timed E name body) c w"
  unfolding handler_ok_def
proof (rule vcg_timed)
  fix w1
  assume w1: "same_views w w1"
  have step1: "stream_step c w c w1" by (rule stream_step_same_views [OF w1 assms(1)])
  then have "ctx_ok c w1" by (simp add: stream_step_def)
  from assms(2) [OF this, unfolded handler_ok_def]
  show "wp body (\<lambda>r s'. \<forall>w2. same_views (snd s') w2 \<longrightarrow>
      stream_step c w (fst (fst s', w2)) (snd (fst s', w2)) \<and> only_send_failures E r) (c, w1)"
  proof (rule wp_mono)
    fix r s'
    assume *: "stream_step c w1 (fst s') (snd s') \<and> only_send_failures E r"
    have "stream_step c w (fst s') w2" if "same_views (snd s') w2" for w2
    proof -
      have "stream_step (fst s') (snd s') (fst s') w2"
        using that * by (intro stream_step_same_views) (simp_all add: stream_step_def)
      with step1 * show ?thesis by (blast intro: stream_step_trans)
    qed
    with * show "\<forall>w2. same_views (snd s') w2 \<longrightarrow>
        stream_step c w (fst (fst s', w2)) (snd (fst s', w2)) \<and> only_send_failures E r"
      by simp
  qed
qed

lemmas shared_rules = failure_policy_vcg handleInterruption_vcg

locale stream_handler =
  fixes E :: env and h :: "'a handler" and pre :: "httpContext \<Rightarrow> bool"
  assumes contract: "ctx_ok c w \<Longrightarrow> pre c \<Longrightarrow> handler_ok E h c w"
begin

lemma run_step:
  assumes "ctx_ok c w" and "pre c" and "run_state h (c, w) = (r, (c', w'))"
  shows "stream_step c w c' w'" and "only_send_failures E r"
  using wp_run [OF assms(3) contract [OF assms(1,2), unfolded handler_ok_def]] by simp_all

lemma never_panics:
  assumes "ctx_ok c w" and "pre c" and "\<And>hist code. pw_SendHttpResponse E hist code = None"
  shows "\<not> panicked (fst (run_state h (c, w)))"
proof -
  obtain r c' w' where r: "run_state h (c, w) = (r, (c', w'))"
    by (cases "run_state h (c, w)") auto
  from run_step(2) [OF assms(1,2) r] show ?thesis
    using assms(3) by (auto simp: only_send_failures_def send_fails_def r split: outcome.splits)
qed

lemma stays_interrupted:
  assumes "ctx_ok c w" and "pre c" and "isInterrupted (ctx_interruptedAt c)"
    and "run_state h (c, w) = (r, (c', w'))"
  shows "ctx_interruptedAt c' = ctx_interruptedAt c"
  using run_step(1) [OF assms(1,2,4)] assms(3) by (simp add: stream_step_def)

end

lemma inspect_request_headers_vcg:
  assumes "ctx_ok c w" and "ctx_tx c = Some t" and "ctx_interruptedAt c = interruptionPhaseNone"
    and Q: "\<And>r c' w'. stream_step c w c' w' \<Longrightarrow> only_send_failures E r \<Longrightarrow> Q r (c', w')"
  shows "wp (inspect_request_headers E t authority) Q (c, w)"
  unfolding inspect_request_headers_def
  by (intro vcg Q retrieveAddressInfo_vcg request_method_vcg request_uri_vcg request_protocol_vcg
      add_request_headers_vcg shared_rules)
    (use assms(1-3) in \<open>auto simp: contract_simps\<close>)

lemma OnHttpRequestHeaders_contract:
  assumes "ctx_ok c w" and "\<not> isInterrupted (ctx_interruptedAt c)"
  shows "handler_ok E (OnHttpRequestHeaders E n eos) c w"
  unfolding OnHttpRequestHeaders_def
proof (rule handler_ok_timed [OF assms(1)], unfold handler_ok_def CountTX_def, goal_cases)
  case (1 w1)
  have none: "ctx_interruptedAt c = interruptionPhaseNone"
    using assms(2) by (simp add: isInterrupted_def)
  have quiet: "stream_step c w1 c w'"
    if "engine_calls w' = engine_calls w1" "arrays w' = arrays w1"
      "length (counters w') = length (counters w1)" for w'
    by (rule stream_step_quiet [OF 1 that])
  have waf: "waf \<noteq> None" if "getWAFOrDefault (ctx_perAuthorityWAFs c) a = Inr (waf, d)" for waf a d
    using no_nil_waf_resolve [OF _ that] 1 by (simp add: ctx_ok_def)
  have ok: "ctx_metrics c \<noteq> None" using 1 by (auto simp: ctx_ok_def)
  have ctx_ok_quiet: "ctx_ok c w'" if "engine_calls w' = engine_calls w1" "arrays w' = arrays w1"
      "length (counters w') = length (counters w1)" for w'
    using quiet [OF that] by (simp add: stream_step_def)
  show ?case
    by (intro vcg incrementCounter_vcg request_authority_vcg start_transaction_vcg
        inspect_request_headers_vcg failure_policy_vcg)
      (auto simp: ok quiet waf none ctx_ok_quiet stream_step_ok intro: stream_step_trans [OF quiet] stream_step_trans)
qed

lemma OnHttpRequestBody_contract:
  assumes "ctx_ok c w"
  shows "handler_ok E (OnHttpRequestBody E n eos) c w"
  unfolding OnHttpRequestBody_def
proof (rule handler_ok_timed [OF assms], unfold handler_ok_def, goal_cases)
  case (1 w1)
  show ?case
    unfolding write_request_chunk_def finish_request_body_def process_request_body_def
    by (intro vcg shared_rules) (use 1 in \<open>auto simp: contract_simps\<close>)
qed

lemma OnHttpResponseHeaders_contract:
  assumes "ctx_ok c w"
  shows "handler_ok E (OnHttpResponseHeaders E n eos) c w"
  unfolding OnHttpResponseHeaders_def
proof (rule handler_ok_timed [OF assms], unfold handler_ok_def, goal_cases)
  case (1 w1)
  show ?case
    unfolding process_request_body_def inspect_response_headers_def
    by (intro vcg shared_rules response_status_vcg add_response_headers_vcg)
      (use 1 in \<open>auto simp: contract_simps\<close>)
qed

lemma OnHttpResponseBody_contract:
  assumes "ctx_ok c w" and "0 \<le> n"
  shows "handler_ok E (OnHttpResponseBody E n eos) c w"
  unfolding OnHttpResponseBody_def
proof (rule handler_ok_timed [OF assms(1)], unfold handler_ok_def, goal_cases)
  case (1 w1)
  show ?case
    unfolding skip_response_body_def response_body_inspectable_def
      write_response_chunk_def finish_response_body_def replaceResponseBodyWhenInterrupted_def
    by (intro vcg shared_rules) (use 1 assms(2) in \<open>auto simp: contract_simps\<close>)
qed

lemma OnHttpStreamDone_contract:
  assumes "ctx_ok c w"
  shows "handler_ok E (OnHttpStreamDone E) c w"
  unfolding OnHttpStreamDone_def logMemStats_def
proof (rule handler_ok_timed [OF assms], unfold handler_ok_def, goal_cases)
  case (1 w1)
  show ?case
    by (intro vcg shared_rules) (use 1 in \<open>auto simp: contract_simps\<close>)
qed

text \<open>The trailer handlers are the body handlers behind a log line.\<close>

lemma handler_ok_after_log:
  assumes "ctx_ok c w" and "ctx_logger c \<noteq> None"
    and body: "\<And>w1. ctx_ok c w1 \<Longrightarrow> handler_ok E (h (ctx_bodyReadIndex c)) c w1"
  shows "handler_ok E (do {
      lg \<leftarrow> get_ctx ctx_logger;
      unless_panic (log_with lg lev m xs) (\<lambda>_. do {
        n \<leftarrow> get_ctx ctx_bodyReadIndex;
        h n }) }) c w"
proof -
  have "wp (h (ctx_bodyReadIndex c))
      (\<lambda>r s'. stream_step c w (fst s') (snd s') \<and> only_send_failures E r) (c, record_event e w)"
    if "\<not> engine_event e" for e
    using body [of "record_event e w"] assms(1) that by (simp add: handler_ok_def)
  then show ?thesis
    unfolding handler_ok_def using assms(2) by (intro vcg) simp_all
qed

lemma OnHttpRequestTrailers_contract:
  "ctx_ok c w \<Longrightarrow> ctx_logger c \<noteq> None \<Longrightarrow> handler_ok E (OnHttpRequestTrailers E n) c w"
  unfolding OnHttpRequestTrailers_def
  by (intro handler_ok_timed handler_ok_after_log OnHttpRequestBody_contract)

lemma OnHttpResponseTrailers_contract:
  "ctx_ok c w \<Longrightarrow> ctx_logger c \<noteq> None \<Longrightarrow> handler_ok E (OnHttpResponseTrailers E n) c w"
  unfolding OnHttpResponseTrailers_def
  by (intro handler_ok_timed handler_ok_after_log OnHttpResponseBody_contract)
    (simp_all add: ctx_ok_def)

section \<open>Every handler is a stream handler\<close>

interpretation request_headers: stream_handler E "OnHttpRequestHeaders E n eos"
  "\<lambda>c. \<not> isInterrupted (ctx_interruptedAt c)" for E n eos
  by unfold_locales (rule OnHttpRequestHeaders_contract)

interpretation request_body: stream_handler E "OnHttpRequestBody E n eos" "\<lambda>_. True" for E n eos
  by unfold_locales (rule OnHttpRequestBody_contract)

interpretation request_trailers: stream_handler E "OnHttpRequestTrailers E n"
  "\<lambda>c. ctx_logger c \<noteq> None" for E n
  by unfold_locales (rule OnHttpRequestTrailers_contract)

interpretation response_headers: stream_handler E "OnHttpResponseHeaders E n eos" "\<lambda>_. True" for E n eos
  by unfold_locales (rule OnHttpResponseHeaders_contract)

interpretation response_body: stream_handler E "OnHttpResponseBody E n eos" "\<lambda>_. 0 \<le> n" for E n eos
  by unfold_locales (rule OnHttpResponseBody_contract)

interpretation response_trailers: stream_handler E "OnHttpResponseTrailers E n"
  "\<lambda>c. ctx_logger c \<noteq> None" for E n
  by unfold_locales (rule OnHttpResponseTrailers_contract)

interpretation stream_done: stream_handler E "OnHttpStreamDone E" "\<lambda>_. True" for E
  by unfold_locales (rule OnHttpStreamDone_contract)

end
