(* ===== verification/Config.thy ===== *)
theory Config
  imports Http_Context
begin

text \<open>
  \<open>wasmplugin/config.go\<close>: the plugin configuration and its parsing. The JSON library
  (\<open>gjson\<close>) is not part of the repository: the record \<open>gjson\<close> holds the seven of its
  operations that are used, over any type of parsed values. A Go map is an association list with
  distinct keys; a nil map and an empty one are both empty.
\<close>

section \<open>The JSON library\<close>

record 'j gjson =
  ValidBytes :: "bytes \<Rightarrow> bool"
  ParseBytes :: "bytes \<Rightarrow> 'j"
  json_Get :: "'j \<Rightarrow> string \<Rightarrow> 'j"
  json_Exists :: "'j \<Rightarrow> bool"
  json_String :: "'j \<Rightarrow> string"
  json_Int :: "'j \<Rightarrow> int"
  json_ForEach :: "'j \<Rightarrow> ('j \<times> 'j) list"

section \<open>The configuration\<close>

type_synonym DirectivesMap = "string list gomap"

record pluginConfiguration =
  directivesMap :: DirectivesMap
  metricLabels :: "string gomap"
  defaultDirectives :: string
  perAuthorityDirectives :: "string gomap"
  ruleSetCacheServerCluster :: string
  ruleSetCacheServerInstance :: string
  ruleSetCacheServerToken :: string
  ruleSetReloadIntervalSeconds :: int
  failurePolicy :: FailurePolicy

definition empty_config :: pluginConfiguration where
  "empty_config = \<lparr>directivesMap = [], metricLabels = [], defaultDirectives = [],
     perAuthorityDirectives = [], ruleSetCacheServerCluster = [], ruleSetCacheServerInstance = [],
     ruleSetCacheServerToken = [], ruleSetReloadIntervalSeconds = 0, failurePolicy = []\<rparr>"

text \<open>\<open>value.ForEach\<close> collecting the texts of the elements.\<close>

definition json_strings :: "'j gjson \<Rightarrow> 'j \<Rightarrow> string list" where
  "json_strings J v = map (\<lambda>kv. json_String J (snd kv)) (json_ForEach J v)"

text \<open>The first entry of a name wins.\<close>

fun read_directives :: "'j gjson \<Rightarrow> ('j \<times> 'j) list \<Rightarrow> DirectivesMap \<Rightarrow> DirectivesMap" where
  "read_directives J [] m = m"
| "read_directives J ((key, v) # kvs) m =
     (let directiveName = json_String J key
      in if map_of m directiveName \<noteq> None then read_directives J kvs m
         else read_directives J kvs (AList.update directiveName (json_strings J v) m))"

text \<open>The last entry of a key wins.\<close>

fun read_strings :: "'j gjson \<Rightarrow> ('j \<times> 'j) list \<Rightarrow> string gomap \<Rightarrow> string gomap" where
  "read_strings J [] m = m"
| "read_strings J ((key, v) # kvs) m = read_strings J kvs (AList.update (json_String J key) (json_String J v) m)"

text \<open>The first authority, in the order of the loop, whose directives do not exist.\<close>

fun check_authorities :: "DirectivesMap \<Rightarrow> (string \<times> string) list \<Rightarrow> goerror option" where
  "check_authorities m [] = None"
| "check_authorities m ((authority, directiveName) # rest) =
     (if map_of m directiveName = None
      then Some (Fmt ''directive map not found for authority %s: %q'' [AStr authority, AStr directiveName])
      else check_authorities m rest)"

text \<open>A text field, or its default if the field is missing.\<close>

definition text_field :: "'j gjson \<Rightarrow> 'j \<Rightarrow> string \<Rightarrow> string \<Rightarrow> string" where
  "text_field J j name dflt =
     (let v = json_Get J j name in if json_Exists J v then json_String J v else dflt)"

text \<open>\<open>int(\<dots>.Int())\<close>: a 64-bit number cut to the 32 bits of an \<open>int\<close>.\<close>

definition interval_field :: "'j gjson \<Rightarrow> 'j \<Rightarrow> int" where
  "interval_field J j =
     (let v = json_Get J j ''rule_reload_interval_seconds''
      in if json_Exists J v then sint (word_of_int (json_Int J v) :: 32 word) else 30)"

definition read_failure_policy ::
  "'j gjson \<Rightarrow> (msg \<Rightarrow> ('c, unit) program) \<Rightarrow> 'j \<Rightarrow> ('c, FailurePolicy) program" where
  "read_failure_policy J infoLogger j =
     (let v = json_Get J j ''failure_policy''
      in if json_Exists J v
         then do {
           _ \<leftarrow> infoLogger (Fmt ''Setting FailurePolicy to `%s`'' [AStr (json_String J v)]);
           ret (json_String J v) }
         else do {
           _ \<leftarrow> infoLogger (Fmt ''FailurePolicy defaulting to `%s`'' [AStr FailurePolicyFail]);
           ret FailurePolicyFail })"

text \<open>The deprecated \<open>rules\<close> field, used when there are no named directives.\<close>

definition read_deprecated_rules ::
  "'j gjson \<Rightarrow> (msg \<Rightarrow> ('c, unit) program) \<Rightarrow> 'j \<Rightarrow> pluginConfiguration \<Rightarrow> ('c, pluginConfiguration) program" where
  "read_deprecated_rules J infoLogger j config =
     (if length (directivesMap config) = 0
      then let rules = json_Get J j ''rules''
           in if json_Exists J rules
              then do {
                _ \<leftarrow> infoLogger (Fmt ''Defaulting to deprecated 'rules' field'' []);
                ret (config\<lparr>defaultDirectives := ''default'',
                  directivesMap := AList.update ''default'' (json_strings J rules) (directivesMap config)\<rparr>) }
              else ret config
      else ret config)"

definition parsePluginConfiguration ::
  "env \<Rightarrow> 'j gjson \<Rightarrow> bytes \<Rightarrow> (msg \<Rightarrow> ('c, unit) program) \<Rightarrow> ('c, goerror + pluginConfiguration) program" where
  "parsePluginConfiguration E J raw infoLogger =
     (let config = empty_config; data = TrimSpace raw
      in if length data = 0 then ret (Inr config)
      else if \<not> ValidBytes J data then ret (Inl (Fmt ''invalid json: %q'' [AStr (go_string data)]))
      else let
        jsonData = ParseBytes J data;
        config = config\<lparr>directivesMap :=
          read_directives J (json_ForEach J (json_Get J jsonData ''directives_map'')) []\<rparr>;
        config = config\<lparr>metricLabels :=
          read_strings J (json_ForEach J (json_Get J jsonData ''metric_labels'')) []\<rparr>;
        dflt = json_Get J jsonData ''default_directives''
      in if json_Exists J dflt \<and> map_of (directivesMap config) (json_String J dflt) = None
         then ret (Inl (Fmt ''directive map not found for default directive: %q'' [AStr (json_String J dflt)]))
         else do {
           let config = (if json_Exists J dflt then config\<lparr>defaultDirectives := json_String J dflt\<rparr> else config);
           let config = config\<lparr>perAuthorityDirectives :=
             read_strings J (json_ForEach J (json_Get J jsonData ''per_authority_directives'')) []\<rparr>;
           authorities \<leftarrow> range_over E (perAuthorityDirectives config);
           case check_authorities (directivesMap config) authorities of
             Some err \<Rightarrow> ret (Inl err)
           | None \<Rightarrow> do {
               let config = config\<lparr>
                 ruleSetCacheServerCluster := text_field J jsonData ''cache_server_cluster'' [],
                 ruleSetCacheServerInstance := text_field J jsonData ''cache_server_instance'' ''default'',
                 ruleSetCacheServerToken := text_field J jsonData ''cache_token'' [],
                 ruleSetReloadIntervalSeconds := interval_field J jsonData\<rparr>;
               policy \<leftarrow> read_failure_policy J infoLogger jsonData;
               config \<leftarrow> read_deprecated_rules J infoLogger jsonData (config\<lparr>failurePolicy := policy\<rparr>);
               ret (Inr config) } })"

end
