(* ===== verification/Demo.thy ===== *)
theory Demo
  imports Http_Contract Config
begin

text \<open>
  A concrete environment and a concrete stream, for the witnesses: a proxy that answers every
  read, an engine that is on and inspects both bodies and never interrupts, the labels of one
  plugin in a backing array with room for one more pair. The witnesses change single fields.
\<close>

definition demo_header :: "string \<Rightarrow> string" where
  "demo_header k = (if k = '':method'' then ''GET'' else if k = '':path'' then ''/x'' else ''a.io:80'')"

definition demo_property :: "string list \<Rightarrow> goerror + bytes" where
  "demo_property p =
     (if p = [''source'', ''port''] then Inr (le_bytes 8080)
      else if p = [''destination'', ''port''] then Inl (errors_New ''not found'')
      else if p = [''request'', ''protocol''] then Inr (go_bytes ''HTTP/1.1'')
      else Inr (go_bytes ''1.2.3.4:5''))"

definition demo_env :: env where
  "demo_env = \<lparr>
     pw_GetPluginConfiguration = (\<lambda>h. ([], None)),
     pw_ErrorStatusNotFound = errors_New ''error status returned by host: not found'',
     pw_SetTickPeriodMilliSeconds = (\<lambda>h p. None),
     pw_GetHttpRequestHeader = (\<lambda>h k. Inr (demo_header k)),
     pw_GetProperty = (\<lambda>h p. demo_property p),
     pw_GetHttpRequestHeaders = (\<lambda>h. Inr [(''k'', ''v'')]),
     pw_GetHttpRequestBody = (\<lambda>h i n. Inr (take (nat n) (drop (nat i) [1, 2, 3, 4]))),
     pw_GetHttpResponseHeader = (\<lambda>h k. Inr ''200''),
     pw_GetHttpResponseHeaders = (\<lambda>h. Inr [(''r'', ''s'')]),
     pw_GetHttpResponseBody = (\<lambda>h i n. Inr (take (nat n) (drop (nat i) [5, 6, 7, 8]))),
     pw_SendHttpResponse = (\<lambda>h code. None),
     pw_ReplaceHttpResponseBody = (\<lambda>h b. None),
     pw_DispatchHttpCall = (\<lambda>h call. None),
     pw_GetHttpCallResponseHeaders = (\<lambda>h. Inr [('':status'', ''200'')]),
     pw_GetHttpCallResponseBody = (\<lambda>h i n. Inr []),
     pw_DefineCounterMetric = (\<lambda>h n. 7),
     cz_NewWAF = (\<lambda>h conf. Inr (Some 1)),
     cz_NewTransaction = (\<lambda>h w. 9),
     tx_IsRuleEngineOff = (\<lambda>h t. False),
     tx_ProcessRequestHeaders = (\<lambda>h t. None),
     tx_IsRequestBodyAccessible = (\<lambda>h t. True),
     tx_WriteRequestBody = (\<lambda>h t b. Inr (None, int (length b))),
     tx_ProcessRequestBody = (\<lambda>h t. Inr None),
     tx_ProcessResponseHeaders = (\<lambda>h t code proto. None),
     tx_IsResponseBodyAccessible = (\<lambda>h t. True),
     tx_IsResponseBodyProcessable = (\<lambda>h t. True),
     tx_WriteResponseBody = (\<lambda>h t b. Inr (None, int (length b))),
     tx_ProcessResponseBody = (\<lambda>h t. Inr None),
     tx_Close = (\<lambda>h t. None),
     rt_growcap = (\<lambda>c n. 2 * n),
     rt_range = (\<lambda>h ks. ks),
     rt_now = (\<lambda>h. 0),
     rt_memstats = (\<lambda>h. []),
     build_timing = False,
     build_memstats = False \<rparr>"

definition demo_world :: world where
  "demo_world = \<lparr>trace = [], arrays = [[''team'', ''x'', [], []]], counters = [Map.empty]\<rparr>"

definition demo_waf_map :: wafMap where
  "demo_waf_map = \<lparr>kv = [''a.io:80'' \<mapsto> Some 3], defaultWAF = Some 2\<rparr>"

text \<open>A stream before its request headers, and one with a transaction.\<close>

definition demo_fresh :: httpContext where
  "demo_fresh = \<lparr>ctx_contextID = 5, ctx_perAuthorityWAFs = demo_waf_map, ctx_tx = None,
     ctx_httpProtocol = [], ctx_processedRequestBody = False, ctx_processedResponseBody = False,
     ctx_bodyReadIndex = 0, ctx_metrics = Some 0, ctx_interruptedAt = interruptionPhaseNone,
     ctx_logger = None, ctx_metricLabelsKV = \<lparr>sl_base = 0, sl_len = 2, sl_cap = 4\<rparr>,
     ctx_failurePolicy = ''fail''\<rparr>"

definition demo_ctx :: httpContext where
  "demo_ctx = demo_fresh\<lparr>ctx_tx := Some 9, ctx_logger := Some \<lparr>lg_tx = 9, lg_fields = []\<rparr>\<rparr>"

lemmas demo_defs = demo_fresh_def demo_ctx_def demo_waf_map_def demo_world_def demo_env_def

lemma demo_ctx_ok [simp]: "ctx_ok demo_fresh demo_world" "ctx_ok demo_ctx demo_world"
  by (simp_all add: ctx_ok_def demo_defs wf_slice_def no_nil_waf_def isInterrupted_def)

lemma demo_addresses:
  "address_info (demo_property [''source'', ''address'']) (demo_property [''source'', ''port'']) = (''1.2.3.4'', 8080)"
  "address_info (demo_property [''destination'', ''address'']) (demo_property [''destination'', ''port'']) =
     (''1.2.3.4'', 5)"
  "demo_property [''request'', ''protocol''] = Inr (go_bytes ''HTTP/1.1'')"
proof -
  have hp: "SplitHostPort ''1.2.3.4:5'' = Inr (''1.2.3.4'', ''5'')"
    using SplitHostPort_plain [of "''1.2.3.4''" "''5''"] by simp
  have n: "Atoi ''5'' = (5, None)" by (simp add: AtoiN_def ParseUint_def digit_val_def Let_def of_char_def)
  show "address_info (demo_property [''source'', ''address'']) (demo_property [''source'', ''port'']) =
      (''1.2.3.4'', 8080)"
    by (simp add: demo_property_def address_info_def hp parsePort_le_bytes)
  show "address_info (demo_property [''destination'', ''address'']) (demo_property [''destination'', ''port'']) =
      (''1.2.3.4'', 5)"
    by (simp add: demo_property_def address_info_def hp n)
  show "demo_property [''request'', ''protocol''] = Inr (go_bytes ''HTTP/1.1'')"
    by (simp add: demo_property_def)
qed

lemma demo_headers [simp]:
  "demo_header '':method'' = ''GET''" "demo_header '':path'' = ''/x''" "demo_header '':authority'' = ''a.io:80''"
  by (simp_all add: demo_header_def)

lemma demo_server_name: "server_name ''a.io:80'' = ''a.io''"
  using SplitHostPort_plain [of "''a.io''" "''80''"] by (simp add: server_name_def)

text \<open>A JSON document, and a JSON library that parses every text to a fixed document.\<close>

datatype demo_json = Missing | Text string | Number int | Arr "demo_json list" | Obj "(string \<times> demo_json) list"

fun demo_get :: "demo_json \<Rightarrow> string \<Rightarrow> demo_json" where
  "demo_get (Obj kvs) k = (case map_of kvs k of Some v \<Rightarrow> v | None \<Rightarrow> Missing)"
| "demo_get _ k = Missing"

fun demo_text :: "demo_json \<Rightarrow> string" where
  "demo_text (Text s) = s"
| "demo_text _ = []"

fun demo_int :: "demo_json \<Rightarrow> int" where
  "demo_int (Number i) = i"
| "demo_int _ = 0"

fun demo_each :: "demo_json \<Rightarrow> (demo_json \<times> demo_json) list" where
  "demo_each (Obj kvs) = map (\<lambda>kv. (Text (fst kv), snd kv)) kvs"
| "demo_each (Arr vs) = map (\<lambda>v. (Missing, v)) vs"
| "demo_each Missing = []"
| "demo_each v = [(Missing, v)]"

definition demo_gjson :: "demo_json \<Rightarrow> demo_json gjson" where
  "demo_gjson doc = \<lparr>ValidBytes = (\<lambda>b. True), ParseBytes = (\<lambda>b. doc), json_Get = demo_get,
     json_Exists = (\<lambda>v. v \<noteq> Missing), json_String = demo_text, json_Int = demo_int,
     json_ForEach = demo_each\<rparr>"

lemma demo_range_law [simp]: "range_law demo_env"
  by (simp add: range_law_def demo_env_def)

end
