(* ===== verification/Http_Properties.thy ===== *)
theory Http_Properties
  imports Demo
begin

text \<open>
  The properties of the stream handlers: what is answered on an interruption or an engine
  failure, when traffic is let through, in which order the engine is driven, and that the
  engine sees every byte of a body once and in order.
\<close>

section \<open>Interruptions and failures\<close>



text \<open>C2: an interruption on a stream that has none yet. The phase is recorded and nothing else of
  the stream changes; the engine is not called; exactly one response is sent. Before the last
  phase that is the status of the interruption, 403 if it has none, and the stream is paused; in
  the response body phase the body read so far is replaced by as many null bytes. The only panic is
  a response the proxy refuses.\<close>

theorem handleInterruption_answers_once:
  assumes "ctx_ok c w" and "ctx_tx c \<noteq> None" and "\<not> isInterrupted (ctx_interruptedAt c)"
  shows "wp (handleInterruption E ph i)
     (\<lambda>r (c', w'). c' = c\<lparr>ctx_interruptedAt := ph\<rparr> \<and> engine_calls w' = engine_calls w \<and>
        (if ph = interruptionPhaseHttpResponseBody
         then r = Returns ActionContinue \<and>
           responses w' = responses w @ [ReplaceHttpResponseBody (replicate (nat (ctx_bodyReadIndex c)) 0)]
         else (r = Returns ActionPause \<or> (\<exists>e. r = Panics (SendFailed e) \<and> send_fails E e)) \<and>
           responses w' = responses w @
             [SendHttpResponse (word_of_int (if Status i = 0 then 403 else Status i))])) (c, w)"
  by (rule handleInterruption_vcg [OF assms(1,2)])
    (use assms(3) in \<open>auto simp: isInterrupted_def interruption_status_def\<close>)

lemma handleInterruption_answers_once_witness:
  "wp (handleInterruption demo_env interruptionPhaseHttpRequestBody \<lparr>RuleID = 1, Action = ''deny'', Status = 0\<rparr>)
     (\<lambda>r (c', w'). responses w' = [SendHttpResponse 403]) (demo_ctx, demo_world)"
  by (rule wp_mono [OF handleInterruption_answers_once [OF demo_ctx_ok(2)]])
    (auto simp: demo_defs isInterrupted_def responses_def split: if_splits)

text \<open>C3: a stream that has been interrupted is not inspected any more. In whatever order the proxy
  delivers the rest of the stream, the request body and the request trailers are held back, the
  response headers pass (they are those of the local response), and for response body and response
  trailers the proxy is asked to put null bytes in the place of the data; none of these handlers
  calls the engine, changes the stream or sends another local response. The end of the stream runs
  no body rules: besides asking whether the engine is off, it only runs the logging phase and closes
  the transaction.
  The replacement is a request: if the proxy refuses it, the handlers still return
  \<open>ActionContinue\<close>.\<close>

theorem interrupted_stream_is_inert:
  assumes "ctx_ok c w" and "isInterrupted (ctx_interruptedAt c)" and "ctx_tx c = Some t" and "0 \<le> n"
  shows "wp (OnHttpRequestBody E n eos)
       (\<lambda>r (c', w'). r = Returns ActionPause \<and> c' = c \<and>
          engine_calls w' = engine_calls w \<and> responses w' = responses w) (c, w) \<and>
     wp (OnHttpRequestTrailers E k)
       (\<lambda>r (c', w'). r = Returns ActionPause \<and> c' = c \<and>
          engine_calls w' = engine_calls w \<and> responses w' = responses w) (c, w) \<and>
     wp (OnHttpResponseHeaders E k eos)
       (\<lambda>r (c', w'). r = Returns ActionContinue \<and> c' = c \<and>
          engine_calls w' = engine_calls w \<and> responses w' = responses w) (c, w) \<and>
     wp (OnHttpResponseBody E n eos)
       (\<lambda>r (c', w'). r = Returns ActionContinue \<and> c' = c \<and> engine_calls w' = engine_calls w \<and>
          responses w' = responses w @ [ReplaceHttpResponseBody (replicate (nat n) 0)]) (c, w) \<and>
     wp (OnHttpResponseTrailers E k)
       (\<lambda>r (c', w'). r = Returns ActionContinue \<and> c' = c \<and> engine_calls w' = engine_calls w \<and>
          responses w' = responses w @
            [ReplaceHttpResponseBody (replicate (nat (ctx_bodyReadIndex c)) 0)]) (c, w) \<and>
     wp (OnHttpStreamDone E)
       (\<lambda>r (c', w'). r = Returns () \<and> c' = c \<and>
          engine_calls w' = engine_calls w @ [ProcessLogging t, CloseTx t] \<and>
          responses w' = responses w) (c, w)"
  using assms
  unfolding OnHttpRequestBody_def OnHttpRequestTrailers_def OnHttpResponseHeaders_def OnHttpResponseBody_def
    OnHttpResponseTrailers_def OnHttpStreamDone_def replaceResponseBodyWhenInterrupted_def logMemStats_def
  by (intro conjI vcg) (auto simp: same_views_def ctx_ok_def)

lemma interrupted_stream_is_inert_witness:
  "wp (OnHttpStreamDone demo_env)
     (\<lambda>r (c', w'). engine_calls w' = [ProcessLogging 9, CloseTx 9])
     (demo_ctx\<lparr>ctx_interruptedAt := interruptionPhaseHttpRequestHeaders\<rparr>, demo_world)"
proof -
  let ?c = "demo_ctx\<lparr>ctx_interruptedAt := interruptionPhaseHttpRequestHeaders\<rparr>"
  have c: "ctx_ok ?c demo_world" "isInterrupted (ctx_interruptedAt ?c)" "ctx_tx ?c = Some 9"
    using demo_ctx_ok(2) by (simp_all add: ctx_ok_def isInterrupted_def demo_ctx_def)
  from interrupted_stream_is_inert [OF c order_refl, of demo_env False 0]
  show ?thesis by (elim conjE wp_mono) (auto simp: demo_world_def engine_calls_def)
qed

section \<open>When a body is let through\<close>








text \<open>
  The mark is set before the rules run and is not taken back when the engine fails: the call that met
  the error is blocked, the next one lets the body pass and does not ask the engine again.
\<close>

lemma request_body_error_sets_flag:
  assumes "ctx_ok c w" and "ctx_tx c = Some t" and "ctx_failurePolicy c \<noteq> ''allow''"
    and "\<not> isInterrupted (ctx_interruptedAt c)" and "\<And>h. \<not> tx_IsRuleEngineOff E h t"
    and "\<not> ctx_processedRequestBody c" and "n \<le> ctx_bodyReadIndex c"
    and "\<And>h. tx_ProcessRequestBody E h t = Inl e"
  shows "wp (OnHttpRequestBody E n True)
     (\<lambda>r (c', w'). r = Returns ActionPause \<and> ctx_processedRequestBody c' \<and>
        ctx_interruptedAt c' = interruptionPhaseNone \<and>
        engine_calls w' = engine_calls w @ [ProcessRequestBody t] \<and>
        responses w' = responses w @ [SendHttpResponse 403]) (c, w)"
  unfolding OnHttpRequestBody_def finish_request_body_def process_request_body_def
  by (intro vcg shared_rules)
    (use assms in \<open>auto simp: same_views_def FailurePolicyAllow_def isInterrupted_def ctx_ok_def\<close>)

lemma response_body_error_sets_flag:
  assumes "ctx_ok c w" and "ctx_tx c = Some t" and "ctx_failurePolicy c \<noteq> ''allow''"
    and "\<not> isInterrupted (ctx_interruptedAt c)" and "\<And>h. \<not> tx_IsRuleEngineOff E h t"
    and "\<not> ctx_processedResponseBody c" and "n \<le> ctx_bodyReadIndex c"
    and "\<And>h. tx_IsResponseBodyAccessible E h t" and "\<And>h. tx_IsResponseBodyProcessable E h t"
    and "\<And>h. tx_ProcessResponseBody E h t = Inl e"
  shows "wp (OnHttpResponseBody E n True)
     (\<lambda>r (c', w'). r = Returns ActionPause \<and> ctx_processedResponseBody c' \<and>
        ctx_interruptedAt c' = interruptionPhaseNone \<and>
        engine_calls w' = engine_calls w @ [ProcessResponseBody t] \<and>
        responses w' = responses w @ [SendHttpResponse 403]) (c, w)"
  unfolding OnHttpResponseBody_def response_body_inspectable_def finish_response_body_def
  by (intro vcg shared_rules)
    (use assms in \<open>auto simp: same_views_def FailurePolicyAllow_def isInterrupted_def ctx_ok_def\<close>)

lemma processed_body_vcg:
  assumes "ctx_interruptedAt c = interruptionPhaseNone"
    and "\<And>w'. engine_calls w' = engine_calls w \<Longrightarrow> responses w' = responses w \<Longrightarrow> Q (Returns ActionContinue) (c, w')"
  shows "ctx_processedRequestBody c \<Longrightarrow> wp (OnHttpRequestBody E n eos) Q (c, w)"
    and "ctx_processedResponseBody c \<Longrightarrow> wp (OnHttpResponseBody E n eos) Q (c, w)"
  unfolding OnHttpRequestBody_def OnHttpResponseBody_def
  by (intro vcg; use assms(1) in \<open>auto simp: same_views_def isInterrupted_def intro: assms(2)\<close>)+

lemma bodies_pass_after_error:
  assumes "ctx_ok c w" and "ctx_tx c = Some t" and "ctx_failurePolicy c \<noteq> ''allow''"
    and "\<not> isInterrupted (ctx_interruptedAt c)" and "\<And>h. \<not> tx_IsRuleEngineOff E h t"
    and "\<not> ctx_processedRequestBody c" and "\<not> ctx_processedResponseBody c" and "n \<le> ctx_bodyReadIndex c"
    and "\<And>h. tx_IsResponseBodyAccessible E h t" and "\<And>h. tx_IsResponseBodyProcessable E h t"
    and "\<And>h. tx_ProcessRequestBody E h t = Inl e" and "\<And>h. tx_ProcessResponseBody E h t = Inl e'"
  shows "wp (do { r \<leftarrow> OnHttpRequestBody E n True; r' \<leftarrow> OnHttpRequestBody E k eos; ret (r, r') })
       (\<lambda>r (c', w'). r = (Returns ActionPause, Returns ActionContinue) \<and>
          engine_calls w' = engine_calls w @ [ProcessRequestBody t]) (c, w)"
    and "wp (do { r \<leftarrow> OnHttpResponseBody E n True; r' \<leftarrow> OnHttpResponseBody E k eos; ret (r, r') })
       (\<lambda>r (c', w'). r = (Returns ActionPause, Returns ActionContinue) \<and>
          engine_calls w' = engine_calls w @ [ProcessResponseBody t]) (c, w)"
  by ((rule vcg_bind, rule wp_mono [OF request_body_error_sets_flag [OF assms(1-6,8,11)]],
      auto intro!: vcg processed_body_vcg)[1],
    (rule vcg_bind, rule wp_mono [OF response_body_error_sets_flag [OF assms(1-5,7-10,12)]],
      auto intro!: vcg processed_body_vcg)[1])

section \<open>The order of the engine calls\<close>

lemma inspect_request_headers_fed:
  assumes "ctx_ok c w" and "ctx_tx c = Some t" and "ctx_interruptedAt c = interruptionPhaseNone"
    and "\<And>h k. pw_GetHttpRequestHeader E h k = Inr (hdr k)" and "\<And>h. pw_GetHttpRequestHeaders E h = Inr hs"
    and "\<And>h p. pw_GetProperty E h p = attr p"
    and Q: "\<And>r c' w'. ctx_tx c' = Some t \<Longrightarrow> ctx_processedRequestBody c' = ctx_processedRequestBody c \<Longrightarrow>
      engine_calls w' = engine_calls w @
        (let meth = hdr '':method'';
             src = address_info (attr [''source'', ''address'']) (attr [''source'', ''port'']);
             dst = address_info (attr [''destination'', ''address'']) (attr [''destination'', ''port''])
         in [ProcessConnection t (fst src) (snd src) (fst dst) (snd dst),
             ProcessURI t (if meth = ''CONNECT'' then authority else hdr '':path'') meth
               (case attr [''request'', ''protocol''] of Inl _ \<Rightarrow> ''HTTP/2.0'' | Inr raw \<Rightarrow> go_string raw)] @
            map (\<lambda>h. AddRequestHeader t (fst h) (snd h)) hs @ [ProcessRequestHeaders t]) \<Longrightarrow> Q r (c', w')"
  shows "wp (inspect_request_headers E t authority) Q (c, w)"
proof -
  have read_method: "wp (request_method E) Q (c, w)"
    if "Q (Returns (Inr (hdr '':method''))) (c, record_event (GetHttpRequestHeader '':method'') w)" for Q c w
    using that by (simp add: request_method_def wp assms(4))
  have read_uri: "wp (request_uri E m a) Q (c, w)"
    if "\<And>w'. engine_calls w' = engine_calls w \<Longrightarrow> arrays w' = arrays w \<Longrightarrow> counters w' = counters w \<Longrightarrow>
      Q (Returns (Inr (if m = ''CONNECT'' then a else hdr '':path''))) (c, w')" for m a Q c w
    using that [of w] that [of "record_event (GetHttpRequestHeader '':path'') w"]
    by (cases "m = ''CONNECT''") (simp_all add: request_uri_def wp assms(4))
  have read_protocol: "wp (request_protocol E) Q (c, w)"
    if "Q (case attr [''request'', ''protocol''] of Inl _ \<Rightarrow> ''HTTP/2.0'' | Inr raw \<Rightarrow> go_string raw)
         (c, record_event (GetProperty [''request'', ''protocol'']) w)" for Q c w
    using that by (simp add: request_protocol_def wp assms(6) split: sum.splits)
  show ?thesis
    unfolding inspect_request_headers_def
    by (intro vcg Q retrieveAddressInfo_vcg_const [OF assms(6)]
        read_method read_uri read_protocol add_request_headers_vcg
        shared_rules)
      (use assms(1-3) in \<open>simp_all add: assms(5) Let_def ctx_ok_def\<close>)
qed

text \<open>C6: the request headers phase when the proxy answers: the engine gets, in this order, a new
  transaction of the WAF the authority resolves to, the Host header, the server name, the
  connection, the request line (the URI of a CONNECT request is the authority), every header in
  order, and then the request header rules run. The addresses are the ones the four connection
  properties determine.\<close>

theorem request_headers_feed_the_engine:
  assumes "ctx_ok c w" and "\<not> isInterrupted (ctx_interruptedAt c)"
    and "\<And>h k. pw_GetHttpRequestHeader E h k = Inr (hdr k)" and "\<And>h. pw_GetHttpRequestHeaders E h = Inr hs"
    and "\<And>h p. pw_GetProperty E h p = attr p"
    and "getWAFOrDefault (ctx_perAuthorityWAFs c) (hdr '':authority'') = Inr (Some a, d)"
    and "\<And>h. cz_NewTransaction E h a = t" and "\<And>h. \<not> tx_IsRuleEngineOff E h t"
  shows "wp (OnHttpRequestHeaders E n eos)
     (\<lambda>r (c', w'). ctx_tx c' = Some t \<and> ctx_processedRequestBody c' = ctx_processedRequestBody c \<and>
        engine_calls w' = engine_calls w @
          (let authority = hdr '':authority''; meth = hdr '':method'';
               src = address_info (attr [''source'', ''address'']) (attr [''source'', ''port'']);
               dst = address_info (attr [''destination'', ''address'']) (attr [''destination'', ''port''])
           in [NewTransaction a, AddRequestHeader t ''Host'' authority,
               SetServerName t (server_name authority),
               ProcessConnection t (fst src) (snd src) (fst dst) (snd dst),
               ProcessURI t (if meth = ''CONNECT'' then authority else hdr '':path'') meth
                 (case attr [''request'', ''protocol''] of Inl _ \<Rightarrow> ''HTTP/2.0'' | Inr raw \<Rightarrow> go_string raw)] @
              map (\<lambda>h. AddRequestHeader t (fst h) (snd h)) hs @ [ProcessRequestHeaders t])) (c, w)"
proof -
  have ok: "ctx_metrics c \<noteq> None" "ctx_interruptedAt c = interruptionPhaseNone"
    using assms(1,2) by (auto simp: ctx_ok_def isInterrupted_def)
  have authority: "wp (request_authority E) Q (c, w)"
    if "Q (Inr (hdr '':authority'')) (c, record_event (GetHttpRequestHeader '':authority'') w)" for Q c w
    using that by (simp add: request_authority_def wp assms(3))
  have ctx_ok_quiet: "ctx_ok c w'" if "arrays w' = arrays w" "length (counters w') = length (counters w)" for w'
    using assms(1) that by (simp add: ctx_ok_def)
  have resolved: "getWAFOrDefault (ctx_perAuthorityWAFs c) x = Inr (Some a, d)" if "hdr '':authority'' = x" for x
    using assms(6) that by simp
  have fields: "ctx_processedRequestBody c' = ctx_processedRequestBody c" if "ctx_started c t c'" for t c'
    using that by (auto simp: ctx_started_def)
  show ?thesis
    unfolding OnHttpRequestHeaders_def CountTX_def
    by (intro vcg incrementCounter_vcg authority start_transaction_vcg
        inspect_request_headers_fed [OF _ _ _ assms(3,4,5)])
      (auto simp: ok resolved assms(7,8) ctx_ok_quiet stream_step_ok fields same_views_def Let_def)
qed

lemma request_headers_feed_the_engine_witness:
  "wp (OnHttpRequestHeaders demo_env 4 True)
     (\<lambda>r (c', w'). engine_calls w' =
        [NewTransaction 3, AddRequestHeader 9 ''Host'' ''a.io:80'', SetServerName 9 ''a.io'',
         ProcessConnection 9 ''1.2.3.4'' 8080 ''1.2.3.4'' 5, ProcessURI 9 ''/x'' ''GET'' ''HTTP/1.1'',
         AddRequestHeader 9 ''k'' ''v'', ProcessRequestHeaders 9]) (demo_fresh, demo_world)"
  by (rule wp_mono [OF request_headers_feed_the_engine [OF demo_ctx_ok(1), where hdr = demo_header
          and attr = demo_property and hs = "[(''k'', ''v'')]" and a = 3 and d = False and t = 9]])
    (auto simp: demo_defs demo_addresses demo_server_name isInterrupted_def getWAFOrDefault_def
      engine_calls_def Let_def)

text \<open>C7: no response is inspected before the request body rules. With a transaction whose engine is
  on and no interruption, \<open>OnHttpResponseHeaders\<close> first runs the request body rules, exactly
  if they have not run yet, and only then feeds the response headers and runs their rules; the
  stream is marked so that they never run again.\<close>

theorem response_headers_enforce_phase_two:
  assumes "ctx_ok c w" and "ctx_tx c = Some t" and "\<not> isInterrupted (ctx_interruptedAt c)"
    and "\<And>h. \<not> tx_IsRuleEngineOff E h t"
  shows "wp (OnHttpResponseHeaders E n eos)
     (\<lambda>r (c', w'). ctx_processedRequestBody c' \<and>
        (\<exists>hs tail. engine_calls w' = engine_calls w @
            (if ctx_processedRequestBody c then [] else [ProcessRequestBody t]) @
            map (\<lambda>h. AddResponseHeader t (fst h) (snd h)) hs @ tail \<and>
          (tail = [] \<and> hs = [] \<or> (\<exists>code. tail = [ProcessResponseHeaders t code (ctx_httpProtocol c)])))) (c, w)"
proof -
  have step: "\<exists>hs tail. xs = map (\<lambda>h. AddResponseHeader t (fst h) (snd h)) hs @ tail \<and>
      (tail = [] \<and> hs = [] \<or> (\<exists>code. tail = [ProcessResponseHeaders t code p]))"
    if "xs = [] \<or> (\<exists>hs code. xs = map (\<lambda>h. AddResponseHeader t (fst h) (snd h)) hs @ [ProcessResponseHeaders t code p])"
    for xs p using that by auto
  show ?thesis
    unfolding OnHttpResponseHeaders_def process_request_body_def inspect_response_headers_def
    by (intro vcg shared_rules response_status_vcg add_response_headers_vcg)
      (use assms in \<open>auto simp: contract_simps same_views_def intro: step\<close>)
qed

lemma response_headers_enforce_phase_two_witness:
  "wp (OnHttpResponseHeaders demo_env 1 False) (\<lambda>r (c', w'). ctx_processedRequestBody c') (demo_ctx, demo_world)"
  by (rule wp_mono [OF response_headers_enforce_phase_two [OF demo_ctx_ok(2), where t = 9]])
    (auto simp: demo_defs isInterrupted_def)

text \<open>C8: the end of a stream. A stream without a transaction does nothing. Otherwise the response
  body rules run, exactly if the engine is on, nothing was interrupted and they have not run, then
  the logging phase, then the transaction is closed, once each and in this order, whatever the
  engine answers; no response is sent and nothing panics.\<close>

theorem stream_done_logs_and_closes:
  assumes "ctx_ok c w" and "\<And>h t. tx_IsRuleEngineOff E h t = off"
  shows "wp (OnHttpStreamDone E)
     (\<lambda>r (c', w'). r = Returns () \<and> responses w' = responses w \<and>
        engine_calls w' = engine_calls w @
          (case ctx_tx c of
             None \<Rightarrow> []
           | Some t \<Rightarrow>
               (if \<not> off \<and> \<not> isInterrupted (ctx_interruptedAt c) \<and> \<not> ctx_processedResponseBody c
                then [ProcessResponseBody t] else []) @ [ProcessLogging t, CloseTx t])) (c, w)"
  unfolding OnHttpStreamDone_def logMemStats_def
  by (intro vcg shared_rules) (use assms in \<open>auto simp: contract_simps same_views_def\<close>)

lemma stream_done_logs_and_closes_witness:
  "wp (OnHttpStreamDone demo_env)
     (\<lambda>r (c', w'). engine_calls w' = [ProcessResponseBody 9, ProcessLogging 9, CloseTx 9]) (demo_ctx, demo_world)"
  by (rule wp_mono [OF stream_done_logs_and_closes [OF demo_ctx_ok(2), where off = False]])
    (auto simp: demo_defs isInterrupted_def engine_calls_def)

section \<open>Streams without a transaction\<close>

text \<open>C12: trailers on a stream without a WAF. While no WAF answers for the authority and the policy is
  \<open>allow\<close>, the request headers continue, but the stream has no logger: if the request has
  trailers, \<open>OnHttpRequestTrailers\<close> dereferences the nil logger and panics. The same holds for
  the trailers of the response.\<close>

theorem trailers_panic_without_waf:
  assumes "ctx_metrics c = Some m" and "ctx_failurePolicy c = ''allow''" and "ctx_logger c = None"
    and "\<And>h. pw_GetHttpRequestHeader E h '':authority'' = Inr a"
    and "getWAFOrDefault (ctx_perAuthorityWAFs c) a = Inl e"
  shows "wp (do { r \<leftarrow> OnHttpRequestHeaders E n eos; r' \<leftarrow> OnHttpRequestTrailers E k; ret (r, r') })
       (\<lambda>r s'. r = (Returns ActionContinue, Panics (NilDeref ''logger''))) (c, w) \<and>
     wp (do { r \<leftarrow> OnHttpRequestHeaders E n eos; r' \<leftarrow> OnHttpResponseTrailers E k; ret (r, r') })
       (\<lambda>r s'. r = (Returns ActionContinue, Panics (NilDeref ''logger''))) (c, w)"
proof -
  have headers: "wp (OnHttpRequestHeaders E n eos)
      (\<lambda>r s'. r = Returns ActionContinue \<and> ctx_logger (fst s') = None) (c, w)"
    unfolding OnHttpRequestHeaders_def CountTX_def request_authority_def
    by (intro vcg incrementCounter_vcg failure_policy_vcg) (use assms in \<open>auto simp: FailurePolicyAllow_def\<close>)
  have "wp (OnHttpRequestTrailers E k) (\<lambda>r s'. r = Panics (NilDeref ''logger'')) (c', v)"
    "wp (OnHttpResponseTrailers E k) (\<lambda>r s'. r = Panics (NilDeref ''logger'')) (c', v)"
    if "ctx_logger c' = None" for c' v
    unfolding OnHttpRequestTrailers_def OnHttpResponseTrailers_def by (intro vcg; simp add: that)+
  then show ?thesis
    by (intro conjI vcg wp_mono [OF headers]) (auto elim: wp_mono simp: wp_return)
qed

lemma trailers_panic_without_waf_witness:
  "wp (do { r \<leftarrow> OnHttpRequestHeaders demo_env 3 False; r' \<leftarrow> OnHttpRequestTrailers demo_env 1; ret (r, r') })
     (\<lambda>r s'. r = (Returns ActionContinue, Panics (NilDeref ''logger'')))
     (demo_fresh\<lparr>ctx_failurePolicy := ''allow'', ctx_perAuthorityWAFs := newWAFMap 0\<rparr>, demo_world)"
  by (rule trailers_panic_without_waf [where m = 0 and a = "''a.io:80''", THEN conjunct1])
    (simp_all add: demo_defs)

section \<open>Labels\<close>

text \<open>C13: the labels of two streams. Both start from the labels of the plugin and append their own
  authority. If the plugin's backing array has no room for another pair, the streams keep their own
  labels; if it has, the second stream overwrites the label of the first, whose interruptions are
  from then on counted under the authority of the second.\<close>

theorem streams_share_label_room:
  assumes "ctx_metricLabelsKV c1 = s" and "ctx_metricLabelsKV c2 = s" and "wf_slice (arrays w) s"
  shows "wp (append_metric_labels E [''authority'', a])
     (\<lambda>_ (c1', w1).
        wp (append_metric_labels E [''authority'', b])
          (\<lambda>_ (c2', w2).
             read_slice (arrays w2) (ctx_metricLabelsKV c2') = read_slice (arrays w) s @ [''authority'', b] \<and>
             read_slice (arrays w2) (ctx_metricLabelsKV c1') =
               read_slice (arrays w) s @ [''authority'', if sl_len s + 2 \<le> sl_cap s then b else a])
          (c2, w1)) (c1, w)"
proof -
  let ?app = "append_slice (rt_growcap E) []"
  obtain s1 hp1 where one: "?app (arrays w) s [''authority'', a] = (s1, hp1)"
    by (cases "?app (arrays w) s [''authority'', a]")
  obtain s2 hp2 where two: "?app hp1 s [''authority'', b] = (s2, hp2)"
    by (cases "?app hp1 s [''authority'', b]")
  have wf: "wf_slice hp1 s" "wf_slice hp1 s1"
    using store.app_ok_other [OF assms(3) one assms(3)] store.app_ok [OF assms(3) one] by auto
  have same: "read_slice hp1 s = read_slice (arrays w) s"
    by (rule append_slice_read_other [OF assms(3) one assms(3)]) simp
  have r2: "read_slice hp2 s2 = read_slice (arrays w) s @ [''authority'', b]"
    using store.app_read [OF wf(1) two] same by simp
  have "read_slice hp2 s1 = read_slice (arrays w) s @ [''authority'', if sl_len s + 2 \<le> sl_cap s then b else a]"
  proof (cases "sl_len s + 2 \<le> sl_cap s")
    case True
    then have "s1 = s2" using one two by (auto simp: append_slice_def Let_def)
    with r2 True show ?thesis by simp
  next
    case False
    then have "read_slice hp2 s1 = read_slice hp1 s1"
      by (intro append_slice_read_other [OF wf(1) two wf(2)]) simp
    with False store.app_read [OF assms(3) one] show ?thesis by simp
  qed
  with r2 show ?thesis using one two by (simp add: append_metric_labels_def wp assms(1,2))
qed

lemma streams_share_label_room_witness:
  "wp (append_metric_labels demo_env [''authority'', ''a''])
     (\<lambda>_ (c1', w1).
        wp (append_metric_labels demo_env [''authority'', ''b''])
          (\<lambda>_ (c2', w2). read_slice (arrays w2) (ctx_metricLabelsKV c1') = [''team'', ''x'', ''authority'', ''b''])
          (demo_fresh, w1)) (demo_ctx, demo_world)"
proof -
  have base: "read_slice (arrays demo_world) (ctx_metricLabelsKV demo_fresh) = [''team'', ''x'']"
    "wf_slice (arrays demo_world) (ctx_metricLabelsKV demo_fresh)" "ctx_metricLabelsKV demo_ctx = ctx_metricLabelsKV demo_fresh"
    "sl_len (ctx_metricLabelsKV demo_fresh) + 2 \<le> sl_cap (ctx_metricLabelsKV demo_fresh)"
    by (simp_all add: demo_defs wf_slice_def read_slice_def)
  show ?thesis
    by (rule wp_mono [OF streams_share_label_room [OF base(3) refl base(2), where b = "''b''"]])
      (use base in \<open>auto elim!: wp_mono\<close>)
qed

section \<open>No silent stall\<close>

text \<open>
  How a handler may end: the stream goes on and nothing is sent; it goes on and the proxy is asked
  to replace the response body; it is paused and exactly one local response was sent.
\<close>

definition goes_on :: "world \<Rightarrow> action outcome \<Rightarrow> world \<Rightarrow> bool" where
  "goes_on w r w' \<longleftrightarrow> r = Returns ActionContinue \<and> responses w' = responses w"

definition blanked :: "world \<Rightarrow> action outcome \<Rightarrow> world \<Rightarrow> bool" where
  "blanked w r w' \<longleftrightarrow>
     r = Returns ActionContinue \<and> (\<exists>b. responses w' = responses w @ [ReplaceHttpResponseBody b])"

definition answered_locally :: "world \<Rightarrow> action outcome \<Rightarrow> world \<Rightarrow> bool" where
  "answered_locally w r w' \<longleftrightarrow>
     r = Returns ActionPause \<and> (\<exists>code. responses w' = responses w @ [SendHttpResponse code])"

lemmas verdict_defs = goes_on_def blanked_def answered_locally_def

lemma inspect_request_headers_answers:
  assumes "ctx_ok c w" and "ctx_tx c = Some t" and "ctx_interruptedAt c = interruptionPhaseNone"
    and "\<And>e. \<not> send_fails E e"
    and Q: "\<And>r c' w'. goes_on w r w' \<or> answered_locally w r w' \<Longrightarrow> Q r (c', w')"
  shows "wp (inspect_request_headers E t authority) Q (c, w)"
  unfolding inspect_request_headers_def
  by (intro vcg Q retrieveAddressInfo_vcg request_method_vcg request_uri_vcg request_protocol_vcg
      add_request_headers_vcg shared_rules)
    (use assms(1-4) in \<open>auto simp: contract_simps verdict_defs split: if_splits\<close>)

lemma OnHttpRequestHeaders_answers:
  assumes "ctx_ok c w" and "\<not> isInterrupted (ctx_interruptedAt c)" and "\<And>e. \<not> send_fails E e"
  shows "wp (OnHttpRequestHeaders E n eos) (\<lambda>r (c', w'). goes_on w r w' \<or> answered_locally w r w') (c, w)"
proof -
  have ok: "ctx_metrics c \<noteq> None" "ctx_interruptedAt c = interruptionPhaseNone"
    using assms(1,2) by (auto simp: ctx_ok_def isInterrupted_def)
  have waf: "waf \<noteq> None" if "getWAFOrDefault (ctx_perAuthorityWAFs c) a = Inr (waf, d)" for waf a d
    using no_nil_waf_resolve [OF _ that] assms(1) by (simp add: ctx_ok_def)
  have ctx_ok_quiet: "ctx_ok c w'" if "arrays w' = arrays w" "length (counters w') = length (counters w)" for w'
    using assms(1) that by (simp add: ctx_ok_def)
  show ?thesis
    unfolding OnHttpRequestHeaders_def CountTX_def
    by (intro vcg incrementCounter_vcg request_authority_vcg start_transaction_vcg
        inspect_request_headers_answers assms(3) failure_policy_vcg)
      (auto simp: ok ctx_ok_quiet waf same_views_def verdict_defs stream_step_ok split: if_splits)
qed

text \<open>C14: nobody waits for nothing, as long as the proxy accepts the local responses it is asked to send
  (a refused one is only logged, see C1, or a panic, see C2). On a stream that is not interrupted, the
  request headers, the end of the request body, the response headers and the end of the response body
  always return; they either let the stream go on without a local response, or pause it and have sent
  exactly one, whatever else the proxy and the engine answer. Only the response body may be replaced
  instead.\<close>

theorem no_silent_stall:
  assumes "ctx_ok c w" and "\<not> isInterrupted (ctx_interruptedAt c)" and "0 \<le> n"
    and "\<And>h code. pw_SendHttpResponse E h code = None"
  shows "wp (OnHttpRequestHeaders E k eos) (\<lambda>r (c', w'). goes_on w r w' \<or> answered_locally w r w') (c, w) \<and>
    wp (OnHttpRequestBody E n True) (\<lambda>r (c', w'). goes_on w r w' \<or> answered_locally w r w') (c, w) \<and>
    wp (OnHttpResponseHeaders E k eos) (\<lambda>r (c', w'). goes_on w r w' \<or> answered_locally w r w') (c, w) \<and>
    wp (OnHttpResponseBody E n True)
      (\<lambda>r (c', w'). goes_on w r w' \<or> answered_locally w r w' \<or> blanked w r w') (c, w)"
proof -
  have sent: "\<not> send_fails E e" for e using assms(4) by (simp add: send_fails_def)
  show ?thesis
    unfolding OnHttpRequestBody_def write_request_chunk_def finish_request_body_def process_request_body_def
      OnHttpResponseHeaders_def inspect_response_headers_def
      OnHttpResponseBody_def skip_response_body_def response_body_inspectable_def
      write_response_chunk_def finish_response_body_def
    by (intro conjI OnHttpRequestHeaders_answers assms(1,2) sent vcg shared_rules response_status_vcg add_response_headers_vcg)
      (use assms(1-3) sent in \<open>auto simp: contract_simps same_views_def verdict_defs split: if_splits\<close>)
qed

lemma no_silent_stall_witness:
  "wp (OnHttpRequestBody (demo_env\<lparr>tx_ProcessRequestBody := (\<lambda>h t. Inl (errors_New ''failed''))\<rparr>) 4 True)
     (\<lambda>r (c', w'). goes_on demo_world r w' \<or> answered_locally demo_world r w') (demo_ctx, demo_world)"
  by (rule no_silent_stall [THEN conjunct2, THEN conjunct1]) (simp_all add: isInterrupted_def demo_defs
      ctx_ok_def wf_slice_def no_nil_waf_def)

end
