(* ===== verification/Body_Chunks.thy ===== *)
theory Body_Chunks
  imports Http_Properties
begin

text \<open>
  Bodies arrive in chunks: the proxy calls a body handler with the size of everything it has
  buffered so far, any number of times, the last time with the end of the stream. The locale
  \<open>body_feed\<close> is the contract of one call; it yields that the engine is given every byte
  of the body exactly once, in order, however the body was cut. It is interpreted on both body
  handlers.
\<close>

section \<open>A body in callbacks\<close>

text \<open>The callbacks for the buffer sizes \<open>ks\<close> and then for the complete body of size \<open>n\<close>.\<close>

fun deliver ::
  "(int \<Rightarrow> bool \<Rightarrow> action handler) \<Rightarrow> nat list \<Rightarrow> nat \<Rightarrow> (httpContext, action outcome list) program" where
  "deliver h [] n = do { r \<leftarrow> h (int n) True; ret [r] }"
| "deliver h (k # ks) n = do {
     r \<leftarrow> h (int k) False;
     rs \<leftarrow> deliver h ks n;
     ret (r # rs) }"

text \<open>The new data a call with buffer size \<open>k\<close> finds when \<open>i\<close> bytes have been read.\<close>

definition new_data :: "bytes \<Rightarrow> nat \<Rightarrow> nat \<Rightarrow> bytes list" where
  "new_data body i k = (if i < k then [take (k - i) (drop i body)] else [])"

lemma concat_new_data: "i \<le> k \<Longrightarrow> concat (new_data body i k) @ drop k body = drop i body"
proof -
  assume "i \<le> k"
  moreover have "take (k - i) (drop i body) @ drop (k - i) (drop i body) = drop i body" by (rule append_take_drop_id)
  ultimately show ?thesis by (auto simp: new_data_def)
qed

locale body_feed =
  fixes h :: "int \<Rightarrow> bool \<Rightarrow> action handler" and wr :: "bytes \<Rightarrow> event"
    and fin :: event and body :: bytes and ready :: "httpContext \<Rightarrow> bool"
  assumes feed_more: "ready c \<Longrightarrow> ctx_bodyReadIndex c = int i \<Longrightarrow> i \<le> k \<Longrightarrow> k \<le> length body \<Longrightarrow>
      wp (h (int k) False)
        (\<lambda>r s'. r = Returns ActionPause \<and> ready (fst s') \<and> ctx_bodyReadIndex (fst s') = int k \<and>
           engine_calls (snd s') = engine_calls w @ map wr (new_data body i k)) (c, w)"
    and feed_last: "ready c \<Longrightarrow> ctx_bodyReadIndex c = int i \<Longrightarrow> i \<le> length body \<Longrightarrow>
      wp (h (int (length body)) True)
        (\<lambda>r s'. r = Returns ActionContinue \<and>
           engine_calls (snd s') = engine_calls w @ map wr (new_data body i (length body)) @ [fin]) (c, w)"
begin

lemma every_byte_once:
  assumes "ready c" and "ctx_bodyReadIndex c = int i" and "sorted (i # ks @ [length body])"
  shows "wp (deliver h ks (length body))
     (\<lambda>rs s'. rs = replicate (length ks) (Returns ActionPause) @ [Returns ActionContinue] \<and>
        (\<exists>bs. concat bs = drop i body \<and>
           engine_calls (snd s') = engine_calls w @ map wr bs @ [fin])) (c, w)"
  using assms
proof (induction ks arbitrary: c w i)
  case Nil
  then have i: "i \<le> length body" by simp
  have *: "concat (new_data body i (length body)) = drop i body"
    using concat_new_data [OF i, of body] by simp
  show ?case
    unfolding deliver.simps
    by (intro vcg wp_mono [OF feed_last [OF Nil.prems(1,2) i, of w]]) (use * in auto)
next
  case (Cons k ks)
  then have k: "i \<le> k" "k \<le> length body" by auto
  have rest: "wp (deliver h ks (length body))
     (\<lambda>rs s'. Returns ActionPause # rs = replicate (length (k # ks)) (Returns ActionPause) @ [Returns ActionContinue] \<and>
        (\<exists>bs. concat bs = drop i body \<and> engine_calls (snd s') = engine_calls w @ map wr bs @ [fin])) (c', w')"
    if "ready c'" "ctx_bodyReadIndex c' = int k"
      "engine_calls w' = engine_calls w @ map wr (new_data body i k)" for c' w'
  proof (rule wp_mono [OF Cons.IH [OF that(1,2), of w']])
    show "sorted (k # ks @ [length body])" using Cons.prems(3) by simp
  next
    fix rs s'
    assume "rs = replicate (length ks) (Returns ActionPause) @ [Returns ActionContinue] \<and>
      (\<exists>bs. concat bs = drop k body \<and> engine_calls (snd s') = engine_calls w' @ map wr bs @ [fin])"
    then obtain bs where bs: "rs = replicate (length ks) (Returns ActionPause) @ [Returns ActionContinue]"
      "concat bs = drop k body" "engine_calls (snd s') = engine_calls w' @ map wr bs @ [fin]" by blast
    have "concat (new_data body i k @ bs) = drop i body"
      using bs(2) concat_new_data [OF k(1), of body] by simp
    moreover have "engine_calls (snd s') = engine_calls w @ map wr (new_data body i k @ bs) @ [fin]"
      using bs(3) that(3) by simp
    ultimately show "Returns ActionPause # rs = replicate (length (k # ks)) (Returns ActionPause) @ [Returns ActionContinue] \<and>
        (\<exists>bs. concat bs = drop i body \<and> engine_calls (snd s') = engine_calls w @ map wr bs @ [fin])"
      using bs(1) by (metis append_Cons length_Cons replicate_Suc)
  qed
  show ?case
    unfolding deliver.simps
    by (intro vcg wp_mono [OF feed_more [OF Cons.prems(1,2) k, of w]]) (auto intro!: vcg wp_mono [OF rest])
qed

end

section \<open>Request and response bodies\<close>

text \<open>A proxy that hands out the body it buffers, and an engine that takes all of it.\<close>

definition accepts_request_body :: "env \<Rightarrow> tx \<Rightarrow> bytes \<Rightarrow> bool" where
  "accepts_request_body E t body \<longleftrightarrow>
     (\<forall>h. \<not> tx_IsRuleEngineOff E h t) \<and> (\<forall>h. tx_IsRequestBodyAccessible E h t) \<and>
     (\<forall>h i n. pw_GetHttpRequestBody E h i n = Inr (take (nat n) (drop (nat i) body))) \<and>
     (\<forall>h b. tx_WriteRequestBody E h t b = Inr (None, int (length b))) \<and>
     (\<forall>h. tx_ProcessRequestBody E h t = Inr None)"

definition accepts_response_body :: "env \<Rightarrow> tx \<Rightarrow> bytes \<Rightarrow> bool" where
  "accepts_response_body E t body \<longleftrightarrow>
     (\<forall>h. \<not> tx_IsRuleEngineOff E h t) \<and> (\<forall>h. tx_IsResponseBodyAccessible E h t) \<and>
     (\<forall>h. tx_IsResponseBodyProcessable E h t) \<and>
     (\<forall>h i n. pw_GetHttpResponseBody E h i n = Inr (take (nat n) (drop (nat i) body))) \<and>
     (\<forall>h b. tx_WriteResponseBody E h t b = Inr (None, int (length b))) \<and>
     (\<forall>h. tx_ProcessResponseBody E h t = Inr None)"

definition request_ready :: "tx \<Rightarrow> httpContext \<Rightarrow> bool" where
  "request_ready t c \<longleftrightarrow> ctx_tx c = Some t \<and> ctx_logger c \<noteq> None \<and>
     \<not> isInterrupted (ctx_interruptedAt c) \<and> \<not> ctx_processedRequestBody c"

definition response_ready :: "tx \<Rightarrow> httpContext \<Rightarrow> bool" where
  "response_ready t c \<longleftrightarrow> ctx_tx c = Some t \<and> ctx_logger c \<noteq> None \<and>
     \<not> isInterrupted (ctx_interruptedAt c) \<and> \<not> ctx_processedResponseBody c"

lemma nat_diff_int: "nat (int k - int i) = k - i"
  by simp

lemmas feed_simps = nat_diff_int accepts_request_body_def accepts_response_body_def request_ready_def
  response_ready_def new_data_def same_views_def

interpretation request_feed: body_feed "OnHttpRequestBody E" "WriteRequestBody t" "ProcessRequestBody t" body
  "\<lambda>c. accepts_request_body E t body \<and> request_ready t c" for E t body
proof
  fix c w i k
  assume "accepts_request_body E t body \<and> request_ready t c" "ctx_bodyReadIndex c = int i"
    "i \<le> k" "k \<le> length body"
  then show "wp (OnHttpRequestBody E (int k) False)
      (\<lambda>r s'. r = Returns ActionPause \<and> (accepts_request_body E t body \<and> request_ready t (fst s')) \<and>
         ctx_bodyReadIndex (fst s') = int k \<and>
         engine_calls (snd s') = engine_calls w @ map (WriteRequestBody t) (new_data body i k)) (c, w)"
    unfolding OnHttpRequestBody_def write_request_chunk_def finish_request_body_def
    by (intro vcg) (auto simp: feed_simps)
next
  fix c w i
  assume "accepts_request_body E t body \<and> request_ready t c" "ctx_bodyReadIndex c = int i"
    "i \<le> length body"
  then show "wp (OnHttpRequestBody E (int (length body)) True)
      (\<lambda>r s'. r = Returns ActionContinue \<and>
         engine_calls (snd s') = engine_calls w @
           map (WriteRequestBody t) (new_data body i (length body)) @ [ProcessRequestBody t]) (c, w)"
    unfolding OnHttpRequestBody_def write_request_chunk_def finish_request_body_def process_request_body_def
    by (intro vcg) (auto simp: feed_simps)
qed

interpretation response_feed: body_feed "OnHttpResponseBody E" "WriteResponseBody t" "ProcessResponseBody t" body
  "\<lambda>c. accepts_response_body E t body \<and> response_ready t c" for E t body
proof
  fix c w i k
  assume "accepts_response_body E t body \<and> response_ready t c" "ctx_bodyReadIndex c = int i"
    "i \<le> k" "k \<le> length body"
  then show "wp (OnHttpResponseBody E (int k) False)
      (\<lambda>r s'. r = Returns ActionPause \<and> (accepts_response_body E t body \<and> response_ready t (fst s')) \<and>
         ctx_bodyReadIndex (fst s') = int k \<and>
         engine_calls (snd s') = engine_calls w @ map (WriteResponseBody t) (new_data body i k)) (c, w)"
    unfolding OnHttpResponseBody_def write_response_chunk_def finish_response_body_def
      response_body_inspectable_def
    by (intro vcg) (auto simp: feed_simps)
next
  fix c w i
  assume "accepts_response_body E t body \<and> response_ready t c" "ctx_bodyReadIndex c = int i"
    "i \<le> length body"
  then show "wp (OnHttpResponseBody E (int (length body)) True)
      (\<lambda>r s'. r = Returns ActionContinue \<and>
         engine_calls (snd s') = engine_calls w @
           map (WriteResponseBody t) (new_data body i (length body)) @ [ProcessResponseBody t]) (c, w)"
    unfolding OnHttpResponseBody_def write_response_chunk_def finish_response_body_def
      response_body_inspectable_def
    by (intro vcg) (auto simp: feed_simps)
qed

section \<open>Properties\<close>

text \<open>C9: the engine is given the whole request body. However the proxy cuts a body into growing
  buffers (repeated sizes included), if the proxy hands out the bytes it is asked for and the
  engine takes them, every call but the last pauses the stream, the last one continues it, and the
  engine has received chunks that concatenate to exactly the body, followed by one run of the
  request body rules.\<close>

theorem request_body_delivered:
  assumes "accepts_request_body E t body" and "request_ready t c" and "ctx_bodyReadIndex c = 0"
    and "sorted (ks @ [length body])"
  shows "wp (deliver (OnHttpRequestBody E) ks (length body))
     (\<lambda>rs (c', w'). rs = replicate (length ks) (Returns ActionPause) @ [Returns ActionContinue] \<and>
        (\<exists>bs. concat bs = body \<and>
           engine_calls w' = engine_calls w @ map (WriteRequestBody t) bs @ [ProcessRequestBody t])) (c, w)"
  by (rule wp_mono [OF request_feed.every_byte_once [where i = 0 and t = t]]) (use assms in auto)

lemma request_body_delivered_witness:
  "wp (deliver (OnHttpRequestBody demo_env) [2, 2, 3] (length [1, 2, 3, 4 :: byte]))
     (\<lambda>rs (c', w'). \<exists>bs. concat bs = [1, 2, 3, 4] \<and>
        engine_calls w' = map (WriteRequestBody 9) bs @ [ProcessRequestBody 9]) (demo_ctx, demo_world)"
  by (rule wp_mono [OF request_body_delivered [where t = 9]])
    (auto simp: feed_simps demo_defs isInterrupted_def engine_calls_def)

text \<open>C10: the engine is given the response body from the position the stream's read index stands
  at: the chunks concatenate to the body without its first \<open>i\<close> bytes. So it is the whole body
  exactly when the index is 0 as the response body starts.\<close>

theorem response_body_delivered:
  assumes "accepts_response_body E t body" and "response_ready t c" and "ctx_bodyReadIndex c = int i"
    and "sorted (i # ks @ [length body])"
  shows "wp (deliver (OnHttpResponseBody E) ks (length body))
     (\<lambda>rs (c', w'). rs = replicate (length ks) (Returns ActionPause) @ [Returns ActionContinue] \<and>
        (\<exists>bs. concat bs = drop i body \<and>
           engine_calls w' = engine_calls w @ map (WriteResponseBody t) bs @ [ProcessResponseBody t])) (c, w)"
  by (rule wp_mono [OF response_feed.every_byte_once [where i = i and t = t]]) (use assms in auto)

lemma response_body_delivered_witness:
  "wp (deliver (OnHttpResponseBody demo_env) [1, 3] (length [5, 6, 7, 8 :: byte]))
     (\<lambda>rs (c', w'). \<exists>bs. concat bs = [5, 6, 7, 8] \<and>
        engine_calls w' = map (WriteResponseBody 9) bs @ [ProcessResponseBody 9]) (demo_ctx, demo_world)"
  by (rule wp_mono [OF response_body_delivered [where t = 9 and i = 0]])
    (auto simp: feed_simps demo_defs isInterrupted_def engine_calls_def)

text \<open>C11: the read index of the request leaks into the response. When the engine stops taking the
  request body at its limit, in a call that starts at index \<open>i\<close>, the index stays at \<open>i\<close>
  although the request body is finished, and of the response body that follows the engine never
  sees the first \<open>i\<close> bytes.\<close>

theorem request_limit_hides_response_prefix:
  assumes "accepts_response_body E t body" and "response_ready t c" and "ctx_bodyReadIndex c = int i"
    and "\<not> ctx_processedRequestBody c" and "\<And>h. tx_IsRequestBodyAccessible E h t"
    and "\<And>h j k. pw_GetHttpRequestBody E h j k = Inr chunk" and "int i < n"
    and "\<And>h. tx_WriteRequestBody E h t chunk = Inr (None, m)" and "m < int (length chunk)"
    and "sorted (i # ks @ [length body])"
  shows "wp (do {
       r \<leftarrow> OnHttpRequestBody E n eos;
       _ \<leftarrow> deliver (OnHttpResponseBody E) ks (length body);
       ret r })
     (\<lambda>r (c', w'). r = Returns ActionContinue \<and>
        (\<exists>bs. concat bs = drop i body \<and>
           engine_calls w' = engine_calls w @ WriteRequestBody t chunk #
             map (WriteResponseBody t) bs @ [ProcessResponseBody t])) (c, w)"
proof -
  have "wp (OnHttpRequestBody E n eos)
      (\<lambda>r s'. r = Returns ActionContinue \<and> response_ready t (fst s') \<and> ctx_bodyReadIndex (fst s') = int i \<and>
         engine_calls (snd s') = engine_calls w @ [WriteRequestBody t chunk]) (c, w)"
    unfolding OnHttpRequestBody_def write_request_chunk_def
    by (intro vcg) (use assms in \<open>auto simp: feed_simps\<close>)
  moreover have "wp (deliver (OnHttpResponseBody E) ks (length body))
      (\<lambda>rs s'. \<exists>bs. concat bs = drop i body \<and>
         engine_calls (snd s') = engine_calls w' @ map (WriteResponseBody t) bs @ [ProcessResponseBody t]) (c', w')"
    if "response_ready t c'" "ctx_bodyReadIndex c' = int i" for c' w'
    by (rule wp_mono [OF response_feed.every_byte_once [where t = t and E = E]]) (use assms that in auto)
  ultimately show ?thesis
    by (intro vcg, elim wp_mono) (fastforce intro!: vcg elim: wp_mono)
qed

lemma request_limit_hides_response_prefix_witness:
  "wp (do {
       r \<leftarrow> OnHttpRequestBody (demo_env\<lparr>tx_WriteRequestBody := (\<lambda>h t b. Inr (None, 1)),
         pw_GetHttpRequestBody := (\<lambda>h i n. Inr [3, 4])\<rparr>) 4 True;
       _ \<leftarrow> deliver (OnHttpResponseBody (demo_env\<lparr>tx_WriteRequestBody := (\<lambda>h t b. Inr (None, 1)),
         pw_GetHttpRequestBody := (\<lambda>h i n. Inr [3, 4])\<rparr>)) [3] (length [5, 6, 7, 8 :: byte]);
       ret r })
     (\<lambda>r (c', w'). \<exists>bs. concat bs = [7, 8] \<and> engine_calls w' = WriteRequestBody 9 [3, 4] #
        map (WriteResponseBody 9) bs @ [ProcessResponseBody 9])
     (demo_ctx\<lparr>ctx_bodyReadIndex := 2\<rparr>, demo_world)"
  by (rule wp_mono [OF request_limit_hides_response_prefix
        [where t = 9 and i = 2 and m = 1 and chunk = "[3, 4]" and body = "[5, 6, 7, 8]"]])
    (auto simp: feed_simps demo_defs isInterrupted_def engine_calls_def)

end
