(* ===== verification/Helper_Properties.thy ===== *)
theory Helper_Properties
  imports Demo
begin

text \<open>
  The properties of the parts the stream handlers call: the registry of WAFs, the decoding of
  addresses and ports, the metrics.
\<close>

section \<open>Registry, addresses and counters\<close>

text \<open>C15: registering one WAF for several authorities stops with an error exactly if one of them is
  empty; otherwise each of them resolves to this WAF and is no default, and every other key
  resolves as before (in particular, unknown ones to the default, or to an error without one).\<close>

theorem registered_authorities_resolve:
  "case put_all m authorities w of
     Inl e \<Rightarrow> e = errors_New ''empty WAF key'' \<and> [] \<in> set authorities
   | Inr m' \<Rightarrow> [] \<notin> set authorities \<and>
       (\<forall>k. getWAFOrDefault m' k = (if k \<in> set authorities then Inr (w, False) else getWAFOrDefault m k))"
proof (cases "put_all m authorities w")
  case (Inl e)
  have "e = errors_New ''empty WAF key''"
    using Inl unfolding put_all_def
    by (induction authorities arbitrary: m) (auto simp: put_def split: if_splits)
  with Inl wafs.reg_all_succeeds [of w authorities m] show ?thesis by (auto simp: put_all_def)
next
  case (Inr m')
  with wafs.reg_all_succeeds [of w authorities m] wafs.resolve_reg_all [of w authorities m m'] show ?thesis
    by (auto simp: put_all_def)
qed

text \<open>C16: ports. Eight little-endian bytes of a number, with anything behind them, decode to the
  number as long as it fits the signed 32-bit integers of the target, and are an error beyond;
  fewer than eight bytes are an error.\<close>

theorem parsePort_decodes:
  assumes "n < 2 ^ 64"
  shows "parsePort (le_bytes n @ rest) =
      (if n \<le> 0x7FFFFFFF then Inr (int n) else Inl (errors_New ''port conversion error'')) \<and>
    (length short < 8 \<longrightarrow> parsePort short = Inl (errors_New ''port bytes not found''))"
proof -
  have "length (le_bytes n) = 8" by (simp add: le_bytes_def)
  then have "parsePort (le_bytes n @ rest) = parsePort (le_bytes n)"
    by (simp add: parsePort_cases)
  then show ?thesis using parsePort_le_bytes [OF assms] by (simp add: parsePort_def)
qed

lemma parsePort_decodes_witness: "parsePort (le_bytes 8080 @ [0, 1]) = Inr 8080"
  using parsePort_decodes [of 8080 "[0, 1]" "[]"] by simp

text \<open>C17: the address of a peer, given as \<open>host:port\<close> or, for IPv6, \<open>[host]:port\<close>. The
  host is recovered; the port is the one of the port property if the proxy has it, otherwise the
  one in the address. Nothing is answered, the engine is not called and the stream is unchanged.\<close>

theorem retrieveAddressInfo_recovers:
  assumes "\<And>h p. pw_GetProperty E h p = attr p" and "lg \<noteq> None"
    and "addr = host @ '':'' @ itoa p \<and> CHR '':'' \<notin> set host \<or> addr = ''['' @ host @ '']:'' @ itoa p"
    and "set host \<inter> set ''[]'' = {}" and "0 \<le> p" and "p < 2 ^ 31"
    and "attr [target, ''address''] = Inr (go_bytes addr)"
    and "attr [target, ''port''] = (if known then Inr (le_bytes q) else Inl e)" and "q < 2 ^ 31"
  shows "wp (retrieveAddressInfo E lg target)
    (\<lambda>r (c', w'). r = Returns (host, if known then int q else p) \<and> c' = c \<and>
       engine_calls w' = engine_calls w \<and> responses w' = responses w) (c, w)"
proof -
  have digits: "set (itoa p) \<inter> set '':[]'' = {}"
  proof -
    have "digit_val CHR '':'' = None" "digit_val CHR ''['' = None" "digit_val CHR '']'' = None"
      by (simp_all add: digit_val_def Let_def of_char_def)
    with digits_utoa [of _ "nat p"] assms(5) show ?thesis by (force simp: itoa_def)
  qed
  from assms(3) have split: "SplitHostPort addr = Inr (host, itoa p)"
  proof (elim disjE conjE)
    assume "addr = host @ '':'' @ itoa p" "CHR '':'' \<notin> set host"
    then show ?thesis using SplitHostPort_plain [of host "itoa p"] assms(4) digits by auto
  next
    assume "addr = ''['' @ host @ '']:'' @ itoa p"
    then show ?thesis using SplitHostPort_brackets [of host "itoa p"] assms(4) digits by auto
  qed
  have "itoa p \<noteq> []" by (simp add: itoa_def)
  moreover have "Atoi (itoa p) = (p, None)" using assms(5,6) by (intro Atoi_itoa) auto
  moreover have "parsePort (le_bytes q) = Inr (int q)" using assms(9) parsePort_le_bytes [of q] by simp
  ultimately have "address_info (attr [target, ''address'']) (attr [target, ''port'']) = (host, if known then int q else p)"
    using assms(7,8) by (simp add: address_info_def split)
  then show ?thesis
    by (intro retrieveAddressInfo_vcg_const [OF assms(1,2)]) simp
qed

lemma retrieveAddressInfo_recovers_witness:
  "wp (retrieveAddressInfo demo_env (ctx_logger demo_ctx) ''source'')
    (\<lambda>r (c', w'). r = Returns (''1.2.3.4'', 8080)) (demo_ctx, demo_world)"
proof -
  have p: "itoa 5 = ''5''" by code_simp
  show ?thesis
    by (rule wp_mono [OF retrieveAddressInfo_recovers
          [where attr = demo_property and host = "''1.2.3.4''" and p = 5 and known = True and q = 8080 and addr = "''1.2.3.4:5''"]])
      (auto simp: demo_defs demo_property_def p)
qed

text \<open>Counting a list of names on one metrics object.\<close>

fun count_all :: "env \<Rightarrow> metrics_ref \<Rightarrow> string list \<Rightarrow> ('c, unit) program" where
  "count_all E m [] = ret ()"
| "count_all E m (f # fs) = do { _ \<leftarrow> incrementCounter E m f; count_all E m fs }"

lemma count_all_counts:
  assumes "\<And>h f. pw_DefineCounterMetric E h f = handle f" and "inj_on handle S" and "r < length (counters w)"
    and "set fs \<subseteq> S" and "\<And>f c. (counters w ! r) f = Some c \<Longrightarrow> c = handle f"
  shows "wp (count_all E (Some r) fs)
    (\<lambda>_ s'. \<forall>f\<in>S. count_list (trace (snd s')) (IncrementCounter (handle f) 1) =
          count_list (trace w) (IncrementCounter (handle f) 1) + count_list fs f \<and>
        count_list (trace (snd s')) (DefineCounterMetric f) =
          count_list (trace w) (DefineCounterMetric f) + of_bool (f \<in> set fs \<and> (counters w ! r) f = None)) (x, w)"
  using assms(3-5)
proof (induction fs arbitrary: w)
  case Nil
  then show ?case by (simp add: wp)
next
  case (Cons g gs)
  obtain c w' where run: "run_state (incrementCounter E (Some r) g) (x, w) = (Returns (), (x, w'))"
    and known: "(counters w' ! r) g = Some c"
    and step: "case (counters w ! r) g of
        Some d \<Rightarrow> c = d \<and> counters w' = counters w \<and> trace w' = trace w @ [IncrementCounter c 1]
      | None \<Rightarrow> c = handle g \<and> counters w' = (counters w)[r := (counters w ! r)(g \<mapsto> c)] \<and>
          trace w' = trace w @ [DefineCounterMetric g, IncrementCounter c 1]"
    using incrementCounter_run [OF Cons.prems(1), of E g x, unfolded assms(1)] by blast
  have c: "c = handle g" using step Cons.prems(3) [of g] by (auto split: option.splits)
  have len: "r < length (counters w')" using step Cons.prems(1) by (auto split: option.splits)
  have inv: "d = handle f" if "(counters w' ! r) f = Some d" for f d
    using that step Cons.prems c by (auto split: option.splits if_splits)
  have g: "g \<in> S" "set gs \<subseteq> S" using Cons.prems(2) by auto
  have incs: "count_list (trace w') (IncrementCounter (handle f) 1) =
      count_list (trace w) (IncrementCounter (handle f) 1) + of_bool (f = g)" if "f \<in> S" for f
    using step c that g(1) assms(2) by (cases "(counters w ! r) g") (auto simp: inj_on_eq_iff)
  have defs: "count_list (trace w') (DefineCounterMetric f) =
      count_list (trace w) (DefineCounterMetric f) + of_bool (f = g \<and> (counters w ! r) g = None)" for f
    using step by (cases "(counters w ! r) g") auto
  have none: "(counters w' ! r) f = None \<longleftrightarrow> f \<noteq> g \<and> (counters w ! r) f = None" for f
    using step Cons.prems(1) by (cases "(counters w ! r) g") auto
  have "wp (count_all E (Some r) gs)
    (\<lambda>_ s'. \<forall>f\<in>S. count_list (trace (snd s')) (IncrementCounter (handle f) 1) =
          count_list (trace w) (IncrementCounter (handle f) 1) + count_list (g # gs) f \<and>
        count_list (trace (snd s')) (DefineCounterMetric f) =
          count_list (trace w) (DefineCounterMetric f) + of_bool (f \<in> set (g # gs) \<and> (counters w ! r) f = None)) (x, w')"
  proof (rule wp_mono [OF Cons.IH [OF len g(2) inv]])
    fix u and s' :: "'a \<times> world"
    assume *: "\<forall>f\<in>S. count_list (trace (snd s')) (IncrementCounter (handle f) 1) =
          count_list (trace w') (IncrementCounter (handle f) 1) + count_list gs f \<and>
        count_list (trace (snd s')) (DefineCounterMetric f) =
          count_list (trace w') (DefineCounterMetric f) + of_bool (f \<in> set gs \<and> (counters w' ! r) f = None)"
    show "\<forall>f\<in>S. count_list (trace (snd s')) (IncrementCounter (handle f) 1) =
          count_list (trace w) (IncrementCounter (handle f) 1) + count_list (g # gs) f \<and>
        count_list (trace (snd s')) (DefineCounterMetric f) =
          count_list (trace w) (DefineCounterMetric f) + of_bool (f \<in> set (g # gs) \<and> (counters w ! r) f = None)"
    proof
      fix f assume f: "f \<in> S"
      from * f incs [OF f] defs [of f] none [of f]
      show "count_list (trace (snd s')) (IncrementCounter (handle f) 1) =
          count_list (trace w) (IncrementCounter (handle f) 1) + count_list (g # gs) f \<and>
        count_list (trace (snd s')) (DefineCounterMetric f) =
          count_list (trace w) (DefineCounterMetric f) + of_bool (f \<in> set (g # gs) \<and> (counters w ! r) f = None)"
        by (cases "f = g") simp_all
    qed
  qed
  then show ?case
    unfolding count_all.simps wp_bind by (subst wp_def) (simp only: run prod.case)
qed

text \<open>C18: counting. On a metrics object that starts without counters, after any sequence of
  increments the proxy has been asked to define each counter that was used exactly once, and each
  counter has been incremented by one as often as its name occurs.\<close>

theorem counters_count:
  assumes "\<And>h f. pw_DefineCounterMetric E h f = handle f" and "inj_on handle (set fs)"
    and "r < length (counters w)" and "counters w ! r = Map.empty"
  shows "wp (count_all E (Some r) fs)
    (\<lambda>_ (x', w'). \<forall>f\<in>set fs. count_list (trace w') (IncrementCounter (handle f) 1) =
          count_list (trace w) (IncrementCounter (handle f) 1) + count_list fs f \<and>
        count_list (trace w') (DefineCounterMetric f) =
          count_list (trace w) (DefineCounterMetric f) + 1) (x, w)"
  by (rule wp_mono [OF count_all_counts [OF assms(1-3) subset_refl]]) (use assms(4) in auto)

lemma counters_count_witness:
  "wp (count_all (demo_env\<lparr>pw_DefineCounterMetric := (\<lambda>h f. length f)\<rparr>) (Some 0) [''a'', ''bb'', ''a''])
     (\<lambda>_ (x', w'). count_list (trace w') (IncrementCounter 1 1) = 2 \<and>
        count_list (trace w') (DefineCounterMetric ''a'') = 1) ((), demo_world)"
  by (rule wp_mono [OF counters_count [where handle = length]]) (auto simp: demo_world_def)

text \<open>The counter of an interruption. With labels in pairs its name is the rule, the phase and
  every pair as \<open>_key=value\<close>, in order; with a label left over it panics and counts nothing.\<close>

lemma interruption_counter_name:
  "interruption_fqn ph n (concat (map (\<lambda>kv. [fst kv, snd kv]) kvs)) =
     Returns (''waf_filter.tx.interruptions_ruleid='' @ itoa n @ ''_phase='' @ ph @
       concat (map (\<lambda>kv. ''_'' @ fst kv @ ''='' @ snd kv) kvs)) \<and>
   (panicked (interruption_fqn ph n labels) \<longleftrightarrow> odd (length labels)) \<and>
   wp (CountTXInterruption E m ph n labels) (\<lambda>r s'. if odd (length labels) then panicked r \<and> s' = s else True) s"
  using label_suffix_panics_iff [of labels]
  by (auto simp: interruption_fqn_def CountTXInterruption_def label_suffix_pairs wp wp_True split: outcome.splits)

end
