(* ===== verification/Config_Properties.thy ===== *)
theory Config_Properties
  imports Demo
begin

text \<open>
  The properties of the configuration: which texts are accepted, what an accepted configuration
  guarantees to the plugin, what duplicates, missing fields and the deprecated field mean. They
  hold for every JSON library.
\<close>

section \<open>Lookup in what is read\<close>



lemma distinct_read_directives: "distinct (map fst m) \<Longrightarrow> distinct (map fst (read_directives J kvs m))"
  by (induction J kvs m rule: read_directives.induct) (auto simp: Let_def distinct_update)

lemma distinct_read_strings: "distinct (map fst m) \<Longrightarrow> distinct (map fst (read_strings J kvs m))"
  by (induction J kvs m rule: read_strings.induct) (auto simp: distinct_update)

lemma check_authorities_None:
  "check_authorities m kvs = None \<longleftrightarrow> (\<forall>kv\<in>set kvs. map_of m (snd kv) \<noteq> None)"
  by (induction m kvs rule: check_authorities.induct) auto

section \<open>Parsing as the plugin calls it\<close>

abbreviation parse_config :: "env \<Rightarrow> 'j gjson \<Rightarrow> bytes \<Rightarrow> ('c, goerror + pluginConfiguration) program" where
  "parse_config E J data \<equiv> parsePluginConfiguration E J data (\<lambda>m. tell (Log LInfo m))"

lemma default_field [simp]:
  "directivesMap (if b then c\<lparr>defaultDirectives := x\<rparr> else c) = directivesMap c"
  "perAuthorityDirectives (if b then c\<lparr>defaultDirectives := x\<rparr> else c) = perAuthorityDirectives c"
  "metricLabels (if b then c\<lparr>defaultDirectives := x\<rparr> else c) = metricLabels c"
  "defaultDirectives (if b then c\<lparr>defaultDirectives := x\<rparr> else c) = (if b then x else defaultDirectives c)"
  by simp_all

text \<open>The directives and the authorities a valid text names.\<close>

definition named_directives :: "'j gjson \<Rightarrow> bytes \<Rightarrow> DirectivesMap" where
  "named_directives J data =
     read_directives J (json_ForEach J (json_Get J (ParseBytes J (TrimSpace data)) ''directives_map'')) []"

definition named_authorities :: "'j gjson \<Rightarrow> bytes \<Rightarrow> string gomap" where
  "named_authorities J data =
     read_strings J (json_ForEach J (json_Get J (ParseBytes J (TrimSpace data)) ''per_authority_directives'')) []"

text \<open>The texts that are accepted, and the configuration they are read as.\<close>

definition config_ok :: "'j gjson \<Rightarrow> bytes \<Rightarrow> bool" where
  "config_ok J data \<longleftrightarrow>
     TrimSpace data = [] \<or>
     ValidBytes J (TrimSpace data) \<and>
     (let d = json_Get J (ParseBytes J (TrimSpace data)) ''default_directives''
      in json_Exists J d \<longrightarrow> json_String J d \<in> fst ` set (named_directives J data)) \<and>
     snd ` set (named_authorities J data) \<subseteq> fst ` set (named_directives J data)"

definition config_value :: "'j gjson \<Rightarrow> bytes \<Rightarrow> pluginConfiguration" where
  "config_value J data =
     (if TrimSpace data = [] then empty_config
      else let j = ParseBytes J (TrimSpace data);
               old = json_Get J j ''rules'';
               use_old = (named_directives J data = [] \<and> json_Exists J old)
        in \<lparr>directivesMap = (if use_old then [(''default'', json_strings J old)] else named_directives J data),
            metricLabels = read_strings J (json_ForEach J (json_Get J j ''metric_labels'')) [],
            defaultDirectives = (if use_old then ''default'' else text_field J j ''default_directives'' []),
            perAuthorityDirectives = named_authorities J data,
            ruleSetCacheServerCluster = text_field J j ''cache_server_cluster'' [],
            ruleSetCacheServerInstance = text_field J j ''cache_server_instance'' ''default'',
            ruleSetCacheServerToken = text_field J j ''cache_token'' [],
            ruleSetReloadIntervalSeconds = interval_field J j,
            failurePolicy = text_field J j ''failure_policy'' ''fail''\<rparr>)"

lemma parse_config_value:
  assumes "range_law E"
  shows "wp (parse_config E J data)
     (\<lambda>r s'. if config_ok J data then r = Inr (config_value J data) else \<exists>e. r = Inl e) (x, w)"
proof -
  have dist: "distinct (map fst (named_authorities J data))"
    by (simp add: named_authorities_def distinct_read_strings)
  have check: "check_authorities m (range_map E h (named_authorities J data)) = None \<longleftrightarrow>
      snd ` set (named_authorities J data) \<subseteq> fst ` set m" for m h
    by (auto simp: check_authorities_None set_range_map [OF assms dist] map_of_eq_None_iff)
  have bad: "\<not> snd ` set (named_authorities J data) \<subseteq> fst ` set m"
    if "check_authorities m (range_map E h (named_authorities J data)) = Some err" for m h err
    using that check [of m h] by simp
  show ?thesis
    unfolding parsePluginConfiguration_def read_failure_policy_def read_deprecated_rules_def Let_def config_ok_def
    by (intro vcg;
        (elim exE conjE | simp add: check bad map_of_eq_None_iff named_directives_def [symmetric]
          named_authorities_def [symmetric] config_value_def text_field_def empty_config_def
          FailurePolicyFail_def Let_def)+)
qed

lemma config_value_consistent:
  assumes "config_ok J data"
  shows "distinct (map fst (directivesMap (config_value J data)))"
    and "distinct (map fst (metricLabels (config_value J data)))"
    and "distinct (map fst (perAuthorityDirectives (config_value J data)))"
    and "snd ` set (perAuthorityDirectives (config_value J data)) \<subseteq> fst ` set (directivesMap (config_value J data))"
    and "defaultDirectives (config_value J data) \<in> insert [] (fst ` set (directivesMap (config_value J data)))"
    and "ruleSetReloadIntervalSeconds (config_value J data) \<in> {- (2 ^ 31) ..< 2 ^ 31}"
proof -
  have "interval_field J j \<in> {- (2 ^ 31) ..< 2 ^ 31}" for j
    by (auto simp: interval_field_def Let_def sint_greater_eq [where 'a = 32, simplified]
        sint_less [where 'a = 32, simplified])
  then show "ruleSetReloadIntervalSeconds (config_value J data) \<in> {- (2 ^ 31) ..< 2 ^ 31}"
    by (simp add: config_value_def empty_config_def Let_def)
qed (use assms in \<open>auto simp: config_value_def empty_config_def Let_def config_ok_def text_field_def
    named_directives_def distinct_read_directives distinct_read_strings named_authorities_def\<close>)

section \<open>Properties\<close>

text \<open>C19: which configurations are accepted. With Go's promise that a loop over a map visits every
  key, a text is accepted exactly if it is blank, or valid JSON whose default directives, if given,
  and the directives of every authority are defined in \<open>directives_map\<close>. The order in which the
  maps are visited plays no part.\<close>

theorem config_accepted_iff:
  assumes "range_law E"
  shows "wp (parse_config E J data)
     (\<lambda>r s'. (\<exists>config. r = Inr config) \<longleftrightarrow>
        TrimSpace data = [] \<or>
        ValidBytes J (TrimSpace data) \<and>
        (let d = json_Get J (ParseBytes J (TrimSpace data)) ''default_directives''
         in json_Exists J d \<longrightarrow> json_String J d \<in> fst ` set (named_directives J data)) \<and>
        snd ` set (named_authorities J data) \<subseteq> fst ` set (named_directives J data)) (x, w)"
  by (rule wp_mono [OF parse_config_value [OF assms]]) (auto simp: config_ok_def split: if_splits)

lemma config_accepted_iff_witness:
  "wp (parse_config demo_env (demo_gjson (Obj [])) (go_bytes '' {} ''))
     (\<lambda>r s'. \<exists>config. r = Inr config) ((), demo_world)"
  by (rule wp_mono [OF config_accepted_iff])
    (auto simp: demo_gjson_def named_authorities_def named_directives_def Let_def)

text \<open>C20: what an accepted configuration guarantees. The keys of its maps are distinct, the
  directives of every authority are defined, the default directives are defined or not set, and the
  reload interval is a 32-bit integer.\<close>

theorem accepted_config_consistent:
  assumes "range_law E"
  shows "wp (parse_config E J data)
     (\<lambda>r s'. case r of Inl _ \<Rightarrow> True | Inr c \<Rightarrow>
        distinct (map fst (directivesMap c)) \<and> distinct (map fst (metricLabels c)) \<and>
        distinct (map fst (perAuthorityDirectives c)) \<and>
        snd ` set (perAuthorityDirectives c) \<subseteq> fst ` set (directivesMap c) \<and>
        defaultDirectives c \<in> insert [] (fst ` set (directivesMap c)) \<and>
        ruleSetReloadIntervalSeconds c \<in> {- (2 ^ 31) ..< 2 ^ 31}) (x, w)"
  by (rule wp_mono [OF parse_config_value [OF assms]])
    (use config_value_consistent [of J data] in \<open>auto split: if_splits\<close>)

lemma accepted_config_consistent_witness:
  "wp (parse_config demo_env (demo_gjson (Obj [(''rule_reload_interval_seconds'', Number (2 ^ 40))])) (go_bytes ''{}''))
     (\<lambda>r s'. case r of Inl _ \<Rightarrow> True | Inr c \<Rightarrow> ruleSetReloadIntervalSeconds c < 2 ^ 31) ((), demo_world)"
  by (rule wp_mono [OF accepted_config_consistent]) (auto split: sum.splits)



text \<open>C22: the fields of the rule set cache and the failure policy, and their defaults: the instance
  \<open>default\<close>, an interval of 30 seconds, the policy \<open>fail\<close>; a given interval is cut to 32 bits,
  a given policy is taken as it is. A blank text leaves every field empty, also the policy.\<close>

theorem config_fields:
  assumes "range_law E"
  shows "wp (parse_config E J data)
     (\<lambda>r s'. case r of Inl _ \<Rightarrow> True | Inr c \<Rightarrow>
        let field = json_Get J (ParseBytes J (TrimSpace data));
            given = (\<lambda>name d. if TrimSpace data = [] then [] else
              if json_Exists J (field name) then json_String J (field name) else d)
        in ruleSetCacheServerCluster c = given ''cache_server_cluster'' [] \<and>
           ruleSetCacheServerInstance c = given ''cache_server_instance'' ''default'' \<and>
           ruleSetCacheServerToken c = given ''cache_token'' [] \<and>
           failurePolicy c = given ''failure_policy'' ''fail'' \<and>
           ruleSetReloadIntervalSeconds c =
             (if TrimSpace data = [] then 0
              else if json_Exists J (field ''rule_reload_interval_seconds'')
              then sint (word_of_int (json_Int J (field ''rule_reload_interval_seconds'')) :: 32 word) else 30)) (x, w)"
  by (rule wp_mono [OF parse_config_value [OF assms]])
    (auto simp: config_value_def Let_def text_field_def interval_field_def empty_config_def split: if_splits)

lemma config_fields_witness:
  "wp (parse_config demo_env (demo_gjson (Obj [(''failure_policy'', Text ''Allow'')])) (go_bytes ''{}''))
     (\<lambda>r s'. case r of Inl _ \<Rightarrow> True | Inr c \<Rightarrow> failurePolicy c = ''Allow'') ((), demo_world)"
proof -
  have "TrimSpace (go_bytes ''{}'') \<noteq> []" by code_simp
  then show ?thesis
    by (intro wp_mono [OF config_fields]) (auto simp: Let_def demo_gjson_def split: sum.splits)
qed

end
