(* ===== verification/Rule_Data_Fs.thy ===== *)
theory Rule_Data_Fs
  imports Host Go_Std
begin

text \<open>
  \<open>wasmplugin/ruledata_fs.go\<close>: the read-only file system over the data files of a rule set.
  A file is a \<open>bytes.Reader\<close>, that is its contents and a position; it is read in pieces until
  the end of the file.
\<close>

section \<open>The file system\<close>

record ruledataFS =
  rd_content :: "bytes gomap"

text \<open>The loop clones every entry, in the order \<open>range\<close> visits them.\<close>

definition NewRuleDataFS :: "(string \<times> bytes) list \<Rightarrow> ruledataFS" where
  "NewRuleDataFS files = \<lparr>rd_content = foldl (\<lambda>m f. AList.update (fst f) (snd f) m) [] files\<rparr>"

datatype fs_error = ErrInvalid | ErrNotExist

record path_error =
  pe_Op :: string
  pe_Path :: string
  pe_Err :: fs_error

record ruleDataFile =
  rf_name :: string
  rf_data :: bytes
  rf_pos :: nat
  rf_size :: int

definition ruledata_Open :: "ruledataFS \<Rightarrow> string \<Rightarrow> path_error + ruleDataFile" where
  "ruledata_Open m name =
     (if \<not> ValidPath name
      then Inl \<lparr>pe_Op = ''open'', pe_Path = name, pe_Err = ErrInvalid\<rparr>
      else case map_of (rd_content m) name of
        None \<Rightarrow> Inl \<lparr>pe_Op = ''open'', pe_Path = name, pe_Err = ErrNotExist\<rparr>
      | Some data \<Rightarrow> Inr \<lparr>rf_name = name, rf_data = data, rf_pos = 0, rf_size = int (length data)\<rparr>)"

section \<open>A file\<close>

text \<open>
  \<open>Read\<close> of the embedded \<open>bytes.Reader\<close> into a buffer of \<open>n\<close> bytes: \<open>None\<close> is
  \<open>io.EOF\<close>, which is reported only when nothing is left.
\<close>

definition file_Read :: "ruleDataFile \<Rightarrow> nat \<Rightarrow> bytes option \<times> ruleDataFile" where
  "file_Read f n =
     (if length (rf_data f) \<le> rf_pos f then (None, f)
      else let b = take n (drop (rf_pos f) (rf_data f))
           in (Some b, f\<lparr>rf_pos := rf_pos f + length b\<rparr>))"

definition file_Size :: "ruleDataFile \<Rightarrow> int" where
  "file_Size f = rf_size f"

definition file_Name :: "ruleDataFile \<Rightarrow> string" where
  "file_Name f = rf_name f"

text \<open>\<open>0600\<close> is octal.\<close>

definition file_Mode :: "ruleDataFile \<Rightarrow> int" where
  "file_Mode f = 6 * 8 * 8"

definition file_IsDir :: "ruleDataFile \<Rightarrow> bool" where
  "file_IsDir f = False"

definition file_Sys :: "ruleDataFile \<Rightarrow> unit option" where
  "file_Sys f = None"

definition file_ModTime :: "env \<Rightarrow> ruleDataFile \<Rightarrow> ('c, int) program" where
  "file_ModTime E f = ask TimeNow (rt_now E)"

text \<open>\<open>Stat\<close> returns the file itself, \<open>Close\<close> does nothing.\<close>

definition file_Stat :: "ruleDataFile \<Rightarrow> goerror + ruleDataFile" where
  "file_Stat f = Inr f"

definition file_Close :: "ruleDataFile \<Rightarrow> goerror option" where
  "file_Close f = None"

section \<open>Lemmas\<close>

lemma map_of_foldl_update:
  "map_of (foldl (\<lambda>m f. AList.update (fst f) (snd f) m) m fs) k =
     (case map_of (rev fs) k of Some v \<Rightarrow> Some v | None \<Rightarrow> map_of m k)"
  by (induction fs arbitrary: m) (auto simp: update_conv map_add_def split: option.splits)

lemma distinct_foldl_update:
  "distinct (map fst m) \<Longrightarrow> distinct (map fst (foldl (\<lambda>m f. AList.update (fst f) (snd f) m) m fs))"
  by (induction fs arbitrary: m) (auto simp: distinct_update)

text \<open>In whatever order the files were visited, the file system holds each under its name.\<close>

lemma rd_content_NewRuleDataFS:
  assumes "distinct (map fst files)" and "mset fs = mset files"
  shows "map_of (rd_content (NewRuleDataFS fs)) = map_of files"
proof
  fix k
  have "distinct (map fst fs)" using assms by (metis mset_map mset_eq_imp_distinct_iff)
  moreover have "set fs = set files" using assms(2) by (metis set_mset_mset)
  ultimately have "map_of (rev fs) k = map_of files k"
    using assms(1) by (intro map_of_eqI [THEN fun_cong]) (auto simp: rev_map [symmetric] map_of_eq_Some_iff)
  then show "map_of (rd_content (NewRuleDataFS fs)) k = map_of files k"
    by (simp add: NewRuleDataFS_def map_of_foldl_update split: option.split)
qed

text \<open>Reading to the end with any positive buffer size, \<open>io.ReadAll\<close> style.\<close>

function read_to_end :: "nat \<Rightarrow> ruleDataFile \<Rightarrow> bytes" where
  "read_to_end n f =
     (if n = 0 then []
      else case file_Read f n of
        (None, _) \<Rightarrow> []
      | (Some b, f') \<Rightarrow> b @ read_to_end n f')"
  by pat_completeness auto
termination
  by (relation "measure (\<lambda>(n, f). length (rf_data f) - rf_pos f)")
    (auto simp: file_Read_def Let_def split: if_splits)

declare read_to_end.simps [simp del]

lemma read_to_end_rest: "0 < n \<Longrightarrow> read_to_end n f = drop (rf_pos f) (rf_data f)"
proof (induction n f rule: read_to_end.induct)
  case (1 n f)
  show ?case
  proof (cases "length (rf_data f) \<le> rf_pos f")
    case True
    then show ?thesis by (subst read_to_end.simps) (simp add: file_Read_def)
  next
    case False
    let ?b = "take n (drop (rf_pos f) (rf_data f))"
    have read: "file_Read f n = (Some ?b, f\<lparr>rf_pos := rf_pos f + length ?b\<rparr>)"
      using False by (simp add: file_Read_def Let_def)
    from 1 read have "read_to_end n (f\<lparr>rf_pos := rf_pos f + length ?b\<rparr>) = drop (rf_pos f + length ?b) (rf_data f)"
      by simp
    moreover have "?b @ drop (rf_pos f + length ?b) (rf_data f) = drop (rf_pos f) (rf_data f)"
      by (cases "n \<le> length (drop (rf_pos f) (rf_data f))")
        (auto simp: add.commute drop_drop [symmetric] simp del: drop_drop)
    ultimately show ?thesis using 1(2) read by (subst read_to_end.simps) simp
  qed
qed

section \<open>Properties\<close>

text \<open>C31: the data files of a rule set are read back. In whatever order Go visits the files,
  opening a file by a valid name of the rule set and reading it in pieces of any positive size gives
  exactly its contents, and its size and name are the file's; an invalid name is refused as invalid,
  a name that is not in the rule set as missing, each with the name in the error.\<close>

theorem rule_data_read_back:
  assumes "distinct (map fst files)" and "mset fs = mset files" and "0 < n"
  shows "case ruledata_Open (NewRuleDataFS fs) name of
      Inr f \<Rightarrow> ValidPath name \<and> map_of files name = Some (read_to_end n f) \<and>
        file_Size f = int (length (read_to_end n f)) \<and> file_Name f = name \<and> file_Stat f = Inr f
    | Inl e \<Rightarrow> pe_Path e = name \<and> pe_Err e = (if ValidPath name then ErrNotExist else ErrInvalid) \<and>
        (if ValidPath name then map_of files name = None else True)"
  using rd_content_NewRuleDataFS [OF assms(1,2)] assms(3)
  by (auto simp: ruledata_Open_def read_to_end_rest file_Size_def file_Name_def file_Stat_def split: option.split)

lemma rule_data_read_back_witness:
  "case ruledata_Open (NewRuleDataFS [(''b'', [2]), (''a'', [1, 0])]) ''a'' of
      Inr f \<Rightarrow> read_to_end 1 f = [1, 0] | Inl e \<Rightarrow> False"
proof -
  have "ValidPath ''a''" by code_simp
  then show ?thesis
    using rule_data_read_back [of "[(''a'', [1, 0]), (''b'', [2])]" "[(''b'', [2]), (''a'', [1, 0])]" 1 "''a''"]
    by (auto split: sum.splits)
qed

end
