(* ===== verification/Plugin.thy ===== *)
theory Plugin
  imports Config Rule_Data_Fs
begin

text \<open>
  \<open>corazaPlugin\<close> of \<open>wasmplugin/plugin.go\<close>: the state of the plugin, its start with
  rules from the configuration or from a rule set cache server, the periodic check for new rules,
  and the context it gives to each new stream.

  The error callback and the debug logger every WAF is configured with are constant and not part of
  \<open>waf_config\<close>. \<open>json.Unmarshal\<close> into the two response structures is the record
  \<open>cache_json\<close>, an argument of the handlers that use it: it yields an error or the fields. The theory
  \<open>Cache_Json\<close> gives it for Go's library.
\<close>

section \<open>State\<close>

record corazaPlugin =
  pl_perAuthorityWAFs :: wafMap
  pl_metricLabelsKV :: slice
  pl_metrics :: metrics_ref
  pl_ruleSetCacheServerCluster :: string
  pl_ruleSetCacheServerInstance :: string
  pl_ruleSetCacheServerToken :: string
  pl_ruleSetReloadEnabled :: bool
  pl_currentRuleSetUUID :: string
  pl_failurePolicy :: FailurePolicy

text \<open>\<open>&corazaPlugin{}\<close>: every field has its zero value.\<close>

definition NewPluginContext :: "32 word \<Rightarrow> corazaPlugin" where
  "NewPluginContext contextID = \<lparr>
     pl_perAuthorityWAFs = \<lparr>kv = Map.empty, defaultWAF = None\<rparr>, pl_metricLabelsKV = nil_slice,
     pl_metrics = None, pl_ruleSetCacheServerCluster = [], pl_ruleSetCacheServerInstance = [],
     pl_ruleSetCacheServerToken = [], pl_ruleSetReloadEnabled = False, pl_currentRuleSetUUID = [],
     pl_failurePolicy = []\<rparr>"

definition NewHttpContext :: "corazaPlugin \<Rightarrow> 32 word \<Rightarrow> httpContext" where
  "NewHttpContext ctx contextID = \<lparr>
     ctx_contextID = contextID, ctx_perAuthorityWAFs = pl_perAuthorityWAFs ctx, ctx_tx = None,
     ctx_httpProtocol = [], ctx_processedRequestBody = False, ctx_processedResponseBody = False,
     ctx_bodyReadIndex = 0, ctx_metrics = pl_metrics ctx,
     ctx_interruptedAt = interruptionPhaseNone, ctx_logger = None,
     ctx_metricLabelsKV = pl_metricLabelsKV ctx, ctx_failurePolicy = pl_failurePolicy ctx\<rparr>"

datatype plugin_status = OnPluginStartStatusOK | OnPluginStartStatusFailed

type_synonym 'a plugin = "(corazaPlugin, 'a) program"

section \<open>The rule set cache server\<close>

definition cacheTimeoutMs :: int where
  "cacheTimeoutMs = 2000"

text \<open>The part of the cluster name behind the last \<open>||\<close>, or all of it.\<close>

definition cluster_authority :: "string \<Rightarrow> string" where
  "cluster_authority cluster =
     (case LastIndex cluster ''||'' of
        Some idx \<Rightarrow> drop (idx + 2) cluster
      | None \<Rightarrow> cluster)"

definition cache_headers :: "string \<Rightarrow> string \<Rightarrow> string \<Rightarrow> header list" where
  "cache_headers path authority token =
     [('':method'', ''GET''), ('':path'', path), ('':authority'', authority)] @
     (if token \<noteq> [] then [(''authorization'', ''Bearer '' @ token)] else [])"

definition checkLatestRuleSet :: "env \<Rightarrow> unit plugin" where
  "checkLatestRuleSet E = do {
     ctx \<leftarrow> get_ctx (\<lambda>c. c);
     let path = ''/rules/'' @ pl_ruleSetCacheServerInstance ctx @ ''/latest'';
     let authority = cluster_authority (pl_ruleSetCacheServerCluster ctx);
     let headers = cache_headers path authority (pl_ruleSetCacheServerToken ctx);
     let call = \<lparr>hcall_cluster = pl_ruleSetCacheServerCluster ctx, hcall_headers = headers,
                 hcall_timeout = cacheTimeoutMs\<rparr>;
     err \<leftarrow> ask (DispatchHttpCall call onLatestRuleSetResponse_cb) (\<lambda>h. pw_DispatchHttpCall E h call);
     case err of
       Some e \<Rightarrow> tell (Log LCritical (Fmt ''Failed to dispatch HTTP call to check latest ruleset: %v'' [AMsg e]))
     | None \<Rightarrow> ret () }"

definition fetchRulesFromCache :: "env \<Rightarrow> unit plugin" where
  "fetchRulesFromCache E = do {
     ctx \<leftarrow> get_ctx (\<lambda>c. c);
     let path = ''/rules/'' @ pl_ruleSetCacheServerInstance ctx;
     let authority = cluster_authority (pl_ruleSetCacheServerCluster ctx);
     let headers = cache_headers path authority (pl_ruleSetCacheServerToken ctx);
     let call = \<lparr>hcall_cluster = pl_ruleSetCacheServerCluster ctx, hcall_headers = headers,
                 hcall_timeout = cacheTimeoutMs\<rparr>;
     err \<leftarrow> ask (DispatchHttpCall call onRuleSetCacheServerResponse_cb) (\<lambda>h. pw_DispatchHttpCall E h call);
     case err of
       Some e \<Rightarrow> tell (Log LCritical (Fmt ''Failed to dispatch HTTP call to ruleset cache server: %v'' [AMsg e]))
     | None \<Rightarrow> tell (Log LInfo (Fmt ''Dispatched HTTP call to ruleset cache server'' [])) }"

definition OnTick :: "env \<Rightarrow> unit plugin" where
  "OnTick E = do {
     enabled \<leftarrow> get_ctx pl_ruleSetReloadEnabled;
     if \<not> enabled then ret ()
     else do {
       tell (Log LInfo (Fmt ''Checking for ruleset updates'' []));
       checkLatestRuleSet E } }"

text \<open>The first \<open>:status\<close> header, or the empty text.\<close>

fun header_status :: "header list \<Rightarrow> string" where
  "header_status [] = []"
| "header_status (h # hs) = (if fst h = '':status'' then snd h else header_status hs)"

record rules_response =
  rr_UUID :: string
  rr_Timestamp :: string
  rr_Rules :: string
  rr_DataFiles :: "bytes gomap"

record cache_json =
  unmarshal_latest :: "bytes \<Rightarrow> goerror + string"
  unmarshal_rules :: "bytes \<Rightarrow> goerror + rules_response"

definition onLatestRuleSetResponse :: "env \<Rightarrow> cache_json \<Rightarrow> int \<Rightarrow> int \<Rightarrow> int \<Rightarrow> unit plugin" where
  "onLatestRuleSetResponse E K numHeaders bodySize numTrailers = do {
     headers \<leftarrow> ask GetHttpCallResponseHeaders (\<lambda>h. pw_GetHttpCallResponseHeaders E h);
     case headers of
       Inl err \<Rightarrow> tell (Log LCritical (Fmt ''Failed to get response headers from latest check: %v'' [AMsg err]))
     | Inr headers \<Rightarrow>
         let statusCode = header_status headers
         in if statusCode \<noteq> ''200''
            then tell (Log LCritical (Fmt ''Latest cache check returned non-200 status: %s'' [AStr statusCode]))
            else do {
              body \<leftarrow> ask (GetHttpCallResponseBody 0 bodySize) (\<lambda>h. pw_GetHttpCallResponseBody E h 0 bodySize);
              case body of
                Inl err \<Rightarrow> tell (Log LCritical (Fmt ''Failed to get response body from latest check: %v'' [AMsg err]))
              | Inr body \<Rightarrow>
                  (case unmarshal_latest K body of
                     Inl err \<Rightarrow> tell (Log LCritical (Fmt ''Failed to parse latest response JSON: %v'' [AMsg err]))
                   | Inr uuid \<Rightarrow> do {
                       current \<leftarrow> get_ctx pl_currentRuleSetUUID;
                       if uuid \<noteq> current
                       then do {
                         tell (Log LInfo (Fmt
                           ''New ruleset version detected (old: %s, new: %s), fetching updated rules''
                           [AStr current, AStr uuid]));
                         fetchRulesFromCache E }
                       else tell (Log LInfo (Fmt ''Ruleset is up to date, no fetch needed'' [])) }) } }"

text \<open>The number of bytes in the data files, summed in the order of the loop.\<close>

fun total_size :: "(string \<times> bytes) list \<Rightarrow> int" where
  "total_size [] = 0"
| "total_size (f # fs) = int (length (snd f)) + total_size fs"

definition log_data_files :: "env \<Rightarrow> rules_response \<Rightarrow> unit plugin" where
  "log_data_files E r =
     (if length (rr_DataFiles r) > 0
      then do {
        fs \<leftarrow> range_over E (rr_DataFiles r);
        tell (Log LCritical (Fmt ''Loaded additional datafiles for rule UUID: %s (Files: %d, %d bytes)''
          [AStr (rr_UUID r), AInt (int (length (rr_DataFiles r))), AInt (total_size fs)])) }
      else ret ())"

text \<open>The tail of the handler: a WAF from the rules becomes the default one.\<close>

definition activate_rules :: "env \<Rightarrow> rules_response \<Rightarrow> unit outcome plugin" where
  "activate_rules E r = do {
     files \<leftarrow> range_over E (rr_DataFiles r);
     let conf = \<lparr>wc_root = RuleData (map_of (rd_content (NewRuleDataFS files))), wc_directives = rr_Rules r\<rparr>;
     waf \<leftarrow> ask (NewWAF conf) (\<lambda>h. cz_NewWAF E h conf);
     case waf of
       Inl err \<Rightarrow> do {
         tell (Log LCritical (Fmt ''Failed to create WAF from cached rules: %v'' [AMsg err]));
         ret (Returns ()) }
     | Inr waf \<Rightarrow> do {
         wafs \<leftarrow> get_ctx pl_perAuthorityWAFs;
         case setDefaultWAF wafs waf of
           Panics p \<Rightarrow> ret (Panics p)
         | Returns wafs \<Rightarrow> do {
             set_ctx (\<lambda>c. c\<lparr>pl_perAuthorityWAFs := wafs\<rparr>);
             set_ctx (\<lambda>c. c\<lparr>pl_currentRuleSetUUID := rr_UUID r\<rparr>);
             tell (Log LCritical (Fmt
               ''Successfully loaded and activated WAF configuration (UUID: %s, %d bytes) from the ruleset cache server''
               [AStr (rr_UUID r), AInt (int (length (rr_Rules r)))]));
             log_data_files E r;
             ret (Returns ()) } } }"

definition onRuleSetCacheServerResponse ::
  "env \<Rightarrow> cache_json \<Rightarrow> int \<Rightarrow> int \<Rightarrow> int \<Rightarrow> unit outcome plugin" where
  "onRuleSetCacheServerResponse E K numHeaders bodySize numTrailers = do {
     ctx \<leftarrow> get_ctx (\<lambda>c. c);
     headers \<leftarrow> ask GetHttpCallResponseHeaders (\<lambda>h. pw_GetHttpCallResponseHeaders E h);
     case headers of
       Inl err \<Rightarrow> do {
         tell (Log LCritical (Fmt ''Failed to get response headers from the ruleset cache server: %v'' [AMsg err]));
         ret (Returns ()) }
     | Inr headers \<Rightarrow>
         let statusCode = header_status headers
         in if statusCode \<noteq> ''200''
            then do {
              tell (Log LCritical (Fmt ''Ruleset cache server returned non-200 status: %s'' [AStr statusCode]));
              ret (Returns ()) }
            else do {
              body \<leftarrow> ask (GetHttpCallResponseBody 0 bodySize) (\<lambda>h. pw_GetHttpCallResponseBody E h 0 bodySize);
              case body of
                Inl err \<Rightarrow> do {
                  tell (Log LCritical (Fmt ''Failed to get response body from the ruleset cache server: %v'' [AMsg err]));
                  ret (Returns ()) }
              | Inr body \<Rightarrow>
                  if length body = 0
                  then do {
                    tell (Log LCritical (Fmt ''Ruleset cache server returned empty response for instance: %s''
                      [AStr (pl_ruleSetCacheServerInstance ctx)]));
                    ret (Returns ()) }
                  else
                    (case unmarshal_rules K body of
                       Inl err \<Rightarrow> do {
                         tell (Log LCritical (Fmt ''Failed to parse rules response JSON: %v'' [AMsg err]));
                         ret (Returns ()) }
                     | Inr r \<Rightarrow>
                         if length (rr_Rules r) = 0
                         then do {
                           tell (Log LCritical (Fmt ''Ruleset cache server returned empty rules for instance: %s''
                             [AStr (pl_ruleSetCacheServerInstance ctx)]));
                           ret (Returns ()) }
                         else do {
                           tell (Log LInfo (Fmt
                             ''Received ruleset configuration: UUID=%s, Timestamp=%s, Size=%d bytes''
                             [AStr (rr_UUID r), AStr (rr_Timestamp r), AInt (int (length (rr_Rules r)))]));
                           activate_rules E r }) } }"

section \<open>The start of the plugin\<close>

text \<open>The loop that collects, for each name of directives, the authorities that use it.\<close>

fun group_authorities :: "(string \<times> string) list \<Rightarrow> string list gomap \<Rightarrow> string list gomap" where
  "group_authorities [] m = m"
| "group_authorities ((authority, directivesName) # rest) m =
     group_authorities rest
       (AList.update directivesName
         ((case map_of m directivesName of Some l \<Rightarrow> l | None \<Rightarrow> []) @ [authority]) m)"

text \<open>
  The loop that builds the WAFs, over the directives in the order of the \<open>range\<close>. The result is
  \<open>None\<close> where the source returns \<open>OnPluginStartStatusFailed\<close>.
\<close>

fun init_wafs ::
  "env \<Rightarrow> string \<Rightarrow> (string \<times> string list) list \<Rightarrow> string list gomap \<Rightarrow> wafMap \<Rightarrow>
   (string list gomap \<times> wafMap) option outcome plugin" where
  "init_wafs E dflt [] directivesAuthoritiesMap wafs = ret (Returns (Some (directivesAuthoritiesMap, wafs)))"
| "init_wafs E dflt ((name, directives) # rest) directivesAuthoritiesMap wafs =
     (case (if name \<noteq> dflt then map_of directivesAuthoritiesMap name else Some []) of
        None \<Rightarrow> init_wafs E dflt rest directivesAuthoritiesMap wafs
      | Some authorities \<Rightarrow> do {
          let conf = \<lparr>wc_root = EmbeddedRules, wc_directives = strings_Join directives [CHR 0x0A]\<rparr>;
          waf \<leftarrow> ask (NewWAF conf) (\<lambda>h. cz_NewWAF E h conf);
          case waf of
            Inl err \<Rightarrow> do {
              tell (Log LCritical (Fmt ''Failed to parse directives: %v'' [AMsg err]));
              ret (Returns None) }
          | Inr waf \<Rightarrow>
              (case (if length authorities = 0 then setDefaultWAF wafs waf else Returns wafs) of
                 Panics p \<Rightarrow> ret (Panics p)
               | Returns wafs \<Rightarrow>
                   (case put_all wafs authorities waf of
                      Inl err \<Rightarrow> do {
                        tell (Log LCritical (Fmt ''Failed to register authority WAF: %v'' [AMsg err]));
                        ret (Returns None) }
                    | Inr wafs \<Rightarrow> init_wafs E dflt rest (AList.delete name directivesAuthoritiesMap) wafs)) })"

fun log_unknown_directives :: "(string \<times> string list) list \<Rightarrow> unit plugin" where
  "log_unknown_directives [] = ret ()"
| "log_unknown_directives (d # ds) = do {
     tell (Log LCritical (Fmt ''Unknown directives %q'' [AStr (fst d)]));
     log_unknown_directives ds }"

fun append_labels :: "env \<Rightarrow> (string \<times> string) list \<Rightarrow> unit plugin" where
  "append_labels E [] = ret ()"
| "append_labels E ((k, v) # kvs) = do {
     s \<leftarrow> get_ctx pl_metricLabelsKV;
     r \<leftarrow> get_world (\<lambda>w. append_slice (rt_growcap E) [] (arrays w) s [k, v]);
     set_world (\<lambda>w. w\<lparr>arrays := snd r\<rparr>);
     set_ctx (\<lambda>c. c\<lparr>pl_metricLabelsKV := fst r\<rparr>);
     append_labels E kvs }"

text \<open>Labels and metrics, at the end of both ways to start.\<close>

definition set_labels_and_metrics :: "env \<Rightarrow> pluginConfiguration \<Rightarrow> unit plugin" where
  "set_labels_and_metrics E config = do {
     labels \<leftarrow> range_over E (metricLabels config);
     append_labels E labels;
     m \<leftarrow> NewWAFMetrics;
     set_ctx (\<lambda>c. c\<lparr>pl_metrics := m\<rparr>) }"

text \<open>
  \<open>uint32(seconds * 1000)\<close>, at least five seconds. The product and the conversion wrap at
  32 bits.
\<close>

definition tick_interval :: "int \<Rightarrow> 32 word" where
  "tick_interval seconds = max (word_of_int (seconds * 1000)) (word_of_int (cacheTimeoutMs * 2 + 1000))"

definition start_with_cache :: "env \<Rightarrow> pluginConfiguration \<Rightarrow> plugin_status plugin" where
  "start_with_cache E config = do {
     ctx \<leftarrow> get_ctx (\<lambda>c. c);
     tell (Log LCritical (Fmt ''Fetching initial rules from ruleset cache server: %s, instance: %s''
       [AStr (pl_ruleSetCacheServerCluster ctx), AStr (pl_ruleSetCacheServerInstance ctx)]));
     fetchRulesFromCache E;
     set_ctx (\<lambda>c. c\<lparr>pl_perAuthorityWAFs := newWAFMap 0\<rparr>);
     set_labels_and_metrics E config;
     if ruleSetReloadIntervalSeconds config > 0
     then do {
       set_ctx (\<lambda>c. c\<lparr>pl_ruleSetReloadEnabled := True\<rparr>);
       let intervalMs = tick_interval (ruleSetReloadIntervalSeconds config);
       err \<leftarrow> ask (SetTickPeriodMilliSeconds intervalMs) (\<lambda>h. pw_SetTickPeriodMilliSeconds E h intervalMs);
       case err of
         Some e \<Rightarrow> do {
           tell (Log LCritical (Fmt ''Failed to set tick period for rule reloading: %v'' [AMsg e]));
           ret OnPluginStartStatusFailed }
       | None \<Rightarrow> do {
           tell (Log LCritical (Fmt ''Enabled periodic rule reloading every %d seconds''
             [AInt (uint (intervalMs div 1000))]));
           ret OnPluginStartStatusOK } }
     else ret OnPluginStartStatusOK }"

definition start_with_directives :: "env \<Rightarrow> pluginConfiguration \<Rightarrow> plugin_status outcome plugin" where
  "start_with_directives E config = do {
     authorities \<leftarrow> range_over E (perAuthorityDirectives config);
     let directivesAuthoritiesMap = group_authorities authorities [];
     let perAuthorityWAFs = newWAFMap (length (directivesMap config));
     directives \<leftarrow> range_over E (directivesMap config);
     unless_panic
       (init_wafs E (defaultDirectives config) directives directivesAuthoritiesMap perAuthorityWAFs)
       (\<lambda>r. case r of
          None \<Rightarrow> ret (Returns OnPluginStartStatusFailed)
        | Some (directivesAuthoritiesMap, perAuthorityWAFs) \<Rightarrow>
            if length directivesAuthoritiesMap > 0
            then do {
              unknown \<leftarrow> range_over E directivesAuthoritiesMap;
              log_unknown_directives unknown;
              ret (Returns OnPluginStartStatusFailed) }
            else do {
              set_ctx (\<lambda>c. c\<lparr>pl_perAuthorityWAFs := perAuthorityWAFs\<rparr>);
              set_labels_and_metrics E config;
              ret (Returns OnPluginStartStatusOK) }) }"

definition OnPluginStart :: "env \<Rightarrow> 'j gjson \<Rightarrow> int \<Rightarrow> plugin_status outcome plugin" where
  "OnPluginStart E J pluginConfigurationSize = do {
     r \<leftarrow> ask GetPluginConfiguration (\<lambda>h. pw_GetPluginConfiguration E h);
     if snd r \<noteq> None \<and> snd r \<noteq> Some (pw_ErrorStatusNotFound E)
     then do {
       tell (Log LCritical (Fmt ''Failed to read plugin configuration: %v'' [AMsg (the (snd r))]));
       ret (Returns OnPluginStartStatusFailed) }
     else do {
       config \<leftarrow> parsePluginConfiguration E J (fst r) (\<lambda>m. tell (Log LInfo m));
       case config of
         Inl err \<Rightarrow> do {
           tell (Log LCritical (Fmt ''Failed to parse plugin configuration: %v'' [AMsg err]));
           ret (Returns OnPluginStartStatusFailed) }
       | Inr config \<Rightarrow> do {
           set_ctx (\<lambda>c. c\<lparr>pl_ruleSetCacheServerCluster := ruleSetCacheServerCluster config,
             pl_ruleSetCacheServerInstance := ruleSetCacheServerInstance config,
             pl_ruleSetCacheServerToken := ruleSetCacheServerToken config,
             pl_failurePolicy := failurePolicy config\<rparr>);
           if ruleSetCacheServerCluster config \<noteq> []
           then do { status \<leftarrow> start_with_cache E config; ret (Returns status) }
           else start_with_directives E config } } }"

end
