(* ===== verification/Plugin_Contract.thy ===== *)
theory Plugin_Contract
  imports Plugin Config_Properties
begin

text \<open>
  What the callbacks of the plugin keep: the well-formedness of its state, from which every stream it
  creates is well formed, and the shared memory. The locale \<open>plugin_callback\<close> is the contract;
  the library of rules below carries its interpretations and the properties.
\<close>

section \<open>Views\<close>

text \<open>The HTTP calls the plugin has dispatched, in order.\<close>

fun dispatch_of :: "event \<Rightarrow> (http_call \<times> http_callback) list" where
  "dispatch_of (DispatchHttpCall call cb) = [(call, cb)]"
| "dispatch_of _ = []"

definition dispatches :: "world \<Rightarrow> (http_call \<times> http_callback) list" where
  "dispatches w = concat (map dispatch_of (trace w))"

lemma dispatches_simps [simp]:
  "dispatches (record_event e w) = dispatches w @ dispatch_of e"
  "dispatches (w\<lparr>counters := k\<rparr>) = dispatches w"
  "dispatches (w\<lparr>arrays := a\<rparr>) = dispatches w"
  by (simp_all add: dispatches_def)

text \<open>The tick periods the plugin has asked for, in order.\<close>

fun tick_period_of :: "event \<Rightarrow> 32 word list" where
  "tick_period_of (SetTickPeriodMilliSeconds period) = [period]"
| "tick_period_of _ = []"

definition tick_periods :: "world \<Rightarrow> 32 word list" where
  "tick_periods w = concat (map tick_period_of (trace w))"

lemma tick_periods_simps [simp]:
  "tick_periods (record_event e w) = tick_periods w @ tick_period_of e"
  "tick_periods (w\<lparr>counters := k\<rparr>) = tick_periods w"
  "tick_periods (w\<lparr>arrays := a\<rparr>) = tick_periods w"
  by (simp_all add: tick_periods_def)

text \<open>Messages and loops over maps: they are in no view.\<close>

fun local_event :: "event \<Rightarrow> bool" where
  "local_event (Log _ _) = True"
| "local_event (RangeMap _) = True"
| "local_event _ = False"

lemma local_event_views:
  "local_event e \<Longrightarrow> \<not> engine_event e \<and> \<not> response_event e"
  "local_event e \<Longrightarrow> dispatch_of e = []"
  "local_event e \<Longrightarrow> tick_period_of e = []"
  by (cases e; simp)+

text \<open>Between two worlds nothing but local events happened and the memory is the same.\<close>

definition same_world :: "world \<Rightarrow> world \<Rightarrow> bool" where
  "same_world w w' \<longleftrightarrow> arrays w' = arrays w \<and> counters w' = counters w \<and> emits local_event w w'"

lemma same_world_refl [simp]: "same_world w w"
  by (simp add: same_world_def)

lemma same_world_trans [trans]: "same_world u v \<Longrightarrow> same_world v w \<Longrightarrow> same_world u w"
  by (auto simp: same_world_def intro: emits_trans)

lemma same_world_record [simp]: "same_world w v \<Longrightarrow> same_world w (record_event e v) = local_event e"
  by (simp add: same_world_def)

lemma same_world_views:
  assumes "same_world w w'"
  shows "engine_calls w' = engine_calls w" and "responses w' = responses w"
    and "dispatches w' = dispatches w" and "tick_periods w' = tick_periods w" and "heap_le w w'"
  using assms emits_views [of local_event w w'] local_event_views
  by (auto simp: same_world_def heap_le_def emits_def dispatches_def tick_periods_def list_all_iff)

section \<open>The rules\<close>

lemma parse_config_vcg:
  assumes "range_law E"
    and ok: "\<And>w'. config_ok J data \<Longrightarrow> engine_calls w' = engine_calls w \<Longrightarrow> responses w' = responses w \<Longrightarrow>
      dispatches w' = dispatches w \<Longrightarrow> tick_periods w' = tick_periods w \<Longrightarrow> arrays w' = arrays w \<Longrightarrow> counters w' = counters w \<Longrightarrow> Q (Inr (config_value J data)) (c, w')"
    and fail: "\<And>e w'. \<not> config_ok J data \<Longrightarrow> engine_calls w' = engine_calls w \<Longrightarrow> responses w' = responses w \<Longrightarrow>
      dispatches w' = dispatches w \<Longrightarrow> tick_periods w' = tick_periods w \<Longrightarrow> arrays w' = arrays w \<Longrightarrow> counters w' = counters w \<Longrightarrow> Q (Inl e) (c, w')"
  shows "wp (parse_config E J data) Q (c, w)"
proof -
  have "wp (parse_config E J data) (\<lambda>r s'. fst s' = c \<and> same_world w (snd s')) (c, w)"
    unfolding parsePluginConfiguration_def read_failure_policy_def read_deprecated_rules_def Let_def
    by (intro vcg) simp_all
  with parse_config_value [OF assms(1), of J data c w]
  have "wp (parse_config E J data) (\<lambda>r s'.
      (if config_ok J data then r = Inr (config_value J data) else \<exists>e. r = Inl e) \<and>
      fst s' = c \<and> same_world w (snd s')) (c, w)"
    by (simp add: wp_conj)
  then show ?thesis by (rule wp_mono) (use ok fail same_world_views in \<open>auto simp: same_world_def split: if_splits\<close>)
qed

lemma append_labels_vcg:
  assumes "wf_slice (arrays w) (pl_metricLabelsKV c)"
    and "\<And>s' hp'. wf_slice hp' s' \<Longrightarrow> sl_len s' = sl_len (pl_metricLabelsKV c) + 2 * length kvs \<Longrightarrow>
      read_slice hp' s' = read_slice (arrays w) (pl_metricLabelsKV c) @ concat (map (\<lambda>l. [fst l, snd l]) kvs) \<Longrightarrow>
      heap_le w (w\<lparr>arrays := hp'\<rparr>) \<Longrightarrow> Q () (c\<lparr>pl_metricLabelsKV := s'\<rparr>, w\<lparr>arrays := hp'\<rparr>)"
  shows "wp (append_labels E kvs) Q (c, w)"
  using assms
proof (induction kvs arbitrary: c w)
  case Nil
  from Nil.prems(2) [of "arrays w" "pl_metricLabelsKV c"] Nil.prems(1) show ?case by (simp add: wp)
next
  case (Cons l ls)
  obtain k v where l: "l = (k, v)" by (cases l)
  obtain s1 hp1 where a: "append_slice (rt_growcap E) [] (arrays w) (pl_metricLabelsKV c) [k, v] = (s1, hp1)"
    by (cases "append_slice (rt_growcap E) [] (arrays w) (pl_metricLabelsKV c) [k, v]")
  have wf1: "wf_slice hp1 s1" by (rule store.app_ok [OF Cons.prems(1) a])
  have le1: "heap_le w (w\<lparr>arrays := hp1\<rparr>)"
    using store.app_ok_other [OF Cons.prems(1) a] by (auto simp: heap_le_def)
  have "wp (append_labels E ls) Q (c\<lparr>pl_metricLabelsKV := s1\<rparr>, w\<lparr>arrays := hp1\<rparr>)"
  proof (rule Cons.IH)
    fix s' hp'
    assume "wf_slice hp' s'"
      and "sl_len s' = sl_len (pl_metricLabelsKV (c\<lparr>pl_metricLabelsKV := s1\<rparr>)) + 2 * length ls"
      and "read_slice hp' s' = read_slice (arrays (w\<lparr>arrays := hp1\<rparr>)) (pl_metricLabelsKV (c\<lparr>pl_metricLabelsKV := s1\<rparr>)) @
        concat (map (\<lambda>l. [fst l, snd l]) ls)"
      and "heap_le (w\<lparr>arrays := hp1\<rparr>) (w\<lparr>arrays := hp1\<rparr>\<lparr>arrays := hp'\<rparr>)"
    then show "Q () (c\<lparr>pl_metricLabelsKV := s1\<rparr>\<lparr>pl_metricLabelsKV := s'\<rparr>, w\<lparr>arrays := hp1\<rparr>\<lparr>arrays := hp'\<rparr>)"
      using Cons.prems(2) [of hp' s'] store.app_read [OF Cons.prems(1) a] append_slice_len [OF a]
        heap_le_trans [OF le1, of "w\<lparr>arrays := hp'\<rparr>"]
      by (simp add: l)
  qed (simp add: wf1)
  then show ?case by (simp add: l wp a)
qed

lemma set_labels_and_metrics_vcg:
  assumes "wf_slice (arrays w) (pl_metricLabelsKV c)"
    and "\<And>s' w' h. wf_slice (arrays w') s' \<Longrightarrow>
      sl_len s' = sl_len (pl_metricLabelsKV c) + 2 * length (range_map E h (metricLabels config)) \<Longrightarrow>
      read_slice (arrays w') s' = read_slice (arrays w) (pl_metricLabelsKV c) @
        concat (map (\<lambda>l. [fst l, snd l]) (range_map E h (metricLabels config))) \<Longrightarrow>
      heap_le w w' \<Longrightarrow> length (counters w) < length (counters w') \<Longrightarrow>
      counters w' ! length (counters w) = Map.empty \<Longrightarrow>
      engine_calls w' = engine_calls w \<Longrightarrow> responses w' = responses w \<Longrightarrow> dispatches w' = dispatches w \<Longrightarrow>
      tick_periods w' = tick_periods w \<Longrightarrow>
      Q () (c\<lparr>pl_metricLabelsKV := s', pl_metrics := Some (length (counters w))\<rparr>, w')"
  shows "wp (set_labels_and_metrics E config) Q (c, w)"
  unfolding set_labels_and_metrics_def NewWAFMetrics_def
  by (intro vcg append_labels_vcg) (use assms in \<open>auto simp: heap_le_def\<close>)

lemma log_unknown_directives_vcg:
  "(\<And>w'. engine_calls w' = engine_calls w \<Longrightarrow> responses w' = responses w \<Longrightarrow>
      dispatches w' = dispatches w \<Longrightarrow> arrays w' = arrays w \<Longrightarrow> counters w' = counters w \<Longrightarrow> Q () (c, w')) \<Longrightarrow>
   wp (log_unknown_directives ds) Q (c, w)"
  by (induction ds arbitrary: w) (auto intro!: vcg)

text \<open>A request for rules: one call, addressed as the configuration says.\<close>

definition fetch_call :: "corazaPlugin \<Rightarrow> http_call" where
  "fetch_call c = \<lparr>hcall_cluster = pl_ruleSetCacheServerCluster c,
     hcall_headers = cache_headers (''/rules/'' @ pl_ruleSetCacheServerInstance c)
       (cluster_authority (pl_ruleSetCacheServerCluster c)) (pl_ruleSetCacheServerToken c),
     hcall_timeout = 2000\<rparr>"

lemma fetchRulesFromCache_vcg:
  assumes "\<And>w'. dispatches w' = dispatches w @ [(fetch_call c, onRuleSetCacheServerResponse_cb)] \<Longrightarrow>
     tick_periods w' = tick_periods w \<Longrightarrow>
     engine_calls w' = engine_calls w \<Longrightarrow> responses w' = responses w \<Longrightarrow>
     arrays w' = arrays w \<Longrightarrow> counters w' = counters w \<Longrightarrow> Q () (c, w')"
  shows "wp (fetchRulesFromCache E) Q (c, w)"
  unfolding fetchRulesFromCache_def cacheTimeoutMs_def
  by (intro vcg assms) (simp_all add: fetch_call_def)

section \<open>Building the WAFs\<close>

definition embedded_conf :: "string list \<Rightarrow> waf_config" where
  "embedded_conf directives = \<lparr>wc_root = EmbeddedRules, wc_directives = strings_Join directives [CHR 0x0A]\<rparr>"

lemma map_of_group_authorities:
  "map_of (group_authorities au m) d =
     (case map fst (filter (\<lambda>x. snd x = d) au) of
        [] \<Rightarrow> map_of m d
      | a # as \<Rightarrow> Some ((case map_of m d of Some l \<Rightarrow> l | None \<Rightarrow> []) @ a # as))"
  by (induction au m rule: group_authorities.induct) (auto simp: update_conv split: list.splits option.splits)

text \<open>The authorities collected under \<open>d\<close> are exactly those that name \<open>d\<close>.\<close>

definition grouped :: "string list gomap \<Rightarrow> (string \<rightharpoonup> string) \<Rightarrow> string \<Rightarrow> bool" where
  "grouped m auth d \<longleftrightarrow>
     (case map_of m d of None \<Rightarrow> \<forall>a. auth a \<noteq> Some d | Some l \<Rightarrow> l \<noteq> [] \<and> set l = {a. auth a = Some d})"

lemma grouped_group_authorities:
  assumes "distinct (map fst au)"
  shows "grouped (group_authorities au []) (map_of au) d"
proof -
  have "set (map fst (filter (\<lambda>x. snd x = d) au)) = {a. map_of au a = Some d}"
    using assms by (auto simp: map_of_eq_Some_iff image_iff)
  then show ?thesis
    by (cases "map fst (filter (\<lambda>x. snd x = d) au)") (auto simp: grouped_def map_of_group_authorities)
qed

lemma kv_put_all:
  "put_all m as w = Inr m' \<Longrightarrow> kv m' = (\<lambda>a. if a \<in> set as then Some w else kv m a) \<and> defaultWAF m' = defaultWAF m"
  unfolding put_all_def
proof (induction as arbitrary: m)
  case Nil
  then show ?case by simp
next
  case (Cons a as)
  then obtain m1 where m1: "put m a w = Inr m1" "fold_error (\<lambda>a m. put m a w) as m1 = Inr m'"
    by (auto split: sum.splits)
  from Cons.IH [OF m1(2)] m1(1) show ?case by (auto simp: put_def fun_eq_iff split: if_splits)
qed

lemma put_all_Inr: "[] \<notin> set as \<Longrightarrow> \<exists>m'. put_all m as w = Inr m'"
  using wafs.reg_all_succeeds [of w as m] by (simp add: put_all_def)

text \<open>
  With an engine that builds the WAF \<open>build conf\<close> for every configuration, in whatever order the
  directives are visited: each authority gets the WAF of its directives, the default directives
  become the default WAF, and nothing is left over.
\<close>

definition wafs_built ::
  "(waf_config \<Rightarrow> waf) \<Rightarrow> (string \<rightharpoonup> string) \<Rightarrow> string \<Rightarrow> (string \<times> string list) list \<Rightarrow>
   string list gomap \<Rightarrow> wafMap \<Rightarrow> string list gomap \<Rightarrow> wafMap \<Rightarrow> bool" where
  "wafs_built build auth dflt ds m wafs m' wafs' \<longleftrightarrow>
     (\<forall>d. map_of m' d = (if d \<in> fst ` set ds then None else map_of m d)) \<and>
     (\<forall>a. kv wafs' a = (case auth a of
         Some d \<Rightarrow> if d \<noteq> dflt \<and> d \<in> fst ` set ds
           then Some (Some (build (embedded_conf (the (map_of ds d))))) else kv wafs a
       | None \<Rightarrow> kv wafs a)) \<and>
     defaultWAF wafs' = (if dflt \<in> fst ` set ds
        then Some (build (embedded_conf (the (map_of ds dflt)))) else defaultWAF wafs)"

lemma wafs_built_skip:
  assumes "wafs_built build auth dflt ds m wafs m' wafs'" and "d \<noteq> dflt" and "map_of m d = None"
    and "\<And>a. auth a \<noteq> Some d"
  shows "wafs_built build auth dflt ((d, dirs) # ds) m wafs m' wafs'"
  using assms by (auto simp: wafs_built_def split: option.splits)

lemma wafs_built_step:
  assumes "wafs_built build auth dflt ds (AList.delete d m) wafs1 m' wafs'" and "d \<notin> fst ` set ds"
    and "kv wafs1 = (\<lambda>a. if a \<in> set l then Some (Some (build (embedded_conf dirs))) else kv wafs a)"
    and "defaultWAF wafs1 = (if d = dflt then Some (build (embedded_conf dirs)) else defaultWAF wafs)"
    and "set l = (if d = dflt then {} else {a. auth a = Some d})"
  shows "wafs_built build auth dflt ((d, dirs) # ds) m wafs m' wafs'"
  using assms by (auto simp: wafs_built_def delete_conv split: option.splits)

lemma init_wafs_vcg:
  assumes "\<And>h conf. cz_NewWAF E h conf = Inr (Some (build conf))"
    and "distinct (map fst ds)" and "\<forall>d\<in>fst ` set ds. grouped m auth d" and "auth [] = None"
    and Q: "\<And>m' wafs' w'. wafs_built build auth dflt ds m wafs m' wafs' \<Longrightarrow>
      engine_calls w' = engine_calls w \<Longrightarrow> responses w' = responses w \<Longrightarrow> dispatches w' = dispatches w \<Longrightarrow>
      arrays w' = arrays w \<Longrightarrow> counters w' = counters w \<Longrightarrow> Q (Returns (Some (m', wafs'))) (c, w')"
  shows "wp (init_wafs E dflt ds m wafs) Q (c, w)"
  using assms(2,3,5)
proof (induction ds arbitrary: m wafs w Q)
  case Nil
  show ?case
    unfolding init_wafs.simps by (intro vcg Nil.prems(3)) (auto simp: wafs_built_def split: option.split)
next
  case (Cons x ds)
  obtain d dirs where x: "x = (d, dirs)" by (cases x)
  have dist: "distinct (map fst ds)" "d \<notin> fst ` set ds" using Cons.prems(1) by (auto simp: x)
  have gr: "grouped m auth d" using Cons.prems(2) by (simp add: x)
  show ?case
  proof (cases "d \<noteq> dflt \<and> map_of m d = None")
    case True
    then have "\<forall>a. auth a \<noteq> Some d" using gr by (simp add: grouped_def)
    then have "wp (init_wafs E dflt ds m wafs) Q (c, w)"
      by (intro Cons.IH [OF dist(1)] Cons.prems(3)) (use Cons.prems(2) True in \<open>auto simp: x intro: wafs_built_skip\<close>)
    with True show ?thesis by (simp add: x)
  next
    case False
    let ?W = "build (embedded_conf dirs)"
    obtain l where l: "(if d \<noteq> dflt then map_of m d else Some []) = Some l"
      using False by (cases "d = dflt"; cases "map_of m d"; simp)
    have set_l: "set l = (if d = dflt then {} else {a. auth a = Some d})" and "(l = []) = (d = dflt)"
      using l gr by (auto simp: grouped_def split: if_splits)
    moreover have "[] \<notin> set l" using set_l assms(4) by simp
    ultimately obtain wafs1 where
      put: "put_all (if l = [] then wafs\<lparr>defaultWAF := Some ?W\<rparr> else wafs) l (Some ?W) = Inr wafs1"
      using put_all_Inr by blast
    have wafs1: "kv wafs1 = (\<lambda>a. if a \<in> set l then Some (Some ?W) else kv wafs a)"
      "defaultWAF wafs1 = (if d = dflt then Some ?W else defaultWAF wafs)"
      using kv_put_all [OF put] \<open>(l = []) = (d = dflt)\<close> by auto
    have built: "wafs_built build auth dflt (x # ds) m wafs m' wafs'"
      if "wafs_built build auth dflt ds (AList.delete d m) wafs1 m' wafs'" for m' wafs'
      unfolding x by (rule wafs_built_step [OF that dist(2) wafs1 set_l])
    have grouped: "\<forall>e\<in>fst ` set ds. grouped (AList.delete d m) auth e"
      using Cons.prems(2) dist(2) by (auto simp: x grouped_def delete_conv)
    have rest: "wp (init_wafs E dflt ds (AList.delete d m) wafs1) Q (c, v)"
      if "engine_calls v = engine_calls w" "responses v = responses w" "dispatches v = dispatches w"
        "arrays v = arrays w" "counters v = counters w" for v
      by (rule Cons.IH [OF dist(1) grouped]) (simp add: Cons.prems(3) built that)
    show ?thesis
      using put rest by (simp add: x l wp assms(1) embedded_conf_def split: if_splits)
  qed
qed

section \<open>The contract of a callback\<close>

definition plugin_ok :: "corazaPlugin \<Rightarrow> world \<Rightarrow> bool" where
  "plugin_ok p w \<longleftrightarrow>
     (\<exists>r. pl_metrics p = Some r \<and> r < length (counters w)) \<and>
     wf_slice (arrays w) (pl_metricLabelsKV p) \<and> even (sl_len (pl_metricLabelsKV p)) \<and>
     no_nil_waf (pl_perAuthorityWAFs p)"

text \<open>\<open>coraza.NewWAF\<close> returns an error or a WAF, never nil without an error.\<close>

definition waf_law :: "env \<Rightarrow> bool" where
  "waf_law E \<longleftrightarrow> (\<forall>h conf. cz_NewWAF E h conf \<noteq> Inr None)"

definition plugin_step :: "corazaPlugin \<Rightarrow> world \<Rightarrow> corazaPlugin \<Rightarrow> world \<Rightarrow> bool" where
  "plugin_step p w p' w' \<longleftrightarrow>
     plugin_ok p' w' \<and> heap_le w w' \<and> engine_calls w' = engine_calls w \<and> responses w' = responses w \<and>
     kv (pl_perAuthorityWAFs p') = kv (pl_perAuthorityWAFs p) \<and>
     (defaultWAF (pl_perAuthorityWAFs p) \<noteq> None \<longrightarrow> defaultWAF (pl_perAuthorityWAFs p') \<noteq> None) \<and>
     pl_metricLabelsKV p' = pl_metricLabelsKV p \<and> pl_metrics p' = pl_metrics p \<and>
     pl_ruleSetCacheServerCluster p' = pl_ruleSetCacheServerCluster p \<and>
     pl_ruleSetCacheServerInstance p' = pl_ruleSetCacheServerInstance p \<and>
     pl_ruleSetCacheServerToken p' = pl_ruleSetCacheServerToken p \<and>
     pl_ruleSetReloadEnabled p' = pl_ruleSetReloadEnabled p \<and>
     pl_failurePolicy p' = pl_failurePolicy p"

lemma NewHttpContext_ok: "plugin_ok p w \<Longrightarrow> ctx_ok (NewHttpContext p cid) w"
  by (simp add: plugin_ok_def ctx_ok_def NewHttpContext_def isInterrupted_def)

lemma NewHttpContext_fields [simp]:
  "ctx_tx (NewHttpContext p cid) = None" "ctx_interruptedAt (NewHttpContext p cid) = interruptionPhaseNone"
  "ctx_processedRequestBody (NewHttpContext p cid) = False" "ctx_processedResponseBody (NewHttpContext p cid) = False"
  "ctx_bodyReadIndex (NewHttpContext p cid) = 0" "ctx_logger (NewHttpContext p cid) = None"
  "ctx_contextID (NewHttpContext p cid) = cid"
  "ctx_perAuthorityWAFs (NewHttpContext p cid) = pl_perAuthorityWAFs p"
  "ctx_failurePolicy (NewHttpContext p cid) = pl_failurePolicy p"
  "ctx_metricLabelsKV (NewHttpContext p cid) = pl_metricLabelsKV p"
  "ctx_metrics (NewHttpContext p cid) = pl_metrics p"
  by (simp_all add: NewHttpContext_def)

locale plugin_callback =
  fixes E :: env and m :: "'a plugin" and bad :: "'a \<Rightarrow> bool"
  assumes contract: "waf_law E \<Longrightarrow> plugin_ok p w \<Longrightarrow>
    wp m (\<lambda>r s'. \<not> bad r \<and> plugin_step p w (fst s') (snd s')) (p, w)"
begin

lemma run_step:
  assumes "waf_law E" and "plugin_ok p w" and "run_state m (p, w) = (r, (p', w'))"
  shows "plugin_step p w p' w'" and "\<not> bad r"
  using wp_run [OF assms(3) contract [OF assms(1,2)]] by simp_all

text \<open>The streams that are created afterwards are well formed; running ones are not touched.\<close>

lemma new_stream_ok:
  assumes "waf_law E" and "plugin_ok p w" and "run_state m (p, w) = (r, (p', w'))"
  shows "ctx_ok (NewHttpContext p' cid) w'"
  using run_step(1) [OF assms] by (intro NewHttpContext_ok) (simp add: plugin_step_def)

lemma running_stream_ok:
  assumes "waf_law E" and "plugin_ok p w" and "run_state m (p, w) = (r, (p', w'))" and "ctx_ok c w"
  shows "ctx_ok c w'"
  using run_step(1) [OF assms(1-3)] ctx_ok_heap_le [OF assms(4)] by (simp add: plugin_step_def)

end

lemmas plugin_simps = plugin_step_def plugin_ok_def heap_le_def waf_law_def

interpretation tick: plugin_callback E "OnTick E" "\<lambda>_. False" for E
  unfolding OnTick_def checkLatestRuleSet_def
  by unfold_locales (intro vcg; simp add: plugin_simps)

interpretation latest_response: plugin_callback E "onLatestRuleSetResponse E K a b d" "\<lambda>_. False" for E K a b d
  unfolding onLatestRuleSetResponse_def
  by unfold_locales (intro vcg fetchRulesFromCache_vcg; simp add: plugin_simps)

interpretation rules_response: plugin_callback E "onRuleSetCacheServerResponse E K a b d" panicked for E K a b d
  unfolding onRuleSetCacheServerResponse_def activate_rules_def log_data_files_def setDefaultWAF_def
  by unfold_locales (intro vcg; auto simp: plugin_simps split: option.splits)

section \<open>The start\<close>

lemma init_wafs_safe:
  assumes "waf_law E" and "no_nil_waf wafs"
    and Q: "\<And>r w'. (\<And>m' wafs'. r = Some (m', wafs') \<Longrightarrow> no_nil_waf wafs') \<Longrightarrow>
      engine_calls w' = engine_calls w \<Longrightarrow> responses w' = responses w \<Longrightarrow> dispatches w' = dispatches w \<Longrightarrow>
      arrays w' = arrays w \<Longrightarrow> counters w' = counters w \<Longrightarrow> Q (Returns r) (c, w')"
  shows "wp (init_wafs E dflt ds m wafs) Q (c, w)"
  using assms(2,3)
proof (induction ds arbitrary: m wafs w)
  case Nil
  show ?case unfolding init_wafs.simps by (intro vcg Nil.prems(2)) (use Nil.prems(1) in auto)
next
  case (Cons x ds)
  obtain d dirs where x: "x = (d, dirs)" by (cases x)
  have rest: "wp (init_wafs E dflt ds m' wafs') Q (c, v)"
    if "no_nil_waf wafs'" "engine_calls v = engine_calls w" "responses v = responses w"
      "dispatches v = dispatches w" "arrays v = arrays w" "counters v = counters w" for m' wafs' v
    by (rule Cons.IH [OF that(1)]) (rule Cons.prems(2); simp add: that)
  have keep: "no_nil_waf wafs2"
    if "put_all wafs1 as (Some a) = Inr wafs2"
      "(if length as = 0 then setDefaultWAF wafs (Some a) else Returns wafs) = Returns wafs1" for as a wafs1 wafs2
    using that Cons.prems(1) no_nil_waf_put_all [OF _ that(1)] by (auto split: if_splits)
  have step: "wp (case (if length as = 0 then setDefaultWAF wafs waf else Returns wafs) of
      Panics p \<Rightarrow> ret (Panics p)
    | Returns wafs \<Rightarrow>
        (case put_all wafs as waf of
           Inl err \<Rightarrow> do { tell (Log LCritical (Fmt ''Failed to register authority WAF: %v'' [AMsg err])); ret (Returns None) }
         | Inr wafs \<Rightarrow> init_wafs E dflt ds m' wafs)) Q (c, record_event (NewWAF conf) w)"
    if "cz_NewWAF E h conf = Inr waf" for as waf m' conf h
  proof -
    have "waf \<noteq> None" using assms(1) that unfolding waf_law_def by metis
    then obtain a where waf: "waf = Some a" by auto
    show ?thesis
      unfolding waf by (intro vcg rest Cons.prems(2) keep) (auto split: if_splits)
  qed
  show ?case
    unfolding x init_wafs.simps by (intro vcg rest Cons.prems(2) step) (use Cons.prems(1) in simp_all)
qed

lemma OnPluginStart_contract:
  assumes "waf_law E" and "range_law E" and "wf_slice (arrays w) (pl_metricLabelsKV p)"
    and "even (sl_len (pl_metricLabelsKV p))"
  shows "wp (OnPluginStart E J n)
    (\<lambda>r s'. \<not> panicked r \<and> heap_le w (snd s') \<and> engine_calls (snd s') = engine_calls w \<and>
       responses (snd s') = responses w \<and>
       (r = Returns OnPluginStartStatusOK \<longrightarrow> plugin_ok (fst s') (snd s'))) (p, w)"
  unfolding OnPluginStart_def start_with_cache_def start_with_directives_def
  by (intro vcg parse_config_vcg fetchRulesFromCache_vcg set_labels_and_metrics_vcg init_wafs_safe
      log_unknown_directives_vcg assms(1,2))
    (use assms(3,4) in \<open>auto simp: plugin_ok_def heap_le_def\<close>)

end
