(* ===== verification/Go_Json.thy ===== *)
theory Go_Json
  imports Go_Std Host
begin

text \<open>
  The part of Go's \<open>encoding/json\<close> and \<open>encoding/base64\<close> the plugin relies on:
  \<open>json.Unmarshal\<close> checks the whole text first, then fills the fields. A text is cut into tokens and
  the tokens are read by a machine with a stack of open arrays and objects, as the scanner of the
  library does; its stack holds at most 10000 of them. An error is only that, \<open>None\<close>: the wording
  of the library's messages is not modelled.
\<close>

section \<open>Values\<close>

datatype json =
    JNull
  | JBool bool
  | JNumber string
  | JString string
  | JArray "json list"
  | JObject "(string \<times> json) list"

section \<open>String literals\<close>

definition hex_val :: "char \<Rightarrow> nat option" where
  "hex_val c = (let n = of_char c in
     if 48 \<le> n \<and> n \<le> (57 :: nat) then Some (n - 48)
     else if 97 \<le> n \<and> n \<le> 102 then Some (n - 87)
     else if 65 \<le> n \<and> n \<le> 70 then Some (n - 55)
     else None)"

fun hex4 :: "string \<Rightarrow> nat option" where
  "hex4 (a # b # c # d # s) =
     (case (hex_val a, hex_val b, hex_val c, hex_val d) of
        (Some i, Some j, Some k, Some l) \<Rightarrow> Some (i * 4096 + j * 256 + k * 16 + l)
      | _ \<Rightarrow> None)"
| "hex4 s = None"

text \<open>The literal behind its opening quote, as it stands, and what follows the closing one.\<close>

fun scan_string :: "string \<Rightarrow> (string \<times> string) option" where
  "scan_string [] = None"
| "scan_string (c # s) =
     (if c = CHR 0x22 then Some ([], s)
      else if c = CHR 0x5C
      then (case s of
              [] \<Rightarrow> None
            | e # s' \<Rightarrow>
                if e \<in> {CHR 0x22, CHR 0x5C, CHR ''/'', CHR ''b'', CHR ''f'', CHR ''n'', CHR ''r'', CHR ''t''} \<or>
                   e = CHR ''u'' \<and> hex4 s' \<noteq> None
                then map_option (\<lambda>r. (c # e # fst r, snd r)) (scan_string s')
                else None)
      else if of_char c < (0x20 :: nat) then None
      else map_option (\<lambda>r. (c # fst r, snd r)) (scan_string s))"

definition utf8_encode :: "nat \<Rightarrow> string" where
  "utf8_encode r = map char_of
     (if r < 0x80 then [r]
      else if r < 0x800 then [0xC0 + r div 0x40, 0x80 + r mod 0x40]
      else if r < 0x10000 then [0xE0 + r div 0x1000, 0x80 + r div 0x40 mod 0x40, 0x80 + r mod 0x40]
      else [0xF0 + r div 0x40000, 0x80 + r div 0x1000 mod 0x40, 0x80 + r div 0x40 mod 0x40, 0x80 + r mod 0x40])"

text \<open>U+FFFD, which stands for what is not UTF-8.\<close>

definition replacement :: string where
  "replacement = utf8_encode 0xFFFD"

fun unescape :: "char \<Rightarrow> char" where
  "unescape c =
     (if c = CHR ''b'' then CHR 0x08 else if c = CHR ''f'' then CHR 0x0C else if c = CHR ''n'' then CHR 0x0A
      else if c = CHR ''r'' then CHR 0x0D else if c = CHR ''t'' then CHR 0x09 else c)"

text \<open>The second half of a surrogate pair: \<open>\u\<close> and four digits in its range.\<close>

fun low_surrogate :: "string \<Rightarrow> nat option" where
  "low_surrogate (a # b # s) =
     (if a = CHR 0x5C \<and> b = CHR ''u''
      then (case hex4 s of
              Some r \<Rightarrow> if 0xDC00 \<le> r \<and> r \<le> 0xDFFF then Some (r - 0xDC00) else None
            | None \<Rightarrow> None)
      else None)"
| "low_surrogate s = None"

lemma rune_width_pos: "0 < rune_width s"
proof -
  have "k \<in> set [1, 2, 3, 4]" if "find P [1, 2, 3, 4 :: nat] = Some k" for P k
    using that by (metis find_Some_iff nth_mem)
  then show ?thesis by (fastforce simp: rune_width_def split: option.split)
qed

function unquote :: "string \<Rightarrow> string" where
  "unquote [] = []"
| "unquote (c # s) =
     (if c = CHR 0x5C
      then (case s of
              [] \<Rightarrow> []
            | e # s' \<Rightarrow>
                if e = CHR ''u''
                then (case hex4 s' of
                        None \<Rightarrow> []
                      | Some r \<Rightarrow>
                          if 0xD800 \<le> r \<and> r \<le> 0xDFFF
                          then (case (if r \<le> 0xDBFF then low_surrogate (drop 4 s') else None) of
                                  Some r2 \<Rightarrow> utf8_encode ((r - 0xD800) * 0x400 + r2 + 0x10000) @ unquote (drop 10 s')
                                | None \<Rightarrow> replacement @ unquote (drop 4 s'))
                          else utf8_encode r @ unquote (drop 4 s'))
                else unescape e # unquote s')
      else if of_char c < (0x80 :: nat) then c # unquote s
      else let k = rune_width (c # s)
           in (if k = 1 then replacement else take k (c # s)) @ unquote (drop k (c # s)))"
  by pat_completeness auto
termination
  by (relation "measure length") (auto simp: rune_width_pos)

declare unquote.simps(2) [simp del]

section \<open>Tokens\<close>

datatype token =
    TNull
  | TBool bool
  | TNumber string
  | TString string
  | TOpenArray
  | TCloseArray
  | TOpenObject
  | TCloseObject
  | TComma
  | TColon

definition is_digit :: "char \<Rightarrow> bool" where
  "is_digit c \<longleftrightarrow> digit_val c \<noteq> None"

definition number_char :: "char \<Rightarrow> bool" where
  "number_char c \<longleftrightarrow> is_digit c \<or> c \<in> {CHR ''+'', CHR ''-'', CHR ''.'', CHR ''e'', CHR ''E''}"

text \<open>The grammar of numbers: sign, integer part without leading zeros, fraction, exponent.\<close>

definition valid_exponent :: "string \<Rightarrow> bool" where
  "valid_exponent s =
     (case s of
        [] \<Rightarrow> True
      | e # s \<Rightarrow> (e = CHR ''e'' \<or> e = CHR ''E'') \<and>
          (let ds = (case s of [] \<Rightarrow> [] | g # ds \<Rightarrow> if g = CHR ''+'' \<or> g = CHR ''-'' then ds else s)
           in ds \<noteq> [] \<and> list_all is_digit ds))"

definition valid_number :: "string \<Rightarrow> bool" where
  "valid_number s =
     (let s = (case s of [] \<Rightarrow> [] | c # ds \<Rightarrow> if c = CHR ''-'' then ds else s);
          int_part = takeWhile is_digit s;
          rest = dropWhile is_digit s
      in int_part \<noteq> [] \<and> (hd int_part = CHR ''0'' \<longrightarrow> length int_part = 1) \<and>
         (case rest of
            [] \<Rightarrow> True
          | c # fr \<Rightarrow>
              if c = CHR ''.'' then takeWhile is_digit fr \<noteq> [] \<and> valid_exponent (dropWhile is_digit fr)
              else valid_exponent rest))"

definition json_space :: "char \<Rightarrow> bool" where
  "json_space c \<longleftrightarrow> c = CHR 0x20 \<or> c = CHR 0x09 \<or> c = CHR 0x0A \<or> c = CHR 0x0D"

fun punctuation :: "char \<Rightarrow> token option" where
  "punctuation c =
     (if c = CHR ''['' then Some TOpenArray else if c = CHR '']'' then Some TCloseArray
      else if c = CHR 0x7B then Some TOpenObject else if c = CHR 0x7D then Some TCloseObject
      else if c = CHR '','' then Some TComma else if c = CHR '':'' then Some TColon else None)"

lemma scan_string_length: "scan_string s = Some r \<Longrightarrow> length (snd r) < length s"
proof (induction s arbitrary: r rule: scan_string.induct)
  case 1
  then show ?case by simp
next
  case (2 c s)
  then show ?case
    by (auto split: if_splits list.splits) fastforce+
qed

function lex :: "string \<Rightarrow> token list option" where
  "lex [] = Some []"
| "lex (c # s) =
     (if json_space c then lex s
      else case punctuation c of
        Some t \<Rightarrow> map_option ((#) t) (lex s)
      | None \<Rightarrow>
          if c = CHR 0x22
          then (case scan_string s of
                  None \<Rightarrow> None
                | Some r \<Rightarrow> map_option ((#) (TString (unquote (fst r)))) (lex (snd r)))
          else if c = CHR ''-'' \<or> is_digit c
          then (let num = c # takeWhile number_char s
                in if valid_number num
                   then map_option ((#) (TNumber num)) (lex (dropWhile number_char s)) else None)
          else if prefix ''null'' (c # s) then map_option ((#) TNull) (lex (drop 3 s))
          else if prefix ''true'' (c # s) then map_option ((#) (TBool True)) (lex (drop 3 s))
          else if prefix ''false'' (c # s) then map_option ((#) (TBool False)) (lex (drop 4 s))
          else None)"
  by pat_completeness auto
termination
  by (relation "measure length")
    (auto dest: scan_string_length simp: less_Suc_eq_le length_dropWhile_le)

declare lex.simps(2) [simp del]

section \<open>The machine\<close>

text \<open>An open array or object with what it holds so far, the last first, and the key of the value to come.\<close>

datatype frame = InArray "json list" | InObject "(string \<times> json) list" string

definition max_depth :: nat where
  "max_depth = 10000"

text \<open>What the machine expects next, below the open arrays and objects.\<close>

datatype scan_state =
    BeginValue "frame list"
  | BeginValueOrEmpty "frame list"
  | BeginStringOrEmpty "frame list"
  | BeginString "frame list" "(string \<times> json) list"
  | ExpectColon "frame list" "(string \<times> json) list" string
  | EndValue "frame list" json

definition begin_value :: "frame list \<Rightarrow> token \<Rightarrow> scan_state option" where
  "begin_value fs t =
     (case t of
        TNull \<Rightarrow> Some (EndValue fs JNull)
      | TBool b \<Rightarrow> Some (EndValue fs (JBool b))
      | TNumber s \<Rightarrow> Some (EndValue fs (JNumber s))
      | TString s \<Rightarrow> Some (EndValue fs (JString s))
      | TOpenArray \<Rightarrow> if length fs < max_depth then Some (BeginValueOrEmpty fs) else None
      | TOpenObject \<Rightarrow> if length fs < max_depth then Some (BeginStringOrEmpty fs) else None
      | _ \<Rightarrow> None)"

fun end_value :: "frame list \<Rightarrow> json \<Rightarrow> token \<Rightarrow> scan_state option" where
  "end_value [] v t = None"
| "end_value (InArray vs # fs) v t =
     (if t = TComma then Some (BeginValue (InArray (v # vs) # fs))
      else if t = TCloseArray then Some (EndValue fs (JArray (rev (v # vs))))
      else None)"
| "end_value (InObject kvs k # fs) v t =
     (if t = TComma then Some (BeginString fs ((k, v) # kvs))
      else if t = TCloseObject then Some (EndValue fs (JObject (rev ((k, v) # kvs))))
      else None)"

fun scan_token :: "scan_state \<Rightarrow> token \<Rightarrow> scan_state option" where
  "scan_token (BeginValue fs) t = begin_value fs t"
| "scan_token (BeginValueOrEmpty fs) t =
     (if t = TCloseArray then Some (EndValue fs (JArray [])) else begin_value (InArray [] # fs) t)"
| "scan_token (BeginStringOrEmpty fs) t =
     (case t of
        TCloseObject \<Rightarrow> Some (EndValue fs (JObject []))
      | TString k \<Rightarrow> Some (ExpectColon fs [] k)
      | _ \<Rightarrow> None)"
| "scan_token (BeginString fs kvs) t =
     (case t of TString k \<Rightarrow> Some (ExpectColon fs kvs k) | _ \<Rightarrow> None)"
| "scan_token (ExpectColon fs kvs k) t =
     (if t = TColon then Some (BeginValue (InObject kvs k # fs)) else None)"
| "scan_token (EndValue fs v) t = end_value fs v t"

fun scan_tokens :: "scan_state \<Rightarrow> token list \<Rightarrow> json option" where
  "scan_tokens q [] = (case q of EndValue [] v \<Rightarrow> Some v | _ \<Rightarrow> None)"
| "scan_tokens q (t # ts) = (case scan_token q t of Some q \<Rightarrow> scan_tokens q ts | None \<Rightarrow> None)"

definition parse_json :: "string \<Rightarrow> json option" where
  "parse_json s = (case lex s of None \<Rightarrow> None | Some ts \<Rightarrow> scan_tokens (BeginValue []) ts)"

section \<open>Base 64\<close>

definition base64_val :: "char \<Rightarrow> nat option" where
  "base64_val c = (let n = of_char c in
     if 65 \<le> n \<and> n \<le> (90 :: nat) then Some (n - 65)
     else if 97 \<le> n \<and> n \<le> 122 then Some (n - 71)
     else if 48 \<le> n \<and> n \<le> 57 then Some (n + 4)
     else if n = 43 then Some 62
     else if n = 47 then Some 63
     else None)"

text \<open>Groups of four characters; only the last may be padded.\<close>

fun decode_quanta :: "string \<Rightarrow> bytes option" where
  "decode_quanta [] = Some []"
| "decode_quanta (a # b # c # d # s) =
     (case (base64_val a, base64_val b) of
        (Some i, Some j) \<Rightarrow>
          (case base64_val c of
             None \<Rightarrow> if c = CHR ''='' \<and> d = CHR ''='' \<and> s = [] then Some [word_of_nat (i * 4 + j div 16)] else None
           | Some k \<Rightarrow>
               (case base64_val d of
                  None \<Rightarrow> if d = CHR ''='' \<and> s = []
                    then Some [word_of_nat (i * 4 + j div 16), word_of_nat (j mod 16 * 16 + k div 4)] else None
                | Some l \<Rightarrow> map_option (\<lambda>bs. word_of_nat (i * 4 + j div 16) # word_of_nat (j mod 16 * 16 + k div 4) #
                      word_of_nat (k mod 4 * 64 + l) # bs) (decode_quanta s)))
      | _ \<Rightarrow> None)"
| "decode_quanta s = None"

text \<open>\<open>base64.StdEncoding.Decode\<close>: line breaks are skipped everywhere.\<close>

definition base64_decode :: "string \<Rightarrow> bytes option" where
  "base64_decode s = decode_quanta (filter (\<lambda>c. c \<noteq> CHR 0x0A \<and> c \<noteq> CHR 0x0D) s)"

section \<open>Filling fields\<close>

text \<open>
  Names of fields match exactly or else up to case. A name in ASCII is equal up to case also to the
  same name with the long s (U+017F) or the sign of Kelvin (U+212A).
\<close>

fun fold_name :: "string \<Rightarrow> string" where
  "fold_name [] = []"
| "fold_name (c # s) =
     (if (97 :: nat) \<le> of_char c \<and> of_char c \<le> (122 :: nat) then char_of (of_char c - (32 :: nat)) # fold_name s
      else if c = CHR 0xC5 \<and> s \<noteq> [] \<and> hd s = CHR 0xBF then CHR ''S'' # fold_name (tl s)
      else if c = CHR 0xE2 \<and> prefix [CHR 0x84, CHR 0xAA] s then CHR ''K'' # fold_name (drop 2 s)
      else c # fold_name s)"

definition field_of :: "string list \<Rightarrow> string \<Rightarrow> string option" where
  "field_of names key =
     (if key \<in> set names then Some key else find (\<lambda>n. fold_name n = fold_name key) names)"

text \<open>Values for a string, for bytes and for a map of bytes; \<open>null\<close> leaves a string as it is.\<close>

fun decode_string :: "string \<Rightarrow> json \<Rightarrow> string option" where
  "decode_string old (JString s) = Some s"
| "decode_string old JNull = Some old"
| "decode_string old _ = None"

fun decode_byte :: "json \<Rightarrow> byte option" where
  "decode_byte JNull = Some 0"
| "decode_byte (JNumber s) =
     (case ParseUint 64 s of ScanVal n \<Rightarrow> if n < 256 then Some (word_of_nat n) else None | _ \<Rightarrow> None)"
| "decode_byte _ = None"

fun decode_bytes :: "json \<Rightarrow> bytes option" where
  "decode_bytes JNull = Some []"
| "decode_bytes (JString s) = base64_decode s"
| "decode_bytes (JArray vs) = those (map decode_byte vs)"
| "decode_bytes _ = None"

text \<open>The fields of an object one by one, in the order of the text.\<close>

fun decode_pairs :: "('s \<Rightarrow> string \<Rightarrow> json \<Rightarrow> 's option) \<Rightarrow> 's \<Rightarrow> (string \<times> json) list \<Rightarrow> 's option" where
  "decode_pairs f s [] = Some s"
| "decode_pairs f s ((k, v) # kvs) = (case f s k v of None \<Rightarrow> None | Some s' \<Rightarrow> decode_pairs f s' kvs)"

fun decode_bytes_map :: "bytes gomap \<Rightarrow> json \<Rightarrow> bytes gomap option" where
  "decode_bytes_map old JNull = Some []"
| "decode_bytes_map old (JObject kvs) =
     decode_pairs (\<lambda>m k v. map_option (\<lambda>b. AList.update k b m) (decode_bytes v)) old kvs"
| "decode_bytes_map old _ = None"

text \<open>A structure: an object, or \<open>null\<close> which leaves it as it is.\<close>

fun decode_struct :: "('s \<Rightarrow> string \<Rightarrow> json \<Rightarrow> 's option) \<Rightarrow> 's \<Rightarrow> json \<Rightarrow> 's option" where
  "decode_struct f zero JNull = Some zero"
| "decode_struct f zero (JObject kvs) = decode_pairs f zero kvs"
| "decode_struct f zero _ = None"

end
