(* ===== verification/Json_Text.thy ===== *)
theory Json_Text
  imports Go_Json
begin


section \<open>Texts of a value\<close>

text \<open>
  What is a JSON text of a value, as the grammar of JSON says: any literal of a string, any white
  space between the tokens. This relation is independent of the machine above.
\<close>

inductive literal :: "string \<Rightarrow> string \<Rightarrow> bool" where
  literal_Nil: "literal [] []"
| literal_plain: "literal r s \<Longrightarrow> (0x20 :: nat) \<le> of_char c \<Longrightarrow> of_char c < (0x80 :: nat) \<Longrightarrow> c \<noteq> CHR 0x22 \<Longrightarrow>
    c \<noteq> CHR 0x5C \<Longrightarrow> literal (c # r) (c # s)"
| literal_rune: "literal r s \<Longrightarrow> list_all (\<lambda>c. (0x80 :: nat) \<le> of_char c) u \<Longrightarrow> 2 \<le> rune_width u \<Longrightarrow>
    length u = rune_width u \<Longrightarrow> literal (u @ r) (u @ s)"
| literal_short: "literal r s \<Longrightarrow>
    e \<in> {CHR 0x22, CHR 0x5C, CHR ''/'', CHR ''b'', CHR ''f'', CHR ''n'', CHR ''r'', CHR ''t''} \<Longrightarrow>
    literal (CHR 0x5C # e # r) (unescape e # s)"
| literal_code: "literal r s \<Longrightarrow> length u = 4 \<Longrightarrow> hex4 u = Some n \<Longrightarrow> n < 0xD800 \<or> 0xDFFF < n \<Longrightarrow>
    literal (CHR 0x5C # CHR ''u'' # u @ r) (utf8_encode n @ s)"
| literal_pair: "literal r s \<Longrightarrow> length u = 4 \<Longrightarrow> hex4 u = Some m \<Longrightarrow> 0xD800 \<le> m \<Longrightarrow> m \<le> 0xDBFF \<Longrightarrow>
    length v = 4 \<Longrightarrow> hex4 v = Some n \<Longrightarrow> 0xDC00 \<le> n \<Longrightarrow> n \<le> 0xDFFF \<Longrightarrow>
    literal (CHR 0x5C # CHR ''u'' # u @ CHR 0x5C # CHR ''u'' # v @ r)
      (utf8_encode ((m - 0xD800) * 0x400 + (n - 0xDC00) + 0x10000) @ s)"

fun token_text :: "token \<Rightarrow> string \<Rightarrow> bool" where
  "token_text TNull t \<longleftrightarrow> t = ''null''"
| "token_text (TBool b) t \<longleftrightarrow> t = (if b then ''true'' else ''false'')"
| "token_text (TNumber s) t \<longleftrightarrow> t = s \<and> valid_number s"
| "token_text (TString s) t \<longleftrightarrow> (\<exists>r. t = CHR 0x22 # r @ [CHR 0x22] \<and> literal r s)"
| "token_text TOpenArray t \<longleftrightarrow> t = ''[''"
| "token_text TCloseArray t \<longleftrightarrow> t = '']''"
| "token_text TOpenObject t \<longleftrightarrow> t = [CHR 0x7B]"
| "token_text TCloseObject t \<longleftrightarrow> t = [CHR 0x7D]"
| "token_text TComma t \<longleftrightarrow> t = '',''"
| "token_text TColon t \<longleftrightarrow> t = '':''"

fun number_ends :: "token \<Rightarrow> string \<Rightarrow> bool" where
  "number_ends (TNumber _) r \<longleftrightarrow> r = [] \<or> \<not> number_char (hd r)"
| "number_ends _ r \<longleftrightarrow> True"

inductive tokens_text :: "token list \<Rightarrow> string \<Rightarrow> bool" where
  tokens_text_Nil: "list_all json_space w \<Longrightarrow> tokens_text [] w"
| tokens_text_Cons: "tokens_text ts r \<Longrightarrow> list_all json_space w \<Longrightarrow> token_text k t \<Longrightarrow> number_ends k r \<Longrightarrow>
    tokens_text (k # ts) (w @ t @ r)"

fun tokens_of :: "json \<Rightarrow> token list" where
  "tokens_of JNull = [TNull]"
| "tokens_of (JBool b) = [TBool b]"
| "tokens_of (JNumber s) = [TNumber s]"
| "tokens_of (JString s) = [TString s]"
| "tokens_of (JArray []) = [TOpenArray, TCloseArray]"
| "tokens_of (JArray (v # vs)) =
     TOpenArray # tokens_of v @ concat (map (\<lambda>v. TComma # tokens_of v) vs) @ [TCloseArray]"
| "tokens_of (JObject []) = [TOpenObject, TCloseObject]"
| "tokens_of (JObject ((k, v) # kvs)) =
     TOpenObject # TString k # TColon # tokens_of v @
     concat (map (\<lambda>(k, v). TComma # TString k # TColon # tokens_of v) kvs) @ [TCloseObject]"

definition json_text :: "json \<Rightarrow> string \<Rightarrow> bool" where
  "json_text v s \<longleftrightarrow> tokens_text (tokens_of v) s"

text \<open>How deep arrays and objects are nested.\<close>

fun depth :: "json \<Rightarrow> nat" where
  "depth (JArray vs) = Suc (foldr max (map depth vs) 0)"
| "depth (JObject kvs) = Suc (foldr max (map (\<lambda>(k, v). depth v) kvs) 0)"
| "depth _ = 0"

section \<open>Literals\<close>

lemma hex4_length: "hex4 u = Some n \<Longrightarrow> hex4 (u @ r) = Some n"
  by (cases u rule: hex4.cases) auto

lemma hex4_drop: "length u = 4 \<Longrightarrow> drop 4 (u @ r) = r"
  by simp

lemma scan_string_append:
  "list_all (\<lambda>c. (0x20 :: nat) \<le> of_char c \<and> c \<noteq> CHR 0x22 \<and> c \<noteq> CHR 0x5C) u \<Longrightarrow>
   scan_string (u @ r) = map_option (\<lambda>x. (u @ fst x, snd x)) (scan_string r)"
  by (induction u) (auto simp: option.map_comp comp_def option.map_ident)

lemma hex_digits_plain:
  assumes "length u = 4" "hex4 u = Some n"
  shows "list_all (\<lambda>c. (0x20 :: nat) \<le> of_char c \<and> c \<noteq> CHR 0x22 \<and> c \<noteq> CHR 0x5C) u"
proof -
  have plain: "(0x20 :: nat) \<le> of_char c \<and> c \<noteq> CHR 0x22 \<and> c \<noteq> CHR 0x5C" if "hex_val c = Some i" for c i
    using that by (auto simp: hex_val_def Let_def split: if_splits)
  show ?thesis
    using assms plain by (cases u rule: hex4.cases) (auto split: option.splits)
qed

lemma literal_scan: "literal r s \<Longrightarrow> scan_string (r @ CHR 0x22 # rest) = Some (r, rest)"
proof (induction rule: literal.induct)
  case (literal_rune r s u)
  then show ?case
    by (subst append_assoc, subst scan_string_append) (auto simp: list_all_iff)
next
  case (literal_code r s u n)
  have "scan_string (u @ r @ CHR 0x22 # rest) = Some (u @ r, rest)"
    by (subst scan_string_append [OF hex_digits_plain]) (use literal_code in auto)
  then show ?case using hex4_length [OF literal_code(3)] by simp
next
  case (literal_pair r s u m v n)
  have v: "scan_string (v @ r @ CHR 0x22 # rest) = Some (v @ r, rest)"
    by (subst scan_string_append [OF hex_digits_plain]) (use literal_pair in auto)
  then have "scan_string (CHR 0x5C # CHR ''u'' # v @ r @ CHR 0x22 # rest) = Some (CHR 0x5C # CHR ''u'' # v @ r, rest)"
    using hex4_length [OF literal_pair(7)] by simp
  then have "scan_string (u @ CHR 0x5C # CHR ''u'' # v @ r @ CHR 0x22 # rest) =
      Some (u @ CHR 0x5C # CHR ''u'' # v @ r, rest)"
    by (subst scan_string_append [OF hex_digits_plain]) (use literal_pair in auto)
  then show ?case using hex4_length [OF literal_pair(3)] by simp
qed auto

lemma find_up_to:
  "find P xs = Some k \<Longrightarrow> sorted xs \<Longrightarrow> (\<And>j :: nat. j \<le> k \<Longrightarrow> P j = Q j) \<Longrightarrow> find Q xs = Some k"
  by (induction xs) (auto split: if_splits simp: find_Some_iff dest: nth_mem)

lemma rune_width_append:
  assumes "2 \<le> rune_width u" and "length u = rune_width u"
  shows "rune_width (u @ r) = length u"
proof -
  have "find (\<lambda>k. k \<le> length u \<and> utf8_valid (map of_char (take k u))) [1, 2, 3, 4] = Some (length u)"
    using assms unfolding rune_width_def by (simp split: option.splits del: find.simps)
  then have "find (\<lambda>k. k \<le> length (u @ r) \<and> utf8_valid (map of_char (take k (u @ r)))) [1, 2, 3, 4] = Some (length u)"
    by (rule find_up_to) auto
  then show ?thesis by (simp add: rune_width_def del: find.simps)
qed

lemma literal_unquote: "literal r s \<Longrightarrow> unquote r = s"
proof (induction rule: literal.induct)
  case (literal_rune r s u)
  obtain c cs where u: "u = c # cs" using literal_rune by (cases u) auto
  have "unquote (c # cs @ r) = take (length u) (u @ r) @ unquote (drop (length u) (u @ r))"
    unfolding unquote.simps
    using literal_rune rune_width_append [of u r] by (auto simp: u Let_def)
  then show ?case using literal_rune by (simp add: u)
next
  case (literal_code r s u n)
  then show ?case using hex4_length [OF literal_code(3), of r] by (auto simp: unquote.simps(2))
next
  case (literal_pair r s u m v n)
  have "low_surrogate (CHR 0x5C # CHR ''u'' # v @ r) = Some (n - 0xDC00)"
    using hex4_length [OF literal_pair(7), of r] literal_pair by simp
  then show ?case
    using hex4_length [OF literal_pair(3)] literal_pair by (simp add: unquote.simps(2))
qed (auto simp: unquote.simps(2))

section \<open>Tokens and values\<close>

lemma lex_space: "list_all json_space w \<Longrightarrow> lex (w @ r) = lex r"
  by (induction w) (simp_all add: lex.simps(2))

lemma takeWhile_digits: "list_all number_char (takeWhile is_digit s)"
  by (auto simp: list_all_iff number_char_def dest: set_takeWhileD)

lemma number_char_split: "list_all number_char (dropWhile is_digit s) \<Longrightarrow> list_all number_char s"
  using takeWhile_digits [of s] by (metis list_all_append takeWhile_dropWhile_id)

lemma exponent_chars: "valid_exponent s \<Longrightarrow> list_all number_char s"
  by (auto simp: valid_exponent_def Let_def list_all_iff number_char_def split: list.splits if_splits)

lemma fraction_chars:
  "(case s of [] \<Rightarrow> True
    | c # fr \<Rightarrow> if c = CHR ''.'' then takeWhile is_digit fr \<noteq> [] \<and> valid_exponent (dropWhile is_digit fr)
                else valid_exponent s) \<Longrightarrow> list_all number_char s"
  using exponent_chars [of s] exponent_chars [of "dropWhile is_digit (tl s)"]
  by (cases s) (auto simp: number_char_def split: if_splits intro: number_char_split)

lemma number_chars:
  assumes "valid_number s"
  shows "list_all number_char s" and "\<exists>c cs. s = c # cs \<and> (c = CHR ''-'' \<or> is_digit c)"
proof -
  define ds where "ds = (case s of [] \<Rightarrow> [] | c # ds \<Rightarrow> if c = CHR ''-'' then ds else s)"
  have ds: "takeWhile is_digit ds \<noteq> []" "list_all number_char (dropWhile is_digit ds)"
    using assms fraction_chars [of "dropWhile is_digit ds"]
    by (simp_all add: valid_number_def Let_def ds_def [symmetric])
  have s: "s = ds \<or> s = CHR ''-'' # ds" using ds(1) by (auto simp: ds_def split: list.splits if_splits)
  then show "list_all number_char s"
    using number_char_split [OF ds(2)] by (auto simp: number_char_def)
  show "\<exists>c cs. s = c # cs \<and> (c = CHR ''-'' \<or> is_digit c)"
    using s ds(1) by (cases ds) (auto split: if_splits)
qed

lemma not_other_start:
  assumes "c = CHR ''-'' \<or> is_digit c"
  shows "\<not> json_space c" "punctuation c = None" "c \<noteq> CHR 0x22"
  using assms by (auto simp: is_digit_def digit_val_def json_space_def Let_def of_char_def)

lemma lex_token:
  assumes "token_text k t" and "number_ends k r"
  shows "lex (t @ r) = map_option ((#) k) (lex r)"
proof (cases k)
  case (TNumber s)
  then have t: "t = s" "valid_number s" using assms(1) by simp_all
  obtain c cs where s: "s = c # cs" "c = CHR ''-'' \<or> is_digit c" using number_chars(2) [OF t(2)] by blast
  have cs: "list_all number_char cs" using number_chars(1) [OF t(2)] by (simp add: s)
  have "takeWhile number_char (cs @ r) = cs" "dropWhile number_char (cs @ r) = r"
    using assms(2) cs by (cases r; simp add: TNumber takeWhile_append dropWhile_append list_all_iff)+
  then show ?thesis
    using s not_other_start [OF s(2)] t by (simp add: lex.simps(2) Let_def TNumber)
next
  case (TString s)
  then obtain raw where "t = CHR 0x22 # raw @ [CHR 0x22]" "literal raw s" using assms(1) by auto
  then show ?thesis
    using literal_scan [of raw s r] literal_unquote [of raw s]
    by (simp add: lex.simps(2) json_space_def TString)
qed (use assms(1) in \<open>auto simp: lex.simps(2) json_space_def is_digit_def digit_val_def of_char_def Let_def\<close>)

lemma lex_tokens_text: "tokens_text ts s \<Longrightarrow> lex s = Some ts"
proof (induction rule: tokens_text.induct)
  case (tokens_text_Nil w)
  then show ?case using lex_space [of w "[]"] by simp
next
  case (tokens_text_Cons ts r w k t)
  then show ?case using lex_token by (simp add: lex_space)
qed

lemma scan_elements:
  assumes "\<And>v fs ts. v \<in> set vs \<Longrightarrow> length fs + depth v \<le> max_depth \<Longrightarrow>
      scan_tokens (BeginValue fs) (tokens_of v @ ts) = scan_tokens (EndValue fs v) ts"
    and "\<And>v. v \<in> set vs \<Longrightarrow> length fs + Suc (depth v) \<le> max_depth"
  shows "scan_tokens (EndValue (InArray acc # fs) u)
      (concat (map (\<lambda>v. TComma # tokens_of v) vs) @ TCloseArray # ts) =
    scan_tokens (EndValue fs (JArray (rev acc @ u # vs))) ts"
  using assms by (induction vs arbitrary: acc u) simp_all

lemma scan_members:
  assumes "\<And>m fs ts. m \<in> set kvs \<Longrightarrow> length fs + depth (snd m) \<le> max_depth \<Longrightarrow>
      scan_tokens (BeginValue fs) (tokens_of (snd m) @ ts) = scan_tokens (EndValue fs (snd m)) ts"
    and "\<And>m. m \<in> set kvs \<Longrightarrow> length fs + Suc (depth (snd m)) \<le> max_depth"
  shows "scan_tokens (EndValue (InObject acc k # fs) u)
      (concat (map (\<lambda>(k, v). TComma # TString k # TColon # tokens_of v) kvs) @ TCloseObject # ts) =
    scan_tokens (EndValue fs (JObject (rev acc @ (k, u) # kvs))) ts"
  using assms
proof (induction kvs arbitrary: acc k u)
  case Nil
  then show ?case by simp
next
  case (Cons m kvs)
  obtain k' v where m: "m = (k', v)" by (cases m)
  have "scan_tokens (BeginValue (InObject ((k, u) # acc) k' # fs)) (tokens_of v @ rest) =
      scan_tokens (EndValue (InObject ((k, u) # acc) k' # fs) v) rest" for rest
    using Cons.prems(1) [of m] Cons.prems(2) [of m] by (simp add: m)
  moreover note Cons.IH [of "(k, u) # acc" k' v]
  ultimately show ?case using Cons.prems by (simp add: m)
qed

lemma depth_foldr: "x \<in> set xs \<Longrightarrow> x \<le> foldr max xs (0 :: nat)"
  by (induction xs) auto

lemma first_element:
  "scan_tokens (BeginValueOrEmpty fs) (tokens_of v @ ts) = scan_tokens (BeginValue (InArray [] # fs)) (tokens_of v @ ts)"
proof -
  have "\<exists>t r. tokens_of v = t # r \<and> t \<noteq> TCloseArray" by (cases v rule: tokens_of.cases) auto
  then show ?thesis by fastforce
qed

lemma scan_value:
  "length fs + depth v \<le> max_depth \<Longrightarrow>
   scan_tokens (BeginValue fs) (tokens_of v @ ts) = scan_tokens (EndValue fs v) ts"
proof (induction v arbitrary: fs ts)
  case (JArray vs)
  have deep: "length fs + Suc (depth v) \<le> max_depth" if "v \<in> set vs" for v
    using JArray.prems depth_foldr [of "depth v" "map depth vs"] that by auto
  show ?case
  proof (cases vs)
    case Nil
    then show ?thesis using JArray.prems by (simp add: begin_value_def)
  next
    case (Cons v vs')
    have "scan_tokens (BeginValue (InArray [] # fs)) (tokens_of v @ rest) =
        scan_tokens (EndValue (InArray [] # fs) v) rest" for rest
      using JArray.IH deep by (simp add: Cons)
    moreover have "scan_tokens (EndValue (InArray [] # fs) v)
        (concat (map (\<lambda>v. TComma # tokens_of v) vs') @ TCloseArray # ts) = scan_tokens (EndValue fs (JArray vs)) ts"
      using scan_elements [of vs' fs "[]" v ts] JArray.IH deep by (simp add: Cons)
    ultimately show ?thesis using JArray.prems by (simp add: Cons begin_value_def first_element)
  qed
next
  case (JObject kvs)
  have deep: "length fs + Suc (depth (snd m)) \<le> max_depth" if "m \<in> set kvs" for m
    using JObject.prems depth_foldr [of "depth (snd m)" "map (\<lambda>(k, v). depth v) kvs"] that
    by (auto simp: case_prod_beta)
  have IH: "scan_tokens (BeginValue fs) (tokens_of (snd m) @ ts) = scan_tokens (EndValue fs (snd m)) ts"
    if "m \<in> set kvs" "length fs + depth (snd m) \<le> max_depth" for m fs ts
    using JObject.IH [OF that(1), of "snd m"] that(2) by (cases m) simp
  show ?case
  proof (cases kvs)
    case Nil
    then show ?thesis using JObject.prems by (simp add: begin_value_def)
  next
    case (Cons m kvs')
    obtain k v where m: "m = (k, v)" by (cases m)
    have "scan_tokens (BeginValue (InObject [] k # fs)) (tokens_of v @ rest) =
        scan_tokens (EndValue (InObject [] k # fs) v) rest" for rest
      using IH [of m] deep [of m] by (simp add: Cons m)
    moreover have "scan_tokens (EndValue (InObject [] k # fs) v)
        (concat (map (\<lambda>(k, v). TComma # TString k # TColon # tokens_of v) kvs') @ TCloseObject # ts) =
      scan_tokens (EndValue fs (JObject kvs)) ts"
      using scan_members [of kvs' fs "[]" k v ts] IH deep by (simp add: Cons m)
    ultimately show ?thesis using JObject.prems by (simp add: Cons m begin_value_def)
  qed
qed (simp_all add: begin_value_def)

lemma parse_json_text:
  assumes "json_text v s" and "depth v \<le> max_depth"
  shows "parse_json s = Some v"
  using lex_tokens_text [of "tokens_of v" s] scan_value [of "[]" v "[]"] assms
  by (simp add: json_text_def parse_json_def)

section \<open>One text of a value\<close>

text \<open>Without white space, for values without numbers whose strings need no escapes.\<close>

definition plain_char :: "char \<Rightarrow> bool" where
  "plain_char c \<longleftrightarrow> (0x20 :: nat) \<le> of_char c \<and> of_char c < (0x80 :: nat) \<and> c \<noteq> CHR 0x22 \<and> c \<noteq> CHR 0x5C"

fun plain_token :: "token \<Rightarrow> bool" where
  "plain_token (TString s) \<longleftrightarrow> list_all plain_char s"
| "plain_token (TNumber s) \<longleftrightarrow> False"
| "plain_token _ \<longleftrightarrow> True"

fun spell_token :: "token \<Rightarrow> string" where
  "spell_token TNull = ''null''"
| "spell_token (TBool b) = (if b then ''true'' else ''false'')"
| "spell_token (TNumber s) = s"
| "spell_token (TString s) = CHR 0x22 # s @ [CHR 0x22]"
| "spell_token TOpenArray = ''[''"
| "spell_token TCloseArray = '']''"
| "spell_token TOpenObject = [CHR 0x7B]"
| "spell_token TCloseObject = [CHR 0x7D]"
| "spell_token TComma = '',''"
| "spell_token TColon = '':''"

definition spell :: "json \<Rightarrow> string" where
  "spell v = concat (map spell_token (tokens_of v))"

lemma literal_plain_string: "list_all plain_char s \<Longrightarrow> literal s s"
  by (induction s) (auto simp: plain_char_def intro: literal.intros)

lemma spell_token_text: "plain_token t \<Longrightarrow> token_text t (spell_token t) \<and> number_ends t r"
  by (cases t) (auto intro: literal_plain_string)

lemma spell_text: "list_all plain_token (tokens_of v) \<Longrightarrow> json_text v (spell v)"
proof -
  have "list_all plain_token ts \<Longrightarrow> tokens_text ts (concat (map spell_token ts))" for ts
  proof (induction ts)
    case Nil
    then show ?case using tokens_text_Nil [of "[]"] by simp
  next
    case (Cons t ts)
    then show ?case
      using tokens_text_Cons [of ts _ "[]" t "spell_token t"] spell_token_text [of t] by simp
  qed
  then show "list_all plain_token (tokens_of v) \<Longrightarrow> json_text v (spell v)"
    by (simp add: json_text_def spell_def)
qed

end
