(* ===== verification/Cache_Json.thy ===== *)
theory Cache_Json
  imports Plugin Json_Text
begin

text \<open>
  The answers of the rule set cache server: the two structures the callbacks of
  \<open>wasmplugin/plugin.go\<close> pass to \<open>json.Unmarshal\<close>, field by field. \<open>go_json\<close> is the record
  \<open>cache_json\<close> of the plugin on the JSON library; the wording of its errors is the parameter
  \<open>wording\<close>.
\<close>

section \<open>The structures\<close>

definition latest_fields :: "string list" where
  "latest_fields = [''uuid'', ''timestamp'']"

text \<open>UUID and timestamp.\<close>

definition set_latest_field :: "string \<times> string \<Rightarrow> string \<Rightarrow> json \<Rightarrow> (string \<times> string) option" where
  "set_latest_field r key v =
     (case field_of latest_fields key of
        None \<Rightarrow> Some r
      | Some name \<Rightarrow>
          if name = ''uuid'' then map_option (\<lambda>s. (s, snd r)) (decode_string (fst r) v)
          else map_option (\<lambda>s. (fst r, s)) (decode_string (snd r) v))"

definition rules_fields :: "string list" where
  "rules_fields = [''uuid'', ''timestamp'', ''rules'', ''dataFiles'']"

definition set_rules_field :: "rules_response \<Rightarrow> string \<Rightarrow> json \<Rightarrow> rules_response option" where
  "set_rules_field r key v =
     (case field_of rules_fields key of
        None \<Rightarrow> Some r
      | Some name \<Rightarrow>
          if name = ''uuid'' then map_option (\<lambda>s. r\<lparr>rr_UUID := s\<rparr>) (decode_string (rr_UUID r) v)
          else if name = ''timestamp'' then map_option (\<lambda>s. r\<lparr>rr_Timestamp := s\<rparr>) (decode_string (rr_Timestamp r) v)
          else if name = ''rules'' then map_option (\<lambda>s. r\<lparr>rr_Rules := s\<rparr>) (decode_string (rr_Rules r) v)
          else map_option (\<lambda>m. r\<lparr>rr_DataFiles := m\<rparr>) (decode_bytes_map (rr_DataFiles r) v))"

text \<open>\<open>json.Unmarshal\<close> of a body: the structure, or an error.\<close>

definition Unmarshal :: "(bytes \<Rightarrow> goerror) \<Rightarrow> (json \<Rightarrow> 'r option) \<Rightarrow> bytes \<Rightarrow> goerror + 'r" where
  "Unmarshal wording decode body =
     (case Option.bind (parse_json (go_string body)) decode of None \<Rightarrow> Inl (wording body) | Some r \<Rightarrow> Inr r)"

definition zero_rules :: rules_response where
  "zero_rules = \<lparr>rr_UUID = [], rr_Timestamp = [], rr_Rules = [], rr_DataFiles = []\<rparr>"

definition go_json :: "(bytes \<Rightarrow> goerror) \<Rightarrow> cache_json" where
  "go_json wording = \<lparr>
     unmarshal_latest = map_sum id fst \<circ> Unmarshal wording (decode_struct set_latest_field ([], [])),
     unmarshal_rules = Unmarshal wording (decode_struct set_rules_field zero_rules)\<rparr>"

section \<open>Base 64\<close>

text \<open>The encoding of RFC 4648, with padding.\<close>

definition base64_char :: "nat \<Rightarrow> char" where
  "base64_char n = char_of (if n < 26 then n + 65 else if n < 52 then n + 71 else if n < 62 then n - 4
     else if n = 62 then 43 else 47)"

fun base64_encode :: "bytes \<Rightarrow> string" where
  "base64_encode [] = []"
| "base64_encode [a] = map base64_char [unat a div 4, unat a mod 4 * 16] @ ''==''"
| "base64_encode [a, b] =
     map base64_char [unat a div 4, unat a mod 4 * 16 + unat b div 16, unat b mod 16 * 4] @ ''=''"
| "base64_encode (a # b # c # bs) =
     map base64_char [unat a div 4, unat a mod 4 * 16 + unat b div 16, unat b mod 16 * 4 + unat c div 64, unat c mod 64] @
     base64_encode bs"

lemma base64_val_char: "n < 64 \<Longrightarrow> base64_val (base64_char n) = Some n"
  by (auto simp: base64_char_def base64_val_def Let_def)

lemma base64_char_no_break:
  "n < 64 \<Longrightarrow> base64_char n \<noteq> CHR 0x0A" "n < 64 \<Longrightarrow> base64_char n \<noteq> CHR 0x0D"
  using base64_val_char [of n] by (auto simp: base64_val_def)

lemma sextets:
  assumes "a < 256" "b < 256" "c < (256 :: nat)"
  shows "a div 4 < 64" "a mod 4 * 16 + b div 16 < 64" "b mod 16 * 4 + c div 64 < 64" "c mod 64 < 64"
    "a mod 4 * 16 < 64" "b mod 16 * 4 < 64"
    "a div 4 * 4 + (a mod 4 * 16 + b div 16) div 16 = a" "a div 4 * 4 + (a mod 4 * 16) div 16 = a"
    "(a mod 4 * 16 + b div 16) mod 16 * 16 + (b mod 16 * 4 + c div 64) div 4 = b"
    "(a mod 4 * 16 + b div 16) mod 16 * 16 + (b mod 16 * 4) div 4 = b"
    "(b mod 16 * 4 + c div 64) mod 4 * 64 + c mod 64 = c"
proof -
  have parts: "a div 4 < 64" "b div 16 < 16" "c div 64 < 4"
    using assms by (simp_all add: less_mult_imp_div_less)
  have rest: "a mod 4 < 4" "b mod 16 < 16" "c mod 64 < 64" by simp_all
  show "a div 4 < 64" "a mod 4 * 16 + b div 16 < 64" "b mod 16 * 4 + c div 64 < 64" "c mod 64 < 64"
    "a mod 4 * 16 < 64" "b mod 16 * 4 < 64"
    using parts rest by linarith+
  show "a div 4 * 4 + (a mod 4 * 16 + b div 16) div 16 = a" "a div 4 * 4 + (a mod 4 * 16) div 16 = a"
    "(a mod 4 * 16 + b div 16) mod 16 * 16 + (b mod 16 * 4 + c div 64) div 4 = b"
    "(a mod 4 * 16 + b div 16) mod 16 * 16 + (b mod 16 * 4) div 4 = b"
    "(b mod 16 * 4 + c div 64) mod 4 * 64 + c mod 64 = c"
    using parts by simp_all
qed

lemma unat_byte: "unat (a :: byte) < 256"
  using unsigned_less [of a] by simp

lemma word_of_unat_byte: "word_of_nat (unat a) = (a :: byte)"
  by simp

lemmas byte_sextets = sextets [OF unat_byte unat_byte unat_byte]

lemma decode_quanta_char:
  "i < 64 \<Longrightarrow> j < 64 \<Longrightarrow> decode_quanta [base64_char i, base64_char j, CHR ''='', CHR ''=''] =
     Some [word_of_nat (i * 4 + j div 16)]"
  "i < 64 \<Longrightarrow> j < 64 \<Longrightarrow> k < 64 \<Longrightarrow> decode_quanta [base64_char i, base64_char j, base64_char k, CHR ''=''] =
     Some [word_of_nat (i * 4 + j div 16), word_of_nat (j mod 16 * 16 + k div 4)]"
  "i < 64 \<Longrightarrow> j < 64 \<Longrightarrow> k < 64 \<Longrightarrow> l < 64 \<Longrightarrow>
     decode_quanta (base64_char i # base64_char j # base64_char k # base64_char l # s) =
     map_option (\<lambda>bs. word_of_nat (i * 4 + j div 16) # word_of_nat (j mod 16 * 16 + k div 4) #
       word_of_nat (k mod 4 * 64 + l) # bs) (decode_quanta s)"
proof -
  have "base64_val (CHR ''='') = None" by (simp add: base64_val_def)
  then show "i < 64 \<Longrightarrow> j < 64 \<Longrightarrow> decode_quanta [base64_char i, base64_char j, CHR ''='', CHR ''=''] =
     Some [word_of_nat (i * 4 + j div 16)]"
  "i < 64 \<Longrightarrow> j < 64 \<Longrightarrow> k < 64 \<Longrightarrow> decode_quanta [base64_char i, base64_char j, base64_char k, CHR ''=''] =
     Some [word_of_nat (i * 4 + j div 16), word_of_nat (j mod 16 * 16 + k div 4)]"
    by (simp_all add: base64_val_char)
qed (simp add: base64_val_char)

lemma decode_quanta_encode: "decode_quanta (base64_encode bs) = Some bs"
  by (induction bs rule: base64_encode.induct)
    (simp_all only: base64_encode.simps list.map append.simps decode_quanta_char byte_sextets decode_quanta.simps(1)
      word_of_unat_byte option.map)

lemma base64_encode_chars: "c \<in> set (base64_encode bs) \<Longrightarrow> c \<noteq> CHR 0x0A \<and> c \<noteq> CHR 0x0D"
  by (induction bs rule: base64_encode.induct) (auto simp: byte_sextets base64_char_no_break)

lemma base64_decode_encode: "base64_decode (base64_encode bs) = Some bs"
  using base64_encode_chars by (simp add: base64_decode_def decode_quanta_encode filter_True)

section \<open>Reading a rules response\<close>

text \<open>The field a member of an object is for, in a structure with the given fields.\<close>

lemma field_of_exact: "name \<in> set names \<Longrightarrow> field_of names name = Some name"
  by (simp add: field_of_def)

text \<open>A data file in JSON.\<close>

definition json_file :: "string \<times> bytes \<Rightarrow> string \<times> json" where
  "json_file f = (fst f, JString (base64_encode (snd f)))"

lemma update_new: "k \<notin> fst ` set m \<Longrightarrow> AList.update k v m = m @ [(k, v)]"
  by (induction m) auto

lemma decode_files:
  "distinct (map fst (m @ fs)) \<Longrightarrow>
   decode_pairs (\<lambda>m k v. map_option (\<lambda>b. AList.update k b m) (decode_bytes v)) m (map json_file fs) = Some (m @ fs)"
  by (induction fs arbitrary: m) (auto simp: json_file_def base64_decode_encode update_new)

text \<open>
  The JSON object of a response: the members of the structure in any order, no name twice, and any
  other members whose names are not those of fields, not even up to case.
\<close>

definition response_members :: "rules_response \<Rightarrow> (string \<times> json) list \<Rightarrow> bool" where
  "response_members r kvs \<longleftrightarrow> distinct (map fst kvs) \<and>
     (\<forall>k \<in> fst ` set kvs. k \<in> set rules_fields \<or> field_of rules_fields k = None) \<and>
     map_of kvs ''uuid'' = Some (JString (rr_UUID r)) \<and>
     map_of kvs ''timestamp'' = Some (JString (rr_Timestamp r)) \<and>
     map_of kvs ''rules'' = Some (JString (rr_Rules r)) \<and>
     (if rr_DataFiles r = [] then map_of kvs ''dataFiles'' = None
      else map_of kvs ''dataFiles'' = Some (JObject (map json_file (rr_DataFiles r)))) \<and>
     distinct (map fst (rr_DataFiles r))"

lemma set_rules_field_simps:
  "set_rules_field r ''uuid'' (JString s) = Some (r\<lparr>rr_UUID := s\<rparr>)"
  "set_rules_field r ''timestamp'' (JString s) = Some (r\<lparr>rr_Timestamp := s\<rparr>)"
  "set_rules_field r ''rules'' (JString s) = Some (r\<lparr>rr_Rules := s\<rparr>)"
  "rr_DataFiles r = [] \<Longrightarrow> distinct (map fst fs) \<Longrightarrow>
   set_rules_field r ''dataFiles'' (JObject (map json_file fs)) = Some (r\<lparr>rr_DataFiles := fs\<rparr>)"
  "field_of rules_fields k = None \<Longrightarrow> set_rules_field r k v = Some r"
  using decode_files [of "[]" fs]
  by (simp_all add: set_rules_field_def field_of_exact rules_fields_def)

lemma decode_members:
  assumes "distinct (map fst kvs)" and "\<forall>k \<in> fst ` set kvs. k \<in> set rules_fields \<or> field_of rules_fields k = None"
    and "map_of kvs ''uuid'' \<in> {None, Some (JString (rr_UUID r))}"
    and "map_of kvs ''timestamp'' \<in> {None, Some (JString (rr_Timestamp r))}"
    and "map_of kvs ''rules'' \<in> {None, Some (JString (rr_Rules r))}"
    and "map_of kvs ''dataFiles'' = None \<or>
      map_of kvs ''dataFiles'' = Some (JObject (map json_file (rr_DataFiles r))) \<and> rr_DataFiles r0 = []"
    and "distinct (map fst (rr_DataFiles r))"
  shows "decode_pairs set_rules_field r0 kvs = Some \<lparr>
     rr_UUID = (if map_of kvs ''uuid'' = None then rr_UUID r0 else rr_UUID r),
     rr_Timestamp = (if map_of kvs ''timestamp'' = None then rr_Timestamp r0 else rr_Timestamp r),
     rr_Rules = (if map_of kvs ''rules'' = None then rr_Rules r0 else rr_Rules r),
     rr_DataFiles = (if map_of kvs ''dataFiles'' = None then rr_DataFiles r0 else rr_DataFiles r)\<rparr>"
  using assms(1-6)
proof (induction kvs arbitrary: r0)
  case Nil
  then show ?case by simp
next
  case (Cons m kvs)
  obtain k v where m: "m = (k, v)" by (cases m)
  have new: "map_of kvs k = None" using Cons.prems(1) by (simp add: m map_of_eq_None_iff)
  have IH: "decode_pairs set_rules_field r1 kvs = Some \<lparr>
     rr_UUID = (if map_of kvs ''uuid'' = None then rr_UUID r1 else rr_UUID r),
     rr_Timestamp = (if map_of kvs ''timestamp'' = None then rr_Timestamp r1 else rr_Timestamp r),
     rr_Rules = (if map_of kvs ''rules'' = None then rr_Rules r1 else rr_Rules r),
     rr_DataFiles = (if map_of kvs ''dataFiles'' = None then rr_DataFiles r1 else rr_DataFiles r)\<rparr>"
    if "map_of kvs ''dataFiles'' = None \<or> rr_DataFiles r1 = rr_DataFiles r0" for r1
  proof (rule Cons.IH)
    have earlier: "map_of kvs n = None \<or> map_of kvs n = map_of (m # kvs) n" for n
      using new by (auto simp: m)
    show "distinct (map fst kvs)" "\<forall>k \<in> fst ` set kvs. k \<in> set rules_fields \<or> field_of rules_fields k = None"
      using Cons.prems(1,2) by simp_all
    show "map_of kvs ''uuid'' \<in> {None, Some (JString (rr_UUID r))}"
      using Cons.prems(3) earlier [of "''uuid''"] by (auto simp del: map_of.simps)
    show "map_of kvs ''timestamp'' \<in> {None, Some (JString (rr_Timestamp r))}"
      using Cons.prems(4) earlier [of "''timestamp''"] by (auto simp del: map_of.simps)
    show "map_of kvs ''rules'' \<in> {None, Some (JString (rr_Rules r))}"
      using Cons.prems(5) earlier [of "''rules''"] by (auto simp del: map_of.simps)
    show "map_of kvs ''dataFiles'' = None \<or>
      map_of kvs ''dataFiles'' = Some (JObject (map json_file (rr_DataFiles r))) \<and> rr_DataFiles r1 = []"
      using Cons.prems(6) earlier [of "''dataFiles''"] that by metis
  qed
  consider "k = ''uuid''" | "k = ''timestamp''" | "k = ''rules''" | "k = ''dataFiles''" | "field_of rules_fields k = None"
    using Cons.prems(2) by (auto simp: m rules_fields_def)
  then show ?case
  proof cases
    case 1
    have "v = JString (rr_UUID r)" using Cons.prems(3) by (simp add: m 1)
    then show ?thesis using new by (simp add: m 1 set_rules_field_simps IH)
  next
    case 2
    have "v = JString (rr_Timestamp r)" using Cons.prems(4) by (simp add: m 2)
    then show ?thesis using new by (simp add: m 2 set_rules_field_simps IH)
  next
    case 3
    have "v = JString (rr_Rules r)" using Cons.prems(5) by (simp add: m 3)
    then show ?thesis using new by (simp add: m 3 set_rules_field_simps IH)
  next
    case 4
    have "v = JObject (map json_file (rr_DataFiles r))" "rr_DataFiles r0 = []" using Cons.prems(6) by (simp_all add: m 4)
    then show ?thesis using new assms(7) by (simp add: m 4 set_rules_field_simps IH)
  next
    case 5
    then have "k \<notin> set rules_fields" using field_of_exact [of k rules_fields] by auto
    then have "''uuid'' \<noteq> k" "''timestamp'' \<noteq> k" "''rules'' \<noteq> k" "''dataFiles'' \<noteq> k"
      by (auto simp: rules_fields_def)
    with 5 show ?thesis by (simp add: m set_rules_field_simps(5) IH)
  qed
qed

lemma decode_response:
  "response_members r kvs \<Longrightarrow> decode_struct set_rules_field zero_rules (JObject kvs) = Some r"
  by (subst decode_struct.simps, subst decode_members [of kvs r])
    (auto simp: response_members_def zero_rules_def split: if_splits)

text \<open>The data files of a response have distinct names, whatever the body.\<close>

lemma decode_pairs_invariant:
  "decode_pairs f s kvs = Some t \<Longrightarrow> P s \<Longrightarrow> (\<And>u k v w. P u \<Longrightarrow> f u k v = Some w \<Longrightarrow> P w) \<Longrightarrow> P t"
  by (induction f s kvs rule: decode_pairs.induct) (auto split: option.splits)

lemma decode_bytes_map_distinct:
  "decode_bytes_map m v = Some m' \<Longrightarrow> distinct (map fst m) \<Longrightarrow> distinct (map fst m')"
  by (cases "(m, v)" rule: decode_bytes_map.cases)
    (auto elim!: decode_pairs_invariant [where P = "\<lambda>m. distinct (map fst m)"] intro: distinct_update)

lemma go_json_distinct:
  assumes "unmarshal_rules (go_json wording) body = Inr r"
  shows "distinct (map fst (rr_DataFiles r))"
proof -
  have keep: "distinct (map fst (rr_DataFiles w))"
    if "distinct (map fst (rr_DataFiles u))" "set_rules_field u k v = Some w" for u k v w
    using that by (auto simp: set_rules_field_def split: option.splits if_splits dest: decode_bytes_map_distinct)
  have zero: "distinct (map fst (rr_DataFiles zero_rules))" by (simp add: zero_rules_def)
  obtain v where "decode_struct set_rules_field zero_rules v = Some r"
    using assms by (auto simp: go_json_def Unmarshal_def bind_eq_Some_conv split: option.splits)
  then show ?thesis
    using zero by (cases v) (auto elim!: decode_pairs_invariant [where P = "\<lambda>u. distinct (map fst (rr_DataFiles u))"] intro: keep)
qed

section \<open>Properties\<close>

text \<open>C28: reading the answer of the cache server. Every JSON text of a response - any spelling of the
  strings, any white space, the members in any order and next to others, nested no deeper than the
  library allows - gives back exactly the UUID, the time stamp, the rules and the data files, whose
  contents are in base 64.\<close>

theorem rules_response_roundtrip:
  assumes "json_text (JObject kvs) txt" and "depth (JObject kvs) \<le> max_depth" and "response_members r kvs"
  shows "unmarshal_rules (go_json wording) (go_bytes txt) = Inr r"
  using parse_json_text [OF assms(1,2)] decode_response [OF assms(3)] by (simp add: go_json_def Unmarshal_def)

definition demo_response :: rules_response where
  "demo_response = \<lparr>rr_UUID = ''u1'', rr_Timestamp = ''t'', rr_Rules = ''On'', rr_DataFiles = [(''a'', [65, 66])]\<rparr>"

definition demo_members :: "(string \<times> json) list" where
  "demo_members = [(''rules'', JString ''On''), (''uuid'', JString ''u1''), (''next'', JArray [JNull, JBool True]),
     (''dataFiles'', JObject [(''a'', JString ''QUI='')]), (''timestamp'', JString ''t'')]"

lemma demo_members_response: "response_members demo_response demo_members"
  "json_text (JObject demo_members) (spell (JObject demo_members))" "depth (JObject demo_members) \<le> max_depth"
proof -
  have "field_of rules_fields ''next'' = None" "base64_encode [65, 66] = ''QUI=''" by code_simp+
  then show "response_members demo_response demo_members"
    by (simp add: response_members_def demo_response_def demo_members_def rules_fields_def json_file_def
        del: base64_encode.simps)
  show "json_text (JObject demo_members) (spell (JObject demo_members))"
    by (rule spell_text) (simp add: demo_members_def plain_char_def)
  show "depth (JObject demo_members) \<le> max_depth" by (simp add: demo_members_def max_depth_def)
qed

lemma demo_unmarshal: "unmarshal_rules (go_json wording) (go_bytes (spell (JObject demo_members))) = Inr demo_response"
  using parse_json_text [OF demo_members_response(2,3)] decode_response [OF demo_members_response(1)]
  by (simp add: go_json_def Unmarshal_def)

lemma rules_response_roundtrip_witness:
  "unmarshal_rules (go_json (\<lambda>b. Fmt ''invalid'' [])) (go_bytes (spell (JObject demo_members))) = Inr demo_response"
  by (rule rules_response_roundtrip [OF demo_members_response(2,3,1)])

end
