(* ===== verification/Plugin_Properties.thy ===== *)
theory Plugin_Properties
  imports Plugin_Contract Cache_Json
begin

text \<open>
  The properties of the plugin: which WAF answers for which authority after the start, the start
  with a rule set cache server, the reload of rules, and that the state it hands to streams is
  well formed.
\<close>

section \<open>The start with directives\<close>

text \<open>All groups are used up when every named group is visited.\<close>

lemma wafs_built_complete:
  assumes "wafs_built build auth dflt ds m wafs m' wafs'" and "\<And>d. grouped m auth d"
    and "ran auth \<subseteq> fst ` set ds"
  shows "m' = []"
proof -
  have "map_of m' d = None" for d
  proof (cases "map_of m d")
    case None
    then show ?thesis using assms(1) by (simp add: wafs_built_def)
  next
    case (Some l)
    with assms(2) [of d] obtain a where "auth a = Some d" by (cases l) (auto simp: grouped_def)
    then have "d \<in> fst ` set ds" using assms(3) by (auto simp: ran_def)
    then show ?thesis using assms(1) by (simp add: wafs_built_def)
  qed
  then have "map_of m' = Map.empty" by (intro ext) simp
  then show ?thesis by simp
qed

text \<open>The WAF of an authority according to the configuration.\<close>

definition configured_waf :: "(waf_config \<Rightarrow> waf) \<Rightarrow> pluginConfiguration \<Rightarrow> string \<Rightarrow> goerror + (waf option \<times> bool)" where
  "configured_waf build config authority =
     (let waf_of = (\<lambda>d. build (embedded_conf (the (map_of (directivesMap config) d))))
      in case map_of (perAuthorityDirectives config) authority of
           Some d \<Rightarrow>
             if d \<noteq> defaultDirectives config then Inr (Some (waf_of d), False)
             else Inr (Some (waf_of d), True)
         | None \<Rightarrow>
             if defaultDirectives config \<in> fst ` set (directivesMap config)
             then Inr (Some (waf_of (defaultDirectives config)), True)
             else Inl (errors_New ''no default WAF''))"

lemma wafs_built_resolves:
  assumes "wafs_built build (map_of (perAuthorityDirectives config)) (defaultDirectives config) ds m (newWAFMap k) m' wafs'"
    and "map_of ds = map_of (directivesMap config)"
    and "fst ` set ds = fst ` set (directivesMap config)"
    and "snd ` set (perAuthorityDirectives config) \<subseteq> fst ` set (directivesMap config)"
  shows "getWAFOrDefault wafs' a = configured_waf build config a"
proof (cases "map_of (perAuthorityDirectives config) a")
  case None
  then show ?thesis
    using assms(1-3) by (simp add: wafs_built_def getWAFOrDefault_def configured_waf_def newWAFMap_def)
next
  case (Some d)
  then have "d \<in> fst ` set (directivesMap config)"
    using assms(4) by (metis image_subset_iff map_of_SomeD snd_conv)
  with Some show ?thesis
    using assms(1-3) by (simp add: wafs_built_def getWAFOrDefault_def configured_waf_def newWAFMap_def)
      metis
qed

text \<open>C23: the WAF of every authority. When the proxy hands over an accepted configuration without a
  cache server and without an empty authority, and the engine accepts the directives, the start
  succeeds, and in every stream created afterwards each authority resolves to the WAF built from
  the directives the configuration gives it, every other authority to the WAF of the default
  directives, or to an error if there are none. The order in which Go visits the maps plays no
  part, and no directives are left over as unknown.\<close>

theorem plugin_start_resolves:
  assumes "range_law E" and "\<And>h. pw_GetPluginConfiguration E h = (data, None)" and "config_ok J data"
    and "\<And>h conf. cz_NewWAF E h conf = Inr (Some (build conf))"
    and "ruleSetCacheServerCluster (config_value J data) = []"
    and "[] \<notin> fst ` set (perAuthorityDirectives (config_value J data))"
    and "wf_slice (arrays w) (pl_metricLabelsKV p)"
  shows "wp (OnPluginStart E J n)
     (\<lambda>r (p', w'). r = Returns OnPluginStartStatusOK \<and>
        (\<forall>cid authority. getWAFOrDefault (ctx_perAuthorityWAFs (NewHttpContext p' cid)) authority =
           configured_waf build (config_value J data) authority)) (p, w)"
proof -
  let ?config = "config_value J data"
  let ?auth = "map_of (perAuthorityDirectives ?config)"
  have wf: "distinct (map fst (directivesMap ?config))" "distinct (map fst (perAuthorityDirectives ?config))"
    "snd ` set (perAuthorityDirectives ?config) \<subseteq> fst ` set (directivesMap ?config)"
    using config_value_consistent [OF assms(3)] by blast+
  have groups: "grouped (group_authorities (range_map E h (perAuthorityDirectives ?config)) []) ?auth d" for h d
    using grouped_group_authorities [OF distinct_range_map [OF assms(1) wf(2)], of h d]
    by (simp add: map_of_range_map [OF assms(1) wf(2)])
  have ran: "ran ?auth \<subseteq> fst ` set (range_map E h (directivesMap ?config))" for h
    using wf(3) by (auto simp: ran_distinct [OF wf(2)] keys_range_map [OF assms(1) wf(1)])
  have none: "?auth [] = None" using assms(6) by (simp add: map_of_eq_None_iff)
  have used_up: "m' = []"
    if "wafs_built build ?auth dflt (range_map E h (directivesMap ?config))
      (group_authorities (range_map E h' (perAuthorityDirectives ?config)) []) wafs m' wafs'" for dflt h h' m' wafs wafs'
    using wafs_built_complete [OF that groups ran] .
  have resolves: "getWAFOrDefault wafs' a = configured_waf build ?config a"
    if "wafs_built build ?auth (defaultDirectives ?config) (range_map E h (directivesMap ?config)) m (newWAFMap k) m' wafs'"
    for h m k m' wafs' a
    by (rule wafs_built_resolves [OF that map_of_range_map [OF assms(1) wf(1)] keys_range_map [OF assms(1) wf(1)] wf(3)])
  show ?thesis
    unfolding OnPluginStart_def start_with_directives_def
    by (intro vcg parse_config_vcg set_labels_and_metrics_vcg
        init_wafs_vcg [where auth = ?auth and build = build] log_unknown_directives_vcg assms(1,4) none)
      (auto simp: assms(2,3,5,7) groups distinct_range_map [OF assms(1) wf(1)] resolves dest: used_up)
qed

text \<open>A configuration with two named directives, two authorities and a default.\<close>

definition demo_config :: demo_json where
  "demo_config = Obj [
     (''directives_map'', Obj [(''d'', Arr [Text ''On'']), (''c'', Arr [Text ''Off'', Text ''X''])]),
     (''default_directives'', Text ''d''),
     (''per_authority_directives'', Obj [(''a.io'', Text ''c''), (''b.io'', Text ''d'')])]"

lemma demo_config_simps:
  "TrimSpace (go_bytes ''{}'') = go_bytes ''{}''"
  "config_ok (demo_gjson demo_config) (go_bytes ''{}'')"
  "config_value (demo_gjson demo_config) (go_bytes ''{}'') = \<lparr>
     directivesMap = [(''d'', [''On'']), (''c'', [''Off'', ''X''])], metricLabels = [], defaultDirectives = ''d'',
     perAuthorityDirectives = [(''a.io'', ''c''), (''b.io'', ''d'')], ruleSetCacheServerCluster = [],
     ruleSetCacheServerInstance = ''default'', ruleSetCacheServerToken = [], ruleSetReloadIntervalSeconds = 30,
     failurePolicy = ''fail''\<rparr>"
proof -
  show trim: "TrimSpace (go_bytes ''{}'') = go_bytes ''{}''" by code_simp
  have "go_bytes ''{}'' \<noteq> []" by (simp add: go_bytes_def)
  with trim have ne: "TrimSpace (go_bytes ''{}'') \<noteq> []" by simp
  show "config_ok (demo_gjson demo_config) (go_bytes ''{}'')"
    by (simp add: config_ok_def trim named_directives_def named_authorities_def demo_gjson_def demo_config_def Let_def)
  show "config_value (demo_gjson demo_config) (go_bytes ''{}'') = \<lparr>
     directivesMap = [(''d'', [''On'']), (''c'', [''Off'', ''X''])], metricLabels = [], defaultDirectives = ''d'',
     perAuthorityDirectives = [(''a.io'', ''c''), (''b.io'', ''d'')], ruleSetCacheServerCluster = [],
     ruleSetCacheServerInstance = ''default'', ruleSetCacheServerToken = [], ruleSetReloadIntervalSeconds = 30,
     failurePolicy = ''fail''\<rparr>"
    by (simp add: config_value_def ne named_directives_def named_authorities_def demo_gjson_def demo_config_def
        json_strings_def text_field_def interval_field_def Let_def)
qed

lemma plugin_start_resolves_witness:
  "wp (OnPluginStart (demo_env\<lparr>pw_GetPluginConfiguration := (\<lambda>h. (go_bytes ''{}'', None)),
       cz_NewWAF := (\<lambda>h conf. Inr (Some (length (wc_directives conf))))\<rparr>) (demo_gjson demo_config) 2)
     (\<lambda>r (p', w'). r = Returns OnPluginStartStatusOK \<and>
        getWAFOrDefault (pl_perAuthorityWAFs p') ''a.io'' = Inr (Some 5, False) \<and>
        getWAFOrDefault (pl_perAuthorityWAFs p') ''b.io'' = Inr (Some 2, True)) (NewPluginContext 1, demo_world)"
  by (rule wp_mono [OF plugin_start_resolves [where data = "go_bytes ''{}''" and build = "\<lambda>conf. length (wc_directives conf)"]])
    (auto simp: range_law_def demo_env_def demo_config_simps NewPluginContext_def configured_waf_def embedded_conf_def
      Let_def)

section \<open>Well-formed streams\<close>

text \<open>C24: whatever the proxy and the engine answer, the start of a new plugin does not panic, calls no
  engine transaction and sends no response; if it reports success, every stream the plugin creates
  is well formed: it has a metrics object, its labels come in pairs, and no authority has a nil
  WAF. (The engine never returns a nil WAF without an error.)\<close>

theorem plugin_start_gives_sound_streams:
  assumes "waf_law E" and "range_law E"
  shows "wp (OnPluginStart E J n)
    (\<lambda>r (p', w'). \<not> panicked r \<and> engine_calls w' = engine_calls w \<and> responses w' = responses w \<and>
       (if r = Returns OnPluginStartStatusOK then \<forall>id. ctx_ok (NewHttpContext p' id) w' else True))
    (NewPluginContext cid, w)"
  by (rule wp_mono [OF OnPluginStart_contract [OF assms]])
    (auto simp: NewPluginContext_def nil_slice_def wf_slice_def intro: NewHttpContext_ok)

lemma demo_waf_law: "waf_law demo_env"
  by (simp add: waf_law_def demo_env_def)

lemma plugin_start_gives_sound_streams_witness:
  "wp (OnPluginStart demo_env (demo_gjson demo_config) 2) (\<lambda>r (p', w'). \<not> panicked r) (NewPluginContext 1, demo_world)"
  by (rule wp_mono [OF plugin_start_gives_sound_streams [OF demo_waf_law demo_range_law]]) auto

section \<open>The start with a cache server\<close>

lemma uint_tick_interval: "uint (tick_interval s) = max 5000 (s * 1000 mod 2 ^ 32)"
proof -
  have "uint (word_of_int (s * 1000) :: 32 word) = s * 1000 mod 2 ^ 32"
    by (simp only: uint_word_of_int) simp
  then show ?thesis
    by (simp add: tick_interval_def cacheTimeoutMs_def max_def word_le_def del: of_int_mult)
qed

text \<open>C25: with a cache server configured, the start asks it for the rules, once, at
  \<open>/rules/<instance>\<close>, with the bearer token if there is one; it registers no WAF, so that until
  the answer arrives no authority resolves; if the interval is positive it asks the proxy once for a
  tick period, the interval in milliseconds modulo \<open>2^32\<close> but not less than 5000, otherwise for none;
  it fails exactly if the proxy refuses the period it is asked for.\<close>

theorem start_with_cache_fetches:
  assumes "range_law E" and "\<And>h. pw_GetPluginConfiguration E h = (data, None)" and "config_ok J data"
    and "config = config_value J data" and "ruleSetCacheServerCluster config \<noteq> []"
    and "\<And>h i. pw_SetTickPeriodMilliSeconds E h i = refused"
  shows "wp (OnPluginStart E J n)
    (\<lambda>r (p', w').
       r = Returns (if ruleSetReloadIntervalSeconds config > 0 \<and> refused \<noteq> None
             then OnPluginStartStatusFailed else OnPluginStartStatusOK) \<and>
       dispatches w' = dispatches w @
         [(\<lparr>hcall_cluster = ruleSetCacheServerCluster config,
            hcall_headers = cache_headers (''/rules/'' @ ruleSetCacheServerInstance config)
              (cluster_authority (ruleSetCacheServerCluster config)) (ruleSetCacheServerToken config),
            hcall_timeout = 2000\<rparr>, onRuleSetCacheServerResponse_cb)] \<and>
       map uint (tick_periods w') = map uint (tick_periods w) @
         (if ruleSetReloadIntervalSeconds config > 0
          then [max 5000 (ruleSetReloadIntervalSeconds config * 1000 mod 2 ^ 32)] else []) \<and>
       (\<forall>authority. getWAFOrDefault (pl_perAuthorityWAFs p') authority = Inl (errors_New ''no default WAF'')) \<and>
       pl_ruleSetReloadEnabled p' = (ruleSetReloadIntervalSeconds config > 0))
    (NewPluginContext cid, w)"
  unfolding OnPluginStart_def start_with_cache_def
  by (intro vcg parse_config_vcg fetchRulesFromCache_vcg set_labels_and_metrics_vcg assms(1))
    (auto simp: assms(2,3,5,6) assms(4) [symmetric] fetch_call_def NewPluginContext_def uint_tick_interval)

lemma start_with_cache_fetches_witness:
  "wp (OnPluginStart (demo_env\<lparr>pw_GetPluginConfiguration := (\<lambda>h. (go_bytes ''{}'', None))\<rparr>)
       (demo_gjson (Obj [(''cache_server_cluster'', Text ''outbound|80||cache''),
          (''rule_reload_interval_seconds'', Number 60)])) 2)
     (\<lambda>r (p', w'). r = Returns OnPluginStartStatusOK \<and> length (dispatches w') = 1 \<and>
        map uint (tick_periods w') = [60000]) (NewPluginContext 1, demo_world)"
proof -
  let ?J = "demo_gjson (Obj [(''cache_server_cluster'', Text ''outbound|80||cache''),
    (''rule_reload_interval_seconds'', Number 60)])"
  have ne: "TrimSpace (go_bytes ''{}'') \<noteq> []"
    by (simp add: demo_config_simps(1)) (simp add: go_bytes_def)
  have "config_ok ?J (go_bytes ''{}'')" "ruleSetCacheServerCluster (config_value ?J (go_bytes ''{}'')) \<noteq> []"
    "ruleSetReloadIntervalSeconds (config_value ?J (go_bytes ''{}'')) = 60"
    by (simp_all add: config_ok_def config_value_def ne named_directives_def named_authorities_def demo_gjson_def
        text_field_def interval_field_def Let_def)
  then show ?thesis
    by (intro wp_mono [OF start_with_cache_fetches [where refused = None, OF _ _ _ refl]])
      (auto simp: range_law_def demo_env_def dispatches_def tick_periods_def demo_world_def)
qed


section \<open>Reloading rules\<close>

text \<open>The check for new rules. A tick asks for the latest rule set if reloading is enabled and
  does nothing otherwise; the answer leads to a request for the rules exactly if it has status 200,
  its body can be read and parsed, and its UUID differs from the current one. Neither changes the
  plugin.\<close>

lemma reload_check:
  "wp (OnTick E) (\<lambda>r (p', w'). p' = p \<and> dispatches w' = dispatches w @
      (if pl_ruleSetReloadEnabled p
       then [(\<lparr>hcall_cluster = pl_ruleSetCacheServerCluster p,
               hcall_headers = cache_headers (''/rules/'' @ pl_ruleSetCacheServerInstance p @ ''/latest'')
                 (cluster_authority (pl_ruleSetCacheServerCluster p)) (pl_ruleSetCacheServerToken p),
               hcall_timeout = 2000\<rparr>, onLatestRuleSetResponse_cb)] else [])) (p, w) \<and>
   wp (onLatestRuleSetResponse E K a b d) (\<lambda>r (p', w'). p' = p \<and> dispatches w' = dispatches w @
      (case pw_GetHttpCallResponseHeaders E (trace w) of
         Inr hs \<Rightarrow>
           if header_status hs = ''200''
           then case pw_GetHttpCallResponseBody E (trace w @ [GetHttpCallResponseHeaders]) 0 b of
             Inr body \<Rightarrow> (case unmarshal_latest K body of
               Inr uuid \<Rightarrow> if uuid = pl_currentRuleSetUUID p then []
                 else [(fetch_call p, onRuleSetCacheServerResponse_cb)]
             | Inl _ \<Rightarrow> [])
           | Inl _ \<Rightarrow> []
           else []
       | Inl _ \<Rightarrow> [])) (p, w)"
  unfolding OnTick_def checkLatestRuleSet_def onLatestRuleSetResponse_def cacheTimeoutMs_def
  by (intro conjI vcg fetchRulesFromCache_vcg) auto

lemma reload_check_keeps_rules:
  "wp (OnTick E) (\<lambda>r (p', w'). p' = p) (p, w)"
  "wp (onLatestRuleSetResponse E K a b d) (\<lambda>r (p', w'). p' = p) (p, w)"
  using reload_check [of E p w K a b d] by (auto elim!: wp_mono)

lemma data_files_served:
  "range_law E \<Longrightarrow> distinct (map fst m) \<Longrightarrow> map_of (rd_content (NewRuleDataFS (range_map E h m))) = map_of m"
  using mset_range_map [of E m h] by (intro rd_content_NewRuleDataFS) simp_all

lemma no_data_files:
  "range_law E \<Longrightarrow> map_of (rd_content (NewRuleDataFS (range_map E h []))) = Map.empty"
  using data_files_served [of E "[]" h] by simp

text \<open>
  The rules and the WAF that an answer of the cache server activates, if any, given what the engine
  builds from a configuration.
\<close>

definition accepted_answer ::
  "env \<Rightarrow> cache_json \<Rightarrow> (waf_config \<Rightarrow> goerror + waf) \<Rightarrow> history \<Rightarrow> int \<Rightarrow> (rules_response \<times> waf) option" where
  "accepted_answer E K build h b =
     (case pw_GetHttpCallResponseHeaders E h of
        Inl _ \<Rightarrow> None
      | Inr hs \<Rightarrow>
          if header_status hs \<noteq> ''200'' then None
          else case pw_GetHttpCallResponseBody E (h @ [GetHttpCallResponseHeaders]) 0 b of
            Inl _ \<Rightarrow> None
          | Inr body \<Rightarrow>
              if body = [] then None
              else case unmarshal_rules K body of
                Inl _ \<Rightarrow> None
              | Inr r \<Rightarrow>
                  if rr_Rules r = [] then None
                  else case build \<lparr>wc_root = RuleData (map_of (rr_DataFiles r)), wc_directives = rr_Rules r\<rparr> of
                    Inl _ \<Rightarrow> None
                  | Inr waf \<Rightarrow> Some (r, waf))"

text \<open>The plugin with the rules of an answer.\<close>

definition with_answer :: "(rules_response \<times> waf) option \<Rightarrow> corazaPlugin \<Rightarrow> corazaPlugin" where
  "with_answer ans p =
     (case ans of
        None \<Rightarrow> p
      | Some (r, waf) \<Rightarrow> p\<lparr>pl_perAuthorityWAFs := (pl_perAuthorityWAFs p)\<lparr>defaultWAF := Some waf\<rparr>,
                          pl_currentRuleSetUUID := rr_UUID r\<rparr>)"

text \<open>
  The interface of the decoder: what the handler relies on is that the data files it gets have
  distinct names, as a map of Go.
\<close>

locale response_decoder =
  fixes K :: cache_json
  assumes distinct_files: "unmarshal_rules K body = Inr r \<Longrightarrow> distinct (map fst (rr_DataFiles r))"
begin

lemma activation_outcome:
  assumes "range_law E" and "\<And>h conf. cz_NewWAF E h conf = map_sum id Some (build conf)"
  shows "wp (onRuleSetCacheServerResponse E K a b d)
     (\<lambda>r (p', w'). r = Returns () \<and> p' = with_answer (accepted_answer E K build (trace w) b) p) (p, w)"
proof -
  have files: "map_of (rd_content (NewRuleDataFS (range_map E h (rr_DataFiles rules)))) = map_of (rr_DataFiles rules)"
    if "unmarshal_rules K body = Inr rules" for h body rules
    using data_files_served [OF assms(1) distinct_files [OF that]] .
  show ?thesis
    unfolding onRuleSetCacheServerResponse_def activate_rules_def log_data_files_def setDefaultWAF_def
    by (intro vcg) (auto simp: assms(2) files no_data_files [OF assms(1)] map_sum_def accepted_answer_def with_answer_def
        split: sum.splits option.splits)
qed

end

interpretation go: response_decoder "go_json wording" for wording
  by unfold_locales (rule go_json_distinct)

text \<open>C27: new rules are activated all or nothing. The default WAF and the UUID change exactly if the
  answer has status 200, its body can be read, is not empty and parses, its rules are not empty and
  the engine accepts them; then the default WAF is the one built from the rules over a file system
  with exactly the data files of the answer. In every other case the plugin is unchanged and goes on
  with the rules it has. The WAFs of single authorities never change, and nothing panics.\<close>

theorem rules_activated_all_or_nothing:
  assumes "range_law E" and "\<And>h conf. cz_NewWAF E h conf = map_sum id Some (build conf)"
    and "\<And>body rules. unmarshal_rules K body = Inr rules \<Longrightarrow> distinct (map fst (rr_DataFiles rules))"
  shows "wp (onRuleSetCacheServerResponse E K a b d) (\<lambda>r (p', w'). r = Returns () \<and>
      p' = (case pw_GetHttpCallResponseHeaders E (trace w) of
          Inl _ \<Rightarrow> p
        | Inr hs \<Rightarrow>
            if header_status hs \<noteq> ''200'' then p
            else case pw_GetHttpCallResponseBody E (trace w @ [GetHttpCallResponseHeaders]) 0 b of
              Inl _ \<Rightarrow> p
            | Inr body \<Rightarrow>
                if body = [] then p
                else case unmarshal_rules K body of
                  Inl _ \<Rightarrow> p
                | Inr rules \<Rightarrow>
                    if rr_Rules rules = [] then p
                    else case build \<lparr>wc_root = RuleData (map_of (rr_DataFiles rules)), wc_directives = rr_Rules rules\<rparr> of
                      Inl _ \<Rightarrow> p
                    | Inr waf \<Rightarrow> p\<lparr>pl_perAuthorityWAFs := (pl_perAuthorityWAFs p)\<lparr>defaultWAF := Some waf\<rparr>,
                                   pl_currentRuleSetUUID := rr_UUID rules\<rparr>)) (p, w)"
  by (rule wp_mono [OF response_decoder.activation_outcome [OF response_decoder.intro [OF assms(3)] assms(1,2)]])
    (auto simp: with_answer_def accepted_answer_def split: sum.splits)

lemma rules_activated_all_or_nothing_witness:
  "wp (onRuleSetCacheServerResponse (demo_env\<lparr>pw_GetHttpCallResponseBody := (\<lambda>h i n. Inr [1])\<rparr>)
       \<lparr>unmarshal_latest = (\<lambda>b. Inr []),
        unmarshal_rules = (\<lambda>b. Inr \<lparr>rr_UUID = ''u'', rr_Timestamp = [], rr_Rules = ''On'', rr_DataFiles = []\<rparr>)\<rparr> 0 2 0)
     (\<lambda>r (p', w'). pl_currentRuleSetUUID p' = ''u'' \<and> defaultWAF (pl_perAuthorityWAFs p') = Some 1)
     (NewPluginContext 1, demo_world)"
  by (rule wp_mono [OF rules_activated_all_or_nothing [where build = "\<lambda>conf. Inr 1"]])
    (auto simp: demo_env_def range_law_def)

text \<open>C29: from the cache server to the engine. When the server answers with status 200 and any JSON
  text of a response with rules, the engine is given exactly these rules and exactly these data files,
  decoded from base 64; if it accepts them, the new WAF is the default one from then on and the
  UUID of the response the current one; if not, the plugin is unchanged.\<close>

theorem answer_activates_rules:
  assumes "range_law E" and "\<And>h conf. cz_NewWAF E h conf = map_sum id Some (build conf)"
    and "pw_GetHttpCallResponseHeaders E (trace w) = Inr hs" and "header_status hs = ''200''"
    and "pw_GetHttpCallResponseBody E (trace w @ [GetHttpCallResponseHeaders]) 0 b = Inr (go_bytes txt)"
    and "json_text (JObject kvs) txt" and "depth (JObject kvs) \<le> max_depth"
    and "response_members r kvs" and "rr_Rules r \<noteq> []"
  shows "wp (onRuleSetCacheServerResponse E (go_json wording) a b d) (\<lambda>res (p', w'). res = Returns () \<and>
      p' = (case build \<lparr>wc_root = RuleData (map_of (rr_DataFiles r)), wc_directives = rr_Rules r\<rparr> of
          Inl _ \<Rightarrow> p
        | Inr waf \<Rightarrow> p\<lparr>pl_perAuthorityWAFs := (pl_perAuthorityWAFs p)\<lparr>defaultWAF := Some waf\<rparr>,
                       pl_currentRuleSetUUID := rr_UUID r\<rparr>)) (p, w)"
proof -
  have parsed: "unmarshal_rules (go_json wording) (go_bytes txt) = Inr r"
    using parse_json_text [OF assms(6,7)] decode_response [OF assms(8)] by (simp add: go_json_def Unmarshal_def)
  have "go_bytes txt \<noteq> []"
    using parse_json_text [OF assms(6,7)] by (auto simp: go_bytes_def parse_json_def)
  then have "accepted_answer E (go_json wording) build (trace w) b =
      (case build \<lparr>wc_root = RuleData (map_of (rr_DataFiles r)), wc_directives = rr_Rules r\<rparr> of
         Inl _ \<Rightarrow> None | Inr waf \<Rightarrow> Some (r, waf))"
    using assms(3-5,9) by (simp add: accepted_answer_def parsed)
  then show ?thesis
    by (intro wp_mono [OF go.activation_outcome [OF assms(1,2)]])
      (auto simp: with_answer_def split: sum.split)
qed

lemma answer_activates_rules_witness:
  "wp (onRuleSetCacheServerResponse (demo_env\<lparr>pw_GetHttpCallResponseBody :=
         (\<lambda>h i n. Inr (go_bytes (spell (JObject demo_members))))\<rparr>) (go_json (\<lambda>b. Fmt ''invalid'' [])) 0 2 0)
     (\<lambda>r (p', w'). pl_currentRuleSetUUID p' = ''u1'' \<and> defaultWAF (pl_perAuthorityWAFs p') = Some 1)
     (NewPluginContext 1, demo_world)"
  by (rule wp_mono [OF answer_activates_rules [where build = "\<lambda>conf. Inr 1",
          OF _ _ _ _ _ demo_members_response(2,3,1)]])
    (auto simp: demo_env_def range_law_def demo_response_def)

text \<open>The host name of the cache server is the part of the cluster name behind the last \<open>||\<close>,
  as in \<open>outbound|80||host\<close>; a name without \<open>||\<close> is used as it is.\<close>

lemma cluster_authority_host:
  "(if CHR ''|'' \<in> set host then True else cluster_authority (front @ ''||'' @ host) = host) \<and>
   (if sublist ''||'' name then True else cluster_authority name = name)"
proof -
  have "LastIndex (front @ ''||'' @ host) ''||'' = Some (length front)" if "CHR ''|'' \<notin> set host"
  proof (rule LastIndex_append)
    have "\<not> sublist ''||'' (CHR ''|'' # host)"
      using that by (auto simp: sublist_Cons_right prefix_Cons prefix_def dest: set_mono_sublist)
    then show "\<not> sublist ''||'' (tl (''||'' @ host))" by simp
  qed simp
  then show ?thesis
    by (auto simp: cluster_authority_def LastIndex_None_iff [THEN iffD2])
qed

end
