(* ===== verification/Rules_Fs.thy ===== *)
theory Rules_Fs
  imports Demo
begin

text \<open>
  \<open>wasmplugin/fs.go\<close>: the file system over the embedded rules, with aliases for some files and
  for the directory of the core rule set. The embedded file system itself is what the build put into
  the binary, here the record \<open>base_fs\<close> of its three operations.
\<close>

section \<open>The file system\<close>

record ('f, 'd) base_fs =
  base_Open :: "string \<Rightarrow> goerror + 'f"
  base_ReadDir :: "string \<Rightarrow> goerror + 'd list"
  base_ReadFile :: "string \<Rightarrow> goerror + bytes"

record ('f, 'd) rulesFS =
  r_fs :: "('f, 'd) base_fs"
  filesMapping :: "string gomap"
  dirsMapping :: "string gomap"

text \<open>\<open>root\<close>, set up by \<open>init\<close>, over the embedded directory \<open>rules\<close>.\<close>

definition root :: "('f, 'd) base_fs \<Rightarrow> ('f, 'd) rulesFS" where
  "root rules = \<lparr>r_fs = rules,
     filesMapping = [
       (''@recommended-conf'', ''coraza.conf-recommended.conf''),
       (''@demo-conf'', ''coraza-demo.conf''),
       (''@crs-setup-demo-conf'', ''crs-setup.conf.example''),
       (''@ftw-conf'', ''ftw-config.conf''),
       (''@crs-setup-conf'', ''crs-setup.conf.example'')],
     dirsMapping = [(''@owasp_crs'', ''crs'')]\<rparr>"

text \<open>The loops return at the first match, in the order of the \<open>range\<close>.\<close>

fun map_dir :: "string \<Rightarrow> (string \<times> string) list \<Rightarrow> string option" where
  "map_dir p [] = None"
| "map_dir p ((a, dst) # rest) =
     (let pre = a @ ''/''
      in if prefix pre p then Some (dst @ ''/'' @ drop (length pre) p) else map_dir p rest)"

fun map_file :: "string \<Rightarrow> (string \<times> string) list \<Rightarrow> string option" where
  "map_file p [] = None"
| "map_file p ((a, dst) # rest) = (if a = p then Some dst else map_file p rest)"

fun map_read_dir :: "string \<Rightarrow> (string \<times> string) list \<Rightarrow> string option" where
  "map_read_dir name [] = None"
| "map_read_dir name ((a, dst) # rest) =
     (if a = name then Some dst
      else let pre = a @ ''/''
           in if prefix pre name then Some (dst @ ''/'' @ drop (length pre) name) else map_read_dir name rest)"

definition mapPath :: "env \<Rightarrow> ('f, 'd) rulesFS \<Rightarrow> string \<Rightarrow> ('c, string) program" where
  "mapPath E r p = do {
     dir \<leftarrow> (if IndexByte p (CHR ''/'') \<noteq> None
             then do { dirs \<leftarrow> range_over E (dirsMapping r); ret (map_dir p dirs) }
             else ret None);
     case dir of
       Some q \<Rightarrow> ret q
     | None \<Rightarrow> do {
         files \<leftarrow> range_over E (filesMapping r);
         case map_file p files of
           Some q \<Rightarrow> ret q
         | None \<Rightarrow> ret p } }"

definition rules_Open :: "env \<Rightarrow> ('f, 'd) rulesFS \<Rightarrow> string \<Rightarrow> ('c, goerror + 'f) program" where
  "rules_Open E r name = do { p \<leftarrow> mapPath E r name; ret (base_Open (r_fs r) p) }"

definition rules_ReadFile :: "env \<Rightarrow> ('f, 'd) rulesFS \<Rightarrow> string \<Rightarrow> ('c, goerror + bytes) program" where
  "rules_ReadFile E r name = do { p \<leftarrow> mapPath E r name; ret (base_ReadFile (r_fs r) p) }"

definition rules_ReadDir :: "env \<Rightarrow> ('f, 'd) rulesFS \<Rightarrow> string \<Rightarrow> ('c, goerror + 'd list) program" where
  "rules_ReadDir E r name = do {
     dirs \<leftarrow> range_over E (dirsMapping r);
     case map_read_dir name dirs of
       Some q \<Rightarrow> ret (base_ReadDir (r_fs r) q)
     | None \<Rightarrow> ret (base_ReadDir (r_fs r) name) }"

section \<open>Lookup in any order\<close>

text \<open>
  Aliases of directories do not overlap: no path lies below two of them. Then the loops find the
  same alias in every order.
\<close>

definition aliases_disjoint :: "string gomap \<Rightarrow> bool" where
  "aliases_disjoint m \<longleftrightarrow> distinct (map fst m) \<and>
     (\<forall>x\<in>set m. \<forall>y\<in>set m. fst x \<noteq> fst y \<longrightarrow> \<not> prefix (fst x @ ''/'') (fst y @ ''/''))"

lemma map_file_map_of: "map_file p kvs = map_of kvs p"
  by (induction p kvs rule: map_file.induct) auto

lemma map_dir_Some:
  "map_dir p kvs = Some q \<Longrightarrow>
   \<exists>a dst. (a, dst) \<in> set kvs \<and> prefix (a @ ''/'') p \<and> q = dst @ ''/'' @ drop (length a + 1) p"
  by (induction p kvs rule: map_dir.induct) (auto simp: Let_def split: if_splits)

lemma map_dir_None: "map_dir p kvs = None \<longleftrightarrow> (\<forall>x\<in>set kvs. \<not> prefix (fst x @ ''/'') p)"
  by (induction p kvs rule: map_dir.induct) (auto simp: Let_def)

lemma prefixes_comparable: "prefix x p \<Longrightarrow> prefix y p \<Longrightarrow> prefix x y \<or> prefix y x"
  by (metis prefix_same_cases)

lemma map_dir_order:
  assumes "aliases_disjoint m" and "set kvs = set m"
  shows "map_dir p kvs = map_dir p m"
proof (cases "map_dir p m")
  case None
  moreover from this have "map_dir p kvs = None" using assms(2) by (simp add: map_dir_None)
  ultimately show ?thesis by simp
next
  case (Some q)
  from map_dir_Some [OF Some] obtain a dst where
    m: "(a, dst) \<in> set m" "prefix (a @ ''/'') p" "q = dst @ ''/'' @ drop (length a + 1) p" by blast
  then have "map_dir p kvs \<noteq> None" using assms(2) unfolding map_dir_None by (metis fst_conv)
  then obtain q' where q': "map_dir p kvs = Some q'" by blast
  from map_dir_Some [OF q'] obtain b dst' where
    k: "(b, dst') \<in> set m" "prefix (b @ ''/'') p" "q' = dst' @ ''/'' @ drop (length b + 1) p"
    using assms(2) by blast
  have "a = b"
    using prefixes_comparable [OF m(2) k(2)] m(1) k(1) assms(1) unfolding aliases_disjoint_def by fastforce
  moreover have "dst = dst'" if "a = b"
    using that m(1) k(1) assms(1) unfolding aliases_disjoint_def by (metis eq_key_imp_eq_value)
  ultimately show ?thesis using Some q' m(3) k(3) by simp
qed

lemma root_aliases_disjoint: "aliases_disjoint (dirsMapping (root rules))"
  by (simp add: aliases_disjoint_def root_def)

lemma root_files_distinct: "distinct (map fst (filesMapping (root rules)))"
  by (simp add: root_def)

lemma mapPath_vcg:
  assumes "range_law E" and "aliases_disjoint (dirsMapping r)" and "distinct (map fst (filesMapping r))"
    and Q: "\<And>w'. engine_calls w' = engine_calls w \<Longrightarrow> responses w' = responses w \<Longrightarrow>
      arrays w' = arrays w \<Longrightarrow> counters w' = counters w \<Longrightarrow>
      Q (case map_dir p (dirsMapping r) of Some q \<Rightarrow> q
         | None \<Rightarrow> (case map_of (filesMapping r) p of Some q \<Rightarrow> q | None \<Rightarrow> p)) (c, w')"
  shows "wp (mapPath E r p) Q (c, w)"
proof -
  have dirs: "map_dir p (range_map E h (dirsMapping r)) = map_dir p (dirsMapping r)" for h
    using assms(1,2) by (intro map_dir_order) (simp_all add: set_range_map aliases_disjoint_def)
  have files: "map_of (range_map E h (filesMapping r)) p = map_of (filesMapping r) p" for h
    by (simp add: map_of_range_map [OF assms(1,3)])
  have flat: "map_dir p (dirsMapping r) = None" if "IndexByte p (CHR ''/'') = None"
    using that by (auto simp: map_dir_None IndexByte_None_iff prefix_def)
  show ?thesis
    unfolding mapPath_def
    by (intro vcg) (insert Q, auto simp: dirs files flat map_file_map_of split: option.splits)
qed

section \<open>Properties\<close>

text \<open>C30: the names of the embedded rules. A path below \<open>@owasp_crs\<close> is read below \<open>crs\<close>, each
  file alias is read as its file, every other name as itself; a file is opened and read under the
  same name. The directory alias alone lists \<open>crs\<close>. The order in which Go visits the maps plays no
  part.\<close>

theorem embedded_names:
  assumes "range_law E"
  defines "q \<equiv> \<lambda>p. if prefix ''@owasp_crs/'' p then ''crs/'' @ drop 11 p
     else if p \<in> {''@crs-setup-conf'', ''@crs-setup-demo-conf''} then ''crs-setup.conf.example''
     else if p = ''@recommended-conf'' then ''coraza.conf-recommended.conf''
     else if p = ''@demo-conf'' then ''coraza-demo.conf''
     else if p = ''@ftw-conf'' then ''ftw-config.conf'' else p"
  shows "wp (rules_Open E (root rules) p) (\<lambda>r (c', w'). r = base_Open rules (q p) \<and> c' = c) (c, w) \<and>
    wp (rules_ReadFile E (root rules) p) (\<lambda>r (c', w'). r = base_ReadFile rules (q p) \<and> c' = c) (c, w) \<and>
    wp (rules_ReadDir E (root rules) d) (\<lambda>r (c', w'). r = base_ReadDir rules
      (if d = ''@owasp_crs'' then ''crs''
       else if prefix ''@owasp_crs/'' d then ''crs/'' @ drop 11 d else d) \<and> c' = c) (c, w)"
proof -
  have path: "(case map_dir p (dirsMapping (root rules)) of Some q \<Rightarrow> q
      | None \<Rightarrow> (case map_of (filesMapping (root rules)) p of Some q \<Rightarrow> q | None \<Rightarrow> p)) = q p" for rules :: "('f, 'd) base_fs"
    by (simp add: root_def Let_def q_def numeral_eq_Suc)
  have fs: "r_fs (root rules) = rules" by (simp add: root_def)
  have single: "range_map E h (dirsMapping (root rules)) = [(''@owasp_crs'', ''crs'')]" for h
    using mset_range_map [OF assms(1), of "dirsMapping (root rules)" h] by (simp add: root_def)
  show ?thesis
    unfolding rules_Open_def rules_ReadFile_def rules_ReadDir_def
    by (intro conjI vcg mapPath_vcg [OF assms(1) root_aliases_disjoint root_files_distinct])
      (auto simp: path fs single Let_def numeral_eq_Suc)
qed

lemma embedded_names_witness:
  "wp (rules_ReadFile demo_env (root \<lparr>base_Open = (\<lambda>p. Inr ()), base_ReadDir = (\<lambda>p. Inr [()]),
       base_ReadFile = (\<lambda>p. Inr (go_bytes p))\<rparr>) ''@owasp_crs/a.conf'')
     (\<lambda>r (c', w'). r = Inr (go_bytes ''crs/a.conf'')) ((), demo_world)"
  by (rule wp_mono [OF embedded_names [OF demo_range_law, THEN conjunct2, THEN conjunct1]]) auto

end
