(* ===== verification/Logging.thy ===== *)
theory Logging
  imports Demo
begin

text \<open>
  What reaches the log of the proxy: the debug logger (\<open>wasmplugin/logger.go\<close>), the callback for
  matched rules (\<open>logError\<close> in \<open>wasmplugin/plugin.go\<close>), the writer for audit logs
  (\<open>internal/auditlog/serial_writer.go\<close>), and their registration when the filter is loaded
  (\<open>main.go\<close>, \<open>internal/operators\<close>).
\<close>

section \<open>The debug logger\<close>

text \<open>The levels of \<open>debuglog\<close> the source names, and any other number.\<close>

datatype debug_level = LevelTrace | LevelDebug | LevelInfo | LevelWarn | LevelError | LevelOther int

text \<open>A text that was put together with \<open>Sprintf("%s %s")\<close>.\<close>

definition logPrinter :: "debug_level \<Rightarrow> string \<Rightarrow> string \<Rightarrow> ('c, unit) program" where
  "logPrinter lvl message flds =
     (let line = Fmt ''%s %s'' [AStr message, AStr flds]
      in case lvl of
           LevelTrace \<Rightarrow> tell (Log LTrace line)
         | LevelDebug \<Rightarrow> tell (Log LDebug line)
         | LevelInfo \<Rightarrow> tell (Log LInfo line)
         | LevelWarn \<Rightarrow> tell (Log LWarn line)
         | LevelError \<Rightarrow> tell (Log LError line)
         | LevelOther _ \<Rightarrow> ret ())"

text \<open>
  The wrapper around the engine's default logger, of type \<open>'l\<close>: the two operations of the engine it
  calls are a record.
\<close>

record 'l debuglog =
  dl_default :: "(debug_level \<Rightarrow> string \<Rightarrow> string \<Rightarrow> (unit, unit) program) \<Rightarrow> 'l"
  dl_WithLevel :: "'l \<Rightarrow> debug_level \<Rightarrow> 'l"

datatype 'l wrapped_logger = Wrapped 'l

definition DefaultLogger :: "'l debuglog \<Rightarrow> 'l wrapped_logger" where
  "DefaultLogger D = Wrapped (dl_default D logPrinter)"

fun logger_WithLevel :: "'l debuglog \<Rightarrow> 'l wrapped_logger \<Rightarrow> debug_level \<Rightarrow> 'l wrapped_logger" where
  "logger_WithLevel D (Wrapped l) lvl = Wrapped (dl_WithLevel D l lvl)"

text \<open>The output argument is ignored: debug logs always go to the proxy.\<close>

definition logger_WithOutput :: "'l wrapped_logger \<Rightarrow> 'o \<Rightarrow> ('c, 'l wrapped_logger) program" where
  "logger_WithOutput l out = do {
     tell (Log LWarn (Fmt ''Ignoring SecDebugLog directive, debug logs are always routed to proxy logs'' []));
     ret l }"

section \<open>Matched rules\<close>

text \<open>The severities of the engine, in its order, and any other number.\<close>

datatype rule_severity =
    RuleSeverityEmergency
  | RuleSeverityAlert
  | RuleSeverityCritical
  | RuleSeverityError
  | RuleSeverityWarning
  | RuleSeverityNotice
  | RuleSeverityInfo
  | RuleSeverityDebug
  | RuleSeverityOther int

record matched_rule =
  mr_ErrorLog :: string
  mr_Severity :: rule_severity

definition logError :: "matched_rule \<Rightarrow> ('c, unit) program" where
  "logError error =
     (let msg = Fmt ''%s'' [AStr (mr_ErrorLog error)]
      in case mr_Severity error of
           RuleSeverityEmergency \<Rightarrow> tell (Log LCritical msg)
         | RuleSeverityAlert \<Rightarrow> tell (Log LCritical msg)
         | RuleSeverityCritical \<Rightarrow> tell (Log LCritical msg)
         | RuleSeverityError \<Rightarrow> tell (Log LError msg)
         | RuleSeverityWarning \<Rightarrow> tell (Log LWarn msg)
         | RuleSeverityNotice \<Rightarrow> tell (Log LInfo msg)
         | RuleSeverityInfo \<Rightarrow> tell (Log LInfo msg)
         | RuleSeverityDebug \<Rightarrow> tell (Log LDebug msg)
         | RuleSeverityOther _ \<Rightarrow> ret ())"

section \<open>Audit logs\<close>

text \<open>An audit log formatter is the \<open>Format\<close> method of an interface value that may be nil.\<close>

record 'al wasmSerial =
  ws_formatter :: "('al \<Rightarrow> bytes \<times> goerror option) option"

definition serial_Init :: "'al wasmSerial \<Rightarrow> ('al \<Rightarrow> bytes \<times> goerror option) option \<Rightarrow> goerror option \<times> 'al wasmSerial" where
  "serial_Init s cfg_Formatter = (None, s\<lparr>ws_formatter := cfg_Formatter\<rparr>)"

definition serial_Write :: "'al wasmSerial \<Rightarrow> 'al \<Rightarrow> ('c, goerror option) program" where
  "serial_Write s al =
     (case ws_formatter s of
        None \<Rightarrow> ret None
      | Some format \<Rightarrow>
          (case format al of
             (_, Some err) \<Rightarrow> ret (Some err)
           | (bts, None) \<Rightarrow>
               if length bts = 0 then ret None
               else do {
                 tell (Log LInfo (Fmt ''%s'' [AStr (''AuditLog:'' @ go_string bts)]));
                 ret None }))"

definition serial_Close :: "'al wasmSerial \<Rightarrow> goerror option" where
  "serial_Close s = None"

section \<open>Loading the filter\<close>

text \<open>What is registered, with which library, in order.\<close>

datatype registration =
    RegisterRX
  | RegisterPM
  | RegisterSQLi
  | RegisterXSS
  | RegisterAuditLogWriter string
  | SetVMContext

definition operators_Register :: "bool \<Rightarrow> registration list" where
  "operators_Register tinygo = (if tinygo then [RegisterRX, RegisterPM, RegisterSQLi, RegisterXSS] else [])"

definition RegisterProxyWasmSerialWriter :: "registration list" where
  "RegisterProxyWasmSerialWriter = [RegisterAuditLogWriter ''serial'']"

definition main :: "bool \<Rightarrow> registration list" where
  "main tinygo = operators_Register tinygo @ RegisterProxyWasmSerialWriter @ [SetVMContext]"

section \<open>Properties\<close>

text \<open>The order of severities, the most severe first; and of the levels of the proxy.\<close>

fun severity_rank :: "rule_severity \<Rightarrow> int" where
  "severity_rank RuleSeverityEmergency = 0"
| "severity_rank RuleSeverityAlert = 1"
| "severity_rank RuleSeverityCritical = 2"
| "severity_rank RuleSeverityError = 3"
| "severity_rank RuleSeverityWarning = 4"
| "severity_rank RuleSeverityNotice = 5"
| "severity_rank RuleSeverityInfo = 6"
| "severity_rank RuleSeverityDebug = 7"
| "severity_rank (RuleSeverityOther i) = i"

fun level_rank :: "level \<Rightarrow> int" where
  "level_rank LTrace = 0"
| "level_rank LDebug = 1"
| "level_rank LInfo = 2"
| "level_rank LWarn = 3"
| "level_rank LError = 4"
| "level_rank LCritical = 5"

text \<open>The levels of the proxy are ordered.\<close>

instantiation level :: linorder
begin

definition less_eq_level :: "level \<Rightarrow> level \<Rightarrow> bool" where
  "less_eq_level l m = (level_rank l \<le> level_rank m)"

definition less_level :: "level \<Rightarrow> level \<Rightarrow> bool" where
  "less_level l m = (level_rank l < level_rank m)"

instance
proof
  fix l m :: level
  show "l = m" if "l \<le> m" "m \<le> l"
    using that by (cases l; cases m) (simp_all add: less_eq_level_def)
qed (auto simp: less_eq_level_def less_level_def)

end

text \<open>The lines a method adds to the log of the proxy, if that is all it does.\<close>

definition only_logs :: "('c, 'a) program \<Rightarrow> (level \<times> msg) list \<Rightarrow> 'a \<Rightarrow> bool" where
  "only_logs m ls a \<longleftrightarrow>
     (\<forall>c w. run_state m (c, w) = (a, (c, foldl (\<lambda>w l. record_event (Log (fst l) (snd l)) w) w ls)))"

lemma only_logs_tell [simp]: "only_logs (tell (Log l m)) [(l, m)] ()"
  by (simp add: only_logs_def method_defs)

text \<open>The level of a severity.\<close>

fun severity_level :: "rule_severity \<Rightarrow> level" where
  "severity_level RuleSeverityError = LError"
| "severity_level RuleSeverityWarning = LWarn"
| "severity_level RuleSeverityNotice = LInfo"
| "severity_level RuleSeverityInfo = LInfo"
| "severity_level RuleSeverityDebug = LDebug"
| "severity_level _ = LCritical"

fun defined_severity :: "rule_severity \<Rightarrow> bool" where
  "defined_severity (RuleSeverityOther i) = False"
| "defined_severity _ = True"

lemma logError_level:
  "defined_severity (mr_Severity r) \<Longrightarrow>
   only_logs (logError r) [(severity_level (mr_Severity r), Fmt ''%s'' [AStr (mr_ErrorLog r)])] ()"
  by (cases "mr_Severity r") (simp_all add: logError_def)

lemma severity_level_mono:
  "defined_severity s \<Longrightarrow> defined_severity t \<Longrightarrow> severity_rank s \<le> severity_rank t \<Longrightarrow>
   severity_level t \<le> severity_level s"
  by (cases s; cases t) (simp_all add: less_eq_level_def)

text \<open>Matched rules in the log of the proxy. Every rule of one of the eight severities is logged
  with exactly its message, and a more severe rule never at a lower level than a less severe one;
  nothing else happens.\<close>

lemma matched_rules_are_logged:
  assumes "defined_severity (mr_Severity r1)" and "defined_severity (mr_Severity r2)"
    and "severity_rank (mr_Severity r1) \<le> severity_rank (mr_Severity r2)"
  shows "\<exists>l1 l2. l2 \<le> l1 \<and>
     only_logs (logError r1) [(l1, Fmt ''%s'' [AStr (mr_ErrorLog r1)])] () \<and>
     only_logs (logError r2) [(l2, Fmt ''%s'' [AStr (mr_ErrorLog r2)])] ()"
  using logError_level [OF assms(1)] logError_level [OF assms(2)] severity_level_mono [OF assms] by blast

lemma matched_rules_are_logged_example:
  "\<exists>l1 l2. l2 \<le> l1 \<and>
     only_logs (logError \<lparr>mr_ErrorLog = ''a'', mr_Severity = RuleSeverityAlert\<rparr>) [(l1, Fmt ''%s'' [AStr ''a''])] () \<and>
     only_logs (logError \<lparr>mr_ErrorLog = ''b'', mr_Severity = RuleSeverityNotice\<rparr>) [(l2, Fmt ''%s'' [AStr ''b''])] ()"
  using matched_rules_are_logged [of "\<lparr>mr_ErrorLog = ''a'', mr_Severity = RuleSeverityAlert\<rparr>"
      "\<lparr>mr_ErrorLog = ''b'', mr_Severity = RuleSeverityNotice\<rparr>"] by simp

text \<open>Audit logs. After \<open>Init\<close>, every audit log that its formatter renders to some text
  is written once, as an info line with the prefix; a formatter that fails makes \<open>Write\<close> fail with
  its error and write nothing; without a formatter, or when it renders nothing, \<open>Write\<close> succeeds
  and writes nothing.\<close>

lemma audit_logs_written:
  "case snd (serial_Init s formatter) of s' \<Rightarrow>
     (case formatter of
        None \<Rightarrow> only_logs (serial_Write s' al) [] None
      | Some format \<Rightarrow>
          (case snd (format al) of
             Some err \<Rightarrow> only_logs (serial_Write s' al) [] (Some err)
           | None \<Rightarrow>
               if fst (format al) = [] then only_logs (serial_Write s' al) [] None
               else only_logs (serial_Write s' al)
                 [(LInfo, Fmt ''%s'' [AStr (''AuditLog:'' @ go_string (fst (format al)))])] None))"
  by (auto simp: serial_Init_def serial_Write_def only_logs_def method_defs split: option.split prod.split)

end
