(* ===== verification/Lifecycle.thy ===== *)
theory Lifecycle
  imports Http_Properties Plugin_Properties
begin

text \<open>
  The whole filter in one WebAssembly machine: the plugins that have been started, the streams that
  are open, interleaved as the proxy likes. \<open>deliver\<close> runs one callback of the proxy on the
  context it is for, as the SDK dispatches it; \<open>admissible\<close> is the order the proxy keeps for
  one context; \<open>vm_run\<close> are the runs. A panic traps the machine: no callback follows.
\<close>

section \<open>The machine\<close>

record vm =
  vm_plugins :: "32 word \<rightharpoonup> corazaPlugin"
  vm_streams :: "32 word \<rightharpoonup> httpContext"
  vm_served :: "32 word set"
  vm_world :: world
  vm_trap :: "panic option"

definition booted :: vm where
  "booted = \<lparr>vm_plugins = Map.empty, vm_streams = Map.empty, vm_served = {},
     vm_world = \<lparr>trace = [], arrays = [], counters = []\<rparr>, vm_trap = None\<rparr>"

fun trap_of :: "'a outcome \<Rightarrow> panic option" where
  "trap_of (Returns _) = None"
| "trap_of (Panics p) = Some p"

definition on_stream :: "'a handler \<Rightarrow> 32 word \<Rightarrow> world \<Rightarrow> vm \<Rightarrow> vm" where
  "on_stream h i w v =
     (case vm_streams v i of
        None \<Rightarrow> v
      | Some c \<Rightarrow>
          (case run_state h (c, w) of
             (r, c', w') \<Rightarrow> v\<lparr>vm_streams := (vm_streams v)(i \<mapsto> c'), vm_world := w', vm_trap := trap_of r\<rparr>))"

definition on_plugin :: "'a plugin \<Rightarrow> ('a \<Rightarrow> panic option) \<Rightarrow> 32 word \<Rightarrow> world \<Rightarrow> vm \<Rightarrow> vm" where
  "on_plugin m trap i w v =
     (case vm_plugins v i of
        None \<Rightarrow> v
      | Some p \<Rightarrow>
          (case run_state m (p, w) of
             (r, p', w') \<Rightarrow> v\<lparr>vm_plugins := (vm_plugins v)(i \<mapsto> p'), vm_world := w', vm_trap := trap r\<rparr>))"

text \<open>The proxy uses a plugin for streams only if it has started; a stream is deleted when it is done.\<close>

definition deliver :: "env \<Rightarrow> 'j gjson \<Rightarrow> cache_json \<Rightarrow> 32 word \<Rightarrow> callback \<Rightarrow> vm \<Rightarrow> vm" where
  "deliver E J K i cb v =
     (let w = record_event (Callback (unat i) cb) (vm_world v)
      in case cb of
           PluginStart n \<Rightarrow>
             (case run_state (OnPluginStart E J n) (NewPluginContext i, w) of
                (r, p, w') \<Rightarrow> v\<lparr>vm_plugins := (if r = Returns OnPluginStartStatusOK
                    then (vm_plugins v)(i \<mapsto> p) else vm_plugins v), vm_world := w', vm_trap := trap_of r\<rparr>)
         | Tick \<Rightarrow> on_plugin (OnTick E) (\<lambda>_. None) i w v
         | HttpCallResponse cbk a b d \<Rightarrow>
             (case cbk of
                onRuleSetCacheServerResponse_cb \<Rightarrow> on_plugin (onRuleSetCacheServerResponse E K a b d) trap_of i w v
              | onLatestRuleSetResponse_cb \<Rightarrow> on_plugin (onLatestRuleSetResponse E K a b d) (\<lambda>_. None) i w v)
         | NewStream pid \<Rightarrow>
             (case vm_plugins v pid of
                None \<Rightarrow> v
              | Some p \<Rightarrow> v\<lparr>vm_streams := (vm_streams v)(i \<mapsto> NewHttpContext p i),
                  vm_served := vm_served v - {i}, vm_world := w\<rparr>)
         | RequestHeaders n eos \<Rightarrow>
             on_stream (OnHttpRequestHeaders E n eos) i w (v\<lparr>vm_served := insert i (vm_served v)\<rparr>)
         | RequestBody n eos \<Rightarrow> on_stream (OnHttpRequestBody E n eos) i w v
         | RequestTrailers n \<Rightarrow> on_stream (OnHttpRequestTrailers E n) i w v
         | ResponseHeaders n eos \<Rightarrow> on_stream (OnHttpResponseHeaders E n eos) i w v
         | ResponseBody n eos \<Rightarrow> on_stream (OnHttpResponseBody E n eos) i w v
         | ResponseTrailers n \<Rightarrow> on_stream (OnHttpResponseTrailers E n) i w v
         | StreamDone \<Rightarrow>
             (let v' = on_stream (OnHttpStreamDone E) i w v
              in v'\<lparr>vm_streams := (vm_streams v')(i := None)\<rparr>))"

text \<open>
  What the proxy keeps to: identifiers are not used twice at a time, callbacks go to contexts that
  exist, the request headers come once, and trailers after them. Everything else may come in any order.
\<close>

fun admissible :: "vm \<Rightarrow> 32 word \<Rightarrow> callback \<Rightarrow> bool" where
  "admissible v i (PluginStart n) = (vm_plugins v i = None \<and> vm_streams v i = None)"
| "admissible v i Tick = (vm_plugins v i \<noteq> None)"
| "admissible v i (HttpCallResponse cbk a b d) = (vm_plugins v i \<noteq> None)"
| "admissible v i (NewStream pid) = (vm_plugins v pid \<noteq> None \<and> vm_plugins v i = None \<and> vm_streams v i = None)"
| "admissible v i (RequestHeaders n eos) = (vm_streams v i \<noteq> None \<and> i \<notin> vm_served v)"
| "admissible v i (RequestBody n eos) = (vm_streams v i \<noteq> None)"
| "admissible v i (RequestTrailers n) = (vm_streams v i \<noteq> None \<and> i \<in> vm_served v)"
| "admissible v i (ResponseHeaders n eos) = (vm_streams v i \<noteq> None)"
| "admissible v i (ResponseBody n eos) = (vm_streams v i \<noteq> None \<and> 0 \<le> n)"
| "admissible v i (ResponseTrailers n) = (vm_streams v i \<noteq> None \<and> i \<in> vm_served v)"
| "admissible v i StreamDone = (vm_streams v i \<noteq> None)"

inductive vm_run :: "env \<Rightarrow> 'j gjson \<Rightarrow> cache_json \<Rightarrow> vm \<Rightarrow> (32 word \<times> callback) list \<Rightarrow> vm \<Rightarrow> bool"
  for E J K v where
  run_nothing: "vm_run E J K v [] v"
| run_callback: "vm_run E J K v ls v' \<Longrightarrow> vm_trap v' = None \<Longrightarrow> admissible v' i cb \<Longrightarrow>
    vm_run E J K v (ls @ [(i, cb)]) (deliver E J K i cb v')"

text \<open>What can happen to one stream: whatever the callback, a step of its contract.\<close>

fun is_trailers :: "callback \<Rightarrow> bool" where
  "is_trailers (RequestTrailers _) = True"
| "is_trailers (ResponseTrailers _) = True"
| "is_trailers _ = False"

fun stream_callback :: "callback \<Rightarrow> bool" where
  "stream_callback (PluginStart _) = False"
| "stream_callback Tick = False"
| "stream_callback (HttpCallResponse _ _ _ _) = False"
| "stream_callback (NewStream _) = False"
| "stream_callback _ = True"

text \<open>The panics a callback may end in, where \<open>bare\<close> tells whether it is for a stream without a transaction.\<close>

definition trap_ok :: "env \<Rightarrow> callback \<Rightarrow> bool \<Rightarrow> panic option \<Rightarrow> bool" where
  "trap_ok E cb bare p \<longleftrightarrow>
     (case p of None \<Rightarrow> True | Some p \<Rightarrow>
        (\<exists>e. p = SendFailed e \<and> send_fails E e) \<or> (is_trailers cb \<and> bare \<and> p = NilDeref ''logger''))"

definition bare_stream :: "vm \<Rightarrow> 32 word \<Rightarrow> bool" where
  "bare_stream v i \<longleftrightarrow> (\<exists>c. vm_streams v i = Some c \<and> ctx_tx c = None)"

definition vm_ok :: "vm \<Rightarrow> bool" where
  "vm_ok v \<longleftrightarrow>
     (\<forall>i p. vm_plugins v i = Some p \<longrightarrow> plugin_ok p (vm_world v)) \<and>
     (\<forall>i c. vm_streams v i = Some c \<longrightarrow> ctx_ok c (vm_world v) \<and> (i \<notin> vm_served v \<longrightarrow> ctx_tx c = None))"

section \<open>One callback\<close>

lemma plugin_ok_heap_le: "plugin_ok p w \<Longrightarrow> heap_le w w' \<Longrightarrow> plugin_ok p w'"
  by (auto simp: plugin_ok_def heap_le_def)

lemma plugin_ok_record [simp]: "plugin_ok p (record_event e w) = plugin_ok p w"
  by (simp add: plugin_ok_def)

lemma heap_le_record_left [simp]: "heap_le (record_event e w) v = heap_le w v"
  by (simp add: heap_le_def)

lemma on_stream_step:
  assumes "vm_streams v i = Some c" and "wp h (\<lambda>r s'. P r (fst s') (snd s')) (c, w)"
  shows "\<exists>r c' w'. P r c' w' \<and>
    on_stream h i w v = v\<lparr>vm_streams := (vm_streams v)(i \<mapsto> c'), vm_world := w', vm_trap := trap_of r\<rparr>"
proof -
  obtain r c' w' where run: "run_state h (c, w) = (r, c', w')" by (cases "run_state h (c, w)") auto
  from wp_run [OF run assms(2)] have "P r c' w'" by simp
  with run assms(1) show ?thesis by (auto simp: on_stream_def)
qed

text \<open>Trailers on a stream without a logger dereference it, and change nothing.\<close>

lemma trailers_nil_logger:
  assumes "ctx_ok c w" and "ctx_logger c = None"
  shows "wp (OnHttpRequestTrailers E n) (\<lambda>r s'. r = Panics (NilDeref ''logger'') \<and> stream_step c w (fst s') (snd s')) (c, w)"
    and "wp (OnHttpResponseTrailers E n) (\<lambda>r s'. r = Panics (NilDeref ''logger'') \<and> stream_step c w (fst s') (snd s')) (c, w)"
  unfolding OnHttpRequestTrailers_def OnHttpResponseTrailers_def
  by (intro vcg; use assms in \<open>auto simp: contract_simps same_views_def\<close>)+

text \<open>Before the request headers a stream has no transaction, and no other callback gives it one.\<close>

lemma untouched_without_tx:
  "wp (OnHttpRequestBody E n eos) (\<lambda>r s'. ctx_tx c = None \<longrightarrow> ctx_tx (fst s') = None) (c, w)"
  "wp (OnHttpResponseHeaders E k eos) (\<lambda>r s'. ctx_tx c = None \<longrightarrow> ctx_tx (fst s') = None) (c, w)"
  "wp (OnHttpResponseBody E n eos) (\<lambda>r s'. ctx_tx c = None \<longrightarrow> ctx_tx (fst s') = None) (c, w)"
proof -
  have "wp (OnHttpRequestBody E n eos) (\<lambda>r s'. ctx_tx (fst s') = None) (c, w)"
    "wp (OnHttpResponseHeaders E k eos) (\<lambda>r s'. ctx_tx (fst s') = None) (c, w)"
    "wp (OnHttpResponseBody E n eos) (\<lambda>r s'. ctx_tx (fst s') = None) (c, w)" if "ctx_tx c = None"
    unfolding OnHttpRequestBody_def OnHttpResponseHeaders_def OnHttpResponseBody_def
      replaceResponseBodyWhenInterrupted_def
    by (intro vcg; use that in simp)+
  then show "wp (OnHttpRequestBody E n eos) (\<lambda>r s'. ctx_tx c = None \<longrightarrow> ctx_tx (fst s') = None) (c, w)"
    "wp (OnHttpResponseHeaders E k eos) (\<lambda>r s'. ctx_tx c = None \<longrightarrow> ctx_tx (fst s') = None) (c, w)"
    "wp (OnHttpResponseBody E n eos) (\<lambda>r s'. ctx_tx c = None \<longrightarrow> ctx_tx (fst s') = None) (c, w)"
    by (cases "ctx_tx c"; simp add: wp_True)+
qed

text \<open>One callback on a stream that satisfies its contract.\<close>

definition stream_effect :: "env \<Rightarrow> callback \<Rightarrow> 32 word \<Rightarrow> vm \<Rightarrow> httpContext \<Rightarrow> vm \<Rightarrow> bool" where
  "stream_effect E cb i v c v' \<longleftrightarrow>
     (\<exists>c' w' p sv. stream_step c (vm_world v) c' w' \<and> trap_ok E cb (ctx_tx c = None) p \<and>
        v' = v\<lparr>vm_streams := (vm_streams v)(i := if cb = StreamDone then None else Some c'),
          vm_served := sv, vm_world := w', vm_trap := p\<rparr> \<and>
        (sv = vm_served v \<and> (cb \<noteq> StreamDone \<longrightarrow> i \<notin> vm_served v \<longrightarrow> ctx_tx c = None \<longrightarrow> ctx_tx c' = None) \<or>
         sv = insert i (vm_served v)))"

lemma stream_effectE:
  assumes "stream_effect E cb i v c v'"
  obtains c' w' p sv where "stream_step c (vm_world v) c' w'" and "trap_ok E cb (ctx_tx c = None) p"
    and "v' = v\<lparr>vm_streams := (vm_streams v)(i := if cb = StreamDone then None else Some c'),
      vm_served := sv, vm_world := w', vm_trap := p\<rparr>"
    and "sv = vm_served v \<and> (cb \<noteq> StreamDone \<longrightarrow> i \<notin> vm_served v \<longrightarrow> ctx_tx c = None \<longrightarrow> ctx_tx c' = None) \<or>
      sv = insert i (vm_served v)"
  using assms unfolding stream_effect_def by (elim exE conjE) (rule that)

lemma outcome_trap_ok: "only_send_failures E r \<Longrightarrow> trap_ok E cb b (trap_of r)"
  by (auto simp: only_send_failures_def trap_ok_def split: outcome.splits)

lemma on_stream_effect:
  fixes h :: "'a handler"
  assumes c: "vm_streams v i = Some c"
    and h: "handler_ok E h c (record_event (Callback k cb) (vm_world v)) \<or> is_trailers cb \<and> ctx_tx c = None \<and>
      wp h (\<lambda>r s'. r = Panics (NilDeref ''logger'') \<and>
          stream_step c (record_event (Callback k cb) (vm_world v)) (fst s') (snd s'))
        (c, record_event (Callback k cb) (vm_world v))"
    and tx: "i \<in> vm_served v \<or>
      wp h (\<lambda>r s'. ctx_tx c = None \<longrightarrow> ctx_tx (fst s') = None) (c, record_event (Callback k cb) (vm_world v))"
    and "cb \<noteq> StreamDone"
  shows "stream_effect E cb i v c (on_stream h i (record_event (Callback k cb) (vm_world v)) v)"
proof -
  let ?w = "record_event (Callback k cb) (vm_world v)"
  have "wp h (\<lambda>r s'. stream_step c ?w (fst s') (snd s') \<and> trap_ok E cb (ctx_tx c = None) (trap_of r)) (c, ?w)"
    using h
  proof (elim disjE conjE)
    assume "handler_ok E h c ?w"
    then show ?thesis unfolding handler_ok_def by (rule wp_mono) (simp add: outcome_trap_ok)
  next
    assume "is_trailers cb" "ctx_tx c = None" "wp h (\<lambda>r s'. r = Panics (NilDeref ''logger'') \<and> stream_step c ?w (fst s') (snd s')) (c, ?w)"
    then show ?thesis by (elim wp_mono) (simp add: trap_ok_def)
  qed
  moreover have "wp h (\<lambda>r s'. i \<notin> vm_served v \<longrightarrow> ctx_tx c = None \<longrightarrow> ctx_tx (fst s') = None) (c, ?w)"
    using tx by (elim disjE) (auto elim: wp_mono simp: wp_True)
  ultimately have "wp h (\<lambda>r s'. (stream_step c ?w (fst s') (snd s') \<and> trap_ok E cb (ctx_tx c = None) (trap_of r)) \<and>
      (i \<notin> vm_served v \<longrightarrow> ctx_tx c = None \<longrightarrow> ctx_tx (fst s') = None)) (c, ?w)"
    unfolding wp_conj by blast
  from on_stream_step [OF c this] obtain r :: "'a outcome" and c' w' where
    "stream_step c ?w c' w'" "trap_ok E cb (ctx_tx c = None) (trap_of r)" "i \<notin> vm_served v \<longrightarrow> ctx_tx c = None \<longrightarrow> ctx_tx c' = None"
    "on_stream h i ?w v = v\<lparr>vm_streams := (vm_streams v)(i \<mapsto> c'), vm_world := w', vm_trap := trap_of r\<rparr>"
    by (elim exE conjE) (rule that)
  then show ?thesis
    using assms(4) unfolding stream_effect_def
    by (intro exI [of _ c'] exI [of _ w'] exI [of _ "trap_of r"] exI [of _ "vm_served v"]) simp
qed

text \<open>Every callback on a stream, by the contract of its handler.\<close>

lemma deliver_stream:
  assumes "vm_ok v" and "admissible v i cb" and "stream_callback cb" and c: "vm_streams v i = Some c"
  shows "stream_effect E cb i v c (deliver E J K i cb v)"
proof -
  let ?w = "record_event (Callback (unat i) cb) (vm_world v)"
  have "ctx_ok c (vm_world v)" using assms(1) c by (simp add: vm_ok_def)
  then have nil: "ctx_tx c = None" if "ctx_logger c = None" using that by (cases "ctx_tx c") (simp_all add: ctx_ok_def)
  have ok: "ctx_ok c ?w" and tx: "i \<notin> vm_served v \<longrightarrow> ctx_tx c = None" and idx: "0 \<le> ctx_bodyReadIndex c"
    using assms(1) c by (auto simp: vm_ok_def ctx_ok_def)
  note effect = on_stream_effect [OF c]
  show ?thesis
  proof (cases cb)
    case (RequestHeaders n eos)
    let ?v = "v\<lparr>vm_served := insert i (vm_served v)\<rparr>"
    have "\<not> isInterrupted (ctx_interruptedAt c)"
      using ok tx assms(2) by (auto simp: ctx_ok_def RequestHeaders)
    from request_headers.contract [OF ok this]
    have "stream_effect E cb i ?v c (on_stream (OnHttpRequestHeaders E n eos) i ?w ?v)"
      using on_stream_effect [of ?v i c E "OnHttpRequestHeaders E n eos" "unat i" cb] c by (simp add: RequestHeaders)
    then show ?thesis by (auto simp: deliver_def RequestHeaders stream_effect_def)
  next
    case (RequestBody n eos)
    show ?thesis
      using effect [OF disjI1 [OF request_body.contract [OF ok]] disjI2 [OF untouched_without_tx(1)]]
      by (simp add: deliver_def RequestBody)
  next
    case (RequestTrailers n)
    have "i \<in> vm_served v" using assms(2) by (simp add: RequestTrailers)
    then show ?thesis
      using effect [of E "OnHttpRequestTrailers E n" "unat i" cb] request_trailers.contract [OF ok] trailers_nil_logger(1) [OF ok]
      by (cases "ctx_logger c = None") (simp_all add: deliver_def RequestTrailers nil)
  next
    case (ResponseHeaders n eos)
    show ?thesis
      using effect [OF disjI1 [OF response_headers.contract [OF ok]] disjI2 [OF untouched_without_tx(2)]]
      by (simp add: deliver_def ResponseHeaders)
  next
    case (ResponseBody n eos)
    have "0 \<le> n" using assms(2) by (simp add: ResponseBody)
    then show ?thesis
      using effect [OF disjI1 [OF response_body.contract [OF ok]] disjI2 [OF untouched_without_tx(3)]]
      by (simp add: deliver_def ResponseBody)
  next
    case (ResponseTrailers n)
    have "i \<in> vm_served v" using assms(2) by (simp add: ResponseTrailers)
    then show ?thesis
      using effect [of E "OnHttpResponseTrailers E n" "unat i" cb] response_trailers.contract [OF ok] trailers_nil_logger(2) [OF ok]
      by (cases "ctx_logger c = None") (simp_all add: deliver_def ResponseTrailers nil)
  next
    case StreamDone
    obtain r :: "unit outcome" and c' w' where "stream_step c ?w c' w'" "only_send_failures E r"
      "on_stream (OnHttpStreamDone E) i ?w v =
         v\<lparr>vm_streams := (vm_streams v)(i \<mapsto> c'), vm_world := w', vm_trap := trap_of r\<rparr>"
      using on_stream_step [OF c stream_done.contract [OF ok, unfolded handler_ok_def]] by blast
    then show ?thesis
      unfolding stream_effect_def
      by (intro exI [of _ c'] exI [of _ w'] exI [of _ "trap_of r"] exI [of _ "vm_served v"])
        (simp add: deliver_def StreamDone outcome_trap_ok)
  qed (use assms(3) in simp_all)
qed

text \<open>One callback on a plugin that satisfies the contract.\<close>

lemma on_plugin_effect:
  assumes "plugin_callback E m bad" and "\<And>r. \<not> bad r \<Longrightarrow> trap_m r = None" and v1: "v1 = on_plugin m trap_m i w v"
    and "waf_law E" and trap: "vm_trap v = None" and w: "w = record_event (Callback k cb) (vm_world v)"
    and old: "\<And>j p. vm_plugins v j = Some p \<Longrightarrow> plugin_ok p (vm_world v)"
  shows "heap_le (vm_world v) (vm_world v1) \<and> engine_calls (vm_world v1) = engine_calls (vm_world v) \<and>
      vm_trap v1 = None \<and> vm_streams v1 = vm_streams v \<and> vm_served v1 = vm_served v \<and>
      (\<forall>j p. vm_plugins v1 j = Some p \<longrightarrow> plugin_ok p (vm_world v1))"
proof (cases "vm_plugins v i")
  case None
  then show ?thesis using v1 trap old by (simp add: on_plugin_def)
next
  case (Some p)
  obtain r p' w' where run: "run_state m (p, w) = (r, p', w')" by (cases "run_state m (p, w)") auto
  have "plugin_step p w p' w'" "\<not> bad r"
    using plugin_callback.run_step [OF assms(1,4) _ run] old [OF Some] by (simp_all add: w)
  then show ?thesis
    using assms(2) v1 run Some plugin_ok_heap_le [OF old] by (auto simp: on_plugin_def plugin_step_def w)
qed

text \<open>Every other callback: the plugins stay well formed, the engine runs nothing, no running stream is
  touched, nothing traps.\<close>

lemma deliver_plugin:
  assumes "waf_law E" and "range_law E" and v: "vm_ok v" and trap: "vm_trap v = None"
    and "admissible v i cb" and "\<not> stream_callback cb" and v': "v' = deliver E J K i cb v"
  shows "heap_le (vm_world v) (vm_world v')" and "engine_calls (vm_world v') = engine_calls (vm_world v)"
    and "vm_trap v' = None"
    and "case cb of
        NewStream pid \<Rightarrow> \<exists>p. vm_plugins v pid = Some p \<and>
          vm_streams v' = (vm_streams v)(i \<mapsto> NewHttpContext p i) \<and> vm_served v' = vm_served v - {i}
      | _ \<Rightarrow> vm_streams v' = vm_streams v \<and> vm_served v' = vm_served v"
    and "vm_plugins v' j = Some p \<Longrightarrow> plugin_ok p (vm_world v')"
proof -
  let ?w = "record_event (Callback (unat i) cb) (vm_world v)"
  have old: "plugin_ok p (vm_world v)" if "vm_plugins v j = Some p" for j p
    using v that by (simp add: vm_ok_def)
  note old' = plugin_ok_heap_le [OF old]
  note callback = on_plugin_effect [where v = v and i = i and w = ?w, OF _ _ _ assms(1) trap refl old]
  have all: "heap_le (vm_world v) (vm_world v') \<and> engine_calls (vm_world v') = engine_calls (vm_world v) \<and>
      vm_trap v' = None \<and> (\<forall>j p. vm_plugins v' j = Some p \<longrightarrow> plugin_ok p (vm_world v')) \<and>
      (case cb of
         NewStream pid \<Rightarrow> \<exists>p. vm_plugins v pid = Some p \<and>
           vm_streams v' = (vm_streams v)(i \<mapsto> NewHttpContext p i) \<and> vm_served v' = vm_served v - {i}
       | _ \<Rightarrow> vm_streams v' = vm_streams v \<and> vm_served v' = vm_served v)"
  proof (cases cb)
    case (PluginStart n)
    obtain r p w' where run: "run_state (OnPluginStart E J n) (NewPluginContext i, ?w) = (r, p, w')"
      by (cases "run_state (OnPluginStart E J n) (NewPluginContext i, ?w)") auto
    have "\<not> panicked r \<and> heap_le ?w w' \<and> engine_calls w' = engine_calls ?w \<and>
        (r = Returns OnPluginStartStatusOK \<longrightarrow> plugin_ok p w')"
      using wp_run [OF run OnPluginStart_contract [OF assms(1,2)]]
      by (simp add: NewPluginContext_def) (simp add: nil_slice_def)
    then show ?thesis
      using run old' by (cases r) (auto simp: v' deliver_def PluginStart)
  next
    case Tick
    show ?thesis
      using callback [OF tick.plugin_callback_axioms, of "\<lambda>_. None" v'] by (simp add: v' deliver_def Tick)
  next
    case (HttpCallResponse cbk a b d)
    have "trap_of r = None" if "\<not> panicked r" for r :: "unit outcome" using that by (cases r) simp_all
    then show ?thesis
      using callback [OF rules_response.plugin_callback_axioms [of E K a b d], of trap_of v']
        callback [OF latest_response.plugin_callback_axioms [of E K a b d], of "\<lambda>_. None" v']
      by (cases cbk) (simp_all add: v' deliver_def HttpCallResponse)
  next
    case (NewStream pid)
    then obtain p where "vm_plugins v pid = Some p" using assms(5) by auto
    then show ?thesis using trap old by (simp add: v' deliver_def NewStream)
  qed (use assms(6) in simp_all)
  from all show "heap_le (vm_world v) (vm_world v')" "engine_calls (vm_world v') = engine_calls (vm_world v)"
    "vm_trap v' = None"
    "case cb of
        NewStream pid \<Rightarrow> \<exists>p. vm_plugins v pid = Some p \<and>
          vm_streams v' = (vm_streams v)(i \<mapsto> NewHttpContext p i) \<and> vm_served v' = vm_served v - {i}
      | _ \<Rightarrow> vm_streams v' = vm_streams v \<and> vm_served v' = vm_served v"
    "vm_plugins v' j = Some p \<Longrightarrow> plugin_ok p (vm_world v')"
    by simp_all
qed

section \<open>Runs\<close>

lemma vm_ok_booted: "vm_ok booted"
  by (simp add: vm_ok_def booted_def)

lemma vm_ok_deliver:
  assumes "waf_law E" and "range_law E" and v: "vm_ok v" and "vm_trap v = None" and "admissible v i cb"
  shows "vm_ok (deliver E J K i cb v) \<and> trap_ok E cb (bare_stream v i) (vm_trap (deliver E J K i cb v))"
proof (cases "stream_callback cb")
  case True
  then obtain c where c: "vm_streams v i = Some c" using assms(5) by (cases cb) auto
  then have ok: "ctx_ok c (vm_world v)" "i \<notin> vm_served v \<longrightarrow> ctx_tx c = None" using v by (auto simp: vm_ok_def)
  from deliver_stream [OF v assms(5) True c, of E J K] obtain c' w' p sv where
    step: "stream_step c (vm_world v) c' w'" "trap_ok E cb (ctx_tx c = None) p"
    and v': "deliver E J K i cb v = v\<lparr>vm_streams := (vm_streams v)(i := if cb = StreamDone then None else Some c'),
          vm_served := sv, vm_world := w', vm_trap := p\<rparr>"
    and sv: "sv = vm_served v \<and> (cb \<noteq> StreamDone \<longrightarrow> i \<notin> vm_served v \<longrightarrow> ctx_tx c = None \<longrightarrow> ctx_tx c' = None) \<or>
         sv = insert i (vm_served v)"
    by (rule stream_effectE)
  have bare: "bare_stream v i = (ctx_tx c = None)" using c by (simp add: bare_stream_def)
  have heap: "heap_le (vm_world v) w'" and "ctx_ok c' w'" using step(1) by (simp_all add: stream_step_def)
  then show ?thesis
    using v sv ok step(2) plugin_ok_heap_le [OF _ heap] ctx_ok_heap_le [OF _ heap]
    by (auto simp: v' vm_ok_def bare split: if_splits)
next
  case False
  define v' where "v' = deliver E J K i cb v"
  note eff = deliver_plugin [OF assms(1,2) v assms(4,5) False v'_def]
  have old: "ctx_ok c (vm_world v')" if "vm_streams v j = Some c" for j c
    using ctx_ok_heap_le [OF _ eff(1)] v that by (simp add: vm_ok_def)
  have new: "ctx_ok (NewHttpContext p j) (vm_world v')" if "vm_plugins v pid = Some p" for pid p j
    using NewHttpContext_ok [OF plugin_ok_heap_le [OF _ eff(1)]] v that by (auto simp: vm_ok_def)
  have "ctx_ok c (vm_world v') \<and> (j \<notin> vm_served v' \<longrightarrow> ctx_tx c = None)" if "vm_streams v' j = Some c" for j c
    using that eff(4) v old new by (auto simp: vm_ok_def split: callback.splits if_splits)
  then show ?thesis
    using eff(3,5) by (simp add: vm_ok_def trap_ok_def v'_def [symmetric])
qed

lemma vm_run_ok:
  assumes "vm_run E J K v ls v'" and "waf_law E" and "range_law E" and "vm_ok v" and "vm_trap v = None"
  shows "vm_ok v' \<and> (case vm_trap v' of None \<Rightarrow> True
    | Some p \<Rightarrow> \<exists>ls' u i cb. ls = ls' @ [(i, cb)] \<and> vm_run E J K v ls' u \<and> trap_ok E cb (bare_stream u i) (Some p))"
  using assms(1,4,5)
proof (induction rule: vm_run.induct)
  case run_nothing
  then show ?case by simp
next
  case (run_callback ls v' i cb)
  then show ?case
    using vm_ok_deliver [OF assms(2,3), of v' i cb J K] by (auto split: option.splits)
qed

text \<open>Runs are executable.\<close>

fun vm_exec :: "env \<Rightarrow> 'j gjson \<Rightarrow> cache_json \<Rightarrow> vm \<Rightarrow> (32 word \<times> callback) list \<Rightarrow> vm option" where
  "vm_exec E J K v [] = Some v"
| "vm_exec E J K v ((i, cb) # ls) =
     (case vm_trap v of
        Some p \<Rightarrow> None
      | None \<Rightarrow> if admissible v i cb then vm_exec E J K (deliver E J K i cb v) ls else None)"

lemma vm_exec_snoc:
  "vm_exec E J K v (ls @ [l]) =
     (case vm_exec E J K v ls of None \<Rightarrow> None | Some v' \<Rightarrow> vm_exec E J K v' [l])"
  by (induction E J K v ls rule: vm_exec.induct) (auto split: option.splits)

lemma vm_run_iff_exec: "vm_run E J K v ls v' \<longleftrightarrow> vm_exec E J K v ls = Some v'"
proof
  show "vm_exec E J K v ls = Some v'" if "vm_run E J K v ls v'"
    using that by (induction rule: vm_run.induct) (simp_all add: vm_exec_snoc)
  show "vm_run E J K v ls v'" if "vm_exec E J K v ls = Some v'"
    using that
  proof (induction ls arbitrary: v' rule: rev_induct)
    case Nil
    then show ?case by (simp add: run_nothing)
  next
    case (snoc l ls)
    then show ?case
      by (cases l) (auto simp: vm_exec_snoc split: option.splits if_splits intro: run_callback)
  qed
qed

section \<open>What a stream keeps\<close>

text \<open>The fields set at the creation of a stream, the interruption, and the flags.\<close>

definition kept :: "httpContext \<Rightarrow> httpContext \<Rightarrow> bool" where
  "kept c c' \<longleftrightarrow>
     ctx_contextID c' = ctx_contextID c \<and> ctx_failurePolicy c' = ctx_failurePolicy c \<and>
     ctx_perAuthorityWAFs c' = ctx_perAuthorityWAFs c \<and> ctx_metrics c' = ctx_metrics c \<and>
     (isInterrupted (ctx_interruptedAt c) \<longrightarrow> ctx_interruptedAt c' = ctx_interruptedAt c) \<and>
     (ctx_processedRequestBody c \<longrightarrow> ctx_processedRequestBody c') \<and>
     (ctx_processedResponseBody c \<longrightarrow> ctx_processedResponseBody c')"

lemma kept_refl [simp]: "kept c c"
  by (simp add: kept_def)

lemma kept_trans: "kept c d \<Longrightarrow> kept d e \<Longrightarrow> kept c e"
  by (auto simp: kept_def)

lemma stream_step_kept: "stream_step c w c' w' \<Longrightarrow> kept c c'"
  by (simp add: stream_step_def kept_def)

lemma deliver_keeps:
  assumes "waf_law E" and "range_law E" and v: "vm_ok v" and "vm_trap v = None" and "admissible v j cb"
    and c: "vm_streams v i = Some c" and "(j, cb) \<noteq> (i, StreamDone)"
  shows "\<exists>c'. vm_streams (deliver E J K j cb v) i = Some c' \<and> kept c c'"
proof (cases "stream_callback cb")
  case True
  then obtain d where d: "vm_streams v j = Some d" using assms(5) by (cases cb) auto
  from deliver_stream [OF v assms(5) True d, of E J K] show ?thesis
  proof (rule stream_effectE)
    fix c' w' p sv
    assume "stream_step d (vm_world v) c' w'"
      "deliver E J K j cb v = v\<lparr>vm_streams := (vm_streams v)(j := if cb = StreamDone then None else Some c'),
        vm_served := sv, vm_world := w', vm_trap := p\<rparr>"
    then show ?thesis using c d assms(7) stream_step_kept [of d "vm_world v" c' w'] by auto
  qed
next
  case False
  show ?thesis
    using deliver_plugin(4) [OF assms(1,2) v assms(4,5) False refl, of J K] c assms(5)
    by (cases cb) (auto split: if_splits)
qed

section \<open>How often the request body rules run\<close>

definition pending :: "vm \<Rightarrow> 32 word set" where
  "pending v = {i. \<exists>c. vm_streams v i = Some c \<and> \<not> ctx_processedRequestBody c}"

fun opens_stream :: "callback \<Rightarrow> bool" where
  "opens_stream (NewStream _) = True"
| "opens_stream _ = False"

lemma finite_pending [simp]: "finite (pending v)"
  by simp

lemma card_of_bool:
  assumes "finite R" and "i \<notin> R"
  shows "A \<subseteq> (if b then R else insert i R) \<Longrightarrow> card A \<le> card R + of_bool (\<not> b)"
    and "A = (if b then R else insert i R) \<Longrightarrow> card A = card R + of_bool (\<not> b)"
  using assms card_mono [of "insert i R" A] card_mono [of R A] by (cases b; simp)+

lemma deliver_budget:
  assumes "waf_law E" and "range_law E" and v: "vm_ok v" and "vm_trap v = None" and "admissible v i cb"
  shows "body_runs (engine_calls (vm_world (deliver E J K i cb v))) + card (pending (deliver E J K i cb v)) \<le>
     body_runs (engine_calls (vm_world v)) + card (pending v) + of_bool (opens_stream cb)"
proof (cases "stream_callback cb")
  case True
  then obtain c where c: "vm_streams v i = Some c" using assms(5) by (cases cb) auto
  from deliver_stream [OF v assms(5) True c, of E J K] obtain c' w' p sv where
    step: "stream_step c (vm_world v) c' w'"
    and v': "deliver E J K i cb v = v\<lparr>vm_streams := (vm_streams v)(i := if cb = StreamDone then None else Some c'),
          vm_served := sv, vm_world := w', vm_trap := p\<rparr>"
    by (rule stream_effectE)
  let ?rest = "pending v - {i}"
  have after: "pending (deliver E J K i cb v) \<subseteq> (if ctx_processedRequestBody c' then ?rest else insert i ?rest)"
    and before: "pending v = (if ctx_processedRequestBody c then ?rest else insert i ?rest)"
    using c by (auto simp: pending_def v' split: if_splits)
  have rest: "finite ?rest" "i \<notin> ?rest" by simp_all
  have "body_runs (engine_calls (vm_world (deliver E J K i cb v))) + of_bool (ctx_processedRequestBody c) \<le>
      body_runs (engine_calls (vm_world v)) + of_bool (ctx_processedRequestBody c')"
    using step by (simp add: v' stream_step_def)
  with card_of_bool(1) [OF rest after] card_of_bool(2) [OF rest before] show ?thesis
    by (cases "ctx_processedRequestBody c"; cases "ctx_processedRequestBody c'") simp_all
next
  case False
  note eff = deliver_plugin [OF assms(1,2) v assms(4,5) False refl, of J K]
  have "pending (deliver E J K i cb v) \<subseteq> (if opens_stream cb then insert i (pending v) else pending v)"
    using eff(4) False by (cases cb) (auto simp: pending_def split: if_splits)
  then have "card (pending (deliver E J K i cb v)) \<le> card (pending v) + of_bool (opens_stream cb)"
    using card_mono [of "insert i (pending v)" "pending (deliver E J K i cb v)"]
      card_mono [of "pending v" "pending (deliver E J K i cb v)"]
    by (simp add: card_insert_if split: if_splits)
  then show ?thesis using eff(2) by simp
qed

section \<open>Properties\<close>

text \<open>A short run for the witnesses: a plugin that waits for its rules and lets traffic pass until then,
  and a stream whose request has trailers.\<close>

definition waiting_config :: demo_json where
  "waiting_config = Obj [(''cache_server_cluster'', Text ''c''), (''failure_policy'', Text ''allow'')]"

definition demo_cache :: cache_json where
  "demo_cache = \<lparr>unmarshal_latest = (\<lambda>b. Inr ''u''),
     unmarshal_rules = (\<lambda>b. Inr \<lparr>rr_UUID = ''u'', rr_Timestamp = [], rr_Rules = ''On'', rr_DataFiles = []\<rparr>)\<rparr>"

definition waiting_run :: "(32 word \<times> callback) list" where
  "waiting_run = [(1, PluginStart 2), (5, NewStream 1), (6, NewStream 1), (5, RequestHeaders 4 False), (6, RequestBody 0 True)]"

definition waiting_env :: env where
  "waiting_env = demo_env\<lparr>pw_GetPluginConfiguration := (\<lambda>h. (go_bytes ''{}'', None))\<rparr>"

lemma waiting_laws: "waf_law waiting_env" "range_law waiting_env"
  using demo_waf_law demo_range_law by (simp_all add: waiting_env_def waf_law_def range_law_def)

lemma waiting_runs:
  "\<exists>v. vm_run waiting_env (demo_gjson waiting_config) demo_cache booted waiting_run v \<and> vm_streams v 5 \<noteq> None"
  "\<exists>v. vm_run waiting_env (demo_gjson waiting_config) demo_cache booted (waiting_run @ [(5, RequestTrailers 1)]) v \<and>
     vm_trap v = Some (NilDeref ''logger'')"
proof -
  have "case vm_exec waiting_env (demo_gjson waiting_config) demo_cache booted waiting_run of
      None \<Rightarrow> False | Some v \<Rightarrow> vm_streams v 5 \<noteq> None" by code_simp
  then show "\<exists>v. vm_run waiting_env (demo_gjson waiting_config) demo_cache booted waiting_run v \<and> vm_streams v 5 \<noteq> None"
    by (auto simp: vm_run_iff_exec split: option.splits)
  have "case vm_exec waiting_env (demo_gjson waiting_config) demo_cache booted (waiting_run @ [(5, RequestTrailers 1)]) of
      None \<Rightarrow> False | Some v \<Rightarrow> vm_trap v = Some (NilDeref ''logger'')" by code_simp
  then show "\<exists>v. vm_run waiting_env (demo_gjson waiting_config) demo_cache booted (waiting_run @ [(5, RequestTrailers 1)]) v \<and>
     vm_trap v = Some (NilDeref ''logger'')"
    by (auto simp: vm_run_iff_exec split: option.splits)
qed

text \<open>C32: at every moment of every run, whatever the proxy and the engine answer and however the
  callbacks of the plugins and streams are interleaved, every open stream is well formed, and every
  stream a plugin opens next will be.\<close>

theorem filter_stays_well_formed:
  assumes "vm_run E J K booted ls v" and "waf_law E" and "range_law E"
  shows "(case vm_streams v i of None \<Rightarrow> True | Some c \<Rightarrow> ctx_ok c (vm_world v)) \<and>
    (case vm_plugins v pid of None \<Rightarrow> True | Some p \<Rightarrow> ctx_ok (NewHttpContext p cid) (vm_world v))"
  using vm_run_ok [OF assms vm_ok_booted]
  by (auto simp: vm_ok_def booted_def NewHttpContext_ok split: option.split)

lemma filter_stays_well_formed_witness:
  "\<exists>v c. vm_run waiting_env (demo_gjson waiting_config) demo_cache booted waiting_run v \<and>
     vm_streams v 5 = Some c \<and> ctx_ok c (vm_world v)"
proof -
  from waiting_runs(1) obtain v where v: "vm_run waiting_env (demo_gjson waiting_config) demo_cache booted waiting_run v"
    "vm_streams v 5 \<noteq> None" by blast
  from filter_stays_well_formed [OF v(1) waiting_laws, of 5 1 7] v show ?thesis
    by (auto split: option.splits)
qed

text \<open>C33: the filter traps in two ways only. In every run the last callback ends in a panic only if the
  proxy refuses a local response, or if it brings trailers to a stream that has no logger.\<close>

theorem only_two_traps:
  assumes "vm_run E J K booted ls v" and "waf_law E" and "range_law E" and "vm_trap v = Some p"
  shows "(\<exists>e h code. p = SendFailed e \<and> pw_SendHttpResponse E h code = Some e) \<or>
    p = NilDeref ''logger'' \<and> (\<exists>ls' u i cb c. ls = ls' @ [(i, cb)] \<and> is_trailers cb \<and>
      vm_run E J K booted ls' u \<and> vm_streams u i = Some c \<and> ctx_tx c = None)"
  using vm_run_ok [OF assms(1-3) vm_ok_booted] assms(4)
  by (fastforce simp: booted_def trap_ok_def send_fails_def bare_stream_def)

lemma only_two_traps_witness:
  "\<exists>v. vm_run waiting_env (demo_gjson waiting_config) demo_cache booted (waiting_run @ [(5, RequestTrailers 1)]) v \<and>
     vm_trap v = Some (NilDeref ''logger'') \<and> (\<exists>u c. vm_run waiting_env (demo_gjson waiting_config) demo_cache booted waiting_run u \<and>
       vm_streams u 5 = Some c \<and> ctx_tx c = None)"
proof -
  from waiting_runs(2) obtain v where
    v: "vm_run waiting_env (demo_gjson waiting_config) demo_cache booted (waiting_run @ [(5, RequestTrailers 1)]) v"
    "vm_trap v = Some (NilDeref ''logger'')" by blast
  from only_two_traps [OF v(1) waiting_laws v(2)] v show ?thesis by auto
qed

text \<open>C34: a stream keeps what it was opened with. While a stream is open, whatever happens to it, to
  other streams and to the plugins, also when new rules are activated, it keeps its WAFs, its policy,
  its counters and its number; an interruption stays for good, and body rules that are done stay done.\<close>

theorem streams_keep_their_configuration:
  assumes "vm_run E J K booted ls v" and "vm_run E J K v ls' v'" and "waf_law E" and "range_law E"
    and "vm_trap v = None" and "vm_streams v i = Some c" and "(i, StreamDone) \<notin> set ls'"
  shows "\<exists>c'. vm_streams v' i = Some c' \<and>
     ctx_contextID c' = ctx_contextID c \<and> ctx_failurePolicy c' = ctx_failurePolicy c \<and>
     ctx_perAuthorityWAFs c' = ctx_perAuthorityWAFs c \<and> ctx_metrics c' = ctx_metrics c \<and>
     (isInterrupted (ctx_interruptedAt c) \<longrightarrow> ctx_interruptedAt c' = ctx_interruptedAt c) \<and>
     (ctx_processedRequestBody c \<longrightarrow> ctx_processedRequestBody c') \<and>
     (ctx_processedResponseBody c \<longrightarrow> ctx_processedResponseBody c')"
proof -
  have v: "vm_ok v" using vm_run_ok [OF assms(1,3,4) vm_ok_booted] by (simp add: booted_def)
  have "\<exists>c'. vm_streams v' i = Some c' \<and> kept c c'"
    using assms(2,7)
  proof (induction rule: vm_run.induct)
    case run_nothing
    then show ?case using assms(6) by simp
  next
    case (run_callback ls v' j cb)
    then obtain c' where c': "vm_streams v' i = Some c'" "kept c c'" by auto
    have "vm_ok v'" using vm_run_ok [OF run_callback.hyps(1) assms(3,4) v assms(5)] by simp
    moreover have "(j, cb) \<noteq> (i, StreamDone)" using run_callback.prems by auto
    ultimately obtain c'' where "vm_streams (deliver E J K j cb v') i = Some c''" "kept c' c''"
      using deliver_keeps [OF assms(3,4) _ run_callback.hyps(2,3) c'(1)] by blast
    with c'(2) show ?case by (auto intro: kept_trans)
  qed
  then show ?thesis by (simp add: kept_def)
qed

lemma streams_keep_their_configuration_witness:
  "\<exists>v v' c c'. vm_run waiting_env (demo_gjson waiting_config) demo_cache booted (take 2 waiting_run) v \<and>
     vm_run waiting_env (demo_gjson waiting_config) demo_cache v (drop 2 waiting_run) v' \<and>
     vm_streams v 5 = Some c \<and> vm_streams v' 5 = Some c' \<and> ctx_perAuthorityWAFs c' = ctx_perAuthorityWAFs c"
proof -
  have "case vm_exec waiting_env (demo_gjson waiting_config) demo_cache booted (take 2 waiting_run) of
      None \<Rightarrow> False
    | Some v \<Rightarrow> vm_trap v = None \<and> vm_streams v 5 \<noteq> None \<and>
        vm_exec waiting_env (demo_gjson waiting_config) demo_cache v (drop 2 waiting_run) \<noteq> None" by code_simp
  then obtain v v' c where v: "vm_run waiting_env (demo_gjson waiting_config) demo_cache booted (take 2 waiting_run) v"
    "vm_run waiting_env (demo_gjson waiting_config) demo_cache v (drop 2 waiting_run) v'" "vm_trap v = None" "vm_streams v 5 = Some c"
    unfolding vm_run_iff_exec by (auto split: option.splits)
  have "(5, StreamDone) \<notin> set (drop 2 waiting_run)" by (simp add: waiting_run_def)
  from streams_keep_their_configuration [OF v(1,2) waiting_laws v(3,4) this] v show ?thesis by blast
qed

text \<open>C35: the request body rules run at most once per stream. In every run they have run at most as
  often as streams were opened.\<close>

theorem request_body_rules_once_per_stream:
  assumes "vm_run E J K booted ls v" and "waf_law E" and "range_law E"
  shows "body_runs (engine_calls (vm_world v)) + card (pending v) \<le> length (filter (\<lambda>l. opens_stream (snd l)) ls)"
  using assms(1)
proof (induction rule: vm_run.induct)
  case run_nothing
  have "engine_calls (vm_world booted) = []" "pending booted = {}"
    by (simp_all add: booted_def engine_calls_def pending_def)
  then show ?case by simp
next
  case (run_callback ls v' i cb)
  have "vm_ok v'"
    using vm_run_ok [OF run_callback.hyps(1) assms(2,3) vm_ok_booted] by (simp add: booted_def)
  from deliver_budget [OF assms(2,3) this run_callback.hyps(2,3), of J K] run_callback.IH show ?case
    by (cases "opens_stream cb") simp_all
qed

lemma request_body_rules_once_per_stream_witness:
  "\<exists>v. vm_run waiting_env (demo_gjson waiting_config) demo_cache booted waiting_run v \<and>
     body_runs (engine_calls (vm_world v)) + card (pending v) \<le> 2"
proof -
  from waiting_runs(1) obtain v where v: "vm_run waiting_env (demo_gjson waiting_config) demo_cache booted waiting_run v"
    "vm_streams v 5 \<noteq> None" by blast
  from request_body_rules_once_per_stream [OF v(1) waiting_laws] v(1) show ?thesis
    by (intro exI [of _ v]) (simp add: waiting_run_def)
qed

end
