(* ===== verification/Reload.thy ===== *)
theory Reload
  imports Lifecycle
begin

text \<open>
  The rules of a plugin over whole runs of the filter. The abstract machine only remembers the last
  answer of the cache server that was accepted; the filter, with its handlers, its JSON decoder and
  all other contexts interleaved, refines it.
\<close>

section \<open>The abstract machine\<close>

text \<open>What a callback activates, given the history when its handler starts.\<close>

fun callback_answer ::
  "env \<Rightarrow> cache_json \<Rightarrow> (waf_config \<Rightarrow> goerror + waf) \<Rightarrow> callback \<Rightarrow> history \<Rightarrow> (rules_response \<times> waf) option" where
  "callback_answer E K build (HttpCallResponse onRuleSetCacheServerResponse_cb a b d) h = accepted_answer E K build h b"
| "callback_answer E K build _ h = None"

text \<open>The answers accepted for plugin \<open>i\<close> in the run of some callbacks, in order.\<close>

fun accepted_answers ::
  "env \<Rightarrow> 'j gjson \<Rightarrow> cache_json \<Rightarrow> (waf_config \<Rightarrow> goerror + waf) \<Rightarrow> 32 word \<Rightarrow> vm \<Rightarrow>
   (32 word \<times> callback) list \<Rightarrow> (rules_response \<times> waf) list" where
  "accepted_answers E J K build i v [] = []"
| "accepted_answers E J K build i v ((j, cb) # ls) =
     (if j = i
      then (case callback_answer E K build cb (trace (vm_world v) @ [Callback (unat j) cb]) of None \<Rightarrow> [] | Some x \<Rightarrow> [x])
      else []) @
     accepted_answers E J K build i (deliver E J K j cb v) ls"

section \<open>One callback\<close>

lemma trace_record [simp]: "trace (record_event e w) = trace w @ [e]"
  by (simp add: record_event_def)

lemma on_stream_plugins [simp]: "vm_plugins (on_stream h i w v) = vm_plugins v"
  by (auto simp: on_stream_def split: option.split prod.split)

lemma on_plugin_other: "j \<noteq> i \<Longrightarrow> vm_plugins (on_plugin m t j w v) i = vm_plugins v i"
  by (auto simp: on_plugin_def split: option.split prod.split)

lemma on_plugin_wp:
  "wp m (\<lambda>r (p', w'). Q p') (p, w) \<Longrightarrow> vm_plugins v i = Some p \<Longrightarrow>
   \<exists>p'. vm_plugins (on_plugin m t i w v) i = Some p' \<and> Q p'"
  by (auto simp: on_plugin_def wp_def split: prod.splits)

context response_decoder begin

lemma deliver_rules:
  assumes "range_law E" and "\<And>h conf. cz_NewWAF E h conf = map_sum id Some (build conf)"
    and "admissible v j cb" and p: "vm_plugins v i = Some p"
  shows "\<exists>p'. vm_plugins (deliver E J K j cb v) i = Some p' \<and>
     p' = (if j = i then with_answer (callback_answer E K build cb (trace (vm_world v) @ [Callback (unat j) cb])) p else p)"
proof (cases "j = i")
  case False
  then show ?thesis
    using p by (cases cb) (auto simp: deliver_def Let_def on_plugin_other split: prod.split option.split http_callback.split)
next
  case True
  show ?thesis
  proof (cases cb)
    case (PluginStart n)
    then show ?thesis using assms(3) p True by simp
  next
    case Tick
    then show ?thesis
      using on_plugin_wp [where Q = "\<lambda>p'. p' = p", OF reload_check_keeps_rules(1) p] True
      by (simp add: deliver_def with_answer_def)
  next
    case (HttpCallResponse cbk a b d)
    show ?thesis
    proof (cases cbk)
      case onRuleSetCacheServerResponse_cb
      have "wp (onRuleSetCacheServerResponse E K a b d)
          (\<lambda>r (p', w'). p' = with_answer (accepted_answer E K build (trace w) b) p) (p, w)" for w
        by (rule wp_mono [OF activation_outcome [OF assms(1,2)]]) auto
      from on_plugin_wp [OF this p] show ?thesis
        using True by (simp add: deliver_def HttpCallResponse onRuleSetCacheServerResponse_cb)
    next
      case onLatestRuleSetResponse_cb
      then show ?thesis
        using on_plugin_wp [where Q = "\<lambda>p'. p' = p", OF reload_check_keeps_rules(2) p] True
        by (simp add: deliver_def with_answer_def HttpCallResponse)
    qed
  qed (use p True in \<open>auto simp: deliver_def with_answer_def Let_def split: option.split\<close>)
qed

lemma run_rules:
  assumes "range_law E" and "\<And>h conf. cz_NewWAF E h conf = map_sum id Some (build conf)"
    and "vm_exec E J K v ls = Some v'" and "vm_plugins v i = Some p"
  shows "vm_plugins v' i = Some (fold (\<lambda>x. with_answer (Some x)) (accepted_answers E J K build i v ls) p)"
  using assms(3,4)
proof (induction ls arbitrary: v p)
  case Nil
  then show ?case by simp
next
  case (Cons l ls)
  obtain j cb where l: "l = (j, cb)" by (cases l)
  from Cons.prems(1) have adm: "admissible v j cb" and rest: "vm_exec E J K (deliver E J K j cb v) ls = Some v'"
    by (auto simp: l split: option.splits if_splits)
  from deliver_rules [OF assms(1,2) adm Cons.prems(2), where J = J] Cons.IH [OF rest]
  show ?case by (auto simp: l with_answer_def split: option.split)
qed

end

lemma fold_with_answer:
  "fold (\<lambda>x. with_answer (Some x)) xs p =
     (if xs = [] then p
      else p\<lparr>pl_perAuthorityWAFs := (pl_perAuthorityWAFs p)\<lparr>defaultWAF := Some (snd (last xs))\<rparr>,
             pl_currentRuleSetUUID := rr_UUID (fst (last xs))\<rparr>)"
  by (induction xs rule: rev_induct) (auto simp: with_answer_def split: prod.split)

section \<open>Properties\<close>

text \<open>C36: the rules follow the cache server. In every run of the filter, whatever else happens in between,
  the rules of a plugin are those of the last answer it accepted, or those it had if there was none:
  its current UUID is that of this answer, and in every stream opened then an authority without a WAF
  of its own gets the WAF the engine built from the rules and the data files of this answer. Ticks,
  checks for new rules, refused answers, other plugins and streams change nothing. Bodies are decoded
  by Go's JSON library.\<close>

theorem rules_follow_the_server:
  assumes "vm_run E J (go_json wording) v ls v'" and "vm_plugins v i = Some p"
    and "range_law E" and "\<And>h conf. cz_NewWAF E h conf = map_sum id Some (build conf)"
    and "answers = accepted_answers E J (go_json wording) build i v ls"
  shows "\<exists>p'. vm_plugins v' i = Some p' \<and>
     pl_currentRuleSetUUID p' = (if answers = [] then pl_currentRuleSetUUID p else rr_UUID (fst (last answers))) \<and>
     (\<forall>cid authority. getWAFOrDefault (ctx_perAuthorityWAFs (NewHttpContext p' cid)) authority =
        (case kv (pl_perAuthorityWAFs p) authority of
           Some waf \<Rightarrow> Inr (waf, False)
         | None \<Rightarrow>
             if answers = [] then getWAFOrDefault (pl_perAuthorityWAFs p) authority
             else Inr (Some (snd (last answers)), True)))"
  using go.run_rules [OF assms(3,4) assms(1) [unfolded vm_run_iff_exec] assms(2)]
  by (auto simp: assms(5) fold_with_answer getWAFOrDefault_def NewHttpContext_def split: option.split)

text \<open>A plugin that waits for its rules and gets them, with two streams before and after.\<close>

definition server_env :: env where
  "server_env = waiting_env\<lparr>pw_GetHttpCallResponseBody := (\<lambda>h i n. Inr (go_bytes (spell (JObject demo_members)))),
     cz_NewWAF := (\<lambda>h conf. Inr (Some (length (wc_directives conf))))\<rparr>"

abbreviation demo_decoder :: cache_json where
  "demo_decoder \<equiv> go_json (\<lambda>b. Fmt ''invalid'' [])"

definition demo_build_waf :: "waf_config \<Rightarrow> goerror + waf" where
  "demo_build_waf conf = Inr (length (wc_directives conf))"

lemma demo_answer: "accepted_answer server_env demo_decoder demo_build_waf h b = Some (demo_response, 2)"
proof -
  have "spell (JObject demo_members) \<noteq> []" by (simp add: spell_def demo_members_def)
  then have "go_bytes (spell (JObject demo_members)) \<noteq> []" by (simp add: go_bytes_def)
  then show ?thesis
    by (simp add: demo_unmarshal accepted_answer_def server_env_def waiting_env_def demo_env_def demo_build_waf_def demo_response_def)
qed

lemma rules_follow_the_server_witness:
  "\<exists>v v' p'. vm_run server_env (demo_gjson waiting_config) demo_decoder booted [(1, PluginStart 2), (5, NewStream 1)] v \<and>
     vm_run server_env (demo_gjson waiting_config) demo_decoder v
       [(1, HttpCallResponse onRuleSetCacheServerResponse_cb 0 2 0)] v' \<and>
     vm_plugins v' 1 = Some p' \<and> pl_currentRuleSetUUID p' = ''u1'' \<and>
     getWAFOrDefault (ctx_perAuthorityWAFs (NewHttpContext p' 7)) ''a'' = Inr (Some 2, True)"
proof -
  let ?ls = "[(1, HttpCallResponse onRuleSetCacheServerResponse_cb 0 2 0)]"
  have "case vm_exec server_env (demo_gjson waiting_config) demo_decoder booted [(1, PluginStart 2), (5, NewStream 1)] of
      None \<Rightarrow> False
    | Some v \<Rightarrow> vm_trap v = None \<and>
        (case vm_plugins v 1 of None \<Rightarrow> False | Some p \<Rightarrow> kv (pl_perAuthorityWAFs p) ''a'' = None)" by code_simp
  then obtain v p where start:
    "vm_exec server_env (demo_gjson waiting_config) demo_decoder booted [(1, PluginStart 2), (5, NewStream 1)] = Some v"
    and idle: "vm_trap v = None" and p: "vm_plugins v 1 = Some p" "kv (pl_perAuthorityWAFs p) ''a'' = None"
    by (simp split: option.splits)
  define v' where "v' = deliver server_env (demo_gjson waiting_config) demo_decoder 1
    (HttpCallResponse onRuleSetCacheServerResponse_cb 0 2 0) v"
  have v: "vm_run server_env (demo_gjson waiting_config) demo_decoder booted [(1, PluginStart 2), (5, NewStream 1)] v"
    "vm_run server_env (demo_gjson waiting_config) demo_decoder v ?ls v'"
    using start idle p by (simp_all only: vm_run_iff_exec) (simp add: v'_def)
  have laws: "range_law server_env" "cz_NewWAF server_env h conf = map_sum id Some (demo_build_waf conf)" for h conf
    using demo_range_law by (simp_all add: server_env_def waiting_env_def range_law_def demo_build_waf_def)
  have "accepted_answers server_env (demo_gjson waiting_config) demo_decoder demo_build_waf 1 v ?ls = [(demo_response, 2)]"
    by (simp add: demo_answer)
  from rules_follow_the_server [OF v(2) p(1) laws this [symmetric]] obtain p' where
    p': "vm_plugins v' 1 = Some p'" "pl_currentRuleSetUUID p' = ''u1''" and
    waf: "getWAFOrDefault (ctx_perAuthorityWAFs (NewHttpContext p' 7)) ''a'' = Inr (Some 2, True)"
    using p(2) by (auto simp: demo_response_def)
  with v show ?thesis by blast
qed

end
