(* ===== verification/Build.thy ===== *)
theory Build
  imports Host Go_Std
begin

text \<open>
  \<open>magefiles/magefile.go\<close>: the build of the filter, with its entry point \<open>mage.go\<close> and the
  variants of files the build tags choose (\<open>rule_option*.go\<close>, \<open>init_tinygo.go\<close>). Every effect of a target is a
  \<open>build_op\<close> and is recorded in order; the answers of the commands and of the file system
  come from the record \<open>build_env\<close>, each depending on all that was done before. The library
  that decodes and encodes WebAssembly modules is the record \<open>wabin\<close>.
\<close>

section \<open>Effects\<close>

text \<open>What the test drivers send to the proxy: a request, or the options of the load generator.\<close>

record http_request =
  rq_Method :: string
  rq_URL :: string
  rq_Body :: string
  rq_Header :: "(string \<times> string list) list"
  rq_Trailer :: "(string \<times> string list) list"

record load_options =
  lo_QPS :: int
  lo_NumThreads :: int
  lo_Duration :: int
  lo_URL :: string
  lo_Payload :: bytes

text \<open>Durations are in nanoseconds; the table is the tab writer of the load test.\<close>

datatype build_op =
    sh_RunV "string list"
  | sh_RunWithV "(string \<times> string) list" "string list"
  | sh_Run "string list"
  | sh_Output "string list"
  | sh_ExecDiscard "string list"
  | mg_SerialDeps "string list"
  | os_MkdirAll string
  | os_Stat string
  | os_ReadFile string
  | os_WriteFile string bytes
  | os_Exit int
  | os_Remove string
  | Println msg
  | Printf msg
  | Fprint_table msg
  | Flush_table
  | time_Sleep int
  | http_Get string
  | http_Do http_request
  | Body_Close
  | fnet_Payload int
  | fhttp_Run load_options
  | mage_Main

type_synonym build_history = "build_op list"

record build_env =
  be_env :: "string \<rightharpoonup> string"
  be_run :: "build_history \<Rightarrow> string list \<Rightarrow> goerror option"
  be_output :: "build_history \<Rightarrow> string list \<Rightarrow> string \<times> goerror option"
  be_deps :: "build_history \<Rightarrow> string list \<Rightarrow> goerror option"
  be_MkdirAll :: "build_history \<Rightarrow> string \<Rightarrow> goerror option"
  be_Stat :: "build_history \<Rightarrow> string \<Rightarrow> goerror option"
  be_ReadFile :: "build_history \<Rightarrow> string \<Rightarrow> goerror + bytes"
  be_WriteFile :: "build_history \<Rightarrow> string \<Rightarrow> bytes \<Rightarrow> goerror option"

text \<open>Go's \<open>error\<close> result: \<open>None\<close> is nil.\<close>

type_synonym 'a build = "(build_history, 'a) state"
type_synonym target = "goerror option build"

definition perform :: "build_op \<Rightarrow> (build_history \<Rightarrow> 'r) \<Rightarrow> 'r build" where
  "perform op f = State (\<lambda>h. (f h, h @ [op]))"

definition Getenv :: "'z build_env_scheme \<Rightarrow> string \<Rightarrow> string" where
  "Getenv B k = (case be_env B k of None \<Rightarrow> [] | Some v \<Rightarrow> v)"

definition RunV :: "'z build_env_scheme \<Rightarrow> string list \<Rightarrow> target" where
  "RunV B cmd = perform (sh_RunV cmd) (\<lambda>h. be_run B h cmd)"

definition RunWithV :: "'z build_env_scheme \<Rightarrow> (string \<times> string) list \<Rightarrow> string list \<Rightarrow> target" where
  "RunWithV B vars cmd = perform (sh_RunWithV vars cmd) (\<lambda>h. be_run B h cmd)"

text \<open>\<open>if err := m; err != nil { return err }\<close>, followed by the rest.\<close>

definition or_fail :: "target \<Rightarrow> target \<Rightarrow> target" where
  "or_fail m rest = do { e \<leftarrow> m; case e of Some err \<Rightarrow> ret (Some err) | None \<Rightarrow> rest }"

lemma wp_perform [wp]: "wp (perform op f) Q h = Q (f h) (h @ [op])"
  by (simp add: wp_def perform_def)

section \<open>Regular expressions\<close>

text \<open>
  The two expressions of \<open>checkVersion\<close> are sequences of these parts: a character, \<open>.\<close>,
  \<open>.?\<close>, \<open>([0-9]+)\<close> and \<open>([0-9]+)?\<close>. Matching is leftmost, and every repetition and
  option prefers to take more and gives up what it took only if the rest fails. A \<open>.\<close> is any
  character but a newline, that is one UTF-8 sequence, or one byte where the text is not UTF-8.
\<close>

datatype rx_part = Lit char | Any | OptAny | Digits | OptDigits

fun first_some :: "('a \<Rightarrow> 'b option) \<Rightarrow> 'a list \<Rightarrow> 'b option" where
  "first_some f [] = None"
| "first_some f (x # xs) = (case f x of Some y \<Rightarrow> Some y | None \<Rightarrow> first_some f xs)"

definition digit_run :: "string \<Rightarrow> nat" where
  "digit_run s = length (takeWhile (\<lambda>c. digit_val c \<noteq> None) s)"

text \<open>A match at the start of the text: the texts of the groups, empty for a group that took no part.\<close>

fun match_here :: "rx_part list \<Rightarrow> string \<Rightarrow> string list option" where
  "match_here [] s = Some []"
| "match_here (Lit c # ps) s = (case s of [] \<Rightarrow> None | x # xs \<Rightarrow> if x = c then match_here ps xs else None)"
| "match_here (Any # ps) s =
     (if s = [] \<or> hd s = CHR 0x0A then None else match_here ps (drop (rune_width s) s))"
| "match_here (OptAny # ps) s =
     (case (if s = [] \<or> hd s = CHR 0x0A then None else match_here ps (drop (rune_width s) s)) of
        Some gs \<Rightarrow> Some gs
      | None \<Rightarrow> match_here ps s)"
| "match_here (Digits # ps) s =
     first_some (\<lambda>k. map_option ((#) (take k s)) (match_here ps (drop k s))) (rev [1 ..< Suc (digit_run s)])"
| "match_here (OptDigits # ps) s =
     first_some (\<lambda>k. map_option ((#) (take k s)) (match_here ps (drop k s))) (rev [0 ..< Suc (digit_run s)])"

text \<open>\<open>FindStringSubmatch\<close> without the text of the whole match.\<close>

fun find_submatch :: "rx_part list \<Rightarrow> string \<Rightarrow> string list option" where
  "find_submatch ps [] = match_here ps []"
| "find_submatch ps (c # s) =
     (case match_here ps (c # s) of Some gs \<Rightarrow> Some gs | None \<Rightarrow> find_submatch ps s)"

section \<open>Versions\<close>

definition minGoVersion :: string where
  "minGoVersion = ''1.23''"

definition minTinygoVersion :: string where
  "minTinygoVersion = ''0.34.0''"

text \<open>\<open>strings.SplitN(s, sep, n)\<close> for a separator of one byte and \<open>n > 0\<close>.\<close>

fun SplitN :: "string \<Rightarrow> char \<Rightarrow> nat \<Rightarrow> string list" where
  "SplitN s sep (Suc (Suc n)) =
     (case IndexByte s sep of
        None \<Rightarrow> [s]
      | Some i \<Rightarrow> take i s # SplitN (drop (i + 1) s) sep (Suc n))"
| "SplitN s sep _ = [s]"

definition goVersionRegex :: "rx_part list" where
  "goVersionRegex = map Lit ''go'' @ [Digits, Any, Digits, OptAny, OptDigits]"

definition tinygoVersionRegex :: "rx_part list" where
  "tinygoVersionRegex = map Lit ''tinygo version '' @ [Digits, Any, Digits, OptAny, OptDigits]"

text \<open>The loop over the three parts: is one of \<open>base\<close> larger? An index past the end panics.\<close>

fun too_old :: "string list \<Rightarrow> string list \<Rightarrow> nat list \<Rightarrow> bool outcome" where
  "too_old base compare [] = Returns False"
| "too_old base compare (i # is) =
     (if length base \<le> i \<or> length compare \<le> i then Panics IndexOutOfRange
      else if fst (AtoiN 64 (base ! i)) > fst (AtoiN 64 (compare ! i)) then Returns True
      else too_old base compare is)"

text \<open>The comparison at the end of \<open>checkVersion\<close>.\<close>

definition compare_versions :: "string \<Rightarrow> string \<Rightarrow> string list \<Rightarrow> goerror option outcome" where
  "compare_versions lang minVersion compare =
     (let compare = (if compare ! 2 = [] then compare[2 := ''0''] else compare);
          base = SplitN minVersion (CHR ''.'') 3;
          base = (if length base = 2 then base @ [''0''] else base)
      in case too_old base compare [0, 1, 2] of
           Panics p \<Rightarrow> Panics p
         | Returns old \<Rightarrow> Returns (if old
             then Some (Fmt ''unexpected %s version, minimum want %q, have %q''
               [AStr lang, AStr minVersion, AStr (strings_Join compare ''.'')])
             else None))"

definition checkVersion :: "build_env \<Rightarrow> string \<Rightarrow> string \<Rightarrow> goerror option outcome build" where
  "checkVersion B lang minVersion =
     (if lang = ''go'' then do {
        out \<leftarrow> perform (sh_Output [''go'', ''version'']) (\<lambda>h. be_output B h [''go'', ''version'']);
        case snd out of
          Some err \<Rightarrow> ret (Returns (Some (Fmt ''unexpected go error: %v'' [AMsg err])))
        | None \<Rightarrow>
            (case find_submatch goVersionRegex (fst out) of
               None \<Rightarrow> ret (Returns (Some (Fmt ''unexpected go semver: %q'' [AStr (fst out)])))
             | Some compare \<Rightarrow> ret (compare_versions lang minVersion compare)) }
      else if lang = ''tinygo'' then do {
        out \<leftarrow> perform (sh_Output [''tinygo'', ''version'']) (\<lambda>h. be_output B h [''tinygo'', ''version'']);
        case snd out of
          Some err \<Rightarrow> ret (Returns (Some (Fmt ''unexpected tinygo error: %v'' [AMsg err])))
        | None \<Rightarrow>
            if sublist ''-dev'' (fst out) then ret (Returns None)
            else (case find_submatch tinygoVersionRegex (fst out) of
               None \<Rightarrow> ret (Returns (Some (Fmt ''unexpected tinygo semver: %q'' [AStr (fst out)])))
             | Some compare \<Rightarrow> ret (compare_versions lang minVersion compare)) }
      else ret (Returns (Some (Fmt ''unexpected language: %s'' [AStr lang]))))"

text \<open>\<open>init\<close>: the process exits with status 1 at the first check that fails.\<close>

fun check_all :: "build_env \<Rightarrow> (string \<times> string) list \<Rightarrow> bool outcome build" where
  "check_all B [] = ret (Returns True)"
| "check_all B ((lang, minVersion) # checks) =
     unless_panic (checkVersion B lang minVersion) (\<lambda>err.
       case err of
         Some e \<Rightarrow> do {
           perform (Println (Fmt ''Error: %v'' [AMsg e])) (\<lambda>h. ());
           perform (os_Exit 1) (\<lambda>h. ());
           ret (Returns False) }
       | None \<Rightarrow> check_all B checks)"

definition build_init :: "build_env \<Rightarrow> bool outcome build" where
  "build_init B = check_all B [(''tinygo'', minTinygoVersion), (''go'', minGoVersion)]"

section \<open>Targets\<close>

definition addLicenseVersion :: string where
  "addLicenseVersion = ''04bfe4ee9ca5764577b029acc6a1957fd1997153''"

definition golangCILintVer :: string where
  "golangCILintVer = ''v1.64.8''"

definition gosImportsVer :: string where
  "gosImportsVer = ''v0.3.8''"

definition errCommitFormatting :: goerror where
  "errCommitFormatting = errors_New ''files not formatted, please commit formatting changes''"

definition Format :: "build_env \<Rightarrow> target" where
  "Format B = or_fail (RunV B [''go'', ''mod'', ''tidy'']) (do {
     let licenses = [''go'', ''run'', ''github.com/google/addlicense@'' @ addLicenseVersion,
       ''-c'', ''The OWASP Coraza contributors'', ''-s=only'', ''-y='', ''-ignore'', ''**/*.yml'',
       ''-ignore'', ''**/*.yaml'', ''-ignore'', ''examples/**'', ''.''];
     or_fail (perform (sh_ExecDiscard licenses) (\<lambda>h. be_run B h licenses))
       (RunV B [''go'', ''run'', ''github.com/rinchsan/gosimports/cmd/gosimports@'' @ gosImportsVer,
          ''-w'', ''-local'', ''github.com/corazawaf/coraza-proxy-wasm'', ''.'']) })"

text \<open>\<open>mg.SerialDeps\<close> runs targets and panics when one of them fails.\<close>

definition SerialDeps :: "build_env \<Rightarrow> string list \<Rightarrow> unit outcome build" where
  "SerialDeps B targets = do {
     e \<leftarrow> perform (mg_SerialDeps targets) (\<lambda>h. be_deps B h targets);
     case e of Some err \<Rightarrow> ret (Panics (DepsFailed err)) | None \<Rightarrow> ret (Returns ()) }"

definition Lint :: "build_env \<Rightarrow> goerror option outcome build" where
  "Lint B = do {
     e \<leftarrow> RunV B [''go'', ''run'', ''github.com/golangci/golangci-lint/cmd/golangci-lint@'' @ golangCILintVer, ''run''];
     case e of
       Some err \<Rightarrow> ret (Returns (Some err))
     | None \<Rightarrow> unless_panic (SerialDeps B [''Format'']) (\<lambda>_. do {
         let diff = [''git'', ''diff'', ''--exit-code''];
         e \<leftarrow> perform (sh_Run diff) (\<lambda>h. be_run B h diff);
         ret (Returns (if e \<noteq> None then Some errCommitFormatting else None)) }) }"

definition Test :: "build_env \<Rightarrow> target" where
  "Test B =
     (if Getenv B ''MULTIPHASE_EVAL'' = ''false'' then RunV B [''go'', ''test'', ''./...'']
      else RunV B [''go'', ''test'', ''-tags=coraza.rule.multiphase_evaluation'', ''./...''])"

definition Coverage :: "build_env \<Rightarrow> target" where
  "Coverage B = or_fail (perform (os_MkdirAll ''build'') (\<lambda>h. be_MkdirAll B h ''build'')) (do {
     e \<leftarrow> perform (os_Stat ''build/mainraw.wasm'') (\<lambda>h. be_Stat B h ''build/mainraw.wasm'');
     if e \<noteq> None
     then ret (Some (errors_New ''build/mainraw.wasm not found, please run `go run mage.go build`''))
     else if Getenv B ''MULTIPHASE_EVAL'' = ''false''
     then or_fail
       (RunV B [''go'', ''test'', ''-race'', ''-coverprofile=build/coverage.txt'', ''-covermode=atomic'', ''-coverpkg=./...'', ''./...''])
       (RunV B [''go'', ''tool'', ''cover'', ''-html=build/coverage.txt'', ''-o'', ''build/coverage.html''])
     else or_fail
       (RunV B [''go'', ''test'', ''-race'', ''-coverprofile=build/coverage_multi.txt'', ''-covermode=atomic'', ''-coverpkg=./...'',
          ''-tags=coraza.rule.multiphase_evaluation'', ''./...''])
       (RunV B [''go'', ''tool'', ''cover'', ''-html=build/coverage_multi.txt'', ''-o'', ''build/coverage.html'']) })"

definition Doc :: "build_env \<Rightarrow> target" where
  "Doc B = RunV B [''go'', ''run'', ''golang.org/x/tools/cmd/godoc@latest'', ''-http=:6060'']"

definition Check :: "build_env \<Rightarrow> unit outcome build" where
  "Check B = SerialDeps B [''Lint'', ''Test'']"

section \<open>Building the filter\<close>

text \<open>
  The module library: decoding and encoding, and the accesses to the decoded module. The assignment
  of the minimal memory dereferences the memory section, which a module may lack; an import is its
  module and its name, and the imports are updated in place.
\<close>

record 'm wabin =
  wb_DecodeModule :: "bytes \<Rightarrow> goerror + 'm"
  wb_EncodeModule :: "'m \<Rightarrow> bytes"
  wb_SetMin :: "'m \<Rightarrow> 32 word \<Rightarrow> 'm outcome"
  wb_imports :: "'m \<Rightarrow> (string \<times> string) list"
  wb_SetImport :: "'m \<Rightarrow> nat \<Rightarrow> string \<times> string \<Rightarrow> 'm"

fun patch_import :: "string \<times> string \<Rightarrow> (string \<times> string) option" where
  "patch_import (mname, name) =
     (if name = ''fd_filestat_get'' then Some (mname, ''fd_fdstat_get'')
      else if name = ''path_filestat_get'' then Some (''env'', ''proxy_get_header_map_value'')
      else None)"

fun patch_imports :: "'m wabin \<Rightarrow> nat list \<Rightarrow> 'm \<Rightarrow> 'm" where
  "patch_imports L [] m = m"
| "patch_imports L (i # is) m =
     patch_imports L is (case patch_import (wb_imports L m ! i) of Some x \<Rightarrow> wb_SetImport L m i x | None \<Rightarrow> m)"

definition patchWasm :: "build_env \<Rightarrow> 'm wabin \<Rightarrow> string \<Rightarrow> string \<Rightarrow> int \<Rightarrow> goerror option outcome build" where
  "patchWasm B L inPath outPath initialPages = do {
     raw \<leftarrow> perform (os_ReadFile inPath) (\<lambda>h. be_ReadFile B h inPath);
     case raw of
       Inl err \<Rightarrow> ret (Returns (Some err))
     | Inr raw \<Rightarrow>
         (case wb_DecodeModule L raw of
            Inl err \<Rightarrow> ret (Returns (Some err))
          | Inr m \<Rightarrow>
              (case wb_SetMin L m (word_of_int initialPages) of
                 Panics p \<Rightarrow> ret (Panics p)
               | Returns m \<Rightarrow> do {
                   let out = wb_EncodeModule L (patch_imports L [0 ..< length (wb_imports L m)] m);
                   e \<leftarrow> perform (os_WriteFile outPath out) (\<lambda>h. be_WriteFile B h outPath out);
                   case e of Some err \<Rightarrow> ret (Returns (Some err)) | None \<Rightarrow> ret (Returns None) })) }"

definition build_tags :: "build_env \<Rightarrow> string list" where
  "build_tags B = [''custommalloc'', ''nottinygc_envoy'', ''no_fs_access'', ''memoize_builders''] @
     (if Getenv B ''MULTIPHASE_EVAL'' \<noteq> ''false'' then [''coraza.rule.multiphase_evaluation''] else []) @
     (if Getenv B ''TIMING'' = ''true'' then [''timing'', ''proxywasm_timing''] else []) @
     (if Getenv B ''MEMSTATS'' = ''true'' then [''memstats''] else [])"

definition initial_pages :: "build_env \<Rightarrow> goerror + int" where
  "initial_pages B =
     (let ipEnv = Getenv B ''INITIAL_PAGES''
      in if ipEnv \<noteq> [] then (case AtoiN 64 ipEnv of (ip, None) \<Rightarrow> Inr ip | (_, Some err) \<Rightarrow> Inl err)
         else Inr 2100)"

definition build_args :: "build_env \<Rightarrow> string list" where
  "build_args B = [''build'', ''-gc=custom'', ''-opt=2'', ''-o'', ''build/mainraw.wasm'', ''-scheduler=none'',
       ''-target=wasip1'', ''-tags='' @ [CHR 0x27] @ strings_Join (build_tags B) '' '' @ [CHR 0x27]] @
     (case be_env B ''INTERP_TIMEOUT'' of Some t \<Rightarrow> [''-interp-timeout='' @ t] | None \<Rightarrow> [])"

definition Build_target :: "build_env \<Rightarrow> 'm wabin \<Rightarrow> goerror option outcome build" where
  "Build_target B L = do {
     e \<leftarrow> perform (os_MkdirAll ''build'') (\<lambda>h. be_MkdirAll B h ''build'');
     case e of
       Some err \<Rightarrow> ret (Returns (Some err))
     | None \<Rightarrow>
         (case initial_pages B of
            Inl err \<Rightarrow> ret (Returns (Some err))
          | Inr initialPages \<Rightarrow> do {
              e \<leftarrow> RunV B (''tinygo'' # build_args B);
              case e of
                Some err \<Rightarrow> ret (Returns (Some err))
              | None \<Rightarrow> patchWasm B L ''build/mainraw.wasm'' ''build/main.wasm'' initialPages }) }"

section \<open>Environments in containers\<close>

definition ftw_compose :: "string list" where
  "ftw_compose = [''docker'', ''compose'', ''--file'', ''ftw/docker-compose.yml'']"

text \<open>The deferred command runs whatever the last command returned, but not if the first failed.\<close>

definition Ftw :: "build_env \<Rightarrow> target" where
  "Ftw B = or_fail (RunV B (ftw_compose @ [''build'', ''--pull''])) (do {
     let vars = [(''FTW_CLOUDMODE'', Getenv B ''FTW_CLOUDMODE''), (''FTW_INCLUDE'', Getenv B ''FTW_INCLUDE''),
           (''ENVOY_IMAGE'', Getenv B ''ENVOY_IMAGE'')] @
         (if Getenv B ''ENVOY_NOWASM'' = ''true''
          then [(''ENVOY_CONFIG'', ''/conf/envoy-config-nowasm.yaml'')] else []);
     let task = (if Getenv B ''MEMSTATS'' = ''true'' then ''ftw-memstats'' else ''ftw'');
     e \<leftarrow> RunWithV B vars (ftw_compose @ [''run'', ''--rm'', task]);
     _ \<leftarrow> RunV B (ftw_compose @ [''down'', ''-v'']);
     ret e })"

definition envoy_example :: "string list" where
  "envoy_example = [''docker'', ''compose'', ''--file'', ''example/envoy/docker-compose.yml'']"

definition RunEnvoyExample :: "build_env \<Rightarrow> target" where
  "RunEnvoyExample B = RunWithV B [(''ENVOY_IMAGE'', Getenv B ''ENVOY_IMAGE'')] (envoy_example @ [''up''])"

definition TeardownEnvoyExample :: "build_env \<Rightarrow> target" where
  "TeardownEnvoyExample B = RunV B (envoy_example @ [''down''])"

definition ReloadEnvoyExample :: "build_env \<Rightarrow> target" where
  "ReloadEnvoyExample B = RunV B (envoy_example @ [''restart''])"

section \<open>Entry point and variants\<close>

text \<open>\<open>mage.go\<close>: the process ends with the status the mage library returns.\<close>

definition mage_main :: "(build_history \<Rightarrow> int) \<Rightarrow> unit build" where
  "mage_main Main = do {
     status \<leftarrow> perform mage_Main Main;
     perform (os_Exit status) (\<lambda>h. ()) }"

text \<open>\<open>rule_option.go\<close> and \<open>rule_option_multiphase.go\<close>: one of two constants, chosen by the build tags.\<close>

definition multiphaseEvaluation :: "string list \<Rightarrow> bool" where
  "multiphaseEvaluation tags \<longleftrightarrow> ''coraza.rule.multiphase_evaluation'' \<in> set tags"

text \<open>\<open>init_tinygo.go\<close>: two functions of the C library as stubs that return nil; a pointer is an address.\<close>

definition fdopendir :: "32 word \<Rightarrow> 32 word option" where
  "fdopendir fd = None"

definition readdir :: "32 word option \<Rightarrow> 32 word option" where
  "readdir d = None"

lemma Build_multiphase: "multiphaseEvaluation (build_tags B) \<longleftrightarrow> be_env B ''MULTIPHASE_EVAL'' \<noteq> Some ''false''"
  by (auto simp: multiphaseEvaluation_def build_tags_def Getenv_def split: option.splits)

section \<open>Reading versions\<close>

lemma digit_run_utoa: "s = [] \<or> digit_val (hd s) = None \<Longrightarrow> digit_run (utoa x @ s) = length (utoa x)"
  unfolding digit_run_def using digits_utoa [of _ x]
  by (subst takeWhile_append2) (auto simp: takeWhile_eq_Nil_iff)

lemma first_some_hd: "f x = Some y \<Longrightarrow> first_some f (x # xs) = Some y"
  by simp

lemma match_Digits_utoa:
  assumes "s = [] \<or> digit_val (hd s) = None" and "match_here ps s = Some gs"
  shows "match_here (Digits # ps) (utoa x @ s) = Some (utoa x # gs)"
proof -
  have "0 < length (utoa x)" by simp
  then have "rev [1 ..< Suc (length (utoa x))] = length (utoa x) # rev [1 ..< length (utoa x)]"
    by (cases "length (utoa x)") simp_all
  then show ?thesis
    unfolding match_here.simps digit_run_utoa [OF assms(1)]
    by (simp only: rev_map) (simp add: assms(2))
qed

lemma match_Digits_fail: "digit_val c = None \<Longrightarrow> match_here (Digits # ps) (c # s) = None"
  by (simp add: digit_run_def)

lemma match_OptDigits_utoa:
  assumes "s = [] \<or> digit_val (hd s) = None"
  shows "match_here [OptDigits] (utoa x @ s) = Some [utoa x]"
  using digit_run_utoa [OF assms, of x] by simp

lemma match_OptDigits_none:
  "s = [] \<or> digit_val (hd s) = None \<Longrightarrow> match_here [OptDigits] s = Some [[]]"
  by (cases s) (simp_all add: digit_run_def)

text \<open>The text of a version: two or three numbers.\<close>

fun version_text :: "nat \<Rightarrow> nat \<Rightarrow> nat option \<Rightarrow> string" where
  "version_text x y None = utoa x @ ''.'' @ utoa y"
| "version_text x y (Some z) = utoa x @ ''.'' @ utoa y @ ''.'' @ utoa z"

lemma match_version:
  assumes "rest = [] \<or> digit_val (hd rest) = None"
  shows "match_here [Digits, Any, Digits, OptAny, OptDigits] (version_text x y z @ '' '' @ rest) =
     Some [utoa x, utoa y, case z of None \<Rightarrow> [] | Some z \<Rightarrow> utoa z]"
proof -
  have opt: "match_here [OptAny, OptDigits] ((case z of None \<Rightarrow> [] | Some z \<Rightarrow> ''.'' @ utoa z) @ '' '' @ rest) =
      Some [case z of None \<Rightarrow> [] | Some z \<Rightarrow> utoa z]"
    using match_OptDigits_none [OF assms] match_OptDigits_utoa [of "'' '' @ rest"]
    by (cases z) (simp_all add: digit_val_def of_char_def Let_def del: match_here.simps(6))
  let ?tail = "(case z of None \<Rightarrow> [] | Some z \<Rightarrow> ''.'' @ utoa z) @ '' '' @ rest"
  have nodigit: "?tail = [] \<or> digit_val (hd ?tail) = None"
    by (cases z) (simp_all add: digit_val_def of_char_def Let_def)
  have two: "match_here [Any, Digits, OptAny, OptDigits] (''.'' @ utoa y @ ?tail) =
      Some [utoa y, case z of None \<Rightarrow> [] | Some z \<Rightarrow> utoa z]"
    using match_Digits_utoa [OF nodigit opt, of y]
    by (simp add: of_char_def del: match_here.simps(5,4,6))
  have parts: "version_text x y z @ '' '' @ rest = utoa x @ ''.'' @ utoa y @ ?tail"
    by (cases z) simp_all
  show ?thesis
    unfolding parts by (rule match_Digits_utoa [OF _ two]) (simp add: digit_val_def of_char_def Let_def)
qed

text \<open>Splitting a text of numbers at its dots.\<close>

lemma IndexByte_utoa: "IndexByte (utoa a) (CHR ''.'') = None"
  "IndexByte (utoa a @ CHR ''.'' # s) (CHR ''.'') = Some (length (utoa a))"
proof -
  have "CHR ''.'' \<notin> set (utoa a)" using digits_utoa [of "CHR ''.''" a] by (auto simp: digit_val_def of_char_def Let_def)
  then show "IndexByte (utoa a) (CHR ''.'') = None"
    "IndexByte (utoa a @ CHR ''.'' # s) (CHR ''.'') = Some (length (utoa a))"
    by (simp_all add: IndexByte_None_iff IndexByte_append)
qed

lemma SplitN_version:
  "SplitN (version_text a b c) (CHR ''.'') 3 = [utoa a, utoa b] @ (case c of None \<Rightarrow> [] | Some n \<Rightarrow> [utoa n])"
  by (cases c) (simp_all add: numeral_3_eq_3 IndexByte_utoa)

lemma AtoiN_utoa: "n < 2 ^ 63 \<Longrightarrow> AtoiN 64 (utoa n) = (int n, None)"
  using AtoiN_itoa [of 64 "int n"] by (simp add: itoa_def)

lemma AtoiN_0: "AtoiN 64 ''0'' = (0, None)"
  by (simp add: AtoiN_def ParseUint_def digit_val_def Let_def of_char_def)

definition patch :: "nat option \<Rightarrow> nat" where
  "patch z = (case z of None \<Rightarrow> 0 | Some z \<Rightarrow> z)"

lemma compare_versions_numbers:
  assumes "x < 2 ^ 63" "y < 2 ^ 63" "patch z < 2 ^ 63" "a < 2 ^ 63" "b < 2 ^ 63" "patch c < 2 ^ 63"
  shows "\<exists>e. compare_versions lang (version_text a b c) [utoa x, utoa y, case z of None \<Rightarrow> [] | Some z \<Rightarrow> utoa z] = Returns e \<and>
    (e = None) = (a \<le> x \<and> b \<le> y \<and> patch c \<le> patch z)"
proof -
  let ?have = "[utoa x, utoa y, case z of None \<Rightarrow> ''0'' | Some z \<Rightarrow> utoa z]"
  let ?want = "[utoa a, utoa b, case c of None \<Rightarrow> ''0'' | Some c \<Rightarrow> utoa c]"
  have num: "AtoiN 64 (case n of None \<Rightarrow> ''0'' | Some n \<Rightarrow> utoa n) = (int (patch n), None)" if "patch n < 2 ^ 63" for n
    using that by (cases n) (simp_all add: patch_def AtoiN_0 AtoiN_utoa)
  have "too_old ?want ?have [0, 1, 2] = Returns (\<not> (a \<le> x \<and> b \<le> y \<and> patch c \<le> patch z))"
    by (simp add: AtoiN_utoa [OF assms(1)] AtoiN_utoa [OF assms(2)] AtoiN_utoa [OF assms(4)] AtoiN_utoa [OF assms(5)]
        num [OF assms(3)] num [OF assms(6)])
  moreover have "(if length (SplitN (version_text a b c) (CHR ''.'') 3) = 2
      then SplitN (version_text a b c) (CHR ''.'') 3 @ [''0''] else SplitN (version_text a b c) (CHR ''.'') 3) = ?want"
    unfolding SplitN_version by (cases c) simp_all
  moreover have "(if l ! 2 = [] then l[2 := ''0''] else l) = ?have"
    if "l = [utoa x, utoa y, case z of None \<Rightarrow> [] | Some z \<Rightarrow> utoa z]" for l
    unfolding that by (cases z) simp_all
  ultimately show ?thesis
    unfolding compare_versions_def Let_def by (simp only: outcome.case) auto
qed

definition version_output :: "string \<Rightarrow> string \<Rightarrow> string" where
  "version_output lang version = (if lang = ''go'' then ''go version go'' else ''tinygo version '') @ version"

lemma find_version:
  assumes "rest = [] \<or> digit_val (hd rest) = None"
  shows "find_submatch goVersionRegex (version_output ''go'' (version_text x y z @ '' '' @ rest)) =
      Some [utoa x, utoa y, case z of None \<Rightarrow> [] | Some z \<Rightarrow> utoa z]"
    and "find_submatch tinygoVersionRegex (version_output ''tinygo'' (version_text x y z @ '' '' @ rest)) =
      Some [utoa x, utoa y, case z of None \<Rightarrow> [] | Some z \<Rightarrow> utoa z]"
  using match_version [OF assms, of x y z]
  by (simp_all add: goVersionRegex_def tinygoVersionRegex_def version_output_def match_Digits_fail
      digit_val_def of_char_def Let_def del: match_here.simps(3-6))

section \<open>Patching the module\<close>

definition wabin_law :: "'m wabin \<Rightarrow> bool" where
  "wabin_law L \<longleftrightarrow>
     (\<forall>m n m'. wb_SetMin L m n = Returns m' \<longrightarrow> wb_imports L m' = wb_imports L m) \<and>
     (\<forall>m i x. wb_imports L (wb_SetImport L m i x) = (wb_imports L m)[i := x])"

definition patched :: "string \<times> string \<Rightarrow> string \<times> string" where
  "patched x = (case patch_import x of Some y \<Rightarrow> y | None \<Rightarrow> x)"

lemma patch_imports_upt:
  assumes "wabin_law L"
  shows "n \<le> length (wb_imports L m) \<Longrightarrow>
    length (wb_imports L (patch_imports L [k ..< n] m)) = length (wb_imports L m) \<and>
    (\<forall>i < length (wb_imports L m). wb_imports L (patch_imports L [k ..< n] m) ! i =
       (if k \<le> i \<and> i < n then patched (wb_imports L m ! i) else wb_imports L m ! i))"
proof (induction "n - k" arbitrary: k m)
  case 0
  then show ?case by auto
next
  case (Suc d)
  define m1 where "m1 = (case patch_import (wb_imports L m ! k) of Some x \<Rightarrow> wb_SetImport L m k x | None \<Rightarrow> m)"
  have k: "k < n" using Suc.hyps(2) by simp
  have m1: "wb_imports L m1 = (wb_imports L m)[k := patched (wb_imports L m ! k)]"
    using assms by (auto simp: m1_def wabin_law_def patched_def split: option.split)
  have rest: "patch_imports L [k ..< n] m = patch_imports L [Suc k ..< n] m1"
    using k by (simp add: upt_conv_Cons m1_def)
  have "d = n - Suc k" "n \<le> length (wb_imports L m1)"
    using Suc.hyps(2) Suc.prems by (simp_all add: m1)
  from Suc.hyps(1) [OF this] show ?case
    unfolding rest using k by (auto simp: m1 nth_list_update Suc_le_eq le_less)
qed

lemma patch_imports_all:
  "wabin_law L \<Longrightarrow> wb_imports L (patch_imports L [0 ..< length (wb_imports L m)] m) = map patched (wb_imports L m)"
  using patch_imports_upt [of L "length (wb_imports L m)" m 0]
  by (intro nth_equalityI) simp_all

section \<open>Properties\<close>

text \<open>A host with Go 2.0.0 and a module library whose modules are a memory and imports.\<close>

definition demo_build :: build_env where
  "demo_build = \<lparr>be_env = Map.empty, be_run = (\<lambda>h cmd. None),
     be_output = (\<lambda>h cmd. (version_output ''go'' (version_text 2 0 (Some 0) @ '' '' @ ''linux/amd64''), None)),
     be_deps = (\<lambda>h t. None), be_MkdirAll = (\<lambda>h p. None), be_Stat = (\<lambda>h p. None),
     be_ReadFile = (\<lambda>h p. Inr [1]), be_WriteFile = (\<lambda>h p b. None)\<rparr>"

definition demo_wabin :: "(32 word \<times> (string \<times> string) list) wabin" where
  "demo_wabin = \<lparr>wb_DecodeModule = (\<lambda>b. Inr (2, [(''wasi'', ''path_filestat_get''), (''wasi'', ''fd_write'')])),
     wb_EncodeModule = (\<lambda>m. go_bytes (concat (map snd (snd m)))),
     wb_SetMin = (\<lambda>m n. Returns (n, snd m)), wb_imports = snd, wb_SetImport = (\<lambda>m i x. (fst m, (snd m)[i := x]))\<rparr>"

text \<open>C37: which tool versions the build accepts. When the tool reports version \<open>x.y\<close> or
  \<open>x.y.z\<close> (and, for TinyGo, no development build), the check passes exactly if each part is at
  least the same part of the minimum, missing parts being 0, and never panics. The parts are compared
  one by one, so that version 2.0.0 does not satisfy the minimum 1.23.\<close>

theorem version_check:
  assumes "lang \<in> {''go'', ''tinygo''}" and "rest = [] \<or> digit_val (hd rest) = None"
    and out: "\<And>h. be_output B h [lang, ''version''] = (version_output lang (version_text x y z @ '' '' @ rest), None)"
    and dev: "\<not> sublist ''-dev'' (version_output lang (version_text x y z @ '' '' @ rest))"
    and "x < 2 ^ 63" "y < 2 ^ 63" "patch z < 2 ^ 63" "a < 2 ^ 63" "b < 2 ^ 63" "patch c < 2 ^ 63"
  shows "wp (checkVersion B lang (version_text a b c))
     (\<lambda>r h'. h' = h @ [sh_Output [lang, ''version'']] \<and>
        (\<exists>e. r = Returns e \<and> (e = None) = (a \<le> x \<and> b \<le> y \<and> patch c \<le> patch z))) h"
proof (cases "lang = ''go''")
  case True
  then show ?thesis
    using compare_versions_numbers [OF assms(5-10), where lang = "''go''"] find_version(1) [OF assms(2), of x y z] out
    by (simp add: checkVersion_def wp)
next
  case False
  then have "lang = ''tinygo''" using assms(1) by simp
  then show ?thesis
    using compare_versions_numbers [OF assms(5-10), where lang = "''tinygo''"] find_version(2) [OF assms(2), of x y z] out dev
    by (simp add: checkVersion_def wp)
qed

lemma version_check_witness:
  "wp (checkVersion demo_build ''go'' (version_text 1 23 None)) (\<lambda>r h'. \<exists>e. r = Returns (Some e)) []"
proof -
  have rest: "''linux/amd64'' = [] \<or> digit_val (hd ''linux/amd64'') = None"
    by (simp add: digit_val_def of_char_def Let_def)
  have dev: "\<not> sublist ''-dev'' (version_output ''go'' (version_text 2 0 (Some 0) @ '' '' @ ''linux/amd64''))"
    by code_simp
  show ?thesis
    by (rule wp_mono [OF version_check [where lang = "''go''" and rest = "''linux/amd64''" and x = 2 and y = 0
            and z = "Some 0" and a = 1 and b = 23 and c = None]])
      (use rest dev in \<open>auto simp: demo_build_def patch_def\<close>)
qed

text \<open>C38: what a build does. It makes the directory, runs the TinyGo compiler once and, if the compiler
  succeeds, reads what it produced and writes the patched module as its last step; it reports success
  only if the directory, the compiler, the reading, the decoding and the writing all succeeded. The
  arguments of the compiler are written out here: the tags are the four fixed ones, multiphase
  evaluation unless \<open>MULTIPHASE_EVAL\<close> is \<open>false\<close>, the timing and the memory statistics tags
  exactly if the variables are \<open>true\<close>. The module that is written has the minimal memory set
  to the requested number of pages (2100 if none is requested) modulo \<open>2^32\<close>, its imports of
  \<open>fd_filestat_get\<close> and \<open>path_filestat_get\<close> replaced and all others as they were. Every other
  outcome is the error of exactly one step, after which no further step runs, or the panic of a module
  without a memory section; the filter is not written then.\<close>

theorem build_patches_module:
  assumes "wabin_law L"
  shows "\<exists>tags args. mset tags = mset [''custommalloc'', ''nottinygc_envoy'', ''no_fs_access'', ''memoize_builders''] +
       (if be_env B ''MULTIPHASE_EVAL'' \<noteq> Some ''false'' then {#''coraza.rule.multiphase_evaluation''#} else {#}) +
       (if be_env B ''TIMING'' = Some ''true'' then {#''timing'', ''proxywasm_timing''#} else {#}) +
       (if be_env B ''MEMSTATS'' = Some ''true'' then {#''memstats''#} else {#}) \<and>
     args = [''tinygo'', ''build'', ''-gc=custom'', ''-opt=2'', ''-o'', ''build/mainraw.wasm'', ''-scheduler=none'',
         ''-target=wasip1'', ''-tags='' @ [CHR 0x27] @ strings_Join tags '' '' @ [CHR 0x27]] @
       (case be_env B ''INTERP_TIMEOUT'' of None \<Rightarrow> [] | Some t \<Rightarrow> [''-interp-timeout='' @ t]) \<and>
     wp (Build_target B L)
       (\<lambda>r h'.
          let h1 = h @ [os_MkdirAll ''build'']; h2 = h1 @ [sh_RunV args]; h3 = h2 @ [os_ReadFile ''build/mainraw.wasm''];
              pages = (if Getenv B ''INITIAL_PAGES'' = [] then (2100, None) else AtoiN 64 (Getenv B ''INITIAL_PAGES''))
          in case r of
            Returns None \<Rightarrow>
              be_MkdirAll B h ''build'' = None \<and> snd pages = None \<and> be_run B h1 args = None \<and>
              (\<exists>raw m m1 m2. be_ReadFile B h2 ''build/mainraw.wasm'' = Inr raw \<and> wb_DecodeModule L raw = Inr m \<and>
                 wb_SetMin L m (word_of_int (fst pages)) = Returns m1 \<and>
                 m2 = patch_imports L [0 ..< length (wb_imports L m1)] m1 \<and>
                 wb_imports L m2 = map (\<lambda>(module, name).
                   if name = ''fd_filestat_get'' then (module, ''fd_fdstat_get'')
                   else if name = ''path_filestat_get'' then (''env'', ''proxy_get_header_map_value'')
                   else (module, name)) (wb_imports L m) \<and>
                 be_WriteFile B h3 ''build/main.wasm'' (wb_EncodeModule L m2) = None \<and>
                 h' = h3 @ [os_WriteFile ''build/main.wasm'' (wb_EncodeModule L m2)])
          | Returns (Some e) \<Rightarrow>
              h' = h1 \<and> (be_MkdirAll B h ''build'' = Some e \<or> snd pages = Some e) \<or>
              h' = h2 \<and> be_run B h1 args = Some e \<or>
              h' = h3 \<and> (case be_ReadFile B h2 ''build/mainraw.wasm'' of
                 Inl e' \<Rightarrow> e' = e | Inr raw \<Rightarrow> wb_DecodeModule L raw = Inl e) \<or>
              (\<exists>out. h' = h3 @ [os_WriteFile ''build/main.wasm'' out] \<and>
                 be_WriteFile B h3 ''build/main.wasm'' out = Some e)
          | Panics p \<Rightarrow> h' = h3 \<and> (\<exists>m. wb_SetMin L m (word_of_int (fst pages)) = Panics p)) h"
proof -
  have all: "wb_imports L (patch_imports L [0 ..< length (wb_imports L m1)] m1) = map patched (wb_imports L m)"
    if "wb_SetMin L m n = Returns m1" for m n m1
    using patch_imports_all [OF assms, of m1] assms that by (simp add: wabin_law_def)
  have patched: "patched = (\<lambda>(module, name).
      if name = ''fd_filestat_get'' then (module, ''fd_fdstat_get'')
      else if name = ''path_filestat_get'' then (''env'', ''proxy_get_header_map_value'') else (module, name))"
    by (auto simp: patched_def fun_eq_iff)
  let ?tags = "build_tags B" and ?args = "''tinygo'' # build_args B"
  have tags: "mset ?tags = mset [''custommalloc'', ''nottinygc_envoy'', ''no_fs_access'', ''memoize_builders''] +
       (if be_env B ''MULTIPHASE_EVAL'' \<noteq> Some ''false'' then {#''coraza.rule.multiphase_evaluation''#} else {#}) +
       (if be_env B ''TIMING'' = Some ''true'' then {#''timing'', ''proxywasm_timing''#} else {#}) +
       (if be_env B ''MEMSTATS'' = Some ''true'' then {#''memstats''#} else {#})"
    by (simp add: build_tags_def Getenv_def split: option.split)
  have pages: "initial_pages B = (case (if Getenv B ''INITIAL_PAGES'' = [] then (2100, None)
      else AtoiN 64 (Getenv B ''INITIAL_PAGES'')) of (n, None) \<Rightarrow> Inr n | (_, Some e) \<Rightarrow> Inl e)"
    by (simp add: initial_pages_def Let_def)
  show ?thesis
  proof (rule exI [of _ ?tags], rule exI [of _ ?args], intro conjI tags, goal_cases)
    case 1
    show ?case by (simp add: build_args_def split: option.split)
  next
    case 2
    show ?case
      unfolding Build_target_def patchWasm_def RunV_def pages Let_def
      by (intro vcg wp_perform [THEN iffD2])
        (auto simp: all patched split: sum.splits option.splits outcome.splits prod.splits)
  qed
qed

lemma build_patches_module_witness:
  "wp (Build_target demo_build demo_wabin)
     (\<lambda>r h'. r = Returns None \<and> (\<exists>m2. last h' = os_WriteFile ''build/main.wasm'' (wb_EncodeModule demo_wabin m2) \<and>
        wb_imports demo_wabin m2 = [(''env'', ''proxy_get_header_map_value''), (''wasi'', ''fd_write'')])) []"
proof -
  have law: "wabin_law demo_wabin" by (simp add: wabin_law_def demo_wabin_def)
  have decode: "wb_imports demo_wabin m = [(''wasi'', ''path_filestat_get''), (''wasi'', ''fd_write'')]"
    if "wb_DecodeModule demo_wabin raw = Inr m" for raw m
    using that by (auto simp: demo_wabin_def)
  have fine: "be_MkdirAll demo_build h p = None" "be_run demo_build h a = None" "Getenv demo_build v = []"
    "be_ReadFile demo_build h p = Inr [1]" "be_WriteFile demo_build h p b = None" "wb_SetMin demo_wabin m n \<noteq> Panics q"
    "wb_DecodeModule demo_wabin raw \<noteq> Inl e" for h p a v b m n q raw e
    by (simp_all add: demo_build_def demo_wabin_def Getenv_def)
  show ?thesis
    by (insert build_patches_module [OF law, of demo_build "[]"], elim exE conjE, erule wp_mono)
      (auto simp: fine decode Let_def simp del: split_paired_Ex split: outcome.splits option.splits)
qed

end
