(* ===== verification/Drivers.thy ===== *)
theory Drivers
  imports Build
begin

text \<open>
  \<open>magefiles/e2etest.go\<close> and \<open>magefiles/loadtest.go\<close>: the drivers that start a
  deployment, send requests to the proxy and judge the answers. Their effects are the
  \<open>build_op\<close>s of the other targets; what the network, the load generator and the removal of
  files answer is added to the environment. A response of the HTTP client without an error always has
  a body, so that a response is its status here.
\<close>

section \<open>The environment of the drivers\<close>

text \<open>What the load generator measured: the number of calls, their average duration, calls per second.\<close>

record load_result =
  lr_Count :: int
  lr_Avg :: f64
  lr_ActualQPS :: f64

record driver_env = build_env +
  de_Get :: "build_history \<Rightarrow> string \<Rightarrow> goerror + int"
  de_NewRequest :: "string \<Rightarrow> string \<Rightarrow> goerror option"
  de_Do :: "build_history \<Rightarrow> http_request \<Rightarrow> goerror + int"
  de_Payload :: "build_history \<Rightarrow> int \<Rightarrow> bytes"
  de_RunHTTPTest :: "build_history \<Rightarrow> load_options \<Rightarrow> goerror + load_result"

definition act :: "build_op \<Rightarrow> unit build" where
  "act op = perform op (\<lambda>h. ())"

definition RunOutput :: "'z build_env_scheme \<Rightarrow> string list \<Rightarrow> (string \<times> goerror option) build" where
  "RunOutput E cmd = perform (sh_Output cmd) (\<lambda>h. be_output E h cmd)"

definition Get :: "driver_env \<Rightarrow> string \<Rightarrow> (goerror + int) build" where
  "Get E url = perform (http_Get url) (\<lambda>h. de_Get E h url)"

text \<open>A deferred call: it runs after the rest of the function and does not change its result.\<close>

definition deferring :: "unit build \<Rightarrow> 'a build \<Rightarrow> 'a build" where
  "deferring cleanup body = do { r \<leftarrow> body; cleanup; ret r }"

text \<open>A command whose error is dropped.\<close>

definition RunV_ignoring :: "'z build_env_scheme \<Rightarrow> string list \<Rightarrow> unit build" where
  "RunV_ignoring E cmd = do { _ \<leftarrow> RunV E cmd; ret () }"

definition compose :: "string \<Rightarrow> string list \<Rightarrow> string list" where
  "compose file args = [''docker'', ''compose'', ''--file'', file] @ args"

definition compose_logs :: "string \<Rightarrow> string list" where
  "compose_logs file = [''docker'', ''compose'', ''-f'', file, ''logs'', ''envoy'']"

definition StatusOK :: int where
  "StatusOK = 200"

definition StatusForbidden :: int where
  "StatusForbidden = 403"

section \<open>End-to-end tests\<close>

text \<open>\<open>cmp.Or\<close> of two texts.\<close>

definition cmp_Or :: "string \<Rightarrow> string \<Rightarrow> string" where
  "cmp_Or x y = (if x \<noteq> [] then x else y)"

definition coraza_compose :: string where
  "coraza_compose = ''e2e/coraza/docker-compose.yml''"

definition runCorazaE2e :: "driver_env \<Rightarrow> string \<Rightarrow> string \<Rightarrow> target" where
  "runCorazaE2e E envoyHost httpbinHost = do {
     err \<leftarrow> RunV E (compose coraza_compose [''up'', ''-d'', ''envoy'']);
     case err of
       Some err \<Rightarrow> do {
         RunV_ignoring E (compose_logs coraza_compose);
         ret (Some err) }
     | None \<Rightarrow> deferring (RunV_ignoring E (compose coraza_compose [''down'', ''-v''])) (do {
         err \<leftarrow> RunV E [''go'', ''run'', ''github.com/corazawaf/coraza/v3/http/e2e/cmd/httpe2e@main'',
           ''--proxy-hostport'', ''http://'' @ envoyHost, ''--httpbin-hostport'', ''http://'' @ httpbinHost,
           ''--nulled-body''];
         _ \<leftarrow> if err \<noteq> None then RunV_ignoring E (compose_logs coraza_compose) else ret ();
         ret err }) }"

definition trailer_compose :: string where
  "trailer_compose = ''e2e/http_trailer/docker-compose.yml''"

definition server_key :: string where
  "server_key = ''e2e/http_trailer/server.key''"

definition server_crt :: string where
  "server_crt = ''e2e/http_trailer/server.crt''"

definition mkcert :: "string list" where
  "mkcert = [''go'', ''run'', ''filippo.io/mkcert@v1.4.4'', ''-key-file'', server_key,
     ''-cert-file'', server_crt, ''example.com'']"

text \<open>The loop that waits for the proxy, with the number of attempts left; is it ready?\<close>

fun await_envoy :: "driver_env \<Rightarrow> string \<Rightarrow> nat \<Rightarrow> bool build" where
  "await_envoy E url 0 = ret False"
| "await_envoy E url (Suc n) = do {
     resp \<leftarrow> Get E url;
     if resp = Inr StatusOK
     then do { act Body_Close; ret True }
     else do {
       act (time_Sleep 500000000);
       act (Println (Fmt ''Waiting for Envoy to be ready...'' []));
       await_envoy E url n } }"

definition trailer_request :: "string \<Rightarrow> http_request" where
  "trailer_request envoyHost = \<lparr>rq_Method = ''POST'', rq_URL = ''https://'' @ envoyHost,
     rq_Body = ''{\"foo\": \"<script foo>\"}'', rq_Header = [(''Content-Type'', [''application/json''])],
     rq_Trailer = [(''Custom-Trailer'', [''This is a custom trailer''])]\<rparr>"

definition blocked_phase :: string where
  "blocked_phase = ''phase=\"http_request_body\"''"

text \<open>The verdict on the status of the response and the log of the proxy.\<close>

definition judge_trailer_test :: "int \<Rightarrow> string \<Rightarrow> target" where
  "judge_trailer_test status output =
     (if status \<noteq> StatusForbidden
      then ret (Some (Fmt ''unexpected status code: got %d, want %d'' [AInt status, AInt StatusForbidden]))
      else if \<not> sublist blocked_phase output
      then ret (Some (Fmt (''expected '' @ blocked_phase @
        '' in envoy logs transaction interrupted line, got:'' @ [CHR 0x0A] @ ''%s'') [AStr output]))
      else do {
        act (Printf (Fmt ([CHR 0xE2, CHR 0x9C, CHR 0x85] @ '' HTTP trailer test passed'' @ [CHR 0x0A]) []));
        ret None })"

definition send_trailer_request :: "driver_env \<Rightarrow> string \<Rightarrow> target" where
  "send_trailer_request E envoyHost =
     (let req = trailer_request envoyHost
      in case de_NewRequest E (rq_Method req) (rq_URL req) of
        Some err \<Rightarrow> ret (Some (Fmt ''creating request: %w'' [AMsg err]))
      | None \<Rightarrow> do {
          resp \<leftarrow> perform (http_Do req) (\<lambda>h. de_Do E h req);
          case resp of
            Inl err \<Rightarrow> do {
              RunV_ignoring E (compose_logs trailer_compose);
              ret (Some (Fmt ''sending request: %w'' [AMsg err])) }
          | Inr status \<Rightarrow> deferring (act Body_Close) (do {
              out \<leftarrow> RunOutput E (compose_logs trailer_compose);
              case snd out of
                Some err \<Rightarrow> ret (Some (Fmt ''getting envoy logs: %w'' [AMsg err]))
              | None \<Rightarrow> judge_trailer_test status (fst out) }) })"

definition runHttpTrailerE2e :: "driver_env \<Rightarrow> string \<Rightarrow> target" where
  "runHttpTrailerE2e E envoyHost = do {
     act (Printf (Fmt (''Running HTTP trailer test'' @ [CHR 0x0A]) []));
     or_fail (RunV E mkcert)
       (deferring (do { act (os_Remove server_key); act (os_Remove server_crt) }) (do {
          err \<leftarrow> RunV E (compose trailer_compose [''up'', ''-d'', ''envoy'']);
          case err of
            Some err \<Rightarrow> do {
              RunV_ignoring E (compose_logs trailer_compose);
              ret (Some err) }
          | None \<Rightarrow> deferring (RunV_ignoring E (compose trailer_compose [''down'', ''-v''])) (do {
              ready \<leftarrow> await_envoy E (''https://'' @ envoyHost) 20;
              if \<not> ready
              then do {
                RunV_ignoring E (compose_logs trailer_compose);
                ret (Some (errors_New ''timeout waiting for Envoy'')) }
              else send_trailer_request E envoyHost }) })) }"

definition E2e :: "driver_env \<Rightarrow> target" where
  "E2e E = (let envoyHost = cmp_Or (Getenv E ''ENVOY_HOST'') ''localhost:8080'';
                httpbinHost = cmp_Or (Getenv E ''HTTPBIN_HOST'') ''localhost:8081''
            in or_fail (runCorazaE2e E envoyHost httpbinHost) (runHttpTrailerE2e E envoyHost))"

section \<open>Load tests\<close>

definition durationPerTest :: int where
  "durationPerTest = 10 * 1000000000"

definition qpsPerTest :: int where
  "qpsPerTest = 100"

record LoadTestResult =
  lt_config :: string
  lt_payloadSize :: int
  lt_threads :: int
  lt_count :: int
  lt_avgLatency :: f64
  lt_qps :: f64

definition ftw_file :: string where
  "ftw_file = ''ftw/docker-compose.yml''"

definition load_url :: string where
  "load_url = ''http://localhost:8080/anything''"

text \<open>The loop that waits for the proxy; the test goes on also when it never got ready.\<close>

fun await_load_target :: "driver_env \<Rightarrow> nat \<Rightarrow> unit build" where
  "await_load_target E 0 = ret ()"
| "await_load_target E (Suc n) = do {
     resp \<leftarrow> Get E load_url;
     case resp of
       Inl err \<Rightarrow> do { act (time_Sleep 50000000); await_load_target E n }
     | Inr status \<Rightarrow> do {
         act Body_Close;
         if status = StatusOK
         then act (Println (Fmt ''Envoy ready'' []))
         else do { act (time_Sleep 50000000); await_load_target E n } } }"

text \<open>\<open>1000. * x\<close>\<close>

definition milliseconds :: "f64 \<Rightarrow> f64" where
  "milliseconds x = Mul64 (F64 0x408F400000000000) x"

definition load_options_of :: "int \<Rightarrow> bytes \<Rightarrow> load_options" where
  "load_options_of threads payload = \<lparr>lo_QPS = qpsPerTest, lo_NumThreads = threads,
     lo_Duration = durationPerTest, lo_URL = load_url, lo_Payload = payload\<rparr>"

definition generate_load :: "driver_env \<Rightarrow> string \<Rightarrow> int \<Rightarrow> int \<Rightarrow> (goerror + LoadTestResult) build" where
  "generate_load E conf payloadSize threads = do {
     payload \<leftarrow> perform (fnet_Payload payloadSize) (\<lambda>h. de_Payload E h payloadSize);
     let opts = load_options_of threads payload;
     act (Printf (Fmt (''Running load test with config=%s, payloadSize=%d, threads=%d'' @ [CHR 0x0A])
       [AStr conf, AInt payloadSize, AInt threads]));
     res \<leftarrow> perform (fhttp_Run opts) (\<lambda>h. de_RunHTTPTest E h opts);
     case res of
       Inl err \<Rightarrow> ret (Inl err)
     | Inr rr \<Rightarrow> do {
         act (Printf (Fmt (''All done %d calls (plus %d warmup) %.3f ms avg, %.1f qps'' @ [CHR 0x0A])
           [AInt (lr_Count rr), AInt 0, AFloat (milliseconds (lr_Avg rr)), AFloat (lr_ActualQPS rr)]));
         ret (Inr \<lparr>lt_config = conf, lt_payloadSize = payloadSize, lt_threads = threads, lt_count = lr_Count rr,
           lt_avgLatency = milliseconds (lr_Avg rr), lt_qps = lr_ActualQPS rr\<rparr>) } }"

definition doLoadTest :: "driver_env \<Rightarrow> string \<Rightarrow> int \<Rightarrow> int \<Rightarrow> (goerror + LoadTestResult) build" where
  "doLoadTest E conf payloadSize threads = do {
     err \<leftarrow> RunV E (compose ftw_file [''build'', ''--pull'']);
     case err of
       Some err \<Rightarrow> ret (Inl err)
     | None \<Rightarrow> deferring (do {
           RunV_ignoring E (compose ftw_file [''kill'']);
           RunV_ignoring E (compose ftw_file [''down'', ''-v'']) }) (do {
         err \<leftarrow> RunWithV E [(''ENVOY_CONFIG'', ''/conf/'' @ conf)]
           (compose ftw_file [''run'', ''--service-ports'', ''--rm'', ''-d'', ''envoy'']);
         case err of
           Some err \<Rightarrow> ret (Inl err)
         | None \<Rightarrow> do {
             await_load_target E 1000;
             generate_load E conf payloadSize threads } }) }"

text \<open>The three nested loops, as the list of what they run.\<close>

definition load_cases :: "(int \<times> int \<times> string) list" where
  "load_cases = [(threads, payloadSize, conf). threads \<leftarrow> [1, 2, 4], payloadSize \<leftarrow> [0, 100, 1000, 10000],
     conf \<leftarrow> [''envoy-config.yaml'', ''envoy-config-nowasm.yaml'']]"

fun run_load_cases ::
  "driver_env \<Rightarrow> (int \<times> int \<times> string) list \<Rightarrow> LoadTestResult list \<Rightarrow> (goerror + LoadTestResult list) build" where
  "run_load_cases E [] results = ret (Inr results)"
| "run_load_cases E ((threads, payloadSize, conf) # cases) results = do {
     r \<leftarrow> doLoadTest E conf payloadSize threads;
     case r of
       Inl err \<Rightarrow> ret (Inl err)
     | Inr result \<Rightarrow> run_load_cases E cases (results @ [result]) }"

text \<open>\<open>\t\<close> separates the cells of a row, \<open>\n\<close> ends it.\<close>

definition tab :: string where
  "tab = [CHR 0x09]"

definition table_row :: "LoadTestResult \<Rightarrow> msg" where
  "table_row r = Fmt (''%s'' @ tab @ ''%d'' @ tab @ ''%d'' @ tab @ ''%d'' @ tab @ ''%.3f'' @ tab @ tab @ ''%.1f'' @ [CHR 0x0A])
     [AStr (lt_config r), AInt (lt_payloadSize r), AInt (lt_threads r), AInt (lt_count r),
      AFloat (lt_avgLatency r), AFloat (lt_qps r)]"

fun print_rows :: "LoadTestResult list \<Rightarrow> unit build" where
  "print_rows [] = ret ()"
| "print_rows (r # rs) = do { act (Fprint_table (table_row r)); print_rows rs }"

definition LoadTest :: "driver_env \<Rightarrow> target" where
  "LoadTest E = do {
     results \<leftarrow> run_load_cases E load_cases [];
     case results of
       Inl err \<Rightarrow> ret (Some err)
     | Inr results \<Rightarrow> do {
         act (Printf (Fmt (''Load Test Results:'' @ [CHR 0x0A] @ ''Duration per test: %s'' @ [CHR 0x0A] @
           ''Attempted QPS per test: %d'' @ [CHR 0x0A]) [AInt durationPerTest, AInt qpsPerTest]));
         act (Fprint_table (Fmt (''Config'' @ tab @ ''PayloadSize'' @ tab @ ''Threads'' @ tab @ ''Count'' @ tab @
           ''AvgLatency(ms)'' @ tab @ tab @ ''QPS'' @ [CHR 0x0A]) []));
         print_rows results;
         act Flush_table;
         ret None } }"

section \<open>Symbolic execution\<close>

lemma wp_act [wp]: "wp (act op) Q = (\<lambda>h. Q () (h @ [op]))"
  by (simp add: act_def wp fun_eq_iff)

lemma wp_RunV_ignoring [wp]: "wp (RunV_ignoring E cmd) Q = (\<lambda>h. Q () (h @ [sh_RunV cmd]))"
  by (simp add: RunV_ignoring_def RunV_def wp fun_eq_iff)

lemma wp_RunV [wp]: "wp (RunV E cmd) Q h = Q (be_run E h cmd) (h @ [sh_RunV cmd])"
  by (simp add: RunV_def wp)

lemma wp_RunWithV [wp]: "wp (RunWithV E vars cmd) Q h = Q (be_run E h cmd) (h @ [sh_RunWithV vars cmd])"
  by (simp add: RunWithV_def wp)

lemma wp_deferring [wp]: "wp (deferring c m) Q = wp m (\<lambda>r. wp c (\<lambda>_. Q r))"
  by (simp add: deferring_def wp fun_eq_iff)

lemma wp_or_fail [wp]:
  "wp (or_fail m rest) Q = wp m (\<lambda>e h. case e of Some err \<Rightarrow> Q (Some err) h | None \<Rightarrow> wp rest Q h)"
  unfolding or_fail_def wp_bind
  by (rule arg_cong [where f = "wp m"]) (auto simp: fun_eq_iff wp split: option.split)

text \<open>Attempts that found the proxy not ready, and the first one that finds it ready.\<close>

fun attempts :: "string \<Rightarrow> nat \<Rightarrow> build_history" where
  "attempts url 0 = []"
| "attempts url (Suc k) =
     [http_Get url, time_Sleep 500000000, Println (Fmt ''Waiting for Envoy to be ready...'' [])] @ attempts url k"

definition ready_after :: "driver_env \<Rightarrow> string \<Rightarrow> build_history \<Rightarrow> nat \<Rightarrow> bool" where
  "ready_after E url h k \<longleftrightarrow> de_Get E (h @ attempts url k) url = Inr StatusOK"

lemma find_shift: "find P [Suc 0 ..< Suc n] = map_option Suc (find (\<lambda>k. P (Suc k)) [0 ..< n])"
proof -
  have "find P (map f xs) = map_option f (find (\<lambda>k. P (f k)) xs)" for f :: "nat \<Rightarrow> nat" and xs
    by (induction xs) simp_all
  from this [of Suc "[0 ..< n]"] show ?thesis by (simp add: map_Suc_upt del: upt_Suc)
qed

lemma wp_await_envoy [wp]:
  "wp (await_envoy E url n) Q h =
     (case find (ready_after E url h) [0 ..< n] of
        Some k \<Rightarrow> Q True (h @ attempts url k @ [http_Get url, Body_Close])
      | None \<Rightarrow> Q False (h @ attempts url n))"
proof (induction n arbitrary: h)
  case 0
  then show ?case by (simp add: wp)
next
  case (Suc n)
  let ?wait = "[http_Get url, time_Sleep 500000000, Println (Fmt ''Waiting for Envoy to be ready...'' [])]"
  have step: "ready_after E url (h @ ?wait) k = ready_after E url h (Suc k)" for k
    by (simp add: ready_after_def)
  show ?case
    using Suc.IH [of "h @ ?wait"]
    by (simp add: wp Get_def upt_conv_Cons find_shift step ready_after_def [of E url h 0] del: upt_Suc
        split: option.split)
qed

section \<open>What a driver leaves behind\<close>

text \<open>The deployments and key files an operation makes when it succeeds, and those it removes.\<close>

definition compose_verb :: "string list \<Rightarrow> (string \<times> string) option" where
  "compose_verb cmd = (case cmd of
     a # b # c # file # verb # _ \<Rightarrow> if [a, b, c] = [''docker'', ''compose'', ''--file''] then Some (file, verb) else None
   | _ \<Rightarrow> None)"

definition makes :: "string list \<Rightarrow> string set" where
  "makes cmd = (if cmd = mkcert then {server_key, server_crt}
     else case compose_verb cmd of
       Some (file, verb) \<Rightarrow> if verb \<in> {''up'', ''run''} then {file} else {}
     | None \<Rightarrow> {})"

definition unmakes :: "string list \<Rightarrow> string set" where
  "unmakes cmd = (case compose_verb cmd of Some (file, verb) \<Rightarrow> if verb = ''down'' then {file} else {} | None \<Rightarrow> {})"

definition leftovers_step :: "'z build_env_scheme \<Rightarrow> build_history \<Rightarrow> build_op \<Rightarrow> string set \<Rightarrow> string set" where
  "leftovers_step E h op D = (case op of
     sh_RunV cmd \<Rightarrow> (D - unmakes cmd) \<union> (if be_run E h cmd = None then makes cmd else {})
   | sh_RunWithV vars cmd \<Rightarrow> (D - unmakes cmd) \<union> (if be_run E h cmd = None then makes cmd else {})
   | os_Remove p \<Rightarrow> D - {p}
   | _ \<Rightarrow> D)"

fun leftovers_rev :: "'z build_env_scheme \<Rightarrow> build_history \<Rightarrow> string set" where
  "leftovers_rev E [] = {}"
| "leftovers_rev E (op # older) = leftovers_step E (rev older) op (leftovers_rev E older)"

definition leftovers :: "'z build_env_scheme \<Rightarrow> build_history \<Rightarrow> string set" where
  "leftovers E h = leftovers_rev E (rev h)"

lemma leftovers_snoc: "leftovers E (h @ [op]) = leftovers_step E h op (leftovers E h)"
  by (simp add: leftovers_def)

fun makes_nothing :: "build_op \<Rightarrow> bool" where
  "makes_nothing (sh_RunV _) = False"
| "makes_nothing (sh_RunWithV _ _) = False"
| "makes_nothing (os_Remove _) = False"
| "makes_nothing _ = True"

lemma leftovers_step_idle [simp]: "makes_nothing op \<Longrightarrow> leftovers_step E h op D = D"
  by (cases op) (simp_all add: leftovers_step_def)

lemma leftovers_idle: "list_all makes_nothing new \<Longrightarrow> leftovers E (h @ new) = leftovers E h"
proof (induction new rule: rev_induct)
  case Nil
  then show ?case by simp
next
  case (snoc op new)
  then show ?case using leftovers_snoc [of E "h @ new" op] by simp
qed

lemma attempts_idle: "list_all makes_nothing (attempts url k)"
  by (induction k) simp_all

lemma leftovers_attempts:
  "leftovers E (h @ attempts url k) = leftovers E h"
  "leftovers E (h @ attempts url k @ [http_Get url, Body_Close]) = leftovers E h"
  by (simp_all add: leftovers_idle attempts_idle)

text \<open>The history as one operation after another.\<close>

lemma snoc_of_Cons: "h @ (op # ops) = (h @ [op]) @ ops"
  by simp

lemma verb_compose [simp]:
  "compose_verb (compose file (verb # args)) = Some (file, verb)"
  "compose_verb (compose_logs file) = None"
  "compose_verb mkcert = None"
  "compose_verb (''go'' # args) = None"
  by (auto simp: compose_verb_def compose_def compose_logs_def mkcert_def split: list.split)

lemma compose_not_mkcert [simp]: "compose file args \<noteq> mkcert" "compose_logs file \<noteq> mkcert"
  "''go'' # ''run'' # ''github.com/corazawaf/coraza/v3/http/e2e/cmd/httpe2e@main'' # args \<noteq> mkcert"
  by (simp_all add: compose_def compose_logs_def mkcert_def)

lemma leftovers_of:
  "leftovers E (h @ [sh_RunV (compose file (''up'' # args))]) =
     (if be_run E h (compose file (''up'' # args)) = None then insert file (leftovers E h) else leftovers E h)"
  "leftovers E (h @ [sh_RunWithV vars (compose file (''run'' # args))]) =
     (if be_run E h (compose file (''run'' # args)) = None then insert file (leftovers E h) else leftovers E h)"
  "leftovers E (h @ [sh_RunV (compose file (''down'' # args))]) = leftovers E h - {file}"
  "leftovers E (h @ [sh_RunV (compose file (''build'' # args))]) = leftovers E h"
  "leftovers E (h @ [sh_RunV (compose file (''kill'' # args))]) = leftovers E h"
  "leftovers E (h @ [sh_RunV (compose_logs file)]) = leftovers E h"
  "leftovers E (h @ [sh_RunV mkcert]) =
     (if be_run E h mkcert = None then {server_key, server_crt} \<union> leftovers E h else leftovers E h)"
  "leftovers E (h @ [os_Remove p]) = leftovers E h - {p}"
  "leftovers E (h @ [sh_RunV (''go'' # ''run'' # ''github.com/corazawaf/coraza/v3/http/e2e/cmd/httpe2e@main'' # args)]) =
     leftovers E h"
  "makes_nothing op \<Longrightarrow> leftovers E (h @ [op]) = leftovers E h"
  using leftovers_idle [of "[op]" E h] by (auto simp: leftovers_snoc leftovers_step_def makes_def unmakes_def)

section \<open>How much a driver does\<close>

fun polls :: "build_history \<Rightarrow> nat" where
  "polls [] = 0"
| "polls (http_Get url # h) = Suc (polls h)"
| "polls (op # h) = polls h"

fun slept :: "build_history \<Rightarrow> int" where
  "slept [] = 0"
| "slept (time_Sleep d # h) = d + slept h"
| "slept (op # h) = slept h"

lemma polls_append [simp]: "polls (g @ h) = polls g + polls h"
  by (induction g rule: polls.induct) simp_all

lemma slept_append [simp]: "slept (g @ h) = slept g + slept h"
  by (induction g rule: slept.induct) simp_all

lemma attempts_cost [simp]: "polls (attempts url k) = k" "slept (attempts url k) = int k * 500000000"
  by (induction k) (simp_all add: algebra_simps)

section \<open>Load tests\<close>

lemma await_load_target_cost:
  "wp (await_load_target E n) (\<lambda>_ h'. \<exists>new. h' = h @ new \<and> list_all makes_nothing new \<and>
     polls new \<le> n \<and> slept new \<le> int n * 50000000) h"
proof (induction n arbitrary: h)
  case 0
  then show ?case by (simp add: wp)
next
  case (Suc n)
  have more: "wp (await_load_target E n) (\<lambda>_ h'. \<exists>new. h' = h @ new \<and> list_all makes_nothing new \<and>
     polls new \<le> Suc n \<and> slept new \<le> int (Suc n) * 50000000) (h @ http_Get load_url # first)"
    if "list_all makes_nothing first" "polls first = 0" "slept first = 50000000" for first
    by (rule wp_mono [OF Suc.IH]) (use that in \<open>fastforce simp: algebra_simps\<close>)
  show ?case
    using more [of "[time_Sleep 50000000]"] more [of "[Body_Close, time_Sleep 50000000]"]
    by (simp add: wp Get_def)
qed

text \<open>A result is what the load generator answered for its case, the proxy having been started for it.\<close>

definition measured :: "driver_env \<Rightarrow> build_history \<Rightarrow> int \<times> int \<times> string \<Rightarrow> LoadTestResult \<Rightarrow> bool" where
  "measured E h = (\<lambda>(threads, payloadSize, conf) r. \<exists>before started waited banner payload rr.
     started = before @ [sh_RunWithV [(''ENVOY_CONFIG'', ''/conf/'' @ conf)]
       (compose ftw_file [''run'', ''--service-ports'', ''--rm'', ''-d'', ''envoy''])] @ waited \<and>
     list_all makes_nothing waited \<and> payload = de_Payload E started payloadSize \<and>
     prefix (started @ [fnet_Payload payloadSize, Printf banner, fhttp_Run (load_options_of threads payload)]) h \<and>
     de_RunHTTPTest E (started @ [fnet_Payload payloadSize, Printf banner]) (load_options_of threads payload) = Inr rr \<and>
     r = \<lparr>lt_config = conf, lt_payloadSize = payloadSize, lt_threads = threads, lt_count = lr_Count rr,
       lt_avgLatency = milliseconds (lr_Avg rr), lt_qps = lr_ActualQPS rr\<rparr>)"

lemma measured_prefix:
  assumes "measured E h c r" and "prefix h h'"
  shows "measured E h' c r"
proof (cases c)
  case (fields threads payloadSize conf)
  show ?thesis
    using assms unfolding fields measured_def prod.case by (blast intro: prefix_order.trans)
qed

lemma measured_append: "measured E h c r \<Longrightarrow> measured E (h @ new) c r"
  by (erule measured_prefix) simp

lemma generate_load_spec:
  fixes new :: build_history
  assumes h: "h = start @ [sh_RunWithV [(''ENVOY_CONFIG'', ''/conf/'' @ conf)]
            (compose ftw_file [''run'', ''--service-ports'', ''--rm'', ''-d'', ''envoy''])] @ new"
    and idle: "list_all makes_nothing new"
  shows "wp (generate_load E conf payloadSize threads)
     (\<lambda>r h'. \<exists>new. h' = h @ new \<and> list_all makes_nothing new \<and> polls new = 0 \<and> slept new = 0 \<and>
        (\<forall>result. r = Inr result \<longrightarrow> measured E h' (threads, payloadSize, conf) result)) h"
proof -
  define banner where "banner = Fmt (''Running load test with config=%s, payloadSize=%d, threads=%d'' @ [CHR 0x0A])
       [AStr conf, AInt payloadSize, AInt threads]"
  have ran: "measured E (h @ [fnet_Payload payloadSize, Printf banner, fhttp_Run (load_options_of threads payload), out])
      (threads, payloadSize, conf) \<lparr>lt_config = conf, lt_payloadSize = payloadSize, lt_threads = threads,
       lt_count = lr_Count rr, lt_avgLatency = milliseconds (lr_Avg rr), lt_qps = lr_ActualQPS rr\<rparr>"
    if "payload = de_Payload E h payloadSize" and
      "de_RunHTTPTest E (h @ [fnet_Payload payloadSize, Printf banner]) (load_options_of threads payload) = Inr rr"
    for payload rr out
    unfolding measured_def prod.case
    by (intro exI [of _ start] exI [of _ new] exI [of _ banner] exI [of _ payload] exI [of _ rr] exI)
      (use that idle in \<open>auto simp: h\<close>)
  show ?thesis
    unfolding generate_load_def banner_def [symmetric]
    using ran [OF refl] by (auto simp: wp banner_def)
qed

definition load_test_spec :: "driver_env \<Rightarrow> build_history \<Rightarrow> nat \<Rightarrow> build_history \<Rightarrow> bool" where
  "load_test_spec E h n h' \<longleftrightarrow> leftovers E h' \<subseteq> leftovers E h \<and>
     (\<exists>new. h' = h @ new \<and> polls new \<le> n * 1000 \<and> slept new \<le> int n * 50000000000)"

lemma load_test_spec_trans:
  "load_test_spec E h m h1 \<Longrightarrow> load_test_spec E h1 n h2 \<Longrightarrow> load_test_spec E h (m + n) h2"
  unfolding load_test_spec_def by (force simp: algebra_simps)

lemma doLoadTest_spec:
  "wp (doLoadTest E conf payloadSize threads)
     (\<lambda>r h'. load_test_spec E h 1 h' \<and> (\<forall>result. r = Inr result \<longrightarrow> measured E h' (threads, payloadSize, conf) result)) h"
proof -
  let ?build = "sh_RunV (compose ftw_file [''build'', ''--pull''])"
  let ?run = "compose ftw_file [''run'', ''--service-ports'', ''--rm'', ''-d'', ''envoy'']"
  let ?start = "h @ [?build]"
  define h1 where "h1 = ?start @ [sh_RunWithV [(''ENVOY_CONFIG'', ''/conf/'' @ conf)] ?run]"
  define stop where "stop = [sh_RunV (compose ftw_file [''kill'']), sh_RunV (compose ftw_file [''down'', ''-v''])]"
  have stop: "leftovers E (g @ stop) = leftovers E g - {ftw_file}" for g
    using leftovers_of(3) [of E "g @ [sh_RunV (compose ftw_file [''kill''])]"]
    by (simp add: stop_def leftovers_of)
  have started: "leftovers E h1 \<subseteq> insert ftw_file (leftovers E h)"
    unfolding h1_def by (auto simp: leftovers_of simp del: append_assoc)
  have stopped: "load_test_spec E h 1 (h1 @ new @ stop)"
    if "list_all makes_nothing new" "polls new \<le> 1000" "slept new \<le> 50000000000" for new
    using that started leftovers_idle [of new E h1] stop [of "h1 @ new"]
    unfolding load_test_spec_def by (auto simp: h1_def stop_def)
  have failed: "load_test_spec E h 1 ?start"
    by (auto simp: load_test_spec_def leftovers_of)
  have measure: "wp (do { await_load_target E 1000; generate_load E conf payloadSize threads })
     (\<lambda>r h2. load_test_spec E h 1 (h2 @ stop) \<and>
        (\<forall>result. r = Inr result \<longrightarrow> measured E (h2 @ stop) (threads, payloadSize, conf) result)) h1"
    unfolding wp_bind
  proof (rule wp_mono [OF await_load_target_cost], elim exE conjE)
    fix u h2 waited
    assume h2: "h2 = h1 @ waited" and waited: "list_all makes_nothing waited" "polls waited \<le> 1000"
      "slept waited \<le> int 1000 * 50000000"
    show "wp (generate_load E conf payloadSize threads)
       (\<lambda>r h2. load_test_spec E h 1 (h2 @ stop) \<and>
          (\<forall>result. r = Inr result \<longrightarrow> measured E (h2 @ stop) (threads, payloadSize, conf) result)) h2"
      by (rule wp_mono [OF generate_load_spec [of h2 ?start conf waited, OF _ waited(1)]])
        (use waited stopped [of "waited @ _"] in \<open>auto simp: h2 h1_def elim!: measured_prefix\<close>)
  qed
  show ?thesis
    unfolding doLoadTest_def
    using failed stopped [of "[]"] measure
    by (simp add: wp h1_def stop_def)
qed

lemma run_load_cases_spec:
  "list_all2 (measured E h) done_cases results \<Longrightarrow>
   wp (run_load_cases E cases results)
     (\<lambda>r h'. load_test_spec E h (length cases) h' \<and>
        (\<forall>rs. r = Inr rs \<longrightarrow> list_all2 (measured E h') (done_cases @ cases) rs)) h"
proof (induction cases arbitrary: h done_cases results)
  case Nil
  then show ?case by (simp add: wp load_test_spec_def)
next
  case (Cons c cases)
  obtain threads payloadSize conf where c: "c = (threads, payloadSize, conf)" by (cases c)
  show ?case
    unfolding c run_load_cases.simps wp_bind
  proof (rule wp_mono [OF doLoadTest_spec], elim conjE)
    fix r :: "goerror + LoadTestResult" and h1
    assume spec: "load_test_spec E h 1 h1"
      and r: "\<forall>result. r = Inr result \<longrightarrow> measured E h1 (threads, payloadSize, conf) result"
    obtain new where new: "h1 = h @ new" using spec by (auto simp: load_test_spec_def)
    have rest: "wp (run_load_cases E cases (results @ [result]))
       (\<lambda>r h'. load_test_spec E h (Suc (length cases)) h' \<and>
          (\<forall>rs. r = Inr rs \<longrightarrow> list_all2 (measured E h') (done_cases @ (threads, payloadSize, conf) # cases) rs)) h1"
      if "r = Inr result" for result
    proof -
      have "list_all2 (measured E h1) (done_cases @ [(threads, payloadSize, conf)]) (results @ [result])"
        using r that Cons.prems
        by (auto simp: new intro!: list_all2_appendI measured_append elim: list_all2_mono)
      from Cons.IH [OF this] show ?thesis
        by (rule wp_mono) (use load_test_spec_trans [OF spec] in auto)
    qed
    have "load_test_spec E h (Suc (length cases)) h1"
      using load_test_spec_trans [OF spec, of "length cases" h1] by (simp add: load_test_spec_def)
    then show "wp (case r of Inl err \<Rightarrow> ret (Inl err) | Inr result \<Rightarrow> run_load_cases E cases (results @ [result]))
       (\<lambda>r h'. load_test_spec E h (length ((threads, payloadSize, conf) # cases)) h' \<and>
          (\<forall>rs. r = Inr rs \<longrightarrow> list_all2 (measured E h') (done_cases @ (threads, payloadSize, conf) # cases) rs)) h1"
      using rest by (simp add: wp)
  qed
qed

lemma wp_print_rows [wp]: "wp (print_rows rs) Q h = Q () (h @ map (\<lambda>r. Fprint_table (table_row r)) rs)"
  by (induction rs arbitrary: h) (simp_all add: wp)

section \<open>Properties\<close>

lemma load_cases_simps [simp]: "length load_cases = 24"
  by (simp add: load_cases_def)

lemma LoadTest_spec:
  "wp (LoadTest E) (\<lambda>r h'. load_test_spec E h 24 h') h"
proof -
  have quiet: "load_test_spec E h 24 (h1 @ new)" if "load_test_spec E h 24 h1" "list_all makes_nothing new"
    "polls new = 0" "slept new = 0" for h1 new
    using that by (auto simp: load_test_spec_def leftovers_idle)
  have rows: "list_all makes_nothing (map (\<lambda>r. Fprint_table (table_row r)) rs)"
    "polls (map (\<lambda>r. Fprint_table (table_row r)) rs) = 0" "slept (map (\<lambda>r. Fprint_table (table_row r)) rs) = 0" for rs
    by (induction rs) simp_all
  show ?thesis
    unfolding LoadTest_def wp_bind
    by (rule wp_mono [OF run_load_cases_spec [of E h "[]" "[]" load_cases]])
      (auto simp: wp rows intro!: quiet)
qed

text \<open>C39: the drivers clean up. Whatever fails, and whenever, when the end-to-end tests or the load
  tests return, every deployment they managed to start has been asked to stop since then, and the
  key and the certificate generated for the trailer test have been removed: nothing is left that
  was not there before.\<close>

theorem drivers_clean_up:
  "wp (E2e E) (\<lambda>r h'. leftovers E h' \<subseteq> leftovers E h) h \<and>
   wp (LoadTest E) (\<lambda>r h'. leftovers E h' \<subseteq> leftovers E h) h"
proof
  have coraza: "wp (runCorazaE2e E a b) (\<lambda>r h'. leftovers E h' \<subseteq> leftovers E h) h" for a b h
    unfolding runCorazaE2e_def
    by (auto simp: wp leftovers_of simp del: append_assoc split: option.split)
  have send: "wp (send_trailer_request E a) (\<lambda>r h'. leftovers E h' = leftovers E h) h" for a h
    unfolding send_trailer_request_def judge_trailer_test_def RunOutput_def
    by (auto simp: wp leftovers_of simp del: append_assoc split: option.split)
  have trailer: "wp (runHttpTrailerE2e E a) (\<lambda>r h'. leftovers E h' \<subseteq> leftovers E h) h" for a h
    unfolding runHttpTrailerE2e_def
    by (auto simp: wp leftovers_of leftovers_attempts simp del: append_assoc split: option.split intro!: wp_mono [OF send])
  show "wp (E2e E) (\<lambda>r h'. leftovers E h' \<subseteq> leftovers E h) h"
    unfolding E2e_def Let_def wp_or_fail
  proof (rule wp_mono [OF coraza])
    fix e h1
    assume h1: "leftovers E h1 \<subseteq> leftovers E h"
    show "case e of None \<Rightarrow> wp (runHttpTrailerE2e E (cmp_Or (Getenv E ''ENVOY_HOST'') ''localhost:8080''))
          (\<lambda>r h'. leftovers E h' \<subseteq> leftovers E h) h1 | Some err \<Rightarrow> leftovers E h1 \<subseteq> leftovers E h"
      using h1 wp_mono [OF trailer, of h1] by (auto split: option.split)
  qed
  show "wp (LoadTest E) (\<lambda>r h'. leftovers E h' \<subseteq> leftovers E h) h"
    by (rule wp_mono [OF LoadTest_spec]) (simp add: load_test_spec_def)
qed

text \<open>C40: the drivers end. Whatever the proxy answers, and even if it never gets ready, the
  end-to-end tests poll it at most 20 times and sleep at most 10 seconds, and the load tests poll it
  at most 1000 times in each of 24 cases and sleep at most 50 seconds in each.\<close>

theorem drivers_end:
  "wp (E2e E) (\<lambda>r h'. \<exists>new. h' = h @ new \<and> polls new \<le> 20 \<and> slept new \<le> 20 * 500000000) h \<and>
   wp (LoadTest E) (\<lambda>r h'. \<exists>new. h' = h @ new \<and> polls new \<le> 24 * 1000 \<and> slept new \<le> 24 * 1000 * 50000000) h"
proof
  have ready: "k < n" if "find P [0 ..< n] = Some k" for P n k
    using that by (auto simp: find_Some_iff)
  show "wp (E2e E) (\<lambda>r h'. \<exists>new. h' = h @ new \<and> polls new \<le> 20 \<and> slept new \<le> 20 * 500000000) h"
    unfolding E2e_def runCorazaE2e_def runHttpTrailerE2e_def send_trailer_request_def judge_trailer_test_def RunOutput_def
    by (auto simp: wp Let_def split: option.split dest!: ready)
  show "wp (LoadTest E) (\<lambda>r h'. \<exists>new. h' = h @ new \<and> polls new \<le> 24 * 1000 \<and> slept new \<le> 24 * 1000 * 50000000) h"
    by (rule wp_mono [OF LoadTest_spec]) (auto simp: load_test_spec_def)
qed

text \<open>The verdict of the trailer test. It passes exactly if the certificate and the
  deployment could be made, the proxy got ready within 20 attempts, the request with a trailer was
  answered with status 403 and the log of the proxy then shows an interruption in the phase of the
  request body; anything else is an error.\<close>

lemma trailer_test_verdict:
  "wp (runHttpTrailerE2e E envoyHost)
     (\<lambda>r h'. (r = None) =
        (let up = compose trailer_compose [''up'', ''-d'', ''envoy''];
             url = ''https://'' @ envoyHost;
             req = trailer_request envoyHost;
             h1 = h @ [Printf (Fmt (''Running HTTP trailer test'' @ [CHR 0x0A]) [])];
             h2 = h1 @ [sh_RunV mkcert, sh_RunV up]
         in be_run E h1 mkcert = None \<and> be_run E (h1 @ [sh_RunV mkcert]) up = None \<and>
            (\<exists>k log. find (ready_after E url h2) [0 ..< 20] = Some k \<and>
               de_NewRequest E ''POST'' url = None \<and>
               de_Do E (h2 @ attempts url k @ [http_Get url, Body_Close]) req = Inr StatusForbidden \<and>
               be_output E (h2 @ attempts url k @ [http_Get url, Body_Close, http_Do req]) (compose_logs trailer_compose) =
                 (log, None) \<and>
               sublist blocked_phase log))) h"
  unfolding runHttpTrailerE2e_def send_trailer_request_def judge_trailer_test_def RunOutput_def
  by (auto simp: wp Let_def trailer_request_def prod_eq_iff split: option.split)

text \<open>What the load tests measure. When they pass, the printed table has one row for each of the 24
  cases, in order, and the row shows exactly what the load generator answered in a run for this case:
  with its threads and a payload of its size, against the proxy last started with its configuration.\<close>

lemma load_tests_measure:
  "wp (LoadTest E)
     (\<lambda>r h'. r = None \<longrightarrow> (\<exists>results before.
        h' = before @ map (\<lambda>r. Fprint_table (table_row r)) results @ [Flush_table] \<and>
        list_all2 (measured E before) load_cases results)) h"
proof -
  let ?rows = "map (\<lambda>r. Fprint_table (table_row r))"
  have shape: "\<exists>rs before. h1 @ title # header # ?rows results = before @ ?rows rs \<and>
      list_all2 (measured E before) load_cases rs"
    if "list_all2 (measured E h1) load_cases results" for h1 results title header
    by (rule exI [of _ results], rule exI [of _ "h1 @ [title, header]"])
      (use that in \<open>auto elim!: list_all2_mono intro: measured_append\<close>)
  show ?thesis
    unfolding LoadTest_def wp_bind
    by (intro wp_mono [OF run_load_cases_spec [of E h "[]" "[]" load_cases]])
      (auto simp: wp intro!: shape)
qed

text \<open>A proxy that is ready at once and blocks the request, in a world where nothing fails.\<close>

definition demo_driver :: driver_env where
  "demo_driver = build_env.extend demo_build
     \<lparr>de_Get = (\<lambda>h url. Inr 200), de_NewRequest = (\<lambda>m url. None), de_Do = (\<lambda>h req. Inr 403),
      de_Payload = (\<lambda>h n. replicate (nat n) 65),
      de_RunHTTPTest = (\<lambda>h opts. Inr \<lparr>lr_Count = 1000, lr_Avg = F64 0, lr_ActualQPS = F64 0x4058C00000000000\<rparr>)\<rparr>"

lemma LoadTest_succeeds:
  assumes run: "\<And>h cmd. be_run E h cmd = None" and load: "\<And>h opts. de_RunHTTPTest E h opts = Inr (rr h opts)"
  shows "wp (LoadTest E) (\<lambda>r h'. r = None) h"
proof -
  have generate: "wp (generate_load E c p t) (\<lambda>r h'. \<exists>x. r = Inr x) h" for c p t h
    by (simp add: generate_load_def wp load)
  have one: "wp (doLoadTest E c p t) (\<lambda>r h'. \<exists>x. r = Inr x) h" for c p t h
    by (simp add: doLoadTest_def wp run wp_mono [OF wp_True generate])
  have all: "wp (run_load_cases E cases results) (\<lambda>r h'. \<exists>rs. r = Inr rs) h" for cases results h
    by (induction cases arbitrary: results h) (auto simp: wp intro!: wp_mono [OF one])
  show ?thesis
    unfolding LoadTest_def wp_bind by (rule wp_mono [OF all]) (auto simp: wp)
qed

lemma load_tests_measure_example:
  "wp (LoadTest demo_driver) (\<lambda>r h'. r = None \<and> (\<exists>results before.
        h' = before @ map (\<lambda>r. Fprint_table (table_row r)) results @ [Flush_table] \<and>
        list_all2 (measured demo_driver before) load_cases results)) []"
proof -
  have "wp (LoadTest demo_driver) (\<lambda>r h'. r = None) []"
    by (rule LoadTest_succeeds) (simp_all add: demo_driver_def demo_build_def build_env.defs)
  then show ?thesis
    using load_tests_measure [of demo_driver "[]"] by (auto simp: wp_def split: prod.splits)
qed
end
