(* ===== verification/Spec2Isabelle.thy ===== *)
theory Spec2Isabelle
  imports Http_Properties Body_Chunks Helper_Properties Config_Properties Plugin_Properties Rules_Fs
    Rule_Data_Fs Logging Lifecycle Reload Drivers
begin

text \<open>
  A model of \<open>coraza-proxy-wasm\<close>, the filter that runs the Coraza web application firewall inside
  a proxy through the proxy-wasm interface, and of the tool that builds it.

  \<^bold>\<open>The program.\<close> The proxy starts a plugin (\<open>corazaPlugin\<close>), which parses its
  configuration, builds one firewall (WAF) per group of authorities, or asks a cache server for the
  rules and polls it for new ones. For every HTTP stream the plugin creates an \<open>httpContext\<close>, which
  holds a copy of the plugin's registry of WAFs, starts a transaction of the engine when the request
  headers arrive, feeds it headers and bodies phase by phase, and answers the client when the engine
  interrupts or fails. Contexts share two things: the counters of the plugin and the backing array of
  its metric labels.

  \<^bold>\<open>Theories and sources\<close>, in the order of the imports:
  \<^item> \<open>Prelude\<close>: strings, messages, panics as outcomes, the state monad and its weakest
    preconditions (\<open>wp\<close> as equations, \<open>vcg\<close> path by path).
  \<^item> \<open>Go_Std\<close>: the functions of Go's standard library the program relies on. \<open>Slices\<close>:
    slices of strings as views of shared arrays, with the contract of \<open>append\<close>.
  \<^item> \<open>Host\<close>: the calls to the proxy and to the engine. Every call is an \<open>event\<close> in the
    trace of the \<open>world\<close>; the record \<open>env\<close> answers it, depending on the whole history, so that
    theorems about all \<open>env\<close> hold for every proxy and every engine. The order of \<open>range\<close> over
    a map is an answer of the environment too.
  \<^item> \<open>Waf_Map\<close>, \<open>Address\<close>, \<open>Http_Context\<close> (\<open>wasmplugin/plugin.go\<close>),
    \<open>Metrics\<close> (\<open>metrics.go\<close>), \<open>Diagnostics\<close> (\<open>timing*.go\<close>, \<open>memstats*.go\<close>): the
    registry of WAFs, addresses and ports, and the stream: its state \<open>httpContext\<close> with the fields of
    the source and one definition per handler, long ones cut into named stages.
  \<^item> \<open>Config\<close> (\<open>config.go\<close>), \<open>Rule_Data_Fs\<close> (\<open>ruledata_fs.go\<close>), \<open>Rules_Fs\<close>
    (\<open>fs.go\<close>), \<open>Plugin\<close> (\<open>plugin.go\<close>): the configuration, the two file systems given to the
    engine, and the plugin with its start, tick and answers of the cache server.
  \<^item> \<open>Go_Json\<close>: the part of \<open>encoding/json\<close> and \<open>encoding/base64\<close> the plugin relies on, as
    tokens and a machine with a stack; \<open>Json_Text\<close>: what a JSON text of a value is, stated
    without the machine, and that the machine reads every one of them; \<open>Cache_Json\<close>
    (\<open>plugin.go\<close>): the two structures the answers of the cache server are read into.
  \<^item> \<open>Logging\<close> (\<open>logger.go\<close>, \<open>logError\<close>, \<open>internal/auditlog\<close>, \<open>main.go\<close>,
    \<open>internal/operators\<close>): what reaches the log of the proxy, and what is registered at load.
  \<^item> \<open>Lifecycle\<close>: the filter as a whole, a machine with many plugins and streams whose callbacks
    interleave; \<open>deliver\<close> runs one callback, \<open>vm_run\<close> are the runs the proxy can cause.
    \<open>Reload\<close>: the machine that only remembers the last accepted answer of the cache server, which
    every plugin refines in every run.
  \<^item> \<open>Build\<close> (\<open>magefiles/magefile.go\<close>, \<open>mage.go\<close>, \<open>rule_option*.go\<close>,
    \<open>init_tinygo.go\<close>): the targets of the build as sequences of commands; \<open>Drivers\<close>
    (\<open>magefiles/e2etest.go\<close>, \<open>magefiles/loadtest.go\<close>): the end-to-end tests and the load tests as
    sequences of commands, requests and waits.

  \<^bold>\<open>Contracts and properties.\<close> \<open>Http_Contract\<close> states well-formed streams
  (\<open>ctx_ok\<close>) and the contract every handler keeps (\<open>stream_step\<close>, locale
  \<open>stream_handler\<close>), interpreted on all seven handlers; \<open>Plugin_Contract\<close> does the same for
  plugins (\<open>plugin_callback\<close>). \<open>Waf_Map\<close> and \<open>Slices\<close> interpret the locales of the registry
  and of the shared store, \<open>Body_Chunks\<close> that of a body that is fed in pieces,
  \<open>Plugin_Properties\<close> that of the decoder of the cache server's answers (\<open>response_decoder\<close>) on Go's. The properties:
  \<^item> streams (\<open>Http_Properties\<close>): failure policy, interruptions, what is let through and which
    call to the engine, with which answer, it takes (\<open>called_with\<close> ties a call to its place in the
    trace), the exact calls to the engine, no pause without a local response as long as the proxy
    accepts them;
  \<^item> behaviour that the properties pin although the code does not mean it: trailers without a WAF
    panic, streams share the room of their labels, a body passes after the engine failed to run its
    rules (\<open>bodies_pass_after_error\<close>), and the failure policy answers 403 where a comment and
    \<open>TestFailurePolicyFail_BlocksOnError\<close> want 500;
  \<^item> bodies (\<open>Body_Chunks\<close>): the engine sees exactly the bytes of the body, however they are cut,
    except after a request body that hits its limit;
  \<^item> helpers (\<open>Helper_Properties\<close>): registry, ports, addresses, counters;
  \<^item> configuration (\<open>Config_Properties\<close>): what is accepted, and the value of every field;
  \<^item> plugin (\<open>Plugin_Properties\<close>): the start refines the assignment of WAFs to authorities that
    the configuration states, new rules are activated completely or not at all;
  \<^item> answers of the cache server (\<open>Cache_Json\<close>, \<open>Plugin_Properties\<close>): every JSON text of a
    response is read back exactly, and its rules and data files are what the engine is given;
  \<^item> test drivers (\<open>Drivers\<close>): they end whatever the proxy answers, and leave nothing behind that
    they managed to start; what the trailer test and the load tests report is stated as lemmas;
  \<^item> file systems, logs, whole runs and the build, in their theories.

  \<^bold>\<open>Bounds.\<close> An \<open>int\<close> has 32 bits on the target of the filter and 64 on the host of the
  build; conversions and products that may wrap are written out (\<open>tick_interval\<close>, \<open>parsePort\<close>,
  the interval of the configuration, the pages of the module). Positions in a body are unbounded
  integers: they stay below the size of a buffer of the proxy. There is no fuel: every loop of the
  program ends, and each is a total function.

  \<^bold>\<open>Not modelled.\<close> The engine, the proxy, the JSON library of the configuration (the record
  \<open>gjson\<close>), the library for WebAssembly modules, the load generator and the mage library are
  parameters; what a theorem needs of them is a hypothesis that it names (\<open>range_law\<close>,
  \<open>waf_law\<close>, \<open>wabin_law\<close>). The handlers of the cache server's answers take any decoder
  (\<open>cache_json\<close>); \<open>go_json\<close> is Go's, with the wording of its errors as a parameter. Formatted texts
  are kept as format and arguments, floating point numbers as the product they are computed by. The
  network, the commands and the file system of the build and of the test drivers are answers of their
  environment; the options of the HTTP client and the layout of the printed table are left out. A
  local response or a replaced body is a request to the proxy, which may refuse it; what the client
  then sees is not modelled. Four calls have no failing answer: defining a counter, copying a data
  file (\<open>bytes.Clone\<close>, of which immutable values need no counterpart), removing a key file, whose
  error the driver ignores, and handing the registry of WAFs to a new stream, which copies a map that
  the source shares but never writes after the start.
\<close>

end
